(* ===== verification/O2kPrelude.thy ===== *)
theory O2kPrelude
  imports Main "HOL-Library.Word"
begin

text \<open>
  The prelude of the development: the types the components share and the small pieces of the C
  and POSIX library the hand-written code calls.  A \<open>char\<close> of C++ is a HOL \<open>char\<close> (both have
  exactly the 256 byte values), so a buffer, a \<open>std::string\<close> and a stream of octets are all lists
  of characters (\<open>bytes\<close>).  Here are NUL termination, network byte order, decimal rendering
  (\<open>%d\<close>), \<open>atoi\<close>, \<open>tolower\<close> and \<open>strcasecmp\<close> of the C locale, and generic lemmas on lists and
  characters.
\<close>

type_synonym bytes = string

section \<open>Outcomes\<close>

text \<open>
  What a call can do besides returning: wait for ever, access memory outside an object, or end the
  process by \<open>abort\<close>.
\<close>

datatype 'a outcome = Ret 'a | Block | Overflow | Abort

primrec obind :: "'a outcome \<Rightarrow> ('a \<Rightarrow> 'b outcome) \<Rightarrow> 'b outcome" where
  "obind (Ret x) f = f x"
| "obind Block f = Block"
| "obind Overflow f = Overflow"
| "obind Abort f = Abort"

definition wait :: "'a option \<Rightarrow> 'a outcome" where
  "wait r = (case r of None \<Rightarrow> Block | Some x \<Rightarrow> Ret x)"

lemma wait_simps [simp]: "wait None = Block" "wait (Some x) = Ret x"
  by (simp_all add: wait_def)

section \<open>C strings\<close>

text \<open>A \<open>char *\<close> handed to a \<open>std::string\<close> ends at its first NUL.\<close>

definition cstr :: "bytes \<Rightarrow> bytes" where
  "cstr bs = takeWhile (\<lambda>c. c \<noteq> CHR 0x00) bs"

lemma cstr_Nil [simp]: "cstr [] = []"
  by (simp add: cstr_def)

lemma cstr_append: "cstr (xs @ ys) = (if cstr xs = xs then xs @ cstr ys else cstr xs)"
  by (auto simp: cstr_def takeWhile_append takeWhile_eq_all_conv)

lemma cstr_NUL [simp]: "cstr (xs @ CHR 0x00 # ys) = cstr xs"
  by (induction xs) (auto simp: cstr_def)

lemma cstr_no_NUL [simp]: "CHR 0x00 \<notin> set (cstr s)"
  by (induction s) (auto simp: cstr_def)

lemma cstr_split: "cstr xs \<noteq> xs \<Longrightarrow> \<exists>q. xs = cstr xs @ CHR 0x00 # q"
proof (induction xs)
  case Nil
  then show ?case by simp
next
  case (Cons x xs)
  show ?case
  proof (cases "x = CHR 0x00")
    case True
    then show ?thesis by (simp add: cstr_def)
  next
    case False
    with Cons.prems have "cstr xs \<noteq> xs" by (simp add: cstr_def)
    then obtain q where "xs = cstr xs @ CHR 0x00 # q" using Cons.IH by blast
    with False show ?thesis by (auto simp: cstr_def)
  qed
qed

lemma cstr_nonempty: "xs \<noteq> [] \<Longrightarrow> hd xs \<noteq> CHR 0x00 \<Longrightarrow> cstr xs \<noteq> []"
  by (cases xs) (auto simp: cstr_def)

lemma length_cstr: "length (cstr xs) \<le> length xs"
  by (simp add: cstr_def length_takeWhile_le)

lemma cstr_id_iff: "cstr xs = xs \<longleftrightarrow> CHR 0x00 \<notin> set xs"
  by (auto simp: cstr_def takeWhile_eq_all_conv)

lemma cstr_cstr [simp]: "cstr (cstr s) = cstr s"
  by (simp add: cstr_id_iff)

section \<open>Characters of the C locale\<close>

definition c_tolower :: "char \<Rightarrow> char" where
  "c_tolower c = (let n = (of_char c :: nat) in
     if 65 \<le> n \<and> n \<le> 90 then char_of (n + 32) else c)"

definition strcasecmp_eq :: "bytes \<Rightarrow> bytes \<Rightarrow> bool" where
  "strcasecmp_eq s t \<longleftrightarrow> map c_tolower (cstr s) = map c_tolower (cstr t)"

lemma strcasecmp_eq_refl [simp]: "strcasecmp_eq s s"
  by (simp add: strcasecmp_eq_def)

lemma c_tolower_idem [simp]: "c_tolower (c_tolower c) = c_tolower c"
  by (auto simp: c_tolower_def Let_def)

section \<open>Decimal rendering and \<open>atoi\<close>\<close>

definition digit_char :: "nat \<Rightarrow> char" where
  "digit_char d = char_of (48 + d)"

fun nat_dec :: "nat \<Rightarrow> string" where
  "nat_dec n = (if n < 10 then [digit_char n] else nat_dec (n div 10) @ [digit_char (n mod 10)])"

declare nat_dec.simps [simp del]

definition int_dec :: "int \<Rightarrow> string" where
  "int_dec i = (if i < 0 then ''-'' @ nat_dec (nat (- i)) else nat_dec (nat i))"

text \<open>\<open>%ws\<close> and \<open>%wd\<close>: padding on the left with blanks.\<close>

definition pad_left :: "nat \<Rightarrow> bytes \<Rightarrow> bytes" where
  "pad_left w s = replicate (w - length s) CHR '' '' @ s"

definition is_digit :: "char \<Rightarrow> bool" where
  "is_digit c \<longleftrightarrow> 48 \<le> (of_char c :: nat) \<and> (of_char c :: nat) \<le> 57"

definition is_space :: "char \<Rightarrow> bool" where
  "is_space c \<longleftrightarrow> (of_char c :: nat) \<in> {9, 10, 11, 12, 13, 32}"

fun digits_val :: "nat \<Rightarrow> string \<Rightarrow> nat" where
  "digits_val acc [] = acc"
| "digits_val acc (c # cs) =
     (if is_digit c then digits_val (10 * acc + (of_char c - 48)) cs else acc)"

text \<open>
  A number in decimal: blanks are skipped, a sign is taken, and digits are read up to the first
  other character.  \<open>atoi\<close> is \<open>(int) strtol\<close> in the C library: \<open>strtol\<close> stops at the limits of the
  64-bit \<open>long\<close>, and the cast keeps the lower 32 bits.
\<close>

definition decimal_value :: "bytes \<Rightarrow> int" where
  "decimal_value s = (case dropWhile is_space (cstr s) of
      [] \<Rightarrow> 0
    | c # cs \<Rightarrow> (if c = CHR ''-'' then - int (digits_val 0 cs)
                 else if c = CHR ''+'' then int (digits_val 0 cs)
                 else int (digits_val 0 (c # cs))))"

definition c_strtol :: "bytes \<Rightarrow> int" where
  "c_strtol s = max (- (2 ^ 63)) (min (2 ^ 63 - 1) (decimal_value s))"

definition c_atoi :: "bytes \<Rightarrow> int" where
  "c_atoi s = signed_take_bit 31 (c_strtol s)"

text \<open>Numbers an \<open>int\<close> can hold come out as they are.\<close>

lemma c_atoi_in_range:
  assumes "- (2 ^ 31) \<le> decimal_value s" and "decimal_value s < 2 ^ 31"
  shows "c_atoi s = decimal_value s"
proof -
  have "c_strtol s = decimal_value s" using assms by (simp add: c_strtol_def)
  then show ?thesis
    using assms by (simp add: c_atoi_def signed_take_bit_int_eq_self)
qed

lemma c_atoi_value: "decimal_value s = v \<Longrightarrow> - (2 ^ 31) \<le> v \<Longrightarrow> v < 2 ^ 31 \<Longrightarrow> c_atoi s = v"
  using c_atoi_in_range by blast

lemma of_char_digit [simp]: "d < 10 \<Longrightarrow> of_char (digit_char d) = 48 + d" for d :: nat
  by (simp add: digit_char_def)

lemma is_digit_digit_char [simp]: "d < 10 \<Longrightarrow> is_digit (digit_char d)"
  by (simp add: is_digit_def)

lemma nat_dec_digits: "\<forall>c \<in> set (nat_dec n). is_digit c"
proof (induction n rule: nat_dec.induct)
  case (1 n)
  then show ?case by (subst nat_dec.simps) auto
qed

lemma nat_dec_nonempty [simp]: "nat_dec n \<noteq> []"
  by (subst nat_dec.simps) simp

lemma digits_val_append:
  "\<forall>c \<in> set xs. is_digit c \<Longrightarrow> digits_val acc (xs @ ys) = digits_val (digits_val acc xs) ys"
  by (induction xs arbitrary: acc) auto

lemma digits_val_nat_dec: "digits_val 0 (nat_dec n) = n"
proof (induction n rule: nat_dec.induct)
  case (1 n)
  show ?case
  proof (cases "n < 10")
    case True
    then show ?thesis by (subst nat_dec.simps) simp
  next
    case False
    with "1" have "digits_val 0 (nat_dec (n div 10)) = n div 10" by simp
    with False show ?thesis
      by (subst nat_dec.simps) (simp add: digits_val_append nat_dec_digits)
  qed
qed

lemma nat_dec_inject [simp]: "nat_dec m = nat_dec n \<longleftrightarrow> m = n"
  by (metis digits_val_nat_dec)

lemma digit_not_special:
  "is_digit c \<Longrightarrow> c \<noteq> CHR 0x00 \<and> \<not> is_space c \<and> c \<noteq> CHR ''-'' \<and> c \<noteq> CHR ''+''"
  by (auto simp: is_digit_def is_space_def)

lemma cstr_nat_dec [simp]: "cstr (nat_dec n) = nat_dec n"
  using nat_dec_digits [of n] digit_not_special by (auto simp: cstr_id_iff)

lemma decimal_value_nat_dec [simp]: "decimal_value (nat_dec n) = int n"
proof -
  obtain c cs where eq: "nat_dec n = c # cs" by (cases "nat_dec n") auto
  have "is_digit c" using nat_dec_digits [of n] eq by auto
  then have "\<not> is_space c" "c \<noteq> CHR ''-''" "c \<noteq> CHR ''+''" using digit_not_special by blast+
  moreover have "cstr (c # cs) = c # cs" using cstr_nat_dec [of n] eq by simp
  moreover have "digits_val 0 (c # cs) = n" using digits_val_nat_dec [of n] eq by simp
  ultimately show ?thesis unfolding eq decimal_value_def by simp
qed

lemma atoi_nat_dec [simp]: "n < 2 ^ 31 \<Longrightarrow> c_atoi (nat_dec n) = int n"
  using c_atoi_in_range [of "nat_dec n"] by simp

section \<open>Network byte order\<close>

text \<open>
  \<open>htonl\<close> followed by a copy of the four bytes puts the most significant byte first whatever the
  host's order is; \<open>ntohl\<close> of four received bytes is its inverse.
\<close>

definition htonl_bytes :: "32 word \<Rightarrow> bytes" where
  "htonl_bytes w = (let n = unat w in
     [char_of (n div 16777216), char_of (n div 65536), char_of (n div 256), char_of n])"

definition ntohl_bytes :: "bytes \<Rightarrow> 32 word" where
  "ntohl_bytes bs = word_of_nat (foldl (\<lambda>acc c. 256 * acc + of_char c) 0 (take 4 bs))"

lemma length_htonl [simp]: "length (htonl_bytes w) = 4"
  by (simp add: htonl_bytes_def Let_def)

lemma base256: "(256 * (256 * (256 * (n div 16777216 mod 256) + n div 65536 mod 256)
    + n div 256 mod 256) + n mod 256) = n mod 4294967296" for n :: nat
proof -
  have "n mod 4294967296 = n mod (16777216 * 256)" by simp
  also have "\<dots> = 16777216 * (n div 16777216 mod 256) + n mod 16777216"
    by (rule mod_mult2_eq)
  also have "n mod 16777216 = 65536 * (n div 65536 mod 256) + n mod 65536"
    using mod_mult2_eq [of n 65536 256] by simp
  also have "n mod 65536 = 256 * (n div 256 mod 256) + n mod 256"
    using mod_mult2_eq [of n 256 256] by simp
  finally show ?thesis by simp
qed

lemma ntohl_htonl [simp]: "ntohl_bytes (htonl_bytes w @ rest) = w"
proof -
  have "foldl (\<lambda>acc c. 256 * acc + of_char c) 0 (take 4 (htonl_bytes w @ rest))
      = unat w mod 4294967296"
    unfolding base256 [symmetric] by (simp add: htonl_bytes_def Let_def)
  also have "\<dots> = unat w"
  proof -
    have "unat w < 4294967296" using unsigned_less [of w] by simp
    then show ?thesis by simp
  qed
  finally have eq: "foldl (\<lambda>acc c. 256 * acc + of_char c) 0 (take 4 (htonl_bytes w @ rest))
      = unat w" .
  show ?thesis unfolding ntohl_bytes_def eq by simp
qed

lemma ntohl_htonl' [simp]: "ntohl_bytes (htonl_bytes w) = w"
  using ntohl_htonl [of w "[]"] by simp

section \<open>Words\<close>

text \<open>The bit pattern of an IEEE double compares equal to zero when only its sign bit may be set.\<close>

definition dbl_nonzero :: "64 word \<Rightarrow> bool" where
  "dbl_nonzero d \<longleftrightarrow> take_bit 63 d \<noteq> 0"

lemma dbl_nonzero_0 [simp]: "\<not> dbl_nonzero 0"
  by (simp add: dbl_nonzero_def)

end
