(* ===== verification/SocketFunc.thy ===== *)
theory SocketFunc
  imports O2kPrelude
begin

text \<open>
  The functions of \<open>qdcadm/SimpleSocketFunc.cpp\<close>.  The kernel and the peer are an explicit
  script: the list of what the coming calls of \<open>recv\<close> and \<open>send\<close> return.  A script that has run
  out is a call that blocks for ever, and the function that waits for it has no result (\<open>None\<close>).
  The state also keeps \<open>errno\<close>, which only failing calls set, and the bytes sent so far.  Error
  texts are written into the caller's buffer, which is the list of its bytes.  A failing \<open>send\<close> is
  one that returns: the signal \<open>SIGPIPE\<close>, which the program leaves to its default, is outside the
  model.
\<close>

section \<open>Buffers\<close>

text \<open>Writing bytes at the start of a buffer; formatted writes end with a NUL.\<close>

definition overwrite :: "bytes \<Rightarrow> bytes \<Rightarrow> bytes" where
  "overwrite buf bs = bs @ drop (length bs) buf"

definition sprintf_at :: "bytes \<Rightarrow> bytes \<Rightarrow> bytes" where
  "sprintf_at buf s = overwrite buf (cstr s @ [CHR 0x00])"

definition snprintf_at :: "bytes \<Rightarrow> nat \<Rightarrow> bytes \<Rightarrow> bytes" where
  "snprintf_at buf n s = (if n = 0 then buf else overwrite buf (take (n - 1) (cstr s) @ [CHR 0x00]))"

lemma length_overwrite: "length bs \<le> length buf \<Longrightarrow> length (overwrite buf bs) = length buf"
  by (simp add: overwrite_def)

lemma length_snprintf: "n \<le> length buf \<Longrightarrow> length (snprintf_at buf n s) = length buf"
  by (simp add: snprintf_at_def length_overwrite)

lemma cstr_snprintf: "0 < n \<Longrightarrow> cstr (snprintf_at buf n s) = take (n - 1) (cstr s)"
proof -
  have "CHR 0x00 \<notin> set (take (n - 1) (cstr s))" using cstr_no_NUL in_set_takeD by fastforce
  then show "0 < n \<Longrightarrow> ?thesis" by (simp add: snprintf_at_def overwrite_def) (simp add: cstr_id_iff)
qed

lemma cstr_sprintf [simp]: "cstr (sprintf_at buf s) = cstr s"
  by (simp add: sprintf_at_def overwrite_def)

section \<open>GetSysErrorInfo\<close>

text \<open>
  The bytes \<open>GetSysErrorInfo\<close> writes: the head \<open>"errno=%d, "\<close> and then \<open>strncpy\<close> of the message
  with 299 bytes, which pads with NULs up to exactly that many.  This is the branch compiled with
  \<open>_GNU_SOURCE\<close>, which g++ defines; \<open>strerr\<close> is the text the C library has for a number.  The model is
  for the numbers it has a text for, which are those the kernel sets: for another number
  \<open>strerror_r\<close> would make up a text in the very buffer \<open>strncpy\<close> then copies it to.
\<close>

definition SYS_ERRMSG_MAX_SIZE :: nat where
  "SYS_ERRMSG_MAX_SIZE = 300"

definition strncpy_bytes :: "bytes \<Rightarrow> nat \<Rightarrow> bytes" where
  "strncpy_bytes s n = (let t = take n (cstr s) in t @ replicate (n - length t) CHR 0x00)"

definition errinfo_head :: "int \<Rightarrow> bytes" where
  "errinfo_head err_no = ''errno='' @ int_dec err_no @ '', ''"

definition GetSysErrorInfo :: "(int \<Rightarrow> bytes) \<Rightarrow> int \<Rightarrow> bytes" where
  "GetSysErrorInfo strerr err_no =
     errinfo_head err_no @ strncpy_bytes (strerr err_no) (SYS_ERRMSG_MAX_SIZE - 1)"

lemma length_strncpy [simp]: "length (strncpy_bytes s n) = n"
  by (simp add: strncpy_bytes_def Let_def)

lemma length_nat_dec: "0 < k \<Longrightarrow> n < 10 ^ k \<Longrightarrow> length (nat_dec n) \<le> k"
proof (induction n arbitrary: k rule: nat_dec.induct)
  case (1 n)
  show ?case
  proof (cases "n < 10")
    case True
    then show ?thesis using "1.prems" by (subst nat_dec.simps) simp
  next
    case False
    then obtain j where k: "k = Suc j" "0 < j" using "1.prems" by (cases k; cases "k - 1") auto
    moreover have "n div 10 < 10 ^ j"
      using "1.prems" k by (simp add: less_mult_imp_div_less mult.commute)
    ultimately have "length (nat_dec (n div 10)) \<le> j" using "1.IH" False by blast
    then show ?thesis using False k by (subst nat_dec.simps) simp
  qed
qed

lemma length_int_dec:
  assumes "- 2147483648 \<le> i" and "i < 2147483648"
  shows "1 \<le> length (int_dec i)" and "length (int_dec i) \<le> 11"
proof -
  have "nat (- i) < 10 ^ 10" "nat i < 10 ^ 10" using assms by simp_all
  then have "length (nat_dec (nat (- i))) \<le> 10" "length (nat_dec (nat i)) \<le> 10"
    by (auto intro!: length_nat_dec)
  then show "length (int_dec i) \<le> 11" by (simp add: int_dec_def)
  have "nat_dec m \<noteq> []" for m by simp
  then show "1 \<le> length (int_dec i)" by (simp add: int_dec_def Suc_le_eq)
qed

text \<open>The message never fits the 300 bytes its constant announces, and always fits 512.\<close>

lemma GetSysErrorInfo_length:
  assumes "- 2147483648 \<le> e" and "e < 2147483648"
  shows "SYS_ERRMSG_MAX_SIZE < length (GetSysErrorInfo strerr e)"
    and "length (GetSysErrorInfo strerr e) \<le> 318"
  using length_int_dec [OF assms]
  by (simp_all add: GetSysErrorInfo_def errinfo_head_def SYS_ERRMSG_MAX_SIZE_def)

section \<open>The script and the system calls\<close>

definition EINTR :: int where
  "EINTR = 4"

datatype recv_event = RData bytes | REof | RErr int

datatype send_event = SAccept nat | SErr int

text \<open>What is done to a descriptor when it is given up; \<open>s_closed\<close> records it.\<close>

datatype close_call = Shutdown int | Close int

record sockst =
  s_in :: "recv_event list"
  s_out :: "send_event list"
  s_sent :: bytes
  s_errno :: int
  s_closed :: "close_call list"

text \<open>
  \<open>recv\<close> hands out at most the bytes asked for and keeps the rest for the next call; at the end
  of the stream it returns 0 every time.  \<open>send\<close> takes at most as many bytes as it is given.
\<close>

fun recv :: "nat \<Rightarrow> sockst \<Rightarrow> (int \<times> bytes \<times> sockst) option" where
  "recv want st =
     (case s_in st of
        [] \<Rightarrow> None
      | RErr e # evs \<Rightarrow> Some (-1, [], st\<lparr>s_in := evs, s_errno := e\<rparr>)
      | REof # evs \<Rightarrow> Some (0, [], st)
      | RData d # evs \<Rightarrow>
          Some (int (length (take want d)), take want d,
            st\<lparr>s_in := (if length d \<le> want then evs else RData (drop want d) # evs)\<rparr>))"

fun send :: "bytes \<Rightarrow> sockst \<Rightarrow> (int \<times> sockst) option" where
  "send bs st =
     (case s_out st of
        [] \<Rightarrow> None
      | SErr e # evs \<Rightarrow> Some (-1, st\<lparr>s_out := evs, s_errno := e\<rparr>)
      | SAccept k # evs \<Rightarrow>
          Some (int (length (take k bs)), st\<lparr>s_out := evs, s_sent := s_sent st @ take k bs\<rparr>))"

declare recv.simps [simp del] send.simps [simp del]

primrec recv_size :: "recv_event \<Rightarrow> nat" where
  "recv_size (RData d) = Suc (length d)"
| "recv_size REof = 1"
| "recv_size (RErr e) = 1"

lemma recv_decreases:
  "recv want st = Some (r, d, st') \<Longrightarrow> 0 < want \<Longrightarrow> r \<noteq> 0 \<Longrightarrow>
   sum_list (map recv_size (s_in st')) < sum_list (map recv_size (s_in st))"
  by (auto simp: recv.simps split: list.splits recv_event.splits if_splits)

section \<open>SocketRead and SocketWrite\<close>

text \<open>
  The loop of \<open>SocketRead\<close>: \<open>got\<close> holds the bytes put into \<open>p\<close> so far, so its length is \<open>n\<close>.
  The result is the return value, the bytes stored, the error buffer and the state.
\<close>

function SocketRead_loop :: "(int \<Rightarrow> bytes) \<Rightarrow> int \<Rightarrow> bytes \<Rightarrow> bytes \<Rightarrow> sockst
    \<Rightarrow> (int \<times> bytes \<times> bytes \<times> sockst) option" where
  "SocketRead_loop strerr len got err st =
     (if int (length got) < len then
        (case recv (nat (len - int (length got))) st of
           None \<Rightarrow> None
         | Some (readnums, d, st') \<Rightarrow>
             (if readnums < 0 then
                (if s_errno st' = EINTR then SocketRead_loop strerr len got err st'
                 else Some (-1, got, overwrite err (GetSysErrorInfo strerr (s_errno st')), st'))
              else if readnums = 0 then Some (0, got, err, st')
              else SocketRead_loop strerr len (got @ d) err st'))
      else Some (int (length got), got, err, st))"
  by pat_completeness auto
termination
  by (relation "measure (\<lambda>(_, _, _, _, st). sum_list (map recv_size (s_in st)))")
    (auto dest: recv_decreases)

declare SocketRead_loop.simps [simp del]

definition SocketRead :: "(int \<Rightarrow> bytes) \<Rightarrow> int \<Rightarrow> bytes \<Rightarrow> sockst
    \<Rightarrow> (int \<times> bytes \<times> bytes \<times> sockst) option" where
  "SocketRead strerr len err st = SocketRead_loop strerr len [] err st"

text \<open>
  The loop of \<open>SocketWrite\<close> looks at \<open>errno\<close> also when \<open>send\<close> returned 0, which does not set it.
\<close>

function SocketWrite_loop :: "(int \<Rightarrow> bytes) \<Rightarrow> bytes \<Rightarrow> int \<Rightarrow> nat \<Rightarrow> bytes \<Rightarrow> sockst
    \<Rightarrow> (int \<times> bytes \<times> sockst) option" where
  "SocketWrite_loop strerr p len n err st =
     (if int n < len then
        (case send (take (nat (len - int n)) (drop n p)) st of
           None \<Rightarrow> None
         | Some (sendnums, st') \<Rightarrow>
             (if sendnums \<le> 0 then
                (if s_errno st' = EINTR then SocketWrite_loop strerr p len n err st'
                 else Some (-1, overwrite err (GetSysErrorInfo strerr (s_errno st')), st'))
              else SocketWrite_loop strerr p len (n + nat sendnums) err st'))
      else Some (int n, err, st))"
  by pat_completeness auto
termination
  by (relation "measure (\<lambda>(_, _, _, _, _, st). length (s_out st))")
    (auto simp: send.simps split: list.splits send_event.splits)

declare SocketWrite_loop.simps [simp del]

definition SocketWrite :: "(int \<Rightarrow> bytes) \<Rightarrow> bytes \<Rightarrow> int \<Rightarrow> bytes \<Rightarrow> sockst
    \<Rightarrow> (int \<times> bytes \<times> sockst) option" where
  "SocketWrite strerr p len err st = SocketWrite_loop strerr p len 0 err st"

section \<open>Packets\<close>

text \<open>The four bytes of a local \<open>int\<close> nobody has initialised (\<open>junk\<close>) after \<open>SocketRead\<close>.\<close>

definition header_mem :: "bytes \<Rightarrow> bytes \<Rightarrow> bytes" where
  "header_mem junk got = overwrite junk got"

definition ReadPacket :: "(int \<Rightarrow> bytes) \<Rightarrow> bytes \<Rightarrow> bytes \<Rightarrow> sockst
    \<Rightarrow> (int \<times> bytes \<times> bytes \<times> sockst) option" where
  "ReadPacket strerr junk err st =
     (case SocketRead strerr 4 err st of
        None \<Rightarrow> None
      | Some (iRet, hdr, err1, st1) \<Rightarrow>
          (if iRet < 0 then
             Some (iRet, [], overwrite err1 (GetSysErrorInfo strerr (s_errno st1)), st1)
           else
             (let len = sint (ntohl_bytes (header_mem junk hdr)) in
              if len < 0 then
                Some (-1, [], sprintf_at err1 ''Invalid packet data format!'', st1)
              else SocketRead strerr len err1 st1)))"

definition SendPacket :: "(int \<Rightarrow> bytes) \<Rightarrow> bytes \<Rightarrow> int \<Rightarrow> bytes \<Rightarrow> sockst
    \<Rightarrow> (int \<times> bytes \<times> sockst) option" where
  "SendPacket strerr p len err st =
     (case SocketWrite strerr (htonl_bytes (word_of_int len)) 4 err st of
        None \<Rightarrow> None
      | Some (iRet, err1, st1) \<Rightarrow>
          (if iRet < 0 then Some (iRet, err1, st1)
           else SocketWrite strerr p len err1 st1))"

section \<open>The stream behind the script\<close>

text \<open>
  What a reader can get from a script, however it is cut into chunks and interrupted: the bytes
  that arrive before the stream ends, and how it ends.
\<close>

datatype stream_end = Blocks | Closed | Failed int

fun avail :: "recv_event list \<Rightarrow> bytes" where
  "avail [] = []"
| "avail (RData d # evs) = d @ avail evs"
| "avail (REof # evs) = []"
| "avail (RErr e # evs) = (if e = EINTR then avail evs else [])"

fun ending :: "recv_event list \<Rightarrow> stream_end" where
  "ending [] = Blocks"
| "ending (RData d # evs) = ending evs"
| "ending (REof # evs) = Closed"
| "ending (RErr e # evs) = (if e = EINTR then ending evs else Failed e)"

text \<open>
  \<open>recv\<close> of a stream socket delivers no empty chunk before the end of the stream, and error
  numbers are values of an \<open>int\<close>.
\<close>

definition int_range :: "int \<Rightarrow> bool" where
  "int_range i \<longleftrightarrow> - 2147483648 \<le> i \<and> i < 2147483648"

primrec proper_event :: "recv_event \<Rightarrow> bool" where
  "proper_event (RData d) \<longleftrightarrow> d \<noteq> []"
| "proper_event REof \<longleftrightarrow> True"
| "proper_event (RErr e) \<longleftrightarrow> int_range e"

definition proper :: "recv_event list \<Rightarrow> bool" where
  "proper evs \<longleftrightarrow> list_all proper_event evs"

lemma proper_Cons [simp]: "proper (ev # evs) \<longleftrightarrow> proper_event ev \<and> proper evs"
  by (simp add: proper_def)

lemma proper_ending: "proper evs \<Longrightarrow> ending evs = Failed e \<Longrightarrow> int_range e"
  by (induction evs rule: ending.induct) (auto split: if_splits)

definition same_out :: "sockst \<Rightarrow> sockst \<Rightarrow> bool" where
  "same_out st st' \<longleftrightarrow> s_out st' = s_out st \<and> s_sent st' = s_sent st"

lemma same_out_refl [simp]: "same_out st st"
  by (simp add: same_out_def)

lemma same_out_trans: "same_out a b \<Longrightarrow> same_out b c \<Longrightarrow> same_out a c"
  by (simp add: same_out_def)

text \<open>The outcome a reader of \<open>n\<close> more bytes owes to its stream.\<close>

definition read_outcome :: "(int \<Rightarrow> bytes) \<Rightarrow> int \<Rightarrow> bytes \<Rightarrow> bytes \<Rightarrow> sockst
    \<Rightarrow> (int \<times> bytes \<times> bytes \<times> sockst) option \<Rightarrow> bool" where
  "read_outcome strerr len got err st res \<longleftrightarrow>
     (let n = nat len - length got; a = avail (s_in st) in
      if n \<le> length a then
        (\<exists>st'. res = Some (len, got @ take n a, err, st') \<and> same_out st st' \<and> proper (s_in st') \<and>
           avail (s_in st') = drop n a \<and> ending (s_in st') = ending (s_in st))
      else
        (case ending (s_in st) of
           Blocks \<Rightarrow> res = None
         | Closed \<Rightarrow> (\<exists>st'. res = Some (0, got @ a, err, st') \<and> same_out st st' \<and>
               proper (s_in st') \<and> avail (s_in st') = [] \<and> ending (s_in st') = Closed)
         | Failed e \<Rightarrow> (\<exists>st'. res = Some (-1, got @ a,
               overwrite err (GetSysErrorInfo strerr e), st') \<and> same_out st st' \<and>
               proper (s_in st') \<and> s_errno st' = e)))"

lemma read_outcome_step:
  assumes "read_outcome strerr len (got @ d) err st' res" and "same_out st st'"
    and "avail (s_in st) = d @ avail (s_in st')" and "ending (s_in st) = ending (s_in st')"
    and "int (length (got @ d)) \<le> len"
  shows "read_outcome strerr len got err st res"
proof -
  have n: "nat len - length got = length d + (nat len - length (got @ d))" using assms(5) by simp
  show ?thesis
    using assms(1) same_out_trans [OF assms(2)]
    unfolding read_outcome_def Let_def n assms(3,4)
    by (cases "ending (s_in st')") (auto split: if_splits)
qed

lemma read_done:
  "\<not> int (length got) < len \<Longrightarrow>
   SocketRead_loop strerr len got err st = Some (int (length got), got, err, st)"
  by (simp add: SocketRead_loop.simps)

lemma read_step:
  assumes "int (length got) < len" and "recv (nat (len - int (length got))) st = res"
  shows "SocketRead_loop strerr len got err st =
     (case res of
        None \<Rightarrow> None
      | Some (readnums, d, st') \<Rightarrow>
          (if readnums < 0 then
             (if s_errno st' = EINTR then SocketRead_loop strerr len got err st'
              else Some (-1, got, overwrite err (GetSysErrorInfo strerr (s_errno st')), st'))
           else if readnums = 0 then Some (0, got, err, st')
           else SocketRead_loop strerr len (got @ d) err st'))"
  unfolding assms(2) [symmetric] by (subst SocketRead_loop.simps) (simp only: assms(1) if_True)

lemma read_data_outcome:
  assumes IH: "\<And>t st'. t \<noteq> [] \<Longrightarrow> recv want st = Some (int (length t), t, st') \<Longrightarrow>
      proper (s_in st') \<Longrightarrow> int (length (got @ t)) \<le> len \<Longrightarrow>
      read_outcome strerr len (got @ t) err st' (SocketRead_loop strerr len (got @ t) err st')"
    and less: "int (length got) < len" and want: "want = nat (len - int (length got))"
    and st: "s_in st = RData d # evs" and pr: "proper (s_in st)"
  shows "read_outcome strerr len got err st (SocketRead_loop strerr len got err st)"
proof -
  define t where "t = take want d"
  define st' where "st' = st\<lparr>s_in := (if length d \<le> want then evs else RData (drop want d) # evs)\<rparr>"
  have r: "recv want st = Some (int (length t), t, st')"
    by (simp add: recv.simps st st'_def t_def)
  have t: "t \<noteq> []" "int (length (got @ t)) \<le> len"
    using pr less st by (auto simp: t_def want proper_Cons)
  have pr': "proper (s_in st')" using pr st by (simp add: st'_def proper_Cons)
  have "read_outcome strerr len got err st (SocketRead_loop strerr len (got @ t) err st')"
  proof (rule read_outcome_step [OF IH [OF t(1) r pr' t(2)]])
    show "avail (s_in st) = t @ avail (s_in st')" by (simp add: st st'_def t_def)
    show "ending (s_in st) = ending (s_in st')" by (simp add: st st'_def)
  qed (use t(2) in \<open>simp_all add: st'_def same_out_def\<close>)
  then show ?thesis using read_step [OF less r [unfolded want], of strerr err] t(1) by simp
qed

lemma SocketRead_loop_outcome:
  "proper (s_in st) \<Longrightarrow> int (length got) \<le> len \<Longrightarrow>
   read_outcome strerr len got err st (SocketRead_loop strerr len got err st)"
proof (induction strerr len got err st rule: SocketRead_loop.induct)
  case (1 strerr len got err st)
  show ?case
  proof (cases "int (length got) < len")
    case False
    with "1.prems" show ?thesis by (simp add: read_done read_outcome_def Let_def)
  next
    case less: True
    define want where "want = nat (len - int (length got))"
    note step = read_step [OF less, folded want_def, of st _ strerr err]
    consider (nil) "s_in st = []" | (eof) evs where "s_in st = REof # evs"
      | (err) e evs where "s_in st = RErr e # evs" | (data) d evs where "s_in st = RData d # evs"
      by (cases "s_in st" rule: avail.cases) auto
    then show ?thesis
    proof cases
      case nil
      then have "recv want st = None" by (simp add: recv.simps)
      from step [OF this] nil less show ?thesis by (simp add: read_outcome_def Let_def)
    next
      case eof
      then have "recv want st = Some (0, [], st)" by (simp add: recv.simps)
      from step [OF this] eof less "1.prems"(1) show ?thesis
        by (simp add: read_outcome_def Let_def not_le)
    next
      case (err e evs)
      define st' where "st' = st\<lparr>s_in := evs, s_errno := e\<rparr>"
      have r: "recv want st = Some (-1, [], st')" by (simp add: recv.simps err st'_def)
      have pr': "proper (s_in st')" using "1.prems"(1) err by (simp add: st'_def proper_Cons)
      show ?thesis
      proof (cases "e = EINTR")
        case True
        have ei: "s_errno st' = EINTR" using True by (simp add: st'_def)
        have "read_outcome strerr len got err st' (SocketRead_loop strerr len got err st')"
          by (rule "1.IH"(1) [OF less r [unfolded want_def] refl refl _ ei pr' "1.prems"(2)]) simp
        then have "read_outcome strerr len got err st (SocketRead_loop strerr len got err st')"
          by (rule read_outcome_step [where st' = st' and d = "[]", unfolded append_Nil2])
            (use err True less in \<open>simp_all add: st'_def same_out_def\<close>)
        with step [OF r] ei show ?thesis by simp
      next
        case False
        with step [OF r] err less "1.prems"(1) show ?thesis
          by (simp add: read_outcome_def Let_def st'_def same_out_def not_le)
      qed
    next
      case (data d evs)
      show ?thesis
      proof (rule read_data_outcome [OF _ less want_def data "1.prems"(1)])
        fix t st' assume t: "t \<noteq> []" and r: "recv want st = Some (int (length t), t, st')"
          and pr: "proper (s_in st')" and le: "int (length (got @ t)) \<le> len"
        show "read_outcome strerr len (got @ t) err st'
            (SocketRead_loop strerr len (got @ t) err st')"
          by (rule "1.IH"(2) [OF less r [unfolded want_def] refl refl _ _ pr le]) (simp_all add: t)
      qed
    qed
  qed
qed

lemma SocketRead_outcome:
  "proper (s_in st) \<Longrightarrow> 0 \<le> len \<Longrightarrow> read_outcome strerr len [] err st (SocketRead strerr len err st)"
  unfolding SocketRead_def by (rule SocketRead_loop_outcome) simp_all

lemma SocketRead_results:
  assumes "SocketRead strerr len err st = Some (iRet, got, err', st')"
    and "proper (s_in st)" and "0 \<le> len"
  shows "iRet \<in> {len, 0, -1}" and "int (length got) \<le> len" and "iRet = len \<Longrightarrow> int (length got) = len"
    and "err' = err \<or> (\<exists>e. int_range e \<and> err' = overwrite err (GetSysErrorInfo strerr e))"
    and "proper (s_in st')" and "same_out st st'"
  using SocketRead_outcome [OF assms(2,3), of strerr err] proper_ending [OF assms(2)] assms(1,3)
  by (auto simp: read_outcome_def Let_def split: if_splits stream_end.splits)

lemma SocketRead_closed:
  assumes "proper (s_in st)" and "0 \<le> len" and "int (length (avail (s_in st))) < len"
    and "ending (s_in st) = Closed"
  shows "\<exists>st'. SocketRead strerr len err st = Some (0, avail (s_in st), err, st') \<and>
    same_out st st' \<and> proper (s_in st') \<and> avail (s_in st') = [] \<and> ending (s_in st') = Closed"
proof -
  have "\<not> nat len \<le> length (avail (s_in st))" using assms(2,3) by simp
  then show ?thesis
    using SocketRead_outcome [OF assms(1,2), of strerr err] assms(4)
    by (simp add: read_outcome_def Let_def)
qed

lemma SocketRead_enough:
  assumes "proper (s_in st)" and "avail (s_in st) = bs @ rest" and "len = int (length bs)"
  shows "\<exists>st'. SocketRead strerr len err st = Some (len, bs, err, st') \<and> same_out st st' \<and>
    proper (s_in st') \<and> avail (s_in st') = rest \<and> ending (s_in st') = ending (s_in st)"
  using SocketRead_outcome [OF assms(1), of len strerr err] assms
  by (simp add: read_outcome_def Let_def)

section \<open>What SocketWrite sends\<close>

text \<open>
  The script lets \<open>n\<close> bytes through, in whatever pieces and with whatever interruptions, and the
  rest of it stays for the next writer.
\<close>

fun lets_through :: "nat \<Rightarrow> send_event list \<Rightarrow> send_event list option" where
  "lets_through n evs =
     (if n = 0 then Some evs
      else (case evs of
              [] \<Rightarrow> None
            | SAccept k # evs' \<Rightarrow> (if k = 0 then None else lets_through (n - k) evs')
            | SErr e # evs' \<Rightarrow> (if e = EINTR then lets_through n evs' else None)))"

declare lets_through.simps [simp del]

lemma lets_through_0 [simp]: "lets_through 0 evs = Some evs"
  by (simp add: lets_through.simps)

lemma lets_through_Cons:
  "0 < n \<Longrightarrow> lets_through n [] = None"
  "0 < n \<Longrightarrow> lets_through n (SAccept k # evs) = (if k = 0 then None else lets_through (n - k) evs)"
  "0 < n \<Longrightarrow> lets_through n (SErr e # evs) = (if e = EINTR then lets_through n evs else None)"
  by (subst lets_through.simps, simp)+

text \<open>The sender's view of the state: the receiving side is not touched.\<close>

definition sends :: "sockst \<Rightarrow> bytes \<Rightarrow> sockst \<Rightarrow> bool" where
  "sends st bs st' \<longleftrightarrow> s_sent st' = s_sent st @ bs \<and> s_in st' = s_in st"

lemma sends_Nil [simp]: "sends st [] st"
  by (simp add: sends_def)

lemma sends_trans: "sends a x b \<Longrightarrow> sends b y c \<Longrightarrow> sends a (x @ y) c"
  by (simp add: sends_def)

lemma write_step:
  assumes "int n < len" and "send (take (nat (len - int n)) (drop n p)) st = res"
  shows "SocketWrite_loop strerr p len n err st =
     (case res of
        None \<Rightarrow> None
      | Some (sendnums, st') \<Rightarrow>
          (if sendnums \<le> 0 then
             (if s_errno st' = EINTR then SocketWrite_loop strerr p len n err st'
              else Some (-1, overwrite err (GetSysErrorInfo strerr (s_errno st')), st'))
           else SocketWrite_loop strerr p len (n + nat sendnums) err st'))"
  unfolding assms(2) [symmetric] by (subst SocketWrite_loop.simps) (simp only: assms(1) if_True)

lemma write_done:
  "\<not> int n < len \<Longrightarrow> SocketWrite_loop strerr p len n err st = Some (int n, err, st)"
  by (simp add: SocketWrite_loop.simps)

text \<open>The possible results of \<open>send\<close> on \<open>bs\<close>.\<close>

lemma send_cases:
  assumes "send bs st = Some (r, st')"
  obtains k where "r = int k" "k \<le> length bs" "sends st (take k bs) st'"
      "s_out st' = tl (s_out st)"
    | "r = -1" "sends st [] st'"
  using assms
  by (auto simp: send.simps sends_def split: list.splits send_event.splits)
    (metis append_take_drop_id length_take min.cobounded1 take_all_iff take_take nle_le)

text \<open>
  The outcome a writer owes to its caller when \<open>n\<close> bytes of \<open>p\<close> are out already: everything
  went out, or a proper prefix did and the error is reported.
\<close>

definition write_outcome :: "(int \<Rightarrow> bytes) \<Rightarrow> bytes \<Rightarrow> nat \<Rightarrow> bytes \<Rightarrow> sockst
    \<Rightarrow> int \<times> bytes \<times> sockst \<Rightarrow> bool" where
  "write_outcome strerr p n err st = (\<lambda>(r, err', st').
     (r = int (length p) \<and> err' = err \<and> sends st (drop n p) st') \<or>
     (r = -1 \<and> (\<exists>k. n + k < length p \<and> sends st (take k (drop n p)) st') \<and>
      err' = overwrite err (GetSysErrorInfo strerr (s_errno st'))))"

lemma write_outcome_step:
  assumes "write_outcome strerr p (n + k) err st1 res" and "sends st (take k (drop n p)) st1"
  shows "write_outcome strerr p n err st res"
proof -
  obtain r err' st' where res: "res = (r, err', st')" by (cases res) auto
  have drop: "take k (drop n p) @ drop (n + k) p = drop n p"
    by (metis add.commute append_take_drop_id drop_drop)
  have take: "take k (drop n p) @ take j (drop (n + k) p) = take (k + j) (drop n p)" for j
    by (simp add: take_add add.commute [of n k])
  show ?thesis
    using assms(1) sends_trans [OF assms(2)] drop take
    unfolding res write_outcome_def by (auto simp: add.assoc) metis+
qed

lemma SocketWrite_loop_outcome:
  "SocketWrite_loop strerr p len n err st = Some res \<Longrightarrow> len = int (length p) \<Longrightarrow>
   n \<le> length p \<Longrightarrow> write_outcome strerr p n err st res"
proof (induction strerr p len n err st rule: SocketWrite_loop.induct)
  case (1 strerr p len n err st)
  show ?case
  proof (cases "int n < len")
    case False
    with "1.prems" show ?thesis by (auto simp: write_done write_outcome_def)
  next
    case less: True
    define bs where "bs = take (nat (len - int n)) (drop n p)"
    have bs: "bs = drop n p" using "1.prems"(2) by (simp add: bs_def)
    obtain sr st1 where snd: "send bs st = Some (sr, st1)"
      using "1.prems"(1) write_step [OF less, where p = p and st = st and res = None, folded bs_def]
      by (cases "send bs st") auto
    note step = write_step [OF less snd [unfolded bs_def], of strerr err]
    note IH = "1.IH" [OF less snd [unfolded bs_def] refl]
    have stop: "write_outcome strerr p n err st res" if "sr \<le> 0" and sn: "sends st [] st1"
    proof (cases "s_errno st1 = EINTR")
      case True
      then have "write_outcome strerr p (n + 0) err st1 res"
        using IH(1) [OF that(1)] step that(1) "1.prems" by simp
      then show ?thesis by (rule write_outcome_step) (simp add: sn)
    next
      case False
      then have "res = (-1, overwrite err (GetSysErrorInfo strerr (s_errno st1)), st1)"
        using step that(1) "1.prems"(1) by simp
      moreover have "n + 0 < length p" using less "1.prems"(2) by simp
      ultimately show ?thesis using sn unfolding write_outcome_def
        by (intro case_prodI2) (auto intro!: exI [of _ 0])
    qed
    show ?thesis using snd
    proof (cases rule: send_cases)
      case (1 k)
      show ?thesis
      proof (cases "k = 0")
        case True
        with 1 show ?thesis by (intro stop) simp_all
      next
        case False
        then have "write_outcome strerr p (n + k) err st1 res"
          using IH(2) step 1 "1.prems" bs by simp
        then show ?thesis by (rule write_outcome_step) (use 1 bs in simp)
      qed
    next
      case 2
      then show ?thesis by (intro stop) simp_all
    qed
  qed
qed

text \<open>When the script lets everything through, everything is sent.\<close>

lemma SocketWrite_loop_enough:
  "len = int (length p) \<Longrightarrow> n \<le> length p \<Longrightarrow> lets_through (length p - n) (s_out st) = Some evs' \<Longrightarrow>
   \<exists>st'. SocketWrite_loop strerr p len n err st = Some (len, err, st') \<and> s_out st' = evs'"
proof (induction strerr p len n err st rule: SocketWrite_loop.induct)
  case (1 strerr p len n err st)
  show ?case
  proof (cases "int n < len")
    case False
    with "1.prems" show ?thesis by (simp add: write_done)
  next
    case less: True
    define bs where "bs = take (nat (len - int n)) (drop n p)"
    have bs: "bs = drop n p" using "1.prems"(1) by (simp add: bs_def)
    have pos: "0 < length p - n" using less "1.prems"(1) by simp
    note step = write_step [OF less, where p = p and st = st, folded bs_def]
    note IH = "1.IH" [OF less, folded bs_def]
    consider (err) evs where "s_out st = SErr EINTR # evs" "lets_through (length p - n) evs = Some evs'"
      | (acc) k evs where "s_out st = SAccept k # evs" "0 < k"
          "lets_through (length p - n - k) evs = Some evs'"
      using "1.prems"(3) lets_through_Cons [OF pos]
      by (cases "s_out st" rule: list.exhaust; cases "hd (s_out st)") (auto split: if_splits)
    then show ?thesis
    proof cases
      case (err evs)
      define st1 where "st1 = st\<lparr>s_out := evs, s_errno := EINTR\<rparr>"
      have snd: "send bs st = Some (-1, st1)" using err by (simp add: send.simps st1_def)
      have "s_errno st1 = EINTR" "s_out st1 = evs" by (simp_all add: st1_def)
      then show ?thesis using IH(1) [OF snd refl] step [OF snd] "1.prems" err by simp
    next
      case (acc k evs)
      define st1 where "st1 = st\<lparr>s_out := evs, s_sent := s_sent st @ take k bs\<rparr>"
      define j where "j = length (take k bs)"
      have snd: "send bs st = Some (int j, st1)" using acc by (simp add: send.simps st1_def j_def)
      have j: "j = min (length p - n) k" "0 < j" using acc pos by (simp_all add: j_def bs)
      have "lets_through (length p - (n + j)) (s_out st1) = Some evs'"
        using acc j by (auto simp: st1_def min_def split: if_splits)
      moreover have "n + j \<le> length p" using less "1.prems"(1) by (simp add: j(1))
      ultimately have "\<exists>st'. SocketWrite_loop strerr p len (n + j) err st1 = Some (len, err, st') \<and>
          s_out st' = evs'"
        using IH(2) [OF snd refl] j(2) "1.prems"(1) by simp
      then show ?thesis using step [OF snd] j(2) by simp
    qed
  qed
qed

lemma SocketWrite_outcome:
  "SocketWrite strerr p (int (length p)) err st = Some res \<Longrightarrow> write_outcome strerr p 0 err st res"
  unfolding SocketWrite_def by (erule SocketWrite_loop_outcome) simp_all

lemma SocketWrite_enough:
  assumes "lets_through (length p) (s_out st) = Some evs'"
  obtains st' where "SocketWrite strerr p (int (length p)) err st = Some (int (length p), err, st')"
    and "sends st p st'" and "s_out st' = evs'"
proof -
  obtain st' where w: "SocketWrite strerr p (int (length p)) err st = Some (int (length p), err, st')"
    and o: "s_out st' = evs'"
    using SocketWrite_loop_enough [of _ p 0 st evs' strerr err] assms by (auto simp: SocketWrite_def)
  have "sends st p st'" using SocketWrite_outcome [OF w] by (auto simp: write_outcome_def)
  from that [OF w this o] show ?thesis .
qed

section \<open>Packets go through\<close>

text \<open>A packet on the wire, and what the reader of packets makes of it.\<close>

definition packet :: "bytes \<Rightarrow> bytes" where
  "packet payload = htonl_bytes (word_of_nat (length payload)) @ payload"

lemma length_packet [simp]: "length (packet F) = 4 + length F"
  by (simp add: packet_def)

lemma packet_nonempty [simp]: "packet F \<noteq> []"
  by (simp add: packet_def htonl_bytes_def Let_def)

lemma sint_length: "n < 2147483648 \<Longrightarrow> sint (word_of_nat n :: 32 word) = int n"
  by (simp add: signed_of_nat signed_take_bit_int_eq_self)

lemma SendPacket_sends:
  assumes "lets_through 4 (s_out st) = Some evs1" and "lets_through (length payload) evs1 = Some evs2"
  shows "\<exists>st'. SendPacket strerr payload (int (length payload)) err st
    = Some (int (length payload), err, st') \<and> sends st (packet payload) st' \<and> s_out st' = evs2"
proof -
  define hdr where "hdr = htonl_bytes (word_of_nat (length payload))"
  have len: "length hdr = 4" by (simp add: hdr_def)
  obtain st1 where w1: "SocketWrite strerr hdr (int (length hdr)) err st = Some (int (length hdr), err, st1)"
    and s1: "sends st hdr st1" "s_out st1 = evs1"
    using SocketWrite_enough [of hdr st evs1 strerr err] assms(1) len by auto
  obtain st2 where w2: "SocketWrite strerr payload (int (length payload)) err st1
      = Some (int (length payload), err, st2)"
    and s2: "sends st1 payload st2" "s_out st2 = evs2"
    using SocketWrite_enough [of payload st1 evs2 strerr err] assms(2) s1(2) by auto
  have "sends st (packet payload) st2"
    using sends_trans [OF s1(1) s2(1)] by (simp add: packet_def hdr_def)
  then show ?thesis using w1 w2 s2(2) len by (simp add: SendPacket_def hdr_def)
qed

text \<open>Whatever happens, what went out is a prefix of the packet, and all of it when it says so.\<close>

lemma SendPacket_outcome:
  assumes sp: "SendPacket strerr p (int (length p)) err st = Some (r, err', st')"
  shows "r = int (length p) \<and> err' = err \<and> sends st (packet p) st' \<or>
    r = -1 \<and> (\<exists>k < length (packet p). sends st (take k (packet p)) st') \<and>
    err' = overwrite err (GetSysErrorInfo strerr (s_errno st'))"
proof -
  define hdr where "hdr = htonl_bytes (word_of_nat (length p))"
  have hl: "length hdr = 4" by (simp add: hdr_def)
  have pk: "packet p = hdr @ p" by (simp add: packet_def hdr_def)
  obtain r1 err1 st1 where w1: "SocketWrite strerr hdr (int (length hdr)) err st = Some (r1, err1, st1)"
    using sp by (cases "SocketWrite strerr hdr 4 err st") (auto simp: SendPacket_def hdr_def)
  from SocketWrite_outcome [OF w1] consider
    (ok) "r1 = 4" "err1 = err" "sends st hdr st1"
    | (fail) k where "r1 = -1" "k < 4" "sends st (take k hdr) st1"
      "err1 = overwrite err (GetSysErrorInfo strerr (s_errno st1))"
    by (auto simp: write_outcome_def hl)
  then show ?thesis
  proof cases
    case ok
    then have w2: "SocketWrite strerr p (int (length p)) err st1 = Some (r, err', st')"
      using sp w1 hl by (simp add: SendPacket_def hdr_def)
    from SocketWrite_outcome [OF w2] ok(3) hl show ?thesis
      by (auto simp: write_outcome_def pk dest: sends_trans intro!: exI [of _ "4 + k" for k])
  next
    case (fail k)
    then have "r = -1" "err' = err1" "st' = st1"
      using sp w1 hl by (auto simp: SendPacket_def hdr_def)
    with fail hl show ?thesis by (auto simp: pk intro!: exI [of _ k])
  qed
qed

lemma ReadPacket_reads:
  assumes pr: "proper (s_in st)" and av: "avail (s_in st) = packet payload @ rest"
    and len: "length payload < 2147483648" and junk: "length junk = 4"
  shows "\<exists>st'. ReadPacket strerr junk err st = Some (int (length payload), payload, err, st') \<and>
    same_out st st' \<and> proper (s_in st') \<and> avail (s_in st') = rest"
proof -
  define hdr where "hdr = htonl_bytes (word_of_nat (length payload))"
  have hl: "length hdr = 4" by (simp add: hdr_def)
  obtain st1 where r1: "SocketRead strerr 4 err st = Some (4, hdr, err, st1)" and o1: "same_out st st1"
    "proper (s_in st1)" "avail (s_in st1) = payload @ rest"
    using SocketRead_enough [OF pr, of hdr "payload @ rest" 4 strerr err] av hl
    by (auto simp: packet_def hdr_def)
  obtain st2 where r2: "SocketRead strerr (int (length payload)) err st1
      = Some (int (length payload), payload, err, st2)"
    and o2: "same_out st1 st2" "proper (s_in st2)" "avail (s_in st2) = rest"
    using SocketRead_enough [OF o1(2,3) refl, of strerr err] by auto
  have "header_mem junk hdr = hdr" using hl junk by (simp add: header_mem_def overwrite_def)
  then have "sint (ntohl_bytes (header_mem junk hdr)) = int (length payload)"
    using len by (simp add: hdr_def sint_length)
  then show ?thesis using r1 r2 o2 same_out_trans [OF o1(1) o2(1)] by (simp add: ReadPacket_def Let_def)
qed

end
