(* ===== verification/WireFormat.thy ===== *)
theory WireFormat
  imports O2kPrelude
begin

text \<open>
  The boundary between the generated message classes (\<open>*.pb.cc\<close>) and the protobuf runtime they
  call.  The runtime (\<open>CodedInputStream\<close>, \<open>WireFormatLite\<close>, \<open>MessageLite\<close>) is not in the
  repository, so it is a parameter: the record \<open>wirelib\<close> has one field per runtime function the
  generated code calls, and the locale \<open>wire_format\<close> states what its documentation promises.
  What every generated class shares is here too: the \<open>for (;;)\<close> loop of
  \<open>MergePartialFromCodedStream\<close> around its \<open>switch\<close>, and the contract \<open>message_codec\<close> that
  every message class is shown to meet.
\<close>

section \<open>The runtime's functions\<close>

text \<open>
  An input stream is the list of bytes left before the current limit; a reader returns the value
  and the bytes after it, or \<open>None\<close> where the C++ function returns false.  \<open>ReadTag\<close> is
  \<open>ReadTagWithCutoffNoLastTag(127u)\<close> and always yields a tag and its flag.  \<open>ReadSubmessage\<close> is
  the part of \<open>ReadMessage\<close> that reads the length and pushes the limit: it yields the window of
  the nested message and what follows it.  \<open>SkipField\<close> yields the skipped field as
  \<open>SerializeUnknownFields\<close> writes it back.  An \<open>InternalMetadata\<close>'s unknown fields are kept in
  that written form.  Integers are 32- or 64-bit patterns, a double is its 64-bit pattern.
\<close>

record wirelib =
  ReadTag :: "bytes \<Rightarrow> (32 word \<times> bool) \<times> bytes"
  ReadEnum :: "bytes \<Rightarrow> (32 word \<times> bytes) option"
  ReadInt32 :: "bytes \<Rightarrow> (32 word \<times> bytes) option"
  ReadInt64 :: "bytes \<Rightarrow> (64 word \<times> bytes) option"
  ReadDouble :: "bytes \<Rightarrow> (64 word \<times> bytes) option"
  ReadBool :: "bytes \<Rightarrow> (bool \<times> bytes) option"
  ReadString :: "bytes \<Rightarrow> (bytes \<times> bytes) option"
  ReadBytes :: "bytes \<Rightarrow> (bytes \<times> bytes) option"
  ReadSubmessage :: "bytes \<Rightarrow> (bytes \<times> bytes) option"
  SkipField :: "32 word \<Rightarrow> bytes \<Rightarrow> (bytes \<times> bytes) option"
  VerifyUtf8String :: "bytes \<Rightarrow> bool"
  PreserveUnknowns :: bool
  WriteEnum :: "nat \<Rightarrow> 32 word \<Rightarrow> bytes"
  WriteInt32 :: "nat \<Rightarrow> 32 word \<Rightarrow> bytes"
  WriteInt64 :: "nat \<Rightarrow> 64 word \<Rightarrow> bytes"
  WriteDouble :: "nat \<Rightarrow> 64 word \<Rightarrow> bytes"
  WriteBool :: "nat \<Rightarrow> bool \<Rightarrow> bytes"
  WriteString :: "nat \<Rightarrow> bytes \<Rightarrow> bytes"
  WriteBytes :: "nat \<Rightarrow> bytes \<Rightarrow> bytes"
  WriteMessageHead :: "nat \<Rightarrow> nat \<Rightarrow> bytes"
  WriteEnumToArray :: "nat \<Rightarrow> 32 word \<Rightarrow> bytes \<Rightarrow> bytes"
  WriteInt32ToArray :: "nat \<Rightarrow> 32 word \<Rightarrow> bytes \<Rightarrow> bytes"
  WriteInt64ToArray :: "nat \<Rightarrow> 64 word \<Rightarrow> bytes \<Rightarrow> bytes"
  WriteDoubleToArray :: "nat \<Rightarrow> 64 word \<Rightarrow> bytes \<Rightarrow> bytes"
  WriteBoolToArray :: "nat \<Rightarrow> bool \<Rightarrow> bytes \<Rightarrow> bytes"
  WriteStringToArray :: "nat \<Rightarrow> bytes \<Rightarrow> bytes \<Rightarrow> bytes"
  WriteBytesToArray :: "nat \<Rightarrow> bytes \<Rightarrow> bytes \<Rightarrow> bytes"
  WriteMessageHeadToArray :: "nat \<Rightarrow> nat \<Rightarrow> bytes \<Rightarrow> bytes"
  EnumSize :: "32 word \<Rightarrow> nat"
  Int32Size :: "32 word \<Rightarrow> nat"
  Int64Size :: "64 word \<Rightarrow> nat"
  StringSize :: "bytes \<Rightarrow> nat"
  BytesSize :: "bytes \<Rightarrow> nat"
  LengthDelimitedSize :: "nat \<Rightarrow> nat"
  CanSerialize :: "nat \<Rightarrow> bool"

text \<open>A tag is the field number and the wire type; the \<open>switch\<close> looks at both.\<close>

definition mk_tag :: "nat \<Rightarrow> nat \<Rightarrow> 32 word" where
  "mk_tag f wt = word_of_nat (8 * f + wt)"

definition GetTagFieldNumber :: "32 word \<Rightarrow> 32 word" where
  "GetTagFieldNumber tag = drop_bit 3 tag"

definition uint8 :: "32 word \<Rightarrow> 8 word" where
  "uint8 tag = ucast tag"

section \<open>The parse loop of every generated class\<close>

text \<open>
  One pass of the \<open>switch\<close> either jumps to \<open>handle_unusual\<close> or handles the field: \<open>Field None\<close>
  is a jump to \<open>failure\<close>, \<open>Field (Some (m, s))\<close> the \<open>break\<close> with the message updated and the
  stream advanced.
\<close>

datatype 'm fstep = Unusual | Field "('m \<times> bytes) option"

text \<open>
  The loop reads a tag, runs the \<open>switch\<close> when the flag is set, and in \<open>handle_unusual\<close> stops
  on tag 0 or skips the field into the unknown fields.  On success it returns the message and
  the bytes left where the terminating tag was looked for, so the empty list means that the
  message ended with its stream.  The fuel is the number of passes allowed.
\<close>

fun merge_loop :: "wirelib \<Rightarrow> (32 word \<Rightarrow> 'm \<Rightarrow> bytes \<Rightarrow> 'm fstep) \<Rightarrow> (bytes \<Rightarrow> 'm \<Rightarrow> 'm)
    \<Rightarrow> nat \<Rightarrow> 'm \<Rightarrow> bytes \<Rightarrow> ('m \<times> bytes) option" where
  "merge_loop W sw unk 0 m bs = None"
| "merge_loop W sw unk (Suc k) m bs =
     (case ReadTag W bs of ((tag, ok), s) \<Rightarrow>
       (case (if ok then sw tag m s else Unusual) of
          Field None \<Rightarrow> None
        | Field (Some (m', s')) \<Rightarrow> merge_loop W sw unk k m' s'
        | Unusual \<Rightarrow>
            (if tag = 0 then Some (m, bs)
             else (case SkipField W tag s of
                     None \<Rightarrow> None
                   | Some (raw, s') \<Rightarrow> merge_loop W sw unk k (unk raw m) s'))))"

text \<open>Every pass consumes a byte, so one more unit of fuel than there are bytes is enough.\<close>

definition merge_all :: "wirelib \<Rightarrow> (32 word \<Rightarrow> 'm \<Rightarrow> bytes \<Rightarrow> 'm fstep) \<Rightarrow> (bytes \<Rightarrow> 'm \<Rightarrow> 'm)
    \<Rightarrow> 'm \<Rightarrow> bytes \<Rightarrow> ('m \<times> bytes) option" where
  "merge_all W sw unk m bs = merge_loop W sw unk (Suc (length bs)) m bs"

text \<open>
  \<open>ReadMessage\<close> hands the nested message its window and accepts it when the nested parser ended
  at the limit (\<open>DecrementRecursionDepthAndPopLimit\<close>).
\<close>

definition read_message :: "wirelib \<Rightarrow> ('m \<Rightarrow> bytes \<Rightarrow> ('m \<times> bytes) option)
    \<Rightarrow> 'm \<Rightarrow> bytes \<Rightarrow> ('m \<times> bytes) option" where
  "read_message W sub m s =
     (case ReadSubmessage W s of
        None \<Rightarrow> None
      | Some (body, rest) \<Rightarrow>
          (case sub m body of
             None \<Rightarrow> None
           | Some (m', left) \<Rightarrow> (if left = [] then Some (m', rest) else None)))"

text \<open>
  \<open>ParseFromString\<close> and \<open>ParseFromArray\<close> clear the message, merge, and demand that the whole
  input was consumed.  \<open>None\<close> is the result false.
\<close>

definition parse_bytes :: "('m \<Rightarrow> bytes \<Rightarrow> ('m \<times> bytes) option) \<Rightarrow> ('m \<Rightarrow> 'm) \<Rightarrow> 'm \<Rightarrow> bytes
    \<Rightarrow> 'm option" where
  "parse_bytes merge clear m bs =
     (case merge (clear m) bs of
        None \<Rightarrow> None
      | Some (m', left) \<Rightarrow> (if left = [] then Some m' else None))"

text \<open>\<open>SerializeToString\<close> checks \<open>ByteSizeLong\<close> and writes the message to an array.\<close>

definition SerializeToString :: "wirelib \<Rightarrow> ('m \<Rightarrow> nat) \<Rightarrow> ('m \<Rightarrow> bytes \<Rightarrow> bytes) \<Rightarrow> 'm \<Rightarrow> bytes option"
where
  "SerializeToString W byte_size to_array m =
     (if CanSerialize W (byte_size m) then Some (to_array m []) else None)"

text \<open>
  The unknown fields are written back when there are any and the runtime preserves them
  (\<open>have_unknown_fields () && GetProto3PreserveUnknownsDefault ()\<close>).
\<close>

definition unknown_out :: "wirelib \<Rightarrow> bytes \<Rightarrow> bytes" where
  "unknown_out W u = (if u \<noteq> [] \<and> PreserveUnknowns W then u else [])"

lemma unknown_out_Nil [simp]: "unknown_out W [] = []"
  by (simp add: unknown_out_def)

section \<open>What the runtime promises\<close>

definition field_no :: "nat \<Rightarrow> bool" where
  "field_no f \<longleftrightarrow> 1 \<le> f \<and> f \<le> 15"

definition shrinks :: "(bytes \<Rightarrow> ('v \<times> bytes) option) \<Rightarrow> bool" where
  "shrinks rd \<longleftrightarrow> (\<forall>s v s'. rd s = Some (v, s') \<longrightarrow> length s' \<le> length s)"

text \<open>
  The contract of one scalar type: its writer emits a tag that is no NUL, its reader reads the
  value back and leaves the rest, a proper prefix of a written field is a tag whose value cannot
  be read, and its size function counts the bytes after the one-byte tag.
\<close>

definition field_codec :: "wirelib \<Rightarrow> ('v \<Rightarrow> bool) \<Rightarrow> nat \<Rightarrow> (nat \<Rightarrow> 'v \<Rightarrow> bytes)
    \<Rightarrow> (bytes \<Rightarrow> ('v \<times> bytes) option) \<Rightarrow> ('v \<Rightarrow> nat) \<Rightarrow> bool" where
  "field_codec W P wt wr rd sz \<longleftrightarrow>
     shrinks rd \<and>
     (\<forall>f v. field_no f \<and> P v \<longrightarrow>
        wr f v \<noteq> [] \<and> hd (wr f v) \<noteq> CHR 0x00 \<and> length (wr f v) = 1 + sz v \<and>
        (\<forall>r. \<exists>s. ReadTag W (wr f v @ r) = ((mk_tag f wt, True), s) \<and> rd s = Some (v, r)) \<and>
        (\<forall>p q. wr f v = p @ q \<and> p \<noteq> [] \<and> q \<noteq> [] \<longrightarrow>
           (\<exists>s. ReadTag W p = ((mk_tag f wt, True), s) \<and> rd s = None)))"

text \<open>
  What \<open>SkipField\<close> does with a field \<open>F\<close> the class does not know: a whole one is kept as it was
  written, a cut one is refused.
\<close>

definition field_skips :: "wirelib \<Rightarrow> 32 word \<Rightarrow> bytes \<Rightarrow> bool" where
  "field_skips W tag F \<longleftrightarrow>
     (\<forall>r. \<exists>s. ReadTag W (F @ r) = ((tag, True), s) \<and> SkipField W tag s = Some (F, r)) \<and>
     (\<forall>p q. F = p @ q \<and> p \<noteq> [] \<and> q \<noteq> [] \<longrightarrow>
        (\<exists>s. ReadTag W p = ((tag, True), s) \<and> SkipField W tag s = None))"

text \<open>
  The runtime's limit on lengths, and the doubles that survive the proto3 rule that a field equal
  to zero is not written (negative zero compares equal to zero, so its sign would be lost).
\<close>

definition dbl_ok :: "64 word \<Rightarrow> bool" where
  "dbl_ok d \<longleftrightarrow> dbl_nonzero d \<or> d = 0"

definition len_ok :: "nat \<Rightarrow> bool" where
  "len_ok n \<longleftrightarrow> n < 2147483648"

locale wire_format =
  fixes W :: wirelib
  assumes tag_eof: "\<exists>s. ReadTag W [] = ((0, False), s)"
    and tag_shrinks: "ReadTag W bs = ((t, ok), s) \<Longrightarrow> t \<noteq> 0 \<Longrightarrow> length s < length bs"
    and skip_shrinks: "SkipField W t s = Some (raw, s') \<Longrightarrow> length s' \<le> length s"
    and enum_codec: "field_codec W (\<lambda>_. True) 0 (WriteEnum W) (ReadEnum W) (EnumSize W)"
    and int32_codec: "field_codec W (\<lambda>_. True) 0 (WriteInt32 W) (ReadInt32 W) (Int32Size W)"
    and int64_codec: "field_codec W (\<lambda>_. True) 0 (WriteInt64 W) (ReadInt64 W) (Int64Size W)"
    and double_codec: "field_codec W (\<lambda>_. True) 1 (WriteDouble W) (ReadDouble W) (\<lambda>_. 8)"
    and string_codec:
      "field_codec W (\<lambda>s. len_ok (length s)) 2 (WriteString W) (ReadString W) (StringSize W)"
    and bytes_codec:
      "field_codec W (\<lambda>s. len_ok (length s)) 2 (WriteBytes W) (ReadBytes W) (BytesSize W)"
    and bool_codec: "field_codec W (\<lambda>_. True) 0 (WriteBool W) (ReadBool W) (\<lambda>_. 1)"
    and submessage_shrinks:
      "ReadSubmessage W s = Some (body, s') \<Longrightarrow> length body + length s' \<le> length s"
    and submessage_reads: "field_no f \<Longrightarrow> len_ok (length body) \<Longrightarrow>
      \<exists>s. ReadTag W (WriteMessageHead W f (length body) @ body @ r) = ((mk_tag f 2, True), s) \<and>
          ReadSubmessage W s = Some (body, r)"
    and submessage_cut: "field_no f \<Longrightarrow> len_ok (length body) \<Longrightarrow>
      WriteMessageHead W f (length body) @ body = p @ q \<Longrightarrow> p \<noteq> [] \<Longrightarrow> q \<noteq> [] \<Longrightarrow>
      \<exists>s. ReadTag W p = ((mk_tag f 2, True), s) \<and>
          (ReadSubmessage W s = None \<or>
           (\<exists>b. p = WriteMessageHead W f (length body) @ b \<and> ReadSubmessage W s = Some (b, [])))"
    and head_size: "field_no f \<Longrightarrow>
      length (WriteMessageHead W f n) + n = 1 + LengthDelimitedSize W n"
    and head_tag: "field_no f \<Longrightarrow>
      WriteMessageHead W f n \<noteq> [] \<and> hd (WriteMessageHead W f n) \<noteq> CHR 0x00"
    and string_skips: "field_no f \<Longrightarrow> len_ok (length x) \<Longrightarrow>
      field_skips W (mk_tag f 2) (WriteString W f x)"
    and submessage_skips: "field_no f \<Longrightarrow> len_ok (length body) \<Longrightarrow>
      field_skips W (mk_tag f 2) (WriteMessageHead W f (length body) @ body)"
    and double_skips: "field_no f \<Longrightarrow> field_skips W (mk_tag f 1) (WriteDouble W f d)"
    and can_serialize: "len_ok n \<Longrightarrow> CanSerialize W n"
    and enum_to_array: "WriteEnumToArray W f e a = a @ WriteEnum W f e"
    and int32_to_array: "WriteInt32ToArray W f i a = a @ WriteInt32 W f i"
    and int64_to_array: "WriteInt64ToArray W f l a = a @ WriteInt64 W f l"
    and double_to_array: "WriteDoubleToArray W f l a = a @ WriteDouble W f l"
    and bool_to_array: "WriteBoolToArray W f b a = a @ WriteBool W f b"
    and string_to_array: "WriteStringToArray W f x a = a @ WriteString W f x"
    and bytes_to_array: "WriteBytesToArray W f x a = a @ WriteBytes W f x"
    and head_to_array: "WriteMessageHeadToArray W f n a = a @ WriteMessageHead W f n"

section \<open>What every message class promises\<close>

text \<open>
  The contract of a generated class: \<open>merge\<close> is \<open>MergePartialFromCodedStream\<close>, \<open>serialize\<close> is
  \<open>SerializeWithCachedSizes\<close>, \<open>to_array\<close> its array variant, \<open>byte_size\<close> is \<open>ByteSizeLong\<close>,
  \<open>merge_from\<close> and \<open>clear\<close> are \<open>MergeFrom\<close> and \<open>Clear\<close>; \<open>valid\<close> says which messages are
  within the format's limits and hold no unknown field.
\<close>

locale message_codec =
  fixes merge :: "'m \<Rightarrow> bytes \<Rightarrow> ('m \<times> bytes) option"
    and serialize :: "'m \<Rightarrow> bytes"
    and to_array :: "'m \<Rightarrow> bytes \<Rightarrow> bytes"
    and byte_size :: "'m \<Rightarrow> nat"
    and merge_from :: "'m \<Rightarrow> 'm \<Rightarrow> 'm"
    and clear :: "'m \<Rightarrow> 'm"
    and valid :: "'m \<Rightarrow> bool"
  assumes absorb: "valid m \<Longrightarrow> merge m0 (serialize m @ r) = merge (merge_from m0 m) r"
    and eof: "merge m [] = Some (m, [])"
    and nul_cut: "valid m \<Longrightarrow> cstr (serialize m) \<noteq> serialize m \<Longrightarrow>
      merge m0 (cstr (serialize m)) = None"
    and first_byte: "valid m \<Longrightarrow> serialize m \<noteq> [] \<Longrightarrow> hd (serialize m) \<noteq> CHR 0x00"
    and size_exact: "valid m \<Longrightarrow> byte_size m = length (serialize m)"
    and array_exact: "to_array m t = t @ serialize m"
    and merge_clear: "valid m \<Longrightarrow> merge_from (clear m0) m = m"
begin

lemma merge_serialize: "valid m \<Longrightarrow> merge m0 (serialize m) = Some (merge_from m0 m, [])"
  using absorb [of m m0 "[]"] eof by simp

lemma roundtrip: "valid m \<Longrightarrow> parse_bytes merge clear m0 (serialize m) = Some m"
  by (simp add: parse_bytes_def merge_serialize merge_clear)

lemma concatenation:
  "valid a \<Longrightarrow> valid b \<Longrightarrow> parse_bytes merge clear m0 (serialize a @ serialize b) = Some (merge_from a b)"
  by (simp add: parse_bytes_def absorb merge_serialize merge_clear)

lemma serialize_inj: "valid a \<Longrightarrow> valid b \<Longrightarrow> serialize a = serialize b \<Longrightarrow> a = b"
  by (metis roundtrip option.inject)

lemma nul_terminated_parse:
  assumes "valid m"
  shows "parse_bytes merge clear m0 (cstr (serialize m)) =
    (if cstr (serialize m) = serialize m then Some m else None)"
  using assms by (simp add: roundtrip) (simp add: parse_bytes_def nul_cut)

end

section \<open>Lemmas on the parse loop\<close>

text \<open>A \<open>switch\<close> handles no field for tag 0 and never lengthens the stream.\<close>

definition sw_ok :: "(32 word \<Rightarrow> 'm \<Rightarrow> bytes \<Rightarrow> 'm fstep) \<Rightarrow> bool" where
  "sw_ok sw \<longleftrightarrow>
     (\<forall>t m s m' s'. sw t m s = Field (Some (m', s')) \<longrightarrow> t \<noteq> 0 \<and> length s' \<le> length s)"

text \<open>
  The same for one outcome of the \<open>switch\<close>, with a rule for each shape its branches have, so that
  a long \<open>switch\<close> is checked branch by branch.
\<close>

definition fstep_ok :: "32 word \<Rightarrow> bytes \<Rightarrow> 'm fstep \<Rightarrow> bool" where
  "fstep_ok t s r \<longleftrightarrow> (\<forall>m' s'. r = Field (Some (m', s')) \<longrightarrow> t \<noteq> 0 \<and> length s' \<le> length s)"

lemma sw_okI: "(\<And>t m s. fstep_ok t s (sw t m s)) \<Longrightarrow> sw_ok sw"
  by (simp add: sw_ok_def fstep_ok_def)

lemma fstep_ok_Unusual: "fstep_ok t s Unusual"
  by (simp add: fstep_ok_def)

lemma fstep_ok_number:
  "n \<noteq> 0 \<Longrightarrow> (t \<noteq> 0 \<Longrightarrow> fstep_ok t s A) \<Longrightarrow> fstep_ok t s B \<Longrightarrow>
   fstep_ok t s (if GetTagFieldNumber t = n then A else B)"
  by (cases "t = 0") (simp_all add: GetTagFieldNumber_def)

lemma fstep_ok_byte: "fstep_ok t s A \<Longrightarrow> fstep_ok t s (if uint8 t = n then A else Unusual)"
  by (simp add: fstep_ok_Unusual)

lemma fstep_ok_read:
  "t \<noteq> 0 \<Longrightarrow> shrinks rd \<Longrightarrow>
   fstep_ok t s (Field (case rd s of None \<Rightarrow> None | Some (v, s') \<Rightarrow> Some (u v, s')))"
  by (auto simp: fstep_ok_def shrinks_def split: option.splits)

lemma fstep_ok_verify:
  "t \<noteq> 0 \<Longrightarrow> shrinks rd \<Longrightarrow>
   fstep_ok t s (Field (case rd s of None \<Rightarrow> None
     | Some (v, s') \<Rightarrow> (if c v then Some (u v, s') else None)))"
  by (auto simp: fstep_ok_def shrinks_def split: option.splits)

lemmas fstep_ok_intros = fstep_ok_number fstep_ok_byte fstep_ok_read fstep_ok_verify fstep_ok_Unusual

text \<open>Steps that may leave an array or a sum as it is, in a form that does not branch.\<close>

lemma if_append: "(if c then t @ w else t) = t @ (if c then w else [])"
  by simp

lemma option_append:
  "(case v of None \<Rightarrow> t | Some x \<Rightarrow> t @ w x) = t @ (case v of None \<Rightarrow> [] | Some x \<Rightarrow> w x)"
  by (cases v) simp_all

lemma length_if: "length (if c then w else []) = (if c then length w else 0)"
  by simp

lemma length_option:
  "length (case v of None \<Rightarrow> [] | Some x \<Rightarrow> w x) = (case v of None \<Rightarrow> 0 | Some x \<Rightarrow> length (w x))"
  by (cases v) simp_all

lemma option_self: "(case v of None \<Rightarrow> None | Some x \<Rightarrow> Some x) = v"
  by (cases v) simp_all

text \<open>
  \<open>absorbs F u\<close>: parsing a stream that starts with the bytes \<open>F\<close> updates the message by \<open>u\<close>
  and goes on behind \<open>F\<close>.  \<open>nulsafe F\<close>: when \<open>F\<close> holds a NUL, the stream that stops there is
  rejected; and \<open>F\<close> does not start with a NUL.
\<close>

definition absorbs :: "wirelib \<Rightarrow> (32 word \<Rightarrow> 'm \<Rightarrow> bytes \<Rightarrow> 'm fstep) \<Rightarrow> (bytes \<Rightarrow> 'm \<Rightarrow> 'm)
    \<Rightarrow> bytes \<Rightarrow> ('m \<Rightarrow> 'm) \<Rightarrow> bool" where
  "absorbs W sw unk F u \<longleftrightarrow> (\<forall>m r. merge_all W sw unk m (F @ r) = merge_all W sw unk (u m) r)"

definition nulsafe :: "wirelib \<Rightarrow> (32 word \<Rightarrow> 'm \<Rightarrow> bytes \<Rightarrow> 'm fstep) \<Rightarrow> (bytes \<Rightarrow> 'm \<Rightarrow> 'm)
    \<Rightarrow> bytes \<Rightarrow> bool" where
  "nulsafe W sw unk F \<longleftrightarrow>
     (cstr F \<noteq> F \<longrightarrow> (\<forall>m. merge_all W sw unk m (cstr F) = None)) \<and>
     (F \<noteq> [] \<longrightarrow> hd F \<noteq> CHR 0x00)"

lemma length_concat_chunks:
  "(\<And>x. x \<in> set xs \<Longrightarrow> length (F x) = 1 + g x) \<Longrightarrow>
   length (concat (map F xs)) = length xs + sum_list (map g xs)"
  by (induction xs) simp_all

lemma fold_array: "(\<And>x t. A x t = t @ F x) \<Longrightarrow> fold A xs t = t @ concat (map F xs)"
  by (induction xs arbitrary: t) simp_all

lemma unat_mk_tag:
  assumes "field_no f" and "wt < 8"
  shows "unat (mk_tag f wt) = 8 * f + wt"
proof -
  have "unat (mk_tag f wt) = (8 * f + wt) mod 2 ^ LENGTH(32)"
    unfolding mk_tag_def by (rule unat_of_nat)
  then show ?thesis using assms by (simp add: field_no_def)
qed

lemma tag_number [simp]:
  assumes "field_no f" and "wt < 8"
  shows "GetTagFieldNumber (mk_tag f wt) = word_of_nat f"
proof (rule word_unat_eq_iff [THEN iffD2])
  have "unat (GetTagFieldNumber (mk_tag f wt)) = f"
    using unat_mk_tag [OF assms] assms
    by (simp add: GetTagFieldNumber_def unsigned_drop_bit_eq drop_bit_eq_div unat_div
        take_bit_nat_eq_self field_no_def)
  moreover have "unat (word_of_nat f :: 32 word) = f mod 2 ^ LENGTH(32)" by (rule unat_of_nat)
  ultimately show "unat (GetTagFieldNumber (mk_tag f wt)) = unat (word_of_nat f :: 32 word)"
    using assms by (simp add: field_no_def)
qed

lemma tag_byte [simp]:
  assumes "field_no f" and "wt < 8"
  shows "uint8 (mk_tag f wt) = word_of_nat (8 * f + wt)"
proof (rule word_unat_eq_iff [THEN iffD2])
  have "unat (uint8 (mk_tag f wt)) = (8 * f + wt) mod 2 ^ 8"
    unfolding uint8_def using unat_mk_tag [OF assms]
    by (simp add: unsigned_ucast_eq take_bit_eq_mod)
  moreover have "unat (word_of_nat (8 * f + wt) :: 8 word) = (8 * f + wt) mod 2 ^ LENGTH(8)"
    by (rule unat_of_nat)
  ultimately show "unat (uint8 (mk_tag f wt)) = unat (word_of_nat (8 * f + wt) :: 8 word)" by simp
qed

lemma tag_zero [simp]: "GetTagFieldNumber 0 = 0"
  by (simp add: GetTagFieldNumber_def)

lemma absorbs_Nil: "absorbs W sw unk [] (\<lambda>m. m)"
  by (simp add: absorbs_def)

lemma absorbs_append:
  "absorbs W sw unk F u \<Longrightarrow> absorbs W sw unk G v \<Longrightarrow> absorbs W sw unk (F @ G) (\<lambda>m. v (u m))"
  by (simp add: absorbs_def)

lemma nulsafe_Nil: "nulsafe W sw unk []"
  by (simp add: nulsafe_def)

lemma nulsafe_append:
  assumes "nulsafe W sw unk F" and "absorbs W sw unk F u" and "nulsafe W sw unk G"
  shows "nulsafe W sw unk (F @ G)"
  using assms by (cases "F = []") (auto simp: nulsafe_def absorbs_def cstr_append)

text \<open>A chunk of a message: bytes the parser absorbs and rejects when cut at a NUL.\<close>

definition chunk :: "wirelib \<Rightarrow> (32 word \<Rightarrow> 'm \<Rightarrow> bytes \<Rightarrow> 'm fstep) \<Rightarrow> (bytes \<Rightarrow> 'm \<Rightarrow> 'm)
    \<Rightarrow> bytes \<Rightarrow> ('m \<Rightarrow> 'm) \<Rightarrow> bool" where
  "chunk W sw unk F u \<longleftrightarrow> absorbs W sw unk F u \<and> nulsafe W sw unk F"

lemma chunk_Nil: "chunk W sw unk [] (\<lambda>m. m)"
  by (simp add: chunk_def absorbs_Nil nulsafe_Nil)

lemma chunk_append:
  "chunk W sw unk F u \<Longrightarrow> chunk W sw unk G v \<Longrightarrow> chunk W sw unk (F @ G) (\<lambda>m. v (u m))"
  by (auto simp: chunk_def intro: absorbs_append nulsafe_append)

lemma chunk_if:
  "(c \<Longrightarrow> chunk W sw unk F u) \<Longrightarrow>
   chunk W sw unk (if c then F else []) (\<lambda>m. if c then u m else m)"
  by (cases c) (simp_all add: chunk_Nil)

lemma chunk_concat:
  assumes "\<And>x. x \<in> set xs \<Longrightarrow> chunk W sw unk (F x) (u x)"
  shows "chunk W sw unk (concat (map F xs)) (\<lambda>m. fold u xs m)"
  using assms
proof (induction xs)
  case Nil
  then show ?case using chunk_Nil by simp
next
  case (Cons x xs)
  then have "chunk W sw unk (F x @ concat (map F xs)) (\<lambda>m. fold u xs (u x m))"
    by (intro chunk_append) simp_all
  then show ?case by simp
qed

lemma chunk_option:
  "(\<And>x. y = Some x \<Longrightarrow> chunk W sw unk (F x) (u x)) \<Longrightarrow>
   chunk W sw unk (case y of None \<Rightarrow> [] | Some x \<Rightarrow> F x)
     (\<lambda>m. case y of None \<Rightarrow> m | Some x \<Rightarrow> u x m)"
  by (cases y) (simp_all add: chunk_Nil)

lemma chunk_cong: "chunk W sw unk F u \<Longrightarrow> (\<And>m. u m = u' m) \<Longrightarrow> chunk W sw unk F u'"
  by (simp add: chunk_def absorbs_def)

lemmas chunk_intros = chunk_append chunk_if chunk_option chunk_concat chunk_Nil

lemma field_reads:
  "field_codec W P wt wr rd sz \<Longrightarrow> field_no f \<Longrightarrow> P v \<Longrightarrow>
   \<exists>s. ReadTag W (wr f v @ r) = ((mk_tag f wt, True), s) \<and> rd s = Some (v, r)"
  by (simp add: field_codec_def)

lemma field_cut:
  "field_codec W P wt wr rd sz \<Longrightarrow> field_no f \<Longrightarrow> P v \<Longrightarrow> wr f v = p @ q \<Longrightarrow> p \<noteq> [] \<Longrightarrow> q \<noteq> [] \<Longrightarrow>
   \<exists>s. ReadTag W p = ((mk_tag f wt, True), s) \<and> rd s = None"
  by (simp add: field_codec_def)

lemma field_first:
  "field_codec W P wt wr rd sz \<Longrightarrow> field_no f \<Longrightarrow> P v \<Longrightarrow> wr f v \<noteq> [] \<and> hd (wr f v) \<noteq> CHR 0x00"
  by (simp add: field_codec_def)

lemma field_length:
  "field_codec W P wt wr rd sz \<Longrightarrow> field_no f \<Longrightarrow> P v \<Longrightarrow> length (wr f v) = 1 + sz v"
  by (simp add: field_codec_def)

lemma field_skips_whole:
  "field_skips W t F \<Longrightarrow> \<exists>s. ReadTag W (F @ r) = ((t, True), s) \<and> SkipField W t s = Some (F, r)"
  by (simp add: field_skips_def)

lemma field_skips_cut:
  "field_skips W t F \<Longrightarrow> F = p @ q \<Longrightarrow> p \<noteq> [] \<Longrightarrow> q \<noteq> [] \<Longrightarrow>
   \<exists>s. ReadTag W p = ((t, True), s) \<and> SkipField W t s = None"
  by (simp add: field_skips_def)

lemma mk_tag_nonzero: "field_no f \<Longrightarrow> wt < 8 \<Longrightarrow> mk_tag f wt \<noteq> 0"
  using unat_mk_tag [of f wt] by (auto simp: field_no_def)

lemma shrinksD: "shrinks rd \<Longrightarrow> rd s = Some (v, s') \<Longrightarrow> length s' \<le> length s"
  by (auto simp: shrinks_def)

context wire_format
begin

lemma merge_loop_fuel:
  assumes sw: "sw_ok sw"
  shows "length bs < k \<Longrightarrow> length bs < j \<Longrightarrow>
    merge_loop W sw unk k m bs = merge_loop W sw unk j m bs"
proof (induction k arbitrary: j m bs)
  case 0
  then show ?case by simp
next
  case (Suc k)
  then obtain j' where j: "j = Suc j'" by (cases j) auto
  obtain t ok s where rt: "ReadTag W bs = ((t, ok), s)" by (metis prod.collapse)
  have step: "merge_loop W sw unk k m' s' = merge_loop W sw unk j' m' s'"
    if "t \<noteq> 0" and "length s' \<le> length s" for m' s'
    using Suc.IH [of s' j' m'] Suc.prems tag_shrinks [OF rt that(1)] that(2) j by simp
  show ?case
    unfolding j
    using step sw skip_shrinks [of t s]
    by (auto simp: rt sw_ok_def split: fstep.splits option.splits prod.splits if_splits)
qed

lemma merge_all_eof: "sw_ok sw \<Longrightarrow> merge_all W sw unk m [] = Some (m, [])"
  using tag_eof by (auto simp: merge_all_def)

lemma merge_all_field:
  assumes sw: "sw_ok sw" and rt: "ReadTag W bs = ((t, True), s)"
    and fld: "sw t m s = Field (Some (m', s'))"
  shows "merge_all W sw unk m bs = merge_all W sw unk m' s'"
proof -
  from sw fld have t: "t \<noteq> 0" and le: "length s' \<le> length s" by (auto simp: sw_ok_def)
  have "length s' < length bs" using tag_shrinks [OF rt t] le by simp
  then show ?thesis
    using merge_loop_fuel [OF sw, of s' "length bs" "Suc (length s')" unk m']
    by (simp add: merge_all_def rt fld)
qed

lemma merge_all_failure:
  "ReadTag W bs = ((t, True), s) \<Longrightarrow> sw t m s = Field None \<Longrightarrow> merge_all W sw unk m bs = None"
  by (simp add: merge_all_def)

lemma merge_all_skip:
  assumes sw: "sw_ok sw" and rt: "ReadTag W bs = ((t, True), s)" and t: "t \<noteq> 0"
    and un: "sw t m s = Unusual" and sk: "SkipField W t s = Some (raw, s')"
  shows "merge_all W sw unk m bs = merge_all W sw unk (unk raw m) s'"
proof -
  have "length s' < length bs" using tag_shrinks [OF rt t] skip_shrinks [OF sk] by simp
  then show ?thesis
    using merge_loop_fuel [OF sw, of s' "length bs" "Suc (length s')" unk "unk raw m"]
    by (simp add: merge_all_def rt un t sk)
qed

lemma merge_all_skip_failure:
  "ReadTag W bs = ((t, True), s) \<Longrightarrow> t \<noteq> 0 \<Longrightarrow> sw t m s = Unusual \<Longrightarrow> SkipField W t s = None \<Longrightarrow>
   merge_all W sw unk m bs = None"
  by (simp add: merge_all_def)

lemma chunk_skip:
  assumes fs: "field_skips W t F" and F: "F \<noteq> []" "hd F \<noteq> CHR 0x00" and sw: "sw_ok sw"
    and t: "t \<noteq> 0" and un: "\<And>m s. sw t m s = Unusual"
  shows "chunk W sw unk F (unk F)"
proof -
  have "merge_all W sw unk m (F @ r) = merge_all W sw unk (unk F m) r" for m r
  proof -
    obtain s where rt: "ReadTag W (F @ r) = ((t, True), s)" and sk: "SkipField W t s = Some (F, r)"
      using field_skips_whole [OF fs] by blast
    show ?thesis by (rule merge_all_skip [where sw = sw, OF sw rt t un sk])
  qed
  moreover have "merge_all W sw unk m (cstr F) = None" if nul: "cstr F \<noteq> F" for m
  proof -
    obtain q where q: "F = cstr F @ CHR 0x00 # q" using cstr_split [OF nul] by blast
    have "cstr F \<noteq> []" using F by (rule cstr_nonempty)
    then obtain s where rt: "ReadTag W (cstr F) = ((t, True), s)" and sk: "SkipField W t s = None"
      using field_skips_cut [OF fs q] by blast
    show ?thesis by (rule merge_all_skip_failure [where sw = sw, OF rt t un sk])
  qed
  ultimately show ?thesis using F by (simp add: chunk_def absorbs_def nulsafe_def)
qed

lemma field_absorbs:
  assumes "field_codec W P wt wr rd sz" and "sw_ok sw" and "field_no f" and "P v"
    and "\<And>m s s'. rd s = Some (v, s') \<Longrightarrow> sw (mk_tag f wt) m s = Field (Some (u m, s'))"
  shows "absorbs W sw unk (wr f v) u"
proof -
  have "merge_all W sw unk m (wr f v @ r) = merge_all W sw unk (u m) r" for m r
  proof -
    obtain s where rt: "ReadTag W (wr f v @ r) = ((mk_tag f wt, True), s)" and rd: "rd s = Some (v, r)"
      using field_reads [OF assms(1,3,4)] by blast
    show ?thesis by (rule merge_all_field [where sw = sw, OF assms(2) rt assms(5) [OF rd]])
  qed
  then show ?thesis by (simp add: absorbs_def)
qed

lemma field_nulsafe:
  assumes fc: "field_codec W P wt wr rd sz" and "field_no f" and "P v"
    and fail: "\<And>m s. rd s = None \<Longrightarrow> sw (mk_tag f wt) m s = Field None"
  shows "nulsafe W sw unk (wr f v)"
proof -
  have ne: "wr f v \<noteq> []" "hd (wr f v) \<noteq> CHR 0x00"
    using field_first [OF fc assms(2,3)] by simp_all
  have "merge_all W sw unk m (cstr (wr f v)) = None" if nul: "cstr (wr f v) \<noteq> wr f v" for m
  proof -
    obtain q where q: "wr f v = cstr (wr f v) @ CHR 0x00 # q" using cstr_split [OF nul] by blast
    have "cstr (wr f v) \<noteq> []" using ne by (rule cstr_nonempty)
    then obtain s where rt: "ReadTag W (cstr (wr f v)) = ((mk_tag f wt, True), s)"
      and rd: "rd s = None"
      using field_cut [OF fc assms(2,3) q] by blast
    show ?thesis by (rule merge_all_failure [where sw = sw, OF rt fail [OF rd]])
  qed
  with ne show ?thesis by (simp add: nulsafe_def)
qed

lemma submessage_absorbs:
  assumes "sw_ok sw" and "field_no f" and "len_ok (length body)"
    and "\<And>m s s'. ReadSubmessage W s = Some (body, s') \<Longrightarrow>
      sw (mk_tag f 2) m s = Field (Some (u m, s'))"
  shows "absorbs W sw unk (WriteMessageHead W f (length body) @ body) u"
proof -
  have "merge_all W sw unk m (WriteMessageHead W f (length body) @ body @ r)
      = merge_all W sw unk (u m) r" for m r
  proof -
    obtain s where rt: "ReadTag W (WriteMessageHead W f (length body) @ body @ r)
        = ((mk_tag f 2, True), s)" and rs: "ReadSubmessage W s = Some (body, r)"
      using submessage_reads [OF assms(2,3)] by blast
    show ?thesis by (rule merge_all_field [where sw = sw, OF assms(1) rt assms(4) [OF rs]])
  qed
  then show ?thesis by (simp add: absorbs_def)
qed

lemma submessage_nulsafe:
  assumes f: "field_no f" "len_ok (length body)"
    and fail: "\<And>m s. ReadSubmessage W s = None \<Longrightarrow> sw (mk_tag f 2) m s = Field None"
    and cut: "\<And>m s. ReadSubmessage W s = Some (cstr body, []) \<Longrightarrow> cstr body \<noteq> body \<Longrightarrow>
      sw (mk_tag f 2) m s = Field None"
  shows "nulsafe W sw unk (WriteMessageHead W f (length body) @ body)"
proof -
  define h where "h = WriteMessageHead W f (length body)"
  have ne: "h \<noteq> []" "hd h \<noteq> CHR 0x00" using head_tag [OF f(1)] by (simp_all add: h_def)
  have "merge_all W sw unk m (cstr (h @ body)) = None" if nul: "cstr (h @ body) \<noteq> h @ body" for m
  proof -
    obtain q where q: "h @ body = cstr (h @ body) @ CHR 0x00 # q" using cstr_split [OF nul] by blast
    have "cstr (h @ body) \<noteq> []" using ne by (intro cstr_nonempty) auto
    then obtain s where rt: "ReadTag W (cstr (h @ body)) = ((mk_tag f 2, True), s)"
      and rs: "ReadSubmessage W s = None \<or>
        (\<exists>b. cstr (h @ body) = h @ b \<and> ReadSubmessage W s = Some (b, []))"
      using submessage_cut [OF f] q unfolding h_def by blast
    have "sw (mk_tag f 2) m s = Field None"
      using rs
    proof
      assume "\<exists>b. cstr (h @ body) = h @ b \<and> ReadSubmessage W s = Some (b, [])"
      then obtain b where b: "cstr (h @ body) = h @ b" "ReadSubmessage W s = Some (b, [])" by blast
      have h: "cstr h = h" using b(1) length_cstr [of h] by (auto simp: cstr_append split: if_splits)
      with b have "b = cstr body" by (simp add: cstr_append)
      moreover have "cstr body \<noteq> body" using nul h by (simp add: cstr_append)
      ultimately show ?thesis using b(2) cut by blast
    qed (rule fail)
    then show ?thesis by (rule merge_all_failure [where sw = sw, OF rt])
  qed
  with ne show ?thesis by (simp add: nulsafe_def h_def)
qed

lemma field_lengths:
  "field_no f \<Longrightarrow> length (WriteEnum W f e) = 1 + EnumSize W e"
  "field_no f \<Longrightarrow> length (WriteInt32 W f i) = 1 + Int32Size W i"
  "field_no f \<Longrightarrow> length (WriteInt64 W f l) = 1 + Int64Size W l"
  "field_no f \<Longrightarrow> length (WriteDouble W f d) = 9"
  "field_no f \<Longrightarrow> len_ok (length x) \<Longrightarrow> length (WriteString W f x) = 1 + StringSize W x"
  "field_no f \<Longrightarrow> len_ok (length x) \<Longrightarrow> length (WriteBytes W f x) = 1 + BytesSize W x"
  "field_no f \<Longrightarrow> length (WriteBool W f b) = 1 + 1"
  using field_length [OF enum_codec] field_length [OF int32_codec] field_length [OF int64_codec]
    field_length [OF double_codec] field_length [OF string_codec]
    field_length [OF bytes_codec] field_length [OF bool_codec]
  by simp_all

lemma submessage_length:
  "field_no f \<Longrightarrow> n = length body \<Longrightarrow>
   length (WriteMessageHead W f n @ body) = 1 + LengthDelimitedSize W n"
  using head_size [of f n] by simp

lemmas to_array_laws = enum_to_array int32_to_array int64_to_array double_to_array
  bool_to_array string_to_array bytes_to_array head_to_array

lemma chunk_field:
  assumes "field_codec W P wt wr rd sz" and "sw_ok sw" and "field_no f" and "P v"
    and "\<And>m s s'. rd s = Some (v, s') \<Longrightarrow> sw (mk_tag f wt) m s = Field (Some (u m, s'))"
    and "\<And>m s. rd s = None \<Longrightarrow> sw (mk_tag f wt) m s = Field None"
  shows "chunk W sw unk (wr f v) u"
  using field_absorbs [where sw = sw and u = u, OF assms(1-5)]
    field_nulsafe [where sw = sw, OF assms(1,3,4,6)] by (simp add: chunk_def)

lemma chunk_submessage:
  assumes sub: "message_codec merge ser arr bsz mf cl valid" and m': "valid m'" "len_ok (length (ser m'))"
    and sw: "sw_ok sw" and f: "field_no f"
    and ok: "\<And>m s y s'. read_message W merge (get m) s = Some (y, s') \<Longrightarrow>
      sw (mk_tag f 2) m s = Field (Some (put m y, s'))"
    and fail: "\<And>m s. read_message W merge (get m) s = None \<Longrightarrow> sw (mk_tag f 2) m s = Field None"
  shows "chunk W sw unk (WriteMessageHead W f (bsz m') @ ser m') (\<lambda>m. put m (mf (get m) m'))"
proof -
  have "read_message W merge (get m) s = Some (mf (get m) m', s')"
    if "ReadSubmessage W s = Some (ser m', s')" for m s s'
    using that message_codec.merge_serialize [OF sub m'(1)] by (simp add: read_message_def)
  then have A: "absorbs W sw unk (WriteMessageHead W f (length (ser m')) @ ser m')
      (\<lambda>m. put m (mf (get m) m'))"
    by (intro submessage_absorbs sw f m'(2) ok)
  have "read_message W merge (get m) s = None"
    if "ReadSubmessage W s = Some (cstr (ser m'), [])" "cstr (ser m') \<noteq> ser m'" for m s
    using that message_codec.nul_cut [OF sub m'(1)] by (simp add: read_message_def)
  moreover have "read_message W merge (get m) s = None" if "ReadSubmessage W s = None" for m s
    using that by (simp add: read_message_def)
  ultimately have "nulsafe W sw unk (WriteMessageHead W f (length (ser m')) @ ser m')"
    by (intro submessage_nulsafe f m'(2) fail)
  with A show ?thesis
    using message_codec.size_exact [OF sub m'(1)] by (simp add: chunk_def)
qed

lemma codecI:
  assumes sw: "sw_ok sw"
    and ch: "\<And>m. valid m \<Longrightarrow> chunk W sw unk (ser m) (\<lambda>m0. mf m0 m)"
    and "\<And>m. valid m \<Longrightarrow> bsz m = length (ser m)"
    and "\<And>m t. arr m t = t @ ser m"
    and "\<And>m m0. valid m \<Longrightarrow> mf (cl m0) m = m"
  shows "message_codec (merge_all W sw unk) ser arr bsz mf cl valid"
  using assms(3-5) merge_all_eof [OF sw] ch
  by unfold_locales (auto simp: chunk_def absorbs_def nulsafe_def)

lemma reader_shrinks:
  "shrinks (ReadEnum W)" "shrinks (ReadInt32 W)" "shrinks (ReadInt64 W)" "shrinks (ReadDouble W)"
  "shrinks (ReadString W)" "shrinks (ReadBytes W)" "shrinks (ReadBool W)"
  using enum_codec int32_codec int64_codec double_codec string_codec bytes_codec bool_codec
  by (simp_all add: field_codec_def)

lemma read_message_shrinks: "shrinks (read_message W sub m)"
  unfolding shrinks_def read_message_def
  by (auto split: option.splits prod.splits if_splits dest!: submessage_shrinks)

lemmas readers_shrink = reader_shrinks [THEN shrinksD] read_message_shrinks [THEN shrinksD]

end

end
