(* ===== verification/AdminPairs.thy ===== *)
theory AdminPairs
  imports WireFormat
begin

text \<open>
  The small messages of \<open>qdcadm/AdminMsg.pb.cc\<close>.  Each class is a record with one field per C++
  member (\<open>X_unknown\<close> is the unknown-field part of \<open>_internal_metadata_\<close>, in wire form) and one
  definition per method: \<open>X_SharedCtor\<close>, \<open>X_Clear\<close>, \<open>X_switch\<close> (one pass of the \<open>switch\<close> of
  \<open>MergePartialFromCodedStream\<close>), \<open>X_MergePartial\<close> (the whole method), \<open>X_ByteSize\<close>
  (\<open>ByteSizeLong\<close>), \<open>X_Serialize\<close> (\<open>SerializeWithCachedSizes\<close>), \<open>X_SerializeToArray\<close>,
  \<open>X_MergeFrom\<close>, \<open>X_CopyFrom\<close> and \<open>X_InternalSwap\<close>.  The sizes a nested message caches are the
  sizes of that message, since nothing is changed between the two passes.  For every class the
  lemmas show that the bytes written are absorbed by the parser (\<open>X_chunk\<close>), that the size is
  exact, that both serializers agree, and so that it is a \<open>message_codec\<close>.
\<close>

section \<open>MsgHeader\<close>

text \<open>
  The header every message starts with: one enum field, \<open>msg_type\<close>, kept as the
  \<open>int\<close> the generated class keeps it as.
\<close>

record MsgHeader =
  mh_msg_type :: "32 word"
  mh_unknown :: bytes

definition MsgHeader_SharedCtor :: MsgHeader where
  "MsgHeader_SharedCtor = \<lparr>mh_msg_type = 0, mh_unknown = []\<rparr>"

definition MsgHeader_Clear :: "MsgHeader \<Rightarrow> MsgHeader" where
  "MsgHeader_Clear m = m\<lparr>mh_msg_type := 0, mh_unknown := []\<rparr>"

definition MsgHeader_switch :: "wirelib \<Rightarrow> 32 word \<Rightarrow> MsgHeader \<Rightarrow> bytes \<Rightarrow> MsgHeader fstep" where
  "MsgHeader_switch W tag m s =
     (if GetTagFieldNumber tag = 1 then
       (if uint8 tag = 8 then
          Field (case ReadEnum W s of
            None \<Rightarrow> None
          | Some (v, s') \<Rightarrow> Some (m\<lparr>mh_msg_type := v\<rparr>, s'))
        else Unusual)
      else Unusual)"

definition MsgHeader_add_unknown :: "bytes \<Rightarrow> MsgHeader \<Rightarrow> MsgHeader" where
  "MsgHeader_add_unknown raw m = m\<lparr>mh_unknown := mh_unknown m @ raw\<rparr>"

definition MsgHeader_MergePartial :: "wirelib \<Rightarrow> MsgHeader \<Rightarrow> bytes \<Rightarrow> (MsgHeader \<times> bytes) option" where
  "MsgHeader_MergePartial W = merge_all W (MsgHeader_switch W) MsgHeader_add_unknown"

definition MsgHeader_ByteSize :: "wirelib \<Rightarrow> MsgHeader \<Rightarrow> nat" where
  "MsgHeader_ByteSize W m =
     length (unknown_out W (mh_unknown m))
     + (if mh_msg_type m \<noteq> 0 then 1 + EnumSize W (mh_msg_type m) else 0)"

definition MsgHeader_Serialize :: "wirelib \<Rightarrow> MsgHeader \<Rightarrow> bytes" where
  "MsgHeader_Serialize W m =
     (if mh_msg_type m \<noteq> 0 then WriteEnum W 1 (mh_msg_type m) else [])
     @ unknown_out W (mh_unknown m)"

definition MsgHeader_SerializeToArray :: "wirelib \<Rightarrow> MsgHeader \<Rightarrow> bytes \<Rightarrow> bytes" where
  "MsgHeader_SerializeToArray W m target =
     (let target1 = (if mh_msg_type m \<noteq> 0 then WriteEnumToArray W 1 (mh_msg_type m) target else target)
      in target1 @ unknown_out W (mh_unknown m))"

definition MsgHeader_MergeFrom :: "MsgHeader \<Rightarrow> MsgHeader \<Rightarrow> MsgHeader" where
  "MsgHeader_MergeFrom this from =
     (let this0 = this\<lparr>mh_unknown := mh_unknown this @ mh_unknown from\<rparr>;
          this1 = (if mh_msg_type from \<noteq> 0 then this0\<lparr>mh_msg_type := mh_msg_type from\<rparr> else this0)
      in this1)"

definition MsgHeader_CopyFrom :: "bool \<Rightarrow> MsgHeader \<Rightarrow> MsgHeader \<Rightarrow> MsgHeader" where
  "MsgHeader_CopyFrom same_object this from =
     (if same_object then this else MsgHeader_MergeFrom (MsgHeader_Clear this) from)"

definition MsgHeader_InternalSwap :: "MsgHeader \<Rightarrow> MsgHeader \<Rightarrow> MsgHeader \<times> MsgHeader" where
  "MsgHeader_InternalSwap this other =
     (this\<lparr>mh_msg_type := mh_msg_type other, mh_unknown := mh_unknown other\<rparr>,
      other\<lparr>mh_msg_type := mh_msg_type this, mh_unknown := mh_unknown this\<rparr>)"

definition MsgHeader_valid :: "wirelib \<Rightarrow> MsgHeader \<Rightarrow> bool" where
  "MsgHeader_valid W m \<longleftrightarrow>
     mh_unknown m = []"

lemma MsgHeader_swap: "MsgHeader_InternalSwap a b = (b, a)"
  by (simp add: MsgHeader_InternalSwap_def)

lemma MsgHeader_Clear_eq: "MsgHeader_Clear m = MsgHeader_SharedCtor"
  by (simp add: MsgHeader_Clear_def MsgHeader_SharedCtor_def)

lemma MsgHeader_merge_ctor: "MsgHeader_valid W m \<Longrightarrow> MsgHeader_MergeFrom MsgHeader_SharedCtor m = m"
  by (cases m) (auto simp: MsgHeader_MergeFrom_def MsgHeader_SharedCtor_def MsgHeader_valid_def dbl_ok_def Let_def 
      split: option.splits)

context wire_format
begin

lemma MsgHeader_sw_ok: "sw_ok (MsgHeader_switch W)"
  by (auto simp: sw_ok_def MsgHeader_switch_def split: if_splits option.splits dest: readers_shrink)

lemma MsgHeader_chunk:
  assumes "MsgHeader_valid W m"
  shows "chunk W (MsgHeader_switch W) MsgHeader_add_unknown (MsgHeader_Serialize W m)
    (\<lambda>m0. MsgHeader_MergeFrom m0 m)"
proof -
  have msg_type: "chunk W (MsgHeader_switch W) MsgHeader_add_unknown
      (WriteEnum W 1 (mh_msg_type m)) (\<lambda>m0. m0\<lparr>mh_msg_type := mh_msg_type m\<rparr>)"
    by (rule chunk_field [OF enum_codec MsgHeader_sw_ok])
      (use assms in \<open>simp_all add: MsgHeader_switch_def MsgHeader_valid_def field_no_def\<close>)
  have unk: "mh_unknown m = []" using assms by (simp add: MsgHeader_valid_def)
  show ?thesis
    unfolding MsgHeader_Serialize_def unk unknown_out_Nil
    by (rule chunk_cong, (rule msg_type chunk_intros | assumption)+)
      (simp add: MsgHeader_MergeFrom_def Let_def unk   split: option.splits)
qed

lemma MsgHeader_size: "MsgHeader_valid W m \<Longrightarrow> MsgHeader_ByteSize W m = length (MsgHeader_Serialize W m)"
  by (simp add: MsgHeader_ByteSize_def MsgHeader_Serialize_def MsgHeader_valid_def field_lengths field_no_def)

lemma MsgHeader_array: "MsgHeader_SerializeToArray W m t = t @ MsgHeader_Serialize W m"
  by (simp add: MsgHeader_SerializeToArray_def MsgHeader_Serialize_def Let_def to_array_laws 
      split: option.splits)

lemma MsgHeader_codec: "message_codec (MsgHeader_MergePartial W) (MsgHeader_Serialize W) (MsgHeader_SerializeToArray W)
    (MsgHeader_ByteSize W) MsgHeader_MergeFrom MsgHeader_Clear (MsgHeader_valid W)"
  unfolding MsgHeader_MergePartial_def
  by (rule codecI [OF MsgHeader_sw_ok MsgHeader_chunk MsgHeader_size MsgHeader_array])
    (simp_all add: MsgHeader_Clear_eq MsgHeader_merge_ctor)

end

sublocale wire_format \<subseteq> MsgHeader: message_codec "MsgHeader_MergePartial W" "MsgHeader_Serialize W"
  "MsgHeader_SerializeToArray W" "MsgHeader_ByteSize W" MsgHeader_MergeFrom MsgHeader_Clear "MsgHeader_valid W"
  by (rule MsgHeader_codec)

section \<open>MsgHeaderWrap\<close>

text \<open>
  The view of a packet as nothing but its header, field 1; everything else is unknown to it.
\<close>

record MsgHeaderWrap =
  hw_msg_header :: "MsgHeader option"
  hw_unknown :: bytes

definition MsgHeaderWrap_SharedCtor :: MsgHeaderWrap where
  "MsgHeaderWrap_SharedCtor = \<lparr>hw_msg_header = None, hw_unknown = []\<rparr>"

definition MsgHeaderWrap_Clear :: "MsgHeaderWrap \<Rightarrow> MsgHeaderWrap" where
  "MsgHeaderWrap_Clear m = m\<lparr>hw_msg_header := None, hw_unknown := []\<rparr>"

definition MsgHeaderWrap_mutable_msg_header :: "MsgHeaderWrap \<Rightarrow> MsgHeader" where
  "MsgHeaderWrap_mutable_msg_header m =
     (case hw_msg_header m of None \<Rightarrow> MsgHeader_SharedCtor | Some h \<Rightarrow> h)"

definition MsgHeaderWrap_switch :: "wirelib \<Rightarrow> 32 word \<Rightarrow> MsgHeaderWrap \<Rightarrow> bytes \<Rightarrow> MsgHeaderWrap fstep" where
  "MsgHeaderWrap_switch W tag m s =
     (if GetTagFieldNumber tag = 1 then
       (if uint8 tag = 10 then
          Field (case read_message W (MsgHeader_MergePartial W) (MsgHeaderWrap_mutable_msg_header m) s of
            None \<Rightarrow> None
          | Some (h, s') \<Rightarrow> Some (m\<lparr>hw_msg_header := Some h\<rparr>, s'))
        else Unusual)
      else Unusual)"

definition MsgHeaderWrap_add_unknown :: "bytes \<Rightarrow> MsgHeaderWrap \<Rightarrow> MsgHeaderWrap" where
  "MsgHeaderWrap_add_unknown raw m = m\<lparr>hw_unknown := hw_unknown m @ raw\<rparr>"

definition MsgHeaderWrap_MergePartial :: "wirelib \<Rightarrow> MsgHeaderWrap \<Rightarrow> bytes \<Rightarrow> (MsgHeaderWrap \<times> bytes) option" where
  "MsgHeaderWrap_MergePartial W = merge_all W (MsgHeaderWrap_switch W) MsgHeaderWrap_add_unknown"

definition MsgHeaderWrap_ByteSize :: "wirelib \<Rightarrow> MsgHeaderWrap \<Rightarrow> nat" where
  "MsgHeaderWrap_ByteSize W m =
     length (unknown_out W (hw_unknown m))
     + (case hw_msg_header m of None \<Rightarrow> 0 | Some h \<Rightarrow> 1 + LengthDelimitedSize W (MsgHeader_ByteSize W h))"

definition MsgHeaderWrap_Serialize :: "wirelib \<Rightarrow> MsgHeaderWrap \<Rightarrow> bytes" where
  "MsgHeaderWrap_Serialize W m =
     (case hw_msg_header m of None \<Rightarrow> []
      | Some h \<Rightarrow> WriteMessageHead W 1 (MsgHeader_ByteSize W h) @ MsgHeader_Serialize W h)
     @ unknown_out W (hw_unknown m)"

definition MsgHeaderWrap_SerializeToArray :: "wirelib \<Rightarrow> MsgHeaderWrap \<Rightarrow> bytes \<Rightarrow> bytes" where
  "MsgHeaderWrap_SerializeToArray W m target =
     (let target1 = (case hw_msg_header m of None \<Rightarrow> target
         | Some h \<Rightarrow> MsgHeader_SerializeToArray W h
             (WriteMessageHeadToArray W 1 (MsgHeader_ByteSize W h) target))
      in target1 @ unknown_out W (hw_unknown m))"

definition MsgHeaderWrap_MergeFrom :: "MsgHeaderWrap \<Rightarrow> MsgHeaderWrap \<Rightarrow> MsgHeaderWrap" where
  "MsgHeaderWrap_MergeFrom this from =
     (let this0 = this\<lparr>hw_unknown := hw_unknown this @ hw_unknown from\<rparr>;
          this1 = (case hw_msg_header from of None \<Rightarrow> this0
         | Some h \<Rightarrow> this0\<lparr>hw_msg_header := Some (MsgHeader_MergeFrom (MsgHeaderWrap_mutable_msg_header this0) h)\<rparr>)
      in this1)"

definition MsgHeaderWrap_CopyFrom :: "bool \<Rightarrow> MsgHeaderWrap \<Rightarrow> MsgHeaderWrap \<Rightarrow> MsgHeaderWrap" where
  "MsgHeaderWrap_CopyFrom same_object this from =
     (if same_object then this else MsgHeaderWrap_MergeFrom (MsgHeaderWrap_Clear this) from)"

definition MsgHeaderWrap_InternalSwap :: "MsgHeaderWrap \<Rightarrow> MsgHeaderWrap \<Rightarrow> MsgHeaderWrap \<times> MsgHeaderWrap" where
  "MsgHeaderWrap_InternalSwap this other =
     (this\<lparr>hw_msg_header := hw_msg_header other, hw_unknown := hw_unknown other\<rparr>,
      other\<lparr>hw_msg_header := hw_msg_header this, hw_unknown := hw_unknown this\<rparr>)"

definition MsgHeaderWrap_valid :: "wirelib \<Rightarrow> MsgHeaderWrap \<Rightarrow> bool" where
  "MsgHeaderWrap_valid W m \<longleftrightarrow>
     (case hw_msg_header m of None \<Rightarrow> True | Some h \<Rightarrow> MsgHeader_valid W h \<and> len_ok (length (MsgHeader_Serialize W h))) \<and>
     hw_unknown m = []"

lemma MsgHeaderWrap_swap: "MsgHeaderWrap_InternalSwap a b = (b, a)"
  by (simp add: MsgHeaderWrap_InternalSwap_def)

lemma MsgHeaderWrap_Clear_eq: "MsgHeaderWrap_Clear m = MsgHeaderWrap_SharedCtor"
  by (simp add: MsgHeaderWrap_Clear_def MsgHeaderWrap_SharedCtor_def)

lemma MsgHeaderWrap_merge_ctor: "MsgHeaderWrap_valid W m \<Longrightarrow> MsgHeaderWrap_MergeFrom MsgHeaderWrap_SharedCtor m = m"
  by (cases m) (auto simp: MsgHeaderWrap_MergeFrom_def MsgHeaderWrap_SharedCtor_def MsgHeaderWrap_valid_def dbl_ok_def Let_def MsgHeaderWrap_mutable_msg_header_def MsgHeader_merge_ctor
      split: option.splits)

context wire_format
begin

lemma MsgHeaderWrap_sw_ok: "sw_ok (MsgHeaderWrap_switch W)"
  by (auto simp: sw_ok_def MsgHeaderWrap_switch_def split: if_splits option.splits dest: readers_shrink)

lemma MsgHeaderWrap_chunk:
  assumes "MsgHeaderWrap_valid W m"
  shows "chunk W (MsgHeaderWrap_switch W) MsgHeaderWrap_add_unknown (MsgHeaderWrap_Serialize W m)
    (\<lambda>m0. MsgHeaderWrap_MergeFrom m0 m)"
proof -
  have msg_header: "chunk W (MsgHeaderWrap_switch W) MsgHeaderWrap_add_unknown
      (WriteMessageHead W 1 (MsgHeader_ByteSize W h) @ MsgHeader_Serialize W h)
      (\<lambda>m0. m0\<lparr>hw_msg_header := Some (MsgHeader_MergeFrom (MsgHeaderWrap_mutable_msg_header m0) h)\<rparr>)"
    if "hw_msg_header m = Some h" for h
    by (rule chunk_submessage [OF MsgHeader_codec, where get = MsgHeaderWrap_mutable_msg_header
          and put = "\<lambda>m0 h. m0\<lparr>hw_msg_header := Some h\<rparr>"])
      (use assms that MsgHeaderWrap_sw_ok in \<open>simp_all add: MsgHeaderWrap_switch_def MsgHeaderWrap_valid_def field_no_def\<close>)
  have unk: "hw_unknown m = []" using assms by (simp add: MsgHeaderWrap_valid_def)
  show ?thesis
    unfolding MsgHeaderWrap_Serialize_def unk unknown_out_Nil
    by (rule chunk_cong, (rule msg_header chunk_intros | assumption)+)
      (simp add: MsgHeaderWrap_MergeFrom_def Let_def unk  MsgHeaderWrap_mutable_msg_header_def split: option.splits)
qed

lemma MsgHeaderWrap_size:
  assumes "MsgHeaderWrap_valid W m"
  shows "MsgHeaderWrap_ByteSize W m = length (MsgHeaderWrap_Serialize W m)"
proof -
  have msg_header: "length (WriteMessageHead W 1 (MsgHeader_ByteSize W h) @ MsgHeader_Serialize W h)
    = 1 + LengthDelimitedSize W (MsgHeader_ByteSize W h)" if "hw_msg_header m = Some h" for h
    using assms that by (intro submessage_length) (simp_all add: MsgHeaderWrap_valid_def field_no_def MsgHeader_size)
  show ?thesis
    using assms msg_header
    by (simp add: MsgHeaderWrap_ByteSize_def MsgHeaderWrap_Serialize_def MsgHeaderWrap_valid_def field_lengths field_no_def
        del: length_concat split: option.splits)
qed

lemma MsgHeaderWrap_array: "MsgHeaderWrap_SerializeToArray W m t = t @ MsgHeaderWrap_Serialize W m"
  by (simp add: MsgHeaderWrap_SerializeToArray_def MsgHeaderWrap_Serialize_def Let_def to_array_laws MsgHeader_array
      split: option.splits)

lemma MsgHeaderWrap_codec: "message_codec (MsgHeaderWrap_MergePartial W) (MsgHeaderWrap_Serialize W) (MsgHeaderWrap_SerializeToArray W)
    (MsgHeaderWrap_ByteSize W) MsgHeaderWrap_MergeFrom MsgHeaderWrap_Clear (MsgHeaderWrap_valid W)"
  unfolding MsgHeaderWrap_MergePartial_def
  by (rule codecI [OF MsgHeaderWrap_sw_ok MsgHeaderWrap_chunk MsgHeaderWrap_size MsgHeaderWrap_array])
    (simp_all add: MsgHeaderWrap_Clear_eq MsgHeaderWrap_merge_ctor)

end

sublocale wire_format \<subseteq> MsgHeaderWrap: message_codec "MsgHeaderWrap_MergePartial W" "MsgHeaderWrap_Serialize W"
  "MsgHeaderWrap_SerializeToArray W" "MsgHeaderWrap_ByteSize W" MsgHeaderWrap_MergeFrom MsgHeaderWrap_Clear "MsgHeaderWrap_valid W"
  by (rule MsgHeaderWrap_codec)

section \<open>PairStrDbl\<close>

text \<open>
  A string key with a double.
\<close>

record PairStrDbl =
  psd_key :: "bytes"
  psd_val :: "64 word"
  psd_unknown :: bytes

definition PairStrDbl_SharedCtor :: PairStrDbl where
  "PairStrDbl_SharedCtor = \<lparr>psd_key = [], psd_val = 0, psd_unknown = []\<rparr>"

definition PairStrDbl_Clear :: "PairStrDbl \<Rightarrow> PairStrDbl" where
  "PairStrDbl_Clear m = m\<lparr>psd_key := [], psd_val := 0, psd_unknown := []\<rparr>"

definition PairStrDbl_switch :: "wirelib \<Rightarrow> 32 word \<Rightarrow> PairStrDbl \<Rightarrow> bytes \<Rightarrow> PairStrDbl fstep" where
  "PairStrDbl_switch W tag m s =
     (if GetTagFieldNumber tag = 1 then
       (if uint8 tag = 10 then
          Field (case ReadString W s of
            None \<Rightarrow> None
          | Some (v, s') \<Rightarrow> (if VerifyUtf8String W v then Some (m\<lparr>psd_key := v\<rparr>, s') else None))
        else Unusual)
      else if GetTagFieldNumber tag = 2 then
       (if uint8 tag = 17 then
          Field (case ReadDouble W s of
            None \<Rightarrow> None
          | Some (v, s') \<Rightarrow> Some (m\<lparr>psd_val := v\<rparr>, s'))
        else Unusual)
      else Unusual)"

definition PairStrDbl_add_unknown :: "bytes \<Rightarrow> PairStrDbl \<Rightarrow> PairStrDbl" where
  "PairStrDbl_add_unknown raw m = m\<lparr>psd_unknown := psd_unknown m @ raw\<rparr>"

definition PairStrDbl_MergePartial :: "wirelib \<Rightarrow> PairStrDbl \<Rightarrow> bytes \<Rightarrow> (PairStrDbl \<times> bytes) option" where
  "PairStrDbl_MergePartial W = merge_all W (PairStrDbl_switch W) PairStrDbl_add_unknown"

definition PairStrDbl_ByteSize :: "wirelib \<Rightarrow> PairStrDbl \<Rightarrow> nat" where
  "PairStrDbl_ByteSize W m =
     length (unknown_out W (psd_unknown m))
     + (if psd_key m \<noteq> [] then 1 + StringSize W (psd_key m) else 0)
     + (if dbl_nonzero (psd_val m) then 1 + 8 else 0)"

definition PairStrDbl_Serialize :: "wirelib \<Rightarrow> PairStrDbl \<Rightarrow> bytes" where
  "PairStrDbl_Serialize W m =
     (if psd_key m \<noteq> [] then WriteString W 1 (psd_key m) else [])
     @ (if dbl_nonzero (psd_val m) then WriteDouble W 2 (psd_val m) else [])
     @ unknown_out W (psd_unknown m)"

definition PairStrDbl_SerializeToArray :: "wirelib \<Rightarrow> PairStrDbl \<Rightarrow> bytes \<Rightarrow> bytes" where
  "PairStrDbl_SerializeToArray W m target =
     (let target1 = (if psd_key m \<noteq> [] then WriteStringToArray W 1 (psd_key m) target else target);
          target2 = (if dbl_nonzero (psd_val m) then WriteDoubleToArray W 2 (psd_val m) target1 else target1)
      in target2 @ unknown_out W (psd_unknown m))"

definition PairStrDbl_MergeFrom :: "PairStrDbl \<Rightarrow> PairStrDbl \<Rightarrow> PairStrDbl" where
  "PairStrDbl_MergeFrom this from =
     (let this0 = this\<lparr>psd_unknown := psd_unknown this @ psd_unknown from\<rparr>;
          this1 = (if psd_key from \<noteq> [] then this0\<lparr>psd_key := psd_key from\<rparr> else this0);
          this2 = (if dbl_nonzero (psd_val from) then this1\<lparr>psd_val := psd_val from\<rparr> else this1)
      in this2)"

definition PairStrDbl_CopyFrom :: "bool \<Rightarrow> PairStrDbl \<Rightarrow> PairStrDbl \<Rightarrow> PairStrDbl" where
  "PairStrDbl_CopyFrom same_object this from =
     (if same_object then this else PairStrDbl_MergeFrom (PairStrDbl_Clear this) from)"

definition PairStrDbl_InternalSwap :: "PairStrDbl \<Rightarrow> PairStrDbl \<Rightarrow> PairStrDbl \<times> PairStrDbl" where
  "PairStrDbl_InternalSwap this other =
     (this\<lparr>psd_key := psd_key other, psd_val := psd_val other, psd_unknown := psd_unknown other\<rparr>,
      other\<lparr>psd_key := psd_key this, psd_val := psd_val this, psd_unknown := psd_unknown this\<rparr>)"

definition PairStrDbl_valid :: "wirelib \<Rightarrow> PairStrDbl \<Rightarrow> bool" where
  "PairStrDbl_valid W m \<longleftrightarrow>
     len_ok (length (psd_key m)) \<and> VerifyUtf8String W (psd_key m) \<and>
     dbl_ok (psd_val m) \<and>
     psd_unknown m = []"

lemma PairStrDbl_swap: "PairStrDbl_InternalSwap a b = (b, a)"
  by (simp add: PairStrDbl_InternalSwap_def)

lemma PairStrDbl_Clear_eq: "PairStrDbl_Clear m = PairStrDbl_SharedCtor"
  by (simp add: PairStrDbl_Clear_def PairStrDbl_SharedCtor_def)

lemma PairStrDbl_merge_ctor: "PairStrDbl_valid W m \<Longrightarrow> PairStrDbl_MergeFrom PairStrDbl_SharedCtor m = m"
  by (cases m) (auto simp: PairStrDbl_MergeFrom_def PairStrDbl_SharedCtor_def PairStrDbl_valid_def dbl_ok_def Let_def 
      split: option.splits)

context wire_format
begin

lemma PairStrDbl_sw_ok: "sw_ok (PairStrDbl_switch W)"
  by (auto simp: sw_ok_def PairStrDbl_switch_def split: if_splits option.splits dest: readers_shrink)

lemma PairStrDbl_chunk:
  assumes "PairStrDbl_valid W m"
  shows "chunk W (PairStrDbl_switch W) PairStrDbl_add_unknown (PairStrDbl_Serialize W m)
    (\<lambda>m0. PairStrDbl_MergeFrom m0 m)"
proof -
  have key: "chunk W (PairStrDbl_switch W) PairStrDbl_add_unknown
      (WriteString W 1 (psd_key m)) (\<lambda>m0. m0\<lparr>psd_key := psd_key m\<rparr>)"
    by (rule chunk_field [OF string_codec PairStrDbl_sw_ok])
      (use assms in \<open>simp_all add: PairStrDbl_switch_def PairStrDbl_valid_def field_no_def\<close>)
  have val: "chunk W (PairStrDbl_switch W) PairStrDbl_add_unknown
      (WriteDouble W 2 (psd_val m)) (\<lambda>m0. m0\<lparr>psd_val := psd_val m\<rparr>)"
    by (rule chunk_field [OF double_codec PairStrDbl_sw_ok])
      (use assms in \<open>simp_all add: PairStrDbl_switch_def PairStrDbl_valid_def field_no_def\<close>)
  have unk: "psd_unknown m = []" using assms by (simp add: PairStrDbl_valid_def)
  show ?thesis
    unfolding PairStrDbl_Serialize_def unk unknown_out_Nil
    by (rule chunk_cong, (rule key val chunk_intros | assumption)+)
      (simp add: PairStrDbl_MergeFrom_def Let_def unk   split: option.splits)
qed

lemma PairStrDbl_size: "PairStrDbl_valid W m \<Longrightarrow> PairStrDbl_ByteSize W m = length (PairStrDbl_Serialize W m)"
  by (simp add: PairStrDbl_ByteSize_def PairStrDbl_Serialize_def PairStrDbl_valid_def field_lengths field_no_def)

lemma PairStrDbl_array: "PairStrDbl_SerializeToArray W m t = t @ PairStrDbl_Serialize W m"
  by (simp add: PairStrDbl_SerializeToArray_def PairStrDbl_Serialize_def Let_def to_array_laws 
      split: option.splits)

lemma PairStrDbl_codec: "message_codec (PairStrDbl_MergePartial W) (PairStrDbl_Serialize W) (PairStrDbl_SerializeToArray W)
    (PairStrDbl_ByteSize W) PairStrDbl_MergeFrom PairStrDbl_Clear (PairStrDbl_valid W)"
  unfolding PairStrDbl_MergePartial_def
  by (rule codecI [OF PairStrDbl_sw_ok PairStrDbl_chunk PairStrDbl_size PairStrDbl_array])
    (simp_all add: PairStrDbl_Clear_eq PairStrDbl_merge_ctor)

end

sublocale wire_format \<subseteq> PairStrDbl: message_codec "PairStrDbl_MergePartial W" "PairStrDbl_Serialize W"
  "PairStrDbl_SerializeToArray W" "PairStrDbl_ByteSize W" PairStrDbl_MergeFrom PairStrDbl_Clear "PairStrDbl_valid W"
  by (rule PairStrDbl_codec)

section \<open>PairIntDbl\<close>

text \<open>
  An \<open>int64\<close> key with a double.
\<close>

record PairIntDbl =
  pid_key :: "64 word"
  pid_val :: "64 word"
  pid_unknown :: bytes

definition PairIntDbl_SharedCtor :: PairIntDbl where
  "PairIntDbl_SharedCtor = \<lparr>pid_key = 0, pid_val = 0, pid_unknown = []\<rparr>"

definition PairIntDbl_Clear :: "PairIntDbl \<Rightarrow> PairIntDbl" where
  "PairIntDbl_Clear m = m\<lparr>pid_key := 0, pid_val := 0, pid_unknown := []\<rparr>"

definition PairIntDbl_switch :: "wirelib \<Rightarrow> 32 word \<Rightarrow> PairIntDbl \<Rightarrow> bytes \<Rightarrow> PairIntDbl fstep" where
  "PairIntDbl_switch W tag m s =
     (if GetTagFieldNumber tag = 1 then
       (if uint8 tag = 8 then
          Field (case ReadInt64 W s of
            None \<Rightarrow> None
          | Some (v, s') \<Rightarrow> Some (m\<lparr>pid_key := v\<rparr>, s'))
        else Unusual)
      else if GetTagFieldNumber tag = 2 then
       (if uint8 tag = 17 then
          Field (case ReadDouble W s of
            None \<Rightarrow> None
          | Some (v, s') \<Rightarrow> Some (m\<lparr>pid_val := v\<rparr>, s'))
        else Unusual)
      else Unusual)"

definition PairIntDbl_add_unknown :: "bytes \<Rightarrow> PairIntDbl \<Rightarrow> PairIntDbl" where
  "PairIntDbl_add_unknown raw m = m\<lparr>pid_unknown := pid_unknown m @ raw\<rparr>"

definition PairIntDbl_MergePartial :: "wirelib \<Rightarrow> PairIntDbl \<Rightarrow> bytes \<Rightarrow> (PairIntDbl \<times> bytes) option" where
  "PairIntDbl_MergePartial W = merge_all W (PairIntDbl_switch W) PairIntDbl_add_unknown"

definition PairIntDbl_ByteSize :: "wirelib \<Rightarrow> PairIntDbl \<Rightarrow> nat" where
  "PairIntDbl_ByteSize W m =
     length (unknown_out W (pid_unknown m))
     + (if pid_key m \<noteq> 0 then 1 + Int64Size W (pid_key m) else 0)
     + (if dbl_nonzero (pid_val m) then 1 + 8 else 0)"

definition PairIntDbl_Serialize :: "wirelib \<Rightarrow> PairIntDbl \<Rightarrow> bytes" where
  "PairIntDbl_Serialize W m =
     (if pid_key m \<noteq> 0 then WriteInt64 W 1 (pid_key m) else [])
     @ (if dbl_nonzero (pid_val m) then WriteDouble W 2 (pid_val m) else [])
     @ unknown_out W (pid_unknown m)"

definition PairIntDbl_SerializeToArray :: "wirelib \<Rightarrow> PairIntDbl \<Rightarrow> bytes \<Rightarrow> bytes" where
  "PairIntDbl_SerializeToArray W m target =
     (let target1 = (if pid_key m \<noteq> 0 then WriteInt64ToArray W 1 (pid_key m) target else target);
          target2 = (if dbl_nonzero (pid_val m) then WriteDoubleToArray W 2 (pid_val m) target1 else target1)
      in target2 @ unknown_out W (pid_unknown m))"

definition PairIntDbl_MergeFrom :: "PairIntDbl \<Rightarrow> PairIntDbl \<Rightarrow> PairIntDbl" where
  "PairIntDbl_MergeFrom this from =
     (let this0 = this\<lparr>pid_unknown := pid_unknown this @ pid_unknown from\<rparr>;
          this1 = (if pid_key from \<noteq> 0 then this0\<lparr>pid_key := pid_key from\<rparr> else this0);
          this2 = (if dbl_nonzero (pid_val from) then this1\<lparr>pid_val := pid_val from\<rparr> else this1)
      in this2)"

definition PairIntDbl_CopyFrom :: "bool \<Rightarrow> PairIntDbl \<Rightarrow> PairIntDbl \<Rightarrow> PairIntDbl" where
  "PairIntDbl_CopyFrom same_object this from =
     (if same_object then this else PairIntDbl_MergeFrom (PairIntDbl_Clear this) from)"

definition PairIntDbl_InternalSwap :: "PairIntDbl \<Rightarrow> PairIntDbl \<Rightarrow> PairIntDbl \<times> PairIntDbl" where
  "PairIntDbl_InternalSwap this other =
     (this\<lparr>pid_key := pid_key other, pid_val := pid_val other, pid_unknown := pid_unknown other\<rparr>,
      other\<lparr>pid_key := pid_key this, pid_val := pid_val this, pid_unknown := pid_unknown this\<rparr>)"

definition PairIntDbl_valid :: "wirelib \<Rightarrow> PairIntDbl \<Rightarrow> bool" where
  "PairIntDbl_valid W m \<longleftrightarrow>
     dbl_ok (pid_val m) \<and>
     pid_unknown m = []"

lemma PairIntDbl_swap: "PairIntDbl_InternalSwap a b = (b, a)"
  by (simp add: PairIntDbl_InternalSwap_def)

lemma PairIntDbl_Clear_eq: "PairIntDbl_Clear m = PairIntDbl_SharedCtor"
  by (simp add: PairIntDbl_Clear_def PairIntDbl_SharedCtor_def)

lemma PairIntDbl_merge_ctor: "PairIntDbl_valid W m \<Longrightarrow> PairIntDbl_MergeFrom PairIntDbl_SharedCtor m = m"
  by (cases m) (auto simp: PairIntDbl_MergeFrom_def PairIntDbl_SharedCtor_def PairIntDbl_valid_def dbl_ok_def Let_def 
      split: option.splits)

context wire_format
begin

lemma PairIntDbl_sw_ok: "sw_ok (PairIntDbl_switch W)"
  by (auto simp: sw_ok_def PairIntDbl_switch_def split: if_splits option.splits dest: readers_shrink)

lemma PairIntDbl_chunk:
  assumes "PairIntDbl_valid W m"
  shows "chunk W (PairIntDbl_switch W) PairIntDbl_add_unknown (PairIntDbl_Serialize W m)
    (\<lambda>m0. PairIntDbl_MergeFrom m0 m)"
proof -
  have key: "chunk W (PairIntDbl_switch W) PairIntDbl_add_unknown
      (WriteInt64 W 1 (pid_key m)) (\<lambda>m0. m0\<lparr>pid_key := pid_key m\<rparr>)"
    by (rule chunk_field [OF int64_codec PairIntDbl_sw_ok])
      (use assms in \<open>simp_all add: PairIntDbl_switch_def PairIntDbl_valid_def field_no_def\<close>)
  have val: "chunk W (PairIntDbl_switch W) PairIntDbl_add_unknown
      (WriteDouble W 2 (pid_val m)) (\<lambda>m0. m0\<lparr>pid_val := pid_val m\<rparr>)"
    by (rule chunk_field [OF double_codec PairIntDbl_sw_ok])
      (use assms in \<open>simp_all add: PairIntDbl_switch_def PairIntDbl_valid_def field_no_def\<close>)
  have unk: "pid_unknown m = []" using assms by (simp add: PairIntDbl_valid_def)
  show ?thesis
    unfolding PairIntDbl_Serialize_def unk unknown_out_Nil
    by (rule chunk_cong, (rule key val chunk_intros | assumption)+)
      (simp add: PairIntDbl_MergeFrom_def Let_def unk   split: option.splits)
qed

lemma PairIntDbl_size: "PairIntDbl_valid W m \<Longrightarrow> PairIntDbl_ByteSize W m = length (PairIntDbl_Serialize W m)"
  by (simp add: PairIntDbl_ByteSize_def PairIntDbl_Serialize_def PairIntDbl_valid_def field_lengths field_no_def)

lemma PairIntDbl_array: "PairIntDbl_SerializeToArray W m t = t @ PairIntDbl_Serialize W m"
  by (simp add: PairIntDbl_SerializeToArray_def PairIntDbl_Serialize_def Let_def to_array_laws 
      split: option.splits)

lemma PairIntDbl_codec: "message_codec (PairIntDbl_MergePartial W) (PairIntDbl_Serialize W) (PairIntDbl_SerializeToArray W)
    (PairIntDbl_ByteSize W) PairIntDbl_MergeFrom PairIntDbl_Clear (PairIntDbl_valid W)"
  unfolding PairIntDbl_MergePartial_def
  by (rule codecI [OF PairIntDbl_sw_ok PairIntDbl_chunk PairIntDbl_size PairIntDbl_array])
    (simp_all add: PairIntDbl_Clear_eq PairIntDbl_merge_ctor)

end

sublocale wire_format \<subseteq> PairIntDbl: message_codec "PairIntDbl_MergePartial W" "PairIntDbl_Serialize W"
  "PairIntDbl_SerializeToArray W" "PairIntDbl_ByteSize W" PairIntDbl_MergeFrom PairIntDbl_Clear "PairIntDbl_valid W"
  by (rule PairIntDbl_codec)

section \<open>PairStrStr\<close>

text \<open>
  A string key with a string: a parameter of a command, a line of a result.
\<close>

record PairStrStr =
  pss_key :: "bytes"
  pss_val :: "bytes"
  pss_unknown :: bytes

definition PairStrStr_SharedCtor :: PairStrStr where
  "PairStrStr_SharedCtor = \<lparr>pss_key = [], pss_val = [], pss_unknown = []\<rparr>"

definition PairStrStr_Clear :: "PairStrStr \<Rightarrow> PairStrStr" where
  "PairStrStr_Clear m = m\<lparr>pss_key := [], pss_val := [], pss_unknown := []\<rparr>"

definition PairStrStr_switch :: "wirelib \<Rightarrow> 32 word \<Rightarrow> PairStrStr \<Rightarrow> bytes \<Rightarrow> PairStrStr fstep" where
  "PairStrStr_switch W tag m s =
     (if GetTagFieldNumber tag = 1 then
       (if uint8 tag = 10 then
          Field (case ReadString W s of
            None \<Rightarrow> None
          | Some (v, s') \<Rightarrow> (if VerifyUtf8String W v then Some (m\<lparr>pss_key := v\<rparr>, s') else None))
        else Unusual)
      else if GetTagFieldNumber tag = 2 then
       (if uint8 tag = 18 then
          Field (case ReadString W s of
            None \<Rightarrow> None
          | Some (v, s') \<Rightarrow> (if VerifyUtf8String W v then Some (m\<lparr>pss_val := v\<rparr>, s') else None))
        else Unusual)
      else Unusual)"

definition PairStrStr_add_unknown :: "bytes \<Rightarrow> PairStrStr \<Rightarrow> PairStrStr" where
  "PairStrStr_add_unknown raw m = m\<lparr>pss_unknown := pss_unknown m @ raw\<rparr>"

definition PairStrStr_MergePartial :: "wirelib \<Rightarrow> PairStrStr \<Rightarrow> bytes \<Rightarrow> (PairStrStr \<times> bytes) option" where
  "PairStrStr_MergePartial W = merge_all W (PairStrStr_switch W) PairStrStr_add_unknown"

definition PairStrStr_ByteSize :: "wirelib \<Rightarrow> PairStrStr \<Rightarrow> nat" where
  "PairStrStr_ByteSize W m =
     length (unknown_out W (pss_unknown m))
     + (if pss_key m \<noteq> [] then 1 + StringSize W (pss_key m) else 0)
     + (if pss_val m \<noteq> [] then 1 + StringSize W (pss_val m) else 0)"

definition PairStrStr_Serialize :: "wirelib \<Rightarrow> PairStrStr \<Rightarrow> bytes" where
  "PairStrStr_Serialize W m =
     (if pss_key m \<noteq> [] then WriteString W 1 (pss_key m) else [])
     @ (if pss_val m \<noteq> [] then WriteString W 2 (pss_val m) else [])
     @ unknown_out W (pss_unknown m)"

definition PairStrStr_SerializeToArray :: "wirelib \<Rightarrow> PairStrStr \<Rightarrow> bytes \<Rightarrow> bytes" where
  "PairStrStr_SerializeToArray W m target =
     (let target1 = (if pss_key m \<noteq> [] then WriteStringToArray W 1 (pss_key m) target else target);
          target2 = (if pss_val m \<noteq> [] then WriteStringToArray W 2 (pss_val m) target1 else target1)
      in target2 @ unknown_out W (pss_unknown m))"

definition PairStrStr_MergeFrom :: "PairStrStr \<Rightarrow> PairStrStr \<Rightarrow> PairStrStr" where
  "PairStrStr_MergeFrom this from =
     (let this0 = this\<lparr>pss_unknown := pss_unknown this @ pss_unknown from\<rparr>;
          this1 = (if pss_key from \<noteq> [] then this0\<lparr>pss_key := pss_key from\<rparr> else this0);
          this2 = (if pss_val from \<noteq> [] then this1\<lparr>pss_val := pss_val from\<rparr> else this1)
      in this2)"

definition PairStrStr_CopyFrom :: "bool \<Rightarrow> PairStrStr \<Rightarrow> PairStrStr \<Rightarrow> PairStrStr" where
  "PairStrStr_CopyFrom same_object this from =
     (if same_object then this else PairStrStr_MergeFrom (PairStrStr_Clear this) from)"

definition PairStrStr_InternalSwap :: "PairStrStr \<Rightarrow> PairStrStr \<Rightarrow> PairStrStr \<times> PairStrStr" where
  "PairStrStr_InternalSwap this other =
     (this\<lparr>pss_key := pss_key other, pss_val := pss_val other, pss_unknown := pss_unknown other\<rparr>,
      other\<lparr>pss_key := pss_key this, pss_val := pss_val this, pss_unknown := pss_unknown this\<rparr>)"

definition PairStrStr_valid :: "wirelib \<Rightarrow> PairStrStr \<Rightarrow> bool" where
  "PairStrStr_valid W m \<longleftrightarrow>
     len_ok (length (pss_key m)) \<and> VerifyUtf8String W (pss_key m) \<and>
     len_ok (length (pss_val m)) \<and> VerifyUtf8String W (pss_val m) \<and>
     pss_unknown m = []"

lemma PairStrStr_swap: "PairStrStr_InternalSwap a b = (b, a)"
  by (simp add: PairStrStr_InternalSwap_def)

lemma PairStrStr_Clear_eq: "PairStrStr_Clear m = PairStrStr_SharedCtor"
  by (simp add: PairStrStr_Clear_def PairStrStr_SharedCtor_def)

lemma PairStrStr_merge_ctor: "PairStrStr_valid W m \<Longrightarrow> PairStrStr_MergeFrom PairStrStr_SharedCtor m = m"
  by (cases m) (auto simp: PairStrStr_MergeFrom_def PairStrStr_SharedCtor_def PairStrStr_valid_def dbl_ok_def Let_def 
      split: option.splits)

context wire_format
begin

lemma PairStrStr_sw_ok: "sw_ok (PairStrStr_switch W)"
  by (auto simp: sw_ok_def PairStrStr_switch_def split: if_splits option.splits dest: readers_shrink)

lemma PairStrStr_chunk:
  assumes "PairStrStr_valid W m"
  shows "chunk W (PairStrStr_switch W) PairStrStr_add_unknown (PairStrStr_Serialize W m)
    (\<lambda>m0. PairStrStr_MergeFrom m0 m)"
proof -
  have key: "chunk W (PairStrStr_switch W) PairStrStr_add_unknown
      (WriteString W 1 (pss_key m)) (\<lambda>m0. m0\<lparr>pss_key := pss_key m\<rparr>)"
    by (rule chunk_field [OF string_codec PairStrStr_sw_ok])
      (use assms in \<open>simp_all add: PairStrStr_switch_def PairStrStr_valid_def field_no_def\<close>)
  have val: "chunk W (PairStrStr_switch W) PairStrStr_add_unknown
      (WriteString W 2 (pss_val m)) (\<lambda>m0. m0\<lparr>pss_val := pss_val m\<rparr>)"
    by (rule chunk_field [OF string_codec PairStrStr_sw_ok])
      (use assms in \<open>simp_all add: PairStrStr_switch_def PairStrStr_valid_def field_no_def\<close>)
  have unk: "pss_unknown m = []" using assms by (simp add: PairStrStr_valid_def)
  show ?thesis
    unfolding PairStrStr_Serialize_def unk unknown_out_Nil
    by (rule chunk_cong, (rule key val chunk_intros | assumption)+)
      (simp add: PairStrStr_MergeFrom_def Let_def unk   split: option.splits)
qed

lemma PairStrStr_size: "PairStrStr_valid W m \<Longrightarrow> PairStrStr_ByteSize W m = length (PairStrStr_Serialize W m)"
  by (simp add: PairStrStr_ByteSize_def PairStrStr_Serialize_def PairStrStr_valid_def field_lengths field_no_def)

lemma PairStrStr_array: "PairStrStr_SerializeToArray W m t = t @ PairStrStr_Serialize W m"
  by (simp add: PairStrStr_SerializeToArray_def PairStrStr_Serialize_def Let_def to_array_laws 
      split: option.splits)

lemma PairStrStr_codec: "message_codec (PairStrStr_MergePartial W) (PairStrStr_Serialize W) (PairStrStr_SerializeToArray W)
    (PairStrStr_ByteSize W) PairStrStr_MergeFrom PairStrStr_Clear (PairStrStr_valid W)"
  unfolding PairStrStr_MergePartial_def
  by (rule codecI [OF PairStrStr_sw_ok PairStrStr_chunk PairStrStr_size PairStrStr_array])
    (simp_all add: PairStrStr_Clear_eq PairStrStr_merge_ctor)

end

sublocale wire_format \<subseteq> PairStrStr: message_codec "PairStrStr_MergePartial W" "PairStrStr_Serialize W"
  "PairStrStr_SerializeToArray W" "PairStrStr_ByteSize W" PairStrStr_MergeFrom PairStrStr_Clear "PairStrStr_valid W"
  by (rule PairStrStr_codec)

section \<open>MsgVal\<close>

text \<open>
  The \<open>oneof\<close> of the class: the union \<open>msg_val_\<close> together with its case \<open>_oneof_case_[0]\<close> is
  one datatype.  Setting a member first clears the one that was set.
\<close>

datatype msg_val =
    I32Val "32 word"
  | I64Val "64 word"
  | F64Val "64 word"
  | StrVal bytes
  | MSG_VAL_NOT_SET

record MsgVal =
  mv_msg_val :: msg_val
  mv_unknown :: bytes

definition MsgVal_SharedCtor :: MsgVal where
  "MsgVal_SharedCtor = \<lparr>mv_msg_val = MSG_VAL_NOT_SET, mv_unknown = []\<rparr>"

definition MsgVal_clear_msg_val :: "MsgVal \<Rightarrow> MsgVal" where
  "MsgVal_clear_msg_val m = m\<lparr>mv_msg_val := MSG_VAL_NOT_SET\<rparr>"

definition MsgVal_Clear :: "MsgVal \<Rightarrow> MsgVal" where
  "MsgVal_Clear m = (MsgVal_clear_msg_val m)\<lparr>mv_unknown := []\<rparr>"

definition MsgVal_switch :: "wirelib \<Rightarrow> 32 word \<Rightarrow> MsgVal \<Rightarrow> bytes \<Rightarrow> MsgVal fstep" where
  "MsgVal_switch W tag m s =
     (if GetTagFieldNumber tag = 1 then
       (if uint8 tag = 8 then
          (let m1 = MsgVal_clear_msg_val m in
           Field (case ReadInt32 W s of
               None \<Rightarrow> None
             | Some (v, s') \<Rightarrow> Some (m1\<lparr>mv_msg_val := I32Val v\<rparr>, s')))
        else Unusual)
      else if GetTagFieldNumber tag = 2 then
       (if uint8 tag = 16 then
          (let m1 = MsgVal_clear_msg_val m in
           Field (case ReadInt64 W s of
               None \<Rightarrow> None
             | Some (v, s') \<Rightarrow> Some (m1\<lparr>mv_msg_val := I64Val v\<rparr>, s')))
        else Unusual)
      else if GetTagFieldNumber tag = 3 then
       (if uint8 tag = 25 then
          (let m1 = MsgVal_clear_msg_val m in
           Field (case ReadDouble W s of
               None \<Rightarrow> None
             | Some (v, s') \<Rightarrow> Some (m1\<lparr>mv_msg_val := F64Val v\<rparr>, s')))
        else Unusual)
      else if GetTagFieldNumber tag = 4 then
       (if uint8 tag = 34 then
          Field (case ReadString W s of
              None \<Rightarrow> None
            | Some (v, s') \<Rightarrow>
                (if VerifyUtf8String W v then Some (m\<lparr>mv_msg_val := StrVal v\<rparr>, s') else None))
        else Unusual)
      else Unusual)"

definition MsgVal_add_unknown :: "bytes \<Rightarrow> MsgVal \<Rightarrow> MsgVal" where
  "MsgVal_add_unknown raw m = m\<lparr>mv_unknown := mv_unknown m @ raw\<rparr>"

definition MsgVal_MergePartial :: "wirelib \<Rightarrow> MsgVal \<Rightarrow> bytes \<Rightarrow> (MsgVal \<times> bytes) option" where
  "MsgVal_MergePartial W = merge_all W (MsgVal_switch W) MsgVal_add_unknown"

definition MsgVal_ByteSize :: "wirelib \<Rightarrow> MsgVal \<Rightarrow> nat" where
  "MsgVal_ByteSize W m =
     length (unknown_out W (mv_unknown m))
     + (case mv_msg_val m of
          I32Val v \<Rightarrow> 1 + Int32Size W v
        | I64Val v \<Rightarrow> 1 + Int64Size W v
        | F64Val v \<Rightarrow> 1 + 8
        | StrVal v \<Rightarrow> 1 + StringSize W v
        | MSG_VAL_NOT_SET \<Rightarrow> 0)"

text \<open>The serializers test the members one after the other (\<open>has_i32_val ()\<close> and so on).\<close>

definition MsgVal_Serialize :: "wirelib \<Rightarrow> MsgVal \<Rightarrow> bytes" where
  "MsgVal_Serialize W m =
     (case mv_msg_val m of I32Val v \<Rightarrow> WriteInt32 W 1 v | _ \<Rightarrow> [])
     @ (case mv_msg_val m of I64Val v \<Rightarrow> WriteInt64 W 2 v | _ \<Rightarrow> [])
     @ (case mv_msg_val m of F64Val v \<Rightarrow> WriteDouble W 3 v | _ \<Rightarrow> [])
     @ (case mv_msg_val m of StrVal v \<Rightarrow> WriteString W 4 v | _ \<Rightarrow> [])
     @ unknown_out W (mv_unknown m)"

definition MsgVal_SerializeToArray :: "wirelib \<Rightarrow> MsgVal \<Rightarrow> bytes \<Rightarrow> bytes" where
  "MsgVal_SerializeToArray W m target =
     (let target1 = (case mv_msg_val m of I32Val v \<Rightarrow> WriteInt32ToArray W 1 v target | _ \<Rightarrow> target);
          target2 = (case mv_msg_val m of I64Val v \<Rightarrow> WriteInt64ToArray W 2 v target1 | _ \<Rightarrow> target1);
          target3 = (case mv_msg_val m of F64Val v \<Rightarrow> WriteDoubleToArray W 3 v target2 | _ \<Rightarrow> target2);
          target4 = (case mv_msg_val m of StrVal v \<Rightarrow> WriteStringToArray W 4 v target3 | _ \<Rightarrow> target3)
      in target4 @ unknown_out W (mv_unknown m))"

definition MsgVal_MergeFrom :: "MsgVal \<Rightarrow> MsgVal \<Rightarrow> MsgVal" where
  "MsgVal_MergeFrom this from =
     (let this0 = this\<lparr>mv_unknown := mv_unknown this @ mv_unknown from\<rparr>
      in case mv_msg_val from of
           I32Val v \<Rightarrow> this0\<lparr>mv_msg_val := I32Val v\<rparr>
         | I64Val v \<Rightarrow> this0\<lparr>mv_msg_val := I64Val v\<rparr>
         | F64Val v \<Rightarrow> this0\<lparr>mv_msg_val := F64Val v\<rparr>
         | StrVal v \<Rightarrow> this0\<lparr>mv_msg_val := StrVal v\<rparr>
         | MSG_VAL_NOT_SET \<Rightarrow> this0)"

definition MsgVal_CopyFrom :: "bool \<Rightarrow> MsgVal \<Rightarrow> MsgVal \<Rightarrow> MsgVal" where
  "MsgVal_CopyFrom same_object this from =
     (if same_object then this else MsgVal_MergeFrom (MsgVal_Clear this) from)"

definition MsgVal_InternalSwap :: "MsgVal \<Rightarrow> MsgVal \<Rightarrow> MsgVal \<times> MsgVal" where
  "MsgVal_InternalSwap this other =
     (this\<lparr>mv_msg_val := mv_msg_val other, mv_unknown := mv_unknown other\<rparr>,
      other\<lparr>mv_msg_val := mv_msg_val this, mv_unknown := mv_unknown this\<rparr>)"

definition MsgVal_valid :: "wirelib \<Rightarrow> MsgVal \<Rightarrow> bool" where
  "MsgVal_valid W m \<longleftrightarrow>
     (case mv_msg_val m of StrVal v \<Rightarrow> len_ok (length v) \<and> VerifyUtf8String W v | _ \<Rightarrow> True) \<and>
     mv_unknown m = []"

lemma MsgVal_swap: "MsgVal_InternalSwap a b = (b, a)"
  by (simp add: MsgVal_InternalSwap_def)

lemma MsgVal_Clear_eq: "MsgVal_Clear m = MsgVal_SharedCtor"
  by (simp add: MsgVal_Clear_def MsgVal_SharedCtor_def MsgVal_clear_msg_val_def)

lemma MsgVal_merge_ctor: "MsgVal_valid W m \<Longrightarrow> MsgVal_MergeFrom MsgVal_SharedCtor m = m"
  by (cases m)
    (simp add: MsgVal_MergeFrom_def MsgVal_SharedCtor_def MsgVal_valid_def split: msg_val.splits)

context wire_format
begin

lemma MsgVal_sw_ok: "sw_ok (MsgVal_switch W)"
  by (auto simp: sw_ok_def MsgVal_switch_def Let_def split: if_splits option.splits
      dest: readers_shrink)

lemma MsgVal_chunk:
  assumes "MsgVal_valid W m"
  shows "chunk W (MsgVal_switch W) MsgVal_add_unknown (MsgVal_Serialize W m)
    (\<lambda>m0. MsgVal_MergeFrom m0 m)"
proof -
  have i32: "chunk W (MsgVal_switch W) MsgVal_add_unknown
      (WriteInt32 W 1 v) (\<lambda>m0. m0\<lparr>mv_msg_val := I32Val v\<rparr>)" for v
    by (rule chunk_field [OF int32_codec MsgVal_sw_ok])
      (simp_all add: MsgVal_switch_def MsgVal_clear_msg_val_def field_no_def)
  have i64: "chunk W (MsgVal_switch W) MsgVal_add_unknown
      (WriteInt64 W 2 v) (\<lambda>m0. m0\<lparr>mv_msg_val := I64Val v\<rparr>)" for v
    by (rule chunk_field [OF int64_codec MsgVal_sw_ok])
      (simp_all add: MsgVal_switch_def MsgVal_clear_msg_val_def field_no_def)
  have f64: "chunk W (MsgVal_switch W) MsgVal_add_unknown
      (WriteDouble W 3 v) (\<lambda>m0. m0\<lparr>mv_msg_val := F64Val v\<rparr>)" for v
    by (rule chunk_field [OF double_codec MsgVal_sw_ok])
      (simp_all add: MsgVal_switch_def MsgVal_clear_msg_val_def field_no_def)
  have str: "chunk W (MsgVal_switch W) MsgVal_add_unknown
      (WriteString W 4 v) (\<lambda>m0. m0\<lparr>mv_msg_val := StrVal v\<rparr>)" if "mv_msg_val m = StrVal v" for v
    by (rule chunk_field [OF string_codec MsgVal_sw_ok])
      (use assms that in \<open>simp_all add: MsgVal_switch_def MsgVal_valid_def field_no_def\<close>)
  have unk: "mv_unknown m = []" using assms by (simp add: MsgVal_valid_def)
  show ?thesis
    unfolding MsgVal_Serialize_def unk unknown_out_Nil
    by (cases "mv_msg_val m"; rule chunk_cong)
      (auto simp: MsgVal_MergeFrom_def unk chunk_Nil simp del: One_nat_def
        intro: i32 i64 f64 str)
qed

lemma MsgVal_size: "MsgVal_valid W m \<Longrightarrow> MsgVal_ByteSize W m = length (MsgVal_Serialize W m)"
  by (cases "mv_msg_val m")
    (simp_all add: MsgVal_ByteSize_def MsgVal_Serialize_def MsgVal_valid_def field_lengths
      field_no_def)

lemma MsgVal_array: "MsgVal_SerializeToArray W m t = t @ MsgVal_Serialize W m"
  by (cases "mv_msg_val m")
    (simp_all add: MsgVal_SerializeToArray_def MsgVal_Serialize_def to_array_laws)

lemma MsgVal_codec: "message_codec (MsgVal_MergePartial W) (MsgVal_Serialize W)
    (MsgVal_SerializeToArray W) (MsgVal_ByteSize W) MsgVal_MergeFrom MsgVal_Clear (MsgVal_valid W)"
  unfolding MsgVal_MergePartial_def
  by (rule codecI [OF MsgVal_sw_ok MsgVal_chunk MsgVal_size MsgVal_array])
    (simp_all add: MsgVal_Clear_eq MsgVal_merge_ctor)

end

sublocale wire_format \<subseteq> MsgVal: message_codec "MsgVal_MergePartial W" "MsgVal_Serialize W"
  "MsgVal_SerializeToArray W" "MsgVal_ByteSize W" MsgVal_MergeFrom MsgVal_Clear "MsgVal_valid W"
  by (rule MsgVal_codec)

end
