(* ===== verification/AdminMsg.thy ===== *)
theory AdminMsg
  imports AdminPairs
begin

text \<open>
  The messages of \<open>qdcadm/AdminMsg.pb.cc\<close> that travel as packets (\<open>MsgResult\<close>, \<open>MsgCmd\<close>,
  \<open>MsgMetrics\<close>), modelled as the small ones are.
\<close>

section \<open>MsgResult\<close>

text \<open>
  The answer to a command: return code, message and the pairs to show.
\<close>

record MsgResult =
  mr_msg_header :: "MsgHeader option"
  mr_rc :: "bytes"
  mr_msg :: "bytes"
  mr_rt_pairs :: "PairStrStr list"
  mr_unknown :: bytes

definition MsgResult_SharedCtor :: MsgResult where
  "MsgResult_SharedCtor = \<lparr>mr_msg_header = None, mr_rc = [], mr_msg = [], mr_rt_pairs = [], mr_unknown = []\<rparr>"

definition MsgResult_Clear :: "MsgResult \<Rightarrow> MsgResult" where
  "MsgResult_Clear m = m\<lparr>mr_msg_header := None, mr_rc := [], mr_msg := [], mr_rt_pairs := [], mr_unknown := []\<rparr>"

definition MsgResult_mutable_msg_header :: "MsgResult \<Rightarrow> MsgHeader" where
  "MsgResult_mutable_msg_header m =
     (case mr_msg_header m of None \<Rightarrow> MsgHeader_SharedCtor | Some h \<Rightarrow> h)"

definition MsgResult_switch :: "wirelib \<Rightarrow> 32 word \<Rightarrow> MsgResult \<Rightarrow> bytes \<Rightarrow> MsgResult fstep" where
  "MsgResult_switch W tag m s =
     (if GetTagFieldNumber tag = 1 then
       (if uint8 tag = 10 then
          Field (case read_message W (MsgHeader_MergePartial W) (MsgResult_mutable_msg_header m) s of
            None \<Rightarrow> None
          | Some (h, s') \<Rightarrow> Some (m\<lparr>mr_msg_header := Some h\<rparr>, s'))
        else Unusual)
      else if GetTagFieldNumber tag = 2 then
       (if uint8 tag = 18 then
          Field (case ReadString W s of
            None \<Rightarrow> None
          | Some (v, s') \<Rightarrow> (if VerifyUtf8String W v then Some (m\<lparr>mr_rc := v\<rparr>, s') else None))
        else Unusual)
      else if GetTagFieldNumber tag = 3 then
       (if uint8 tag = 26 then
          Field (case ReadString W s of
            None \<Rightarrow> None
          | Some (v, s') \<Rightarrow> (if VerifyUtf8String W v then Some (m\<lparr>mr_msg := v\<rparr>, s') else None))
        else Unusual)
      else if GetTagFieldNumber tag = 4 then
       (if uint8 tag = 34 then
          Field (case read_message W (PairStrStr_MergePartial W) PairStrStr_SharedCtor s of
            None \<Rightarrow> None
          | Some (x, s') \<Rightarrow> Some (m\<lparr>mr_rt_pairs := mr_rt_pairs m @ [x]\<rparr>, s'))
        else Unusual)
      else Unusual)"

definition MsgResult_add_unknown :: "bytes \<Rightarrow> MsgResult \<Rightarrow> MsgResult" where
  "MsgResult_add_unknown raw m = m\<lparr>mr_unknown := mr_unknown m @ raw\<rparr>"

definition MsgResult_MergePartial :: "wirelib \<Rightarrow> MsgResult \<Rightarrow> bytes \<Rightarrow> (MsgResult \<times> bytes) option" where
  "MsgResult_MergePartial W = merge_all W (MsgResult_switch W) MsgResult_add_unknown"

definition MsgResult_ByteSize :: "wirelib \<Rightarrow> MsgResult \<Rightarrow> nat" where
  "MsgResult_ByteSize W m =
     length (unknown_out W (mr_unknown m))
     + 1 * length (mr_rt_pairs m) + sum_list (map (\<lambda>x. LengthDelimitedSize W (PairStrStr_ByteSize W x)) (mr_rt_pairs m))
     + (if mr_rc m \<noteq> [] then 1 + StringSize W (mr_rc m) else 0)
     + (if mr_msg m \<noteq> [] then 1 + StringSize W (mr_msg m) else 0)
     + (case mr_msg_header m of None \<Rightarrow> 0 | Some h \<Rightarrow> 1 + LengthDelimitedSize W (MsgHeader_ByteSize W h))"

definition MsgResult_Serialize :: "wirelib \<Rightarrow> MsgResult \<Rightarrow> bytes" where
  "MsgResult_Serialize W m =
     (case mr_msg_header m of None \<Rightarrow> []
      | Some h \<Rightarrow> WriteMessageHead W 1 (MsgHeader_ByteSize W h) @ MsgHeader_Serialize W h)
     @ (if mr_rc m \<noteq> [] then WriteString W 2 (mr_rc m) else [])
     @ (if mr_msg m \<noteq> [] then WriteString W 3 (mr_msg m) else [])
     @ concat (map (\<lambda>x. WriteMessageHead W 4 (PairStrStr_ByteSize W x) @ PairStrStr_Serialize W x) (mr_rt_pairs m))
     @ unknown_out W (mr_unknown m)"

definition MsgResult_SerializeToArray :: "wirelib \<Rightarrow> MsgResult \<Rightarrow> bytes \<Rightarrow> bytes" where
  "MsgResult_SerializeToArray W m target =
     (let target1 = (case mr_msg_header m of None \<Rightarrow> target
         | Some h \<Rightarrow> MsgHeader_SerializeToArray W h
             (WriteMessageHeadToArray W 1 (MsgHeader_ByteSize W h) target));
          target2 = (if mr_rc m \<noteq> [] then WriteStringToArray W 2 (mr_rc m) target1 else target1);
          target3 = (if mr_msg m \<noteq> [] then WriteStringToArray W 3 (mr_msg m) target2 else target2);
          target4 = fold (\<lambda>x t. PairStrStr_SerializeToArray W x
           (WriteMessageHeadToArray W 4 (PairStrStr_ByteSize W x) t)) (mr_rt_pairs m) target3
      in target4 @ unknown_out W (mr_unknown m))"

definition MsgResult_MergeFrom :: "MsgResult \<Rightarrow> MsgResult \<Rightarrow> MsgResult" where
  "MsgResult_MergeFrom this from =
     (let this0 = this\<lparr>mr_unknown := mr_unknown this @ mr_unknown from\<rparr>;
          this1 = this0\<lparr>mr_rt_pairs := mr_rt_pairs this0 @ map (PairStrStr_MergeFrom PairStrStr_SharedCtor) (mr_rt_pairs from)\<rparr>;
          this2 = (if mr_rc from \<noteq> [] then this1\<lparr>mr_rc := mr_rc from\<rparr> else this1);
          this3 = (if mr_msg from \<noteq> [] then this2\<lparr>mr_msg := mr_msg from\<rparr> else this2);
          this4 = (case mr_msg_header from of None \<Rightarrow> this3
         | Some h \<Rightarrow> this3\<lparr>mr_msg_header := Some (MsgHeader_MergeFrom (MsgResult_mutable_msg_header this3) h)\<rparr>)
      in this4)"

definition MsgResult_CopyFrom :: "bool \<Rightarrow> MsgResult \<Rightarrow> MsgResult \<Rightarrow> MsgResult" where
  "MsgResult_CopyFrom same_object this from =
     (if same_object then this else MsgResult_MergeFrom (MsgResult_Clear this) from)"

definition MsgResult_InternalSwap :: "MsgResult \<Rightarrow> MsgResult \<Rightarrow> MsgResult \<times> MsgResult" where
  "MsgResult_InternalSwap this other =
     (this\<lparr>mr_msg_header := mr_msg_header other, mr_rc := mr_rc other, mr_msg := mr_msg other, mr_rt_pairs := mr_rt_pairs other, mr_unknown := mr_unknown other\<rparr>,
      other\<lparr>mr_msg_header := mr_msg_header this, mr_rc := mr_rc this, mr_msg := mr_msg this, mr_rt_pairs := mr_rt_pairs this, mr_unknown := mr_unknown this\<rparr>)"

definition MsgResult_valid :: "wirelib \<Rightarrow> MsgResult \<Rightarrow> bool" where
  "MsgResult_valid W m \<longleftrightarrow>
     (case mr_msg_header m of None \<Rightarrow> True | Some h \<Rightarrow> MsgHeader_valid W h \<and> len_ok (length (MsgHeader_Serialize W h))) \<and>
     len_ok (length (mr_rc m)) \<and> VerifyUtf8String W (mr_rc m) \<and>
     len_ok (length (mr_msg m)) \<and> VerifyUtf8String W (mr_msg m) \<and>
     list_all (\<lambda>x. PairStrStr_valid W x \<and> len_ok (length (PairStrStr_Serialize W x))) (mr_rt_pairs m) \<and>
     mr_unknown m = []"

lemma MsgResult_fold_rt_pairs:
  "fold (\<lambda>x m0. m0\<lparr>mr_rt_pairs := mr_rt_pairs m0 @ [g x]\<rparr>) xs m0 =
    m0\<lparr>mr_rt_pairs := mr_rt_pairs m0 @ map g xs\<rparr>"
  by (induction xs arbitrary: m0) simp_all

lemma MsgResult_swap: "MsgResult_InternalSwap a b = (b, a)"
  by (simp add: MsgResult_InternalSwap_def)

lemma MsgResult_Clear_eq: "MsgResult_Clear m = MsgResult_SharedCtor"
  by (simp add: MsgResult_Clear_def MsgResult_SharedCtor_def)

lemma MsgResult_merge_ctor: "MsgResult_valid W m \<Longrightarrow> MsgResult_MergeFrom MsgResult_SharedCtor m = m"
  by (cases m) (auto simp: MsgResult_MergeFrom_def MsgResult_SharedCtor_def MsgResult_valid_def dbl_ok_def Let_def MsgResult_mutable_msg_header_def MsgHeader_merge_ctor PairStrStr_merge_ctor list_all_iff intro!: map_idI
      split: option.splits)

context wire_format
begin

lemma MsgResult_sw_ok: "sw_ok (MsgResult_switch W)"
  by (auto simp: sw_ok_def MsgResult_switch_def split: if_splits option.splits dest: readers_shrink)

lemma MsgResult_chunk:
  assumes "MsgResult_valid W m"
  shows "chunk W (MsgResult_switch W) MsgResult_add_unknown (MsgResult_Serialize W m)
    (\<lambda>m0. MsgResult_MergeFrom m0 m)"
proof -
  have msg_header: "chunk W (MsgResult_switch W) MsgResult_add_unknown
      (WriteMessageHead W 1 (MsgHeader_ByteSize W h) @ MsgHeader_Serialize W h)
      (\<lambda>m0. m0\<lparr>mr_msg_header := Some (MsgHeader_MergeFrom (MsgResult_mutable_msg_header m0) h)\<rparr>)"
    if "mr_msg_header m = Some h" for h
    by (rule chunk_submessage [OF MsgHeader_codec, where get = MsgResult_mutable_msg_header
          and put = "\<lambda>m0 h. m0\<lparr>mr_msg_header := Some h\<rparr>"])
      (use assms that MsgResult_sw_ok in \<open>simp_all add: MsgResult_switch_def MsgResult_valid_def field_no_def\<close>)
  have rc: "chunk W (MsgResult_switch W) MsgResult_add_unknown
      (WriteString W 2 (mr_rc m)) (\<lambda>m0. m0\<lparr>mr_rc := mr_rc m\<rparr>)"
    by (rule chunk_field [OF string_codec MsgResult_sw_ok])
      (use assms in \<open>simp_all add: MsgResult_switch_def MsgResult_valid_def field_no_def\<close>)
  have msg: "chunk W (MsgResult_switch W) MsgResult_add_unknown
      (WriteString W 3 (mr_msg m)) (\<lambda>m0. m0\<lparr>mr_msg := mr_msg m\<rparr>)"
    by (rule chunk_field [OF string_codec MsgResult_sw_ok])
      (use assms in \<open>simp_all add: MsgResult_switch_def MsgResult_valid_def field_no_def\<close>)
  have rt_pairs: "chunk W (MsgResult_switch W) MsgResult_add_unknown
      (WriteMessageHead W 4 (PairStrStr_ByteSize W x) @ PairStrStr_Serialize W x)
      (\<lambda>m0. m0\<lparr>mr_rt_pairs := mr_rt_pairs m0 @ [PairStrStr_MergeFrom PairStrStr_SharedCtor x]\<rparr>)"
    if "x \<in> set (mr_rt_pairs m)" for x
    by (rule chunk_submessage [OF PairStrStr_codec, where get = "\<lambda>_. PairStrStr_SharedCtor"
          and put = "\<lambda>m0 x. m0\<lparr>mr_rt_pairs := mr_rt_pairs m0 @ [x]\<rparr>"])
      (use assms that MsgResult_sw_ok in \<open>simp_all add: MsgResult_switch_def MsgResult_valid_def field_no_def list_all_iff\<close>)
  have unk: "mr_unknown m = []" using assms by (simp add: MsgResult_valid_def)
  show ?thesis
    unfolding MsgResult_Serialize_def unk unknown_out_Nil
    by (rule chunk_cong, (rule msg_header rc msg rt_pairs chunk_intros | assumption)+)
      (simp add: MsgResult_MergeFrom_def Let_def unk MsgResult_fold_rt_pairs MsgResult_mutable_msg_header_def split: option.splits)
qed

lemma MsgResult_size:
  assumes "MsgResult_valid W m"
  shows "MsgResult_ByteSize W m = length (MsgResult_Serialize W m)"
proof -
  have rt_pairs: "length (concat (map (\<lambda>x. WriteMessageHead W 4 (PairStrStr_ByteSize W x)
      @ PairStrStr_Serialize W x) (mr_rt_pairs m)))
    = length (mr_rt_pairs m) + sum_list (map (\<lambda>x. LengthDelimitedSize W (PairStrStr_ByteSize W x)) (mr_rt_pairs m))"
    using assms
    by (intro length_concat_chunks submessage_length)
      (simp_all add: MsgResult_valid_def list_all_iff field_no_def PairStrStr_size)
  have msg_header: "length (WriteMessageHead W 1 (MsgHeader_ByteSize W h) @ MsgHeader_Serialize W h)
    = 1 + LengthDelimitedSize W (MsgHeader_ByteSize W h)" if "mr_msg_header m = Some h" for h
    using assms that by (intro submessage_length) (simp_all add: MsgResult_valid_def field_no_def MsgHeader_size)
  show ?thesis
    using assms rt_pairs msg_header
    by (simp add: MsgResult_ByteSize_def MsgResult_Serialize_def MsgResult_valid_def field_lengths field_no_def
        del: length_concat split: option.splits)
qed

lemma MsgResult_array: "MsgResult_SerializeToArray W m t = t @ MsgResult_Serialize W m"
  by (simp add: MsgResult_SerializeToArray_def MsgResult_Serialize_def Let_def to_array_laws MsgHeader_array PairStrStr_array fold_array
      split: option.splits)

lemma MsgResult_codec: "message_codec (MsgResult_MergePartial W) (MsgResult_Serialize W) (MsgResult_SerializeToArray W)
    (MsgResult_ByteSize W) MsgResult_MergeFrom MsgResult_Clear (MsgResult_valid W)"
  unfolding MsgResult_MergePartial_def
  by (rule codecI [OF MsgResult_sw_ok MsgResult_chunk MsgResult_size MsgResult_array])
    (simp_all add: MsgResult_Clear_eq MsgResult_merge_ctor)

end

sublocale wire_format \<subseteq> MsgResult: message_codec "MsgResult_MergePartial W" "MsgResult_Serialize W"
  "MsgResult_SerializeToArray W" "MsgResult_ByteSize W" MsgResult_MergeFrom MsgResult_Clear "MsgResult_valid W"
  by (rule MsgResult_codec)

section \<open>MsgCmd\<close>

text \<open>
  A command with its parameters.
\<close>

record MsgCmd =
  mc_msg_header :: "MsgHeader option"
  mc_cmd :: "bytes"
  mc_params :: "PairStrStr list"
  mc_unknown :: bytes

definition MsgCmd_SharedCtor :: MsgCmd where
  "MsgCmd_SharedCtor = \<lparr>mc_msg_header = None, mc_cmd = [], mc_params = [], mc_unknown = []\<rparr>"

definition MsgCmd_Clear :: "MsgCmd \<Rightarrow> MsgCmd" where
  "MsgCmd_Clear m = m\<lparr>mc_msg_header := None, mc_cmd := [], mc_params := [], mc_unknown := []\<rparr>"

definition MsgCmd_mutable_msg_header :: "MsgCmd \<Rightarrow> MsgHeader" where
  "MsgCmd_mutable_msg_header m =
     (case mc_msg_header m of None \<Rightarrow> MsgHeader_SharedCtor | Some h \<Rightarrow> h)"

definition MsgCmd_switch :: "wirelib \<Rightarrow> 32 word \<Rightarrow> MsgCmd \<Rightarrow> bytes \<Rightarrow> MsgCmd fstep" where
  "MsgCmd_switch W tag m s =
     (if GetTagFieldNumber tag = 1 then
       (if uint8 tag = 10 then
          Field (case read_message W (MsgHeader_MergePartial W) (MsgCmd_mutable_msg_header m) s of
            None \<Rightarrow> None
          | Some (h, s') \<Rightarrow> Some (m\<lparr>mc_msg_header := Some h\<rparr>, s'))
        else Unusual)
      else if GetTagFieldNumber tag = 2 then
       (if uint8 tag = 18 then
          Field (case ReadString W s of
            None \<Rightarrow> None
          | Some (v, s') \<Rightarrow> (if VerifyUtf8String W v then Some (m\<lparr>mc_cmd := v\<rparr>, s') else None))
        else Unusual)
      else if GetTagFieldNumber tag = 3 then
       (if uint8 tag = 26 then
          Field (case read_message W (PairStrStr_MergePartial W) PairStrStr_SharedCtor s of
            None \<Rightarrow> None
          | Some (x, s') \<Rightarrow> Some (m\<lparr>mc_params := mc_params m @ [x]\<rparr>, s'))
        else Unusual)
      else Unusual)"

definition MsgCmd_add_unknown :: "bytes \<Rightarrow> MsgCmd \<Rightarrow> MsgCmd" where
  "MsgCmd_add_unknown raw m = m\<lparr>mc_unknown := mc_unknown m @ raw\<rparr>"

definition MsgCmd_MergePartial :: "wirelib \<Rightarrow> MsgCmd \<Rightarrow> bytes \<Rightarrow> (MsgCmd \<times> bytes) option" where
  "MsgCmd_MergePartial W = merge_all W (MsgCmd_switch W) MsgCmd_add_unknown"

definition MsgCmd_ByteSize :: "wirelib \<Rightarrow> MsgCmd \<Rightarrow> nat" where
  "MsgCmd_ByteSize W m =
     length (unknown_out W (mc_unknown m))
     + 1 * length (mc_params m) + sum_list (map (\<lambda>x. LengthDelimitedSize W (PairStrStr_ByteSize W x)) (mc_params m))
     + (if mc_cmd m \<noteq> [] then 1 + StringSize W (mc_cmd m) else 0)
     + (case mc_msg_header m of None \<Rightarrow> 0 | Some h \<Rightarrow> 1 + LengthDelimitedSize W (MsgHeader_ByteSize W h))"

definition MsgCmd_Serialize :: "wirelib \<Rightarrow> MsgCmd \<Rightarrow> bytes" where
  "MsgCmd_Serialize W m =
     (case mc_msg_header m of None \<Rightarrow> []
      | Some h \<Rightarrow> WriteMessageHead W 1 (MsgHeader_ByteSize W h) @ MsgHeader_Serialize W h)
     @ (if mc_cmd m \<noteq> [] then WriteString W 2 (mc_cmd m) else [])
     @ concat (map (\<lambda>x. WriteMessageHead W 3 (PairStrStr_ByteSize W x) @ PairStrStr_Serialize W x) (mc_params m))
     @ unknown_out W (mc_unknown m)"

definition MsgCmd_SerializeToArray :: "wirelib \<Rightarrow> MsgCmd \<Rightarrow> bytes \<Rightarrow> bytes" where
  "MsgCmd_SerializeToArray W m target =
     (let target1 = (case mc_msg_header m of None \<Rightarrow> target
         | Some h \<Rightarrow> MsgHeader_SerializeToArray W h
             (WriteMessageHeadToArray W 1 (MsgHeader_ByteSize W h) target));
          target2 = (if mc_cmd m \<noteq> [] then WriteStringToArray W 2 (mc_cmd m) target1 else target1);
          target3 = fold (\<lambda>x t. PairStrStr_SerializeToArray W x
           (WriteMessageHeadToArray W 3 (PairStrStr_ByteSize W x) t)) (mc_params m) target2
      in target3 @ unknown_out W (mc_unknown m))"

definition MsgCmd_MergeFrom :: "MsgCmd \<Rightarrow> MsgCmd \<Rightarrow> MsgCmd" where
  "MsgCmd_MergeFrom this from =
     (let this0 = this\<lparr>mc_unknown := mc_unknown this @ mc_unknown from\<rparr>;
          this1 = this0\<lparr>mc_params := mc_params this0 @ map (PairStrStr_MergeFrom PairStrStr_SharedCtor) (mc_params from)\<rparr>;
          this2 = (if mc_cmd from \<noteq> [] then this1\<lparr>mc_cmd := mc_cmd from\<rparr> else this1);
          this3 = (case mc_msg_header from of None \<Rightarrow> this2
         | Some h \<Rightarrow> this2\<lparr>mc_msg_header := Some (MsgHeader_MergeFrom (MsgCmd_mutable_msg_header this2) h)\<rparr>)
      in this3)"

definition MsgCmd_CopyFrom :: "bool \<Rightarrow> MsgCmd \<Rightarrow> MsgCmd \<Rightarrow> MsgCmd" where
  "MsgCmd_CopyFrom same_object this from =
     (if same_object then this else MsgCmd_MergeFrom (MsgCmd_Clear this) from)"

definition MsgCmd_InternalSwap :: "MsgCmd \<Rightarrow> MsgCmd \<Rightarrow> MsgCmd \<times> MsgCmd" where
  "MsgCmd_InternalSwap this other =
     (this\<lparr>mc_msg_header := mc_msg_header other, mc_cmd := mc_cmd other, mc_params := mc_params other, mc_unknown := mc_unknown other\<rparr>,
      other\<lparr>mc_msg_header := mc_msg_header this, mc_cmd := mc_cmd this, mc_params := mc_params this, mc_unknown := mc_unknown this\<rparr>)"

definition MsgCmd_valid :: "wirelib \<Rightarrow> MsgCmd \<Rightarrow> bool" where
  "MsgCmd_valid W m \<longleftrightarrow>
     (case mc_msg_header m of None \<Rightarrow> True | Some h \<Rightarrow> MsgHeader_valid W h \<and> len_ok (length (MsgHeader_Serialize W h))) \<and>
     len_ok (length (mc_cmd m)) \<and> VerifyUtf8String W (mc_cmd m) \<and>
     list_all (\<lambda>x. PairStrStr_valid W x \<and> len_ok (length (PairStrStr_Serialize W x))) (mc_params m) \<and>
     mc_unknown m = []"

lemma MsgCmd_fold_params:
  "fold (\<lambda>x m0. m0\<lparr>mc_params := mc_params m0 @ [g x]\<rparr>) xs m0 =
    m0\<lparr>mc_params := mc_params m0 @ map g xs\<rparr>"
  by (induction xs arbitrary: m0) simp_all

lemma MsgCmd_swap: "MsgCmd_InternalSwap a b = (b, a)"
  by (simp add: MsgCmd_InternalSwap_def)

lemma MsgCmd_Clear_eq: "MsgCmd_Clear m = MsgCmd_SharedCtor"
  by (simp add: MsgCmd_Clear_def MsgCmd_SharedCtor_def)

lemma MsgCmd_merge_ctor: "MsgCmd_valid W m \<Longrightarrow> MsgCmd_MergeFrom MsgCmd_SharedCtor m = m"
  by (cases m) (auto simp: MsgCmd_MergeFrom_def MsgCmd_SharedCtor_def MsgCmd_valid_def dbl_ok_def Let_def MsgCmd_mutable_msg_header_def MsgHeader_merge_ctor PairStrStr_merge_ctor list_all_iff intro!: map_idI
      split: option.splits)

context wire_format
begin

lemma MsgCmd_sw_ok: "sw_ok (MsgCmd_switch W)"
  by (auto simp: sw_ok_def MsgCmd_switch_def split: if_splits option.splits dest: readers_shrink)

lemma MsgCmd_chunk:
  assumes "MsgCmd_valid W m"
  shows "chunk W (MsgCmd_switch W) MsgCmd_add_unknown (MsgCmd_Serialize W m)
    (\<lambda>m0. MsgCmd_MergeFrom m0 m)"
proof -
  have msg_header: "chunk W (MsgCmd_switch W) MsgCmd_add_unknown
      (WriteMessageHead W 1 (MsgHeader_ByteSize W h) @ MsgHeader_Serialize W h)
      (\<lambda>m0. m0\<lparr>mc_msg_header := Some (MsgHeader_MergeFrom (MsgCmd_mutable_msg_header m0) h)\<rparr>)"
    if "mc_msg_header m = Some h" for h
    by (rule chunk_submessage [OF MsgHeader_codec, where get = MsgCmd_mutable_msg_header
          and put = "\<lambda>m0 h. m0\<lparr>mc_msg_header := Some h\<rparr>"])
      (use assms that MsgCmd_sw_ok in \<open>simp_all add: MsgCmd_switch_def MsgCmd_valid_def field_no_def\<close>)
  have cmd: "chunk W (MsgCmd_switch W) MsgCmd_add_unknown
      (WriteString W 2 (mc_cmd m)) (\<lambda>m0. m0\<lparr>mc_cmd := mc_cmd m\<rparr>)"
    by (rule chunk_field [OF string_codec MsgCmd_sw_ok])
      (use assms in \<open>simp_all add: MsgCmd_switch_def MsgCmd_valid_def field_no_def\<close>)
  have params: "chunk W (MsgCmd_switch W) MsgCmd_add_unknown
      (WriteMessageHead W 3 (PairStrStr_ByteSize W x) @ PairStrStr_Serialize W x)
      (\<lambda>m0. m0\<lparr>mc_params := mc_params m0 @ [PairStrStr_MergeFrom PairStrStr_SharedCtor x]\<rparr>)"
    if "x \<in> set (mc_params m)" for x
    by (rule chunk_submessage [OF PairStrStr_codec, where get = "\<lambda>_. PairStrStr_SharedCtor"
          and put = "\<lambda>m0 x. m0\<lparr>mc_params := mc_params m0 @ [x]\<rparr>"])
      (use assms that MsgCmd_sw_ok in \<open>simp_all add: MsgCmd_switch_def MsgCmd_valid_def field_no_def list_all_iff\<close>)
  have unk: "mc_unknown m = []" using assms by (simp add: MsgCmd_valid_def)
  show ?thesis
    unfolding MsgCmd_Serialize_def unk unknown_out_Nil
    by (rule chunk_cong, (rule msg_header cmd params chunk_intros | assumption)+)
      (simp add: MsgCmd_MergeFrom_def Let_def unk MsgCmd_fold_params MsgCmd_mutable_msg_header_def split: option.splits)
qed

lemma MsgCmd_size:
  assumes "MsgCmd_valid W m"
  shows "MsgCmd_ByteSize W m = length (MsgCmd_Serialize W m)"
proof -
  have params: "length (concat (map (\<lambda>x. WriteMessageHead W 3 (PairStrStr_ByteSize W x)
      @ PairStrStr_Serialize W x) (mc_params m)))
    = length (mc_params m) + sum_list (map (\<lambda>x. LengthDelimitedSize W (PairStrStr_ByteSize W x)) (mc_params m))"
    using assms
    by (intro length_concat_chunks submessage_length)
      (simp_all add: MsgCmd_valid_def list_all_iff field_no_def PairStrStr_size)
  have msg_header: "length (WriteMessageHead W 1 (MsgHeader_ByteSize W h) @ MsgHeader_Serialize W h)
    = 1 + LengthDelimitedSize W (MsgHeader_ByteSize W h)" if "mc_msg_header m = Some h" for h
    using assms that by (intro submessage_length) (simp_all add: MsgCmd_valid_def field_no_def MsgHeader_size)
  show ?thesis
    using assms params msg_header
    by (simp add: MsgCmd_ByteSize_def MsgCmd_Serialize_def MsgCmd_valid_def field_lengths field_no_def
        del: length_concat split: option.splits)
qed

lemma MsgCmd_array: "MsgCmd_SerializeToArray W m t = t @ MsgCmd_Serialize W m"
  by (simp add: MsgCmd_SerializeToArray_def MsgCmd_Serialize_def Let_def to_array_laws MsgHeader_array PairStrStr_array fold_array
      split: option.splits)

lemma MsgCmd_codec: "message_codec (MsgCmd_MergePartial W) (MsgCmd_Serialize W) (MsgCmd_SerializeToArray W)
    (MsgCmd_ByteSize W) MsgCmd_MergeFrom MsgCmd_Clear (MsgCmd_valid W)"
  unfolding MsgCmd_MergePartial_def
  by (rule codecI [OF MsgCmd_sw_ok MsgCmd_chunk MsgCmd_size MsgCmd_array])
    (simp_all add: MsgCmd_Clear_eq MsgCmd_merge_ctor)

end

sublocale wire_format \<subseteq> MsgCmd: message_codec "MsgCmd_MergePartial W" "MsgCmd_Serialize W"
  "MsgCmd_SerializeToArray W" "MsgCmd_ByteSize W" MsgCmd_MergeFrom MsgCmd_Clear "MsgCmd_valid W"
  by (rule MsgCmd_codec)

section \<open>MsgMetrics\<close>

text \<open>
  The counters the server reports.
\<close>

record MsgMetrics =
  mm_msg_header :: "MsgHeader option"
  mm_trans_commit_total :: "64 word"
  mm_trans_begin_proc :: "PairIntDbl list"
  mm_unknown :: bytes

definition MsgMetrics_SharedCtor :: MsgMetrics where
  "MsgMetrics_SharedCtor = \<lparr>mm_msg_header = None, mm_trans_commit_total = 0, mm_trans_begin_proc = [], mm_unknown = []\<rparr>"

definition MsgMetrics_Clear :: "MsgMetrics \<Rightarrow> MsgMetrics" where
  "MsgMetrics_Clear m = m\<lparr>mm_msg_header := None, mm_trans_commit_total := 0, mm_trans_begin_proc := [], mm_unknown := []\<rparr>"

definition MsgMetrics_mutable_msg_header :: "MsgMetrics \<Rightarrow> MsgHeader" where
  "MsgMetrics_mutable_msg_header m =
     (case mm_msg_header m of None \<Rightarrow> MsgHeader_SharedCtor | Some h \<Rightarrow> h)"

definition MsgMetrics_switch :: "wirelib \<Rightarrow> 32 word \<Rightarrow> MsgMetrics \<Rightarrow> bytes \<Rightarrow> MsgMetrics fstep" where
  "MsgMetrics_switch W tag m s =
     (if GetTagFieldNumber tag = 1 then
       (if uint8 tag = 10 then
          Field (case read_message W (MsgHeader_MergePartial W) (MsgMetrics_mutable_msg_header m) s of
            None \<Rightarrow> None
          | Some (h, s') \<Rightarrow> Some (m\<lparr>mm_msg_header := Some h\<rparr>, s'))
        else Unusual)
      else if GetTagFieldNumber tag = 2 then
       (if uint8 tag = 17 then
          Field (case ReadDouble W s of
            None \<Rightarrow> None
          | Some (v, s') \<Rightarrow> Some (m\<lparr>mm_trans_commit_total := v\<rparr>, s'))
        else Unusual)
      else if GetTagFieldNumber tag = 3 then
       (if uint8 tag = 26 then
          Field (case read_message W (PairIntDbl_MergePartial W) PairIntDbl_SharedCtor s of
            None \<Rightarrow> None
          | Some (x, s') \<Rightarrow> Some (m\<lparr>mm_trans_begin_proc := mm_trans_begin_proc m @ [x]\<rparr>, s'))
        else Unusual)
      else Unusual)"

definition MsgMetrics_add_unknown :: "bytes \<Rightarrow> MsgMetrics \<Rightarrow> MsgMetrics" where
  "MsgMetrics_add_unknown raw m = m\<lparr>mm_unknown := mm_unknown m @ raw\<rparr>"

definition MsgMetrics_MergePartial :: "wirelib \<Rightarrow> MsgMetrics \<Rightarrow> bytes \<Rightarrow> (MsgMetrics \<times> bytes) option" where
  "MsgMetrics_MergePartial W = merge_all W (MsgMetrics_switch W) MsgMetrics_add_unknown"

definition MsgMetrics_ByteSize :: "wirelib \<Rightarrow> MsgMetrics \<Rightarrow> nat" where
  "MsgMetrics_ByteSize W m =
     length (unknown_out W (mm_unknown m))
     + 1 * length (mm_trans_begin_proc m) + sum_list (map (\<lambda>x. LengthDelimitedSize W (PairIntDbl_ByteSize W x)) (mm_trans_begin_proc m))
     + (case mm_msg_header m of None \<Rightarrow> 0 | Some h \<Rightarrow> 1 + LengthDelimitedSize W (MsgHeader_ByteSize W h))
     + (if dbl_nonzero (mm_trans_commit_total m) then 1 + 8 else 0)"

definition MsgMetrics_Serialize :: "wirelib \<Rightarrow> MsgMetrics \<Rightarrow> bytes" where
  "MsgMetrics_Serialize W m =
     (case mm_msg_header m of None \<Rightarrow> []
      | Some h \<Rightarrow> WriteMessageHead W 1 (MsgHeader_ByteSize W h) @ MsgHeader_Serialize W h)
     @ (if dbl_nonzero (mm_trans_commit_total m) then WriteDouble W 2 (mm_trans_commit_total m) else [])
     @ concat (map (\<lambda>x. WriteMessageHead W 3 (PairIntDbl_ByteSize W x) @ PairIntDbl_Serialize W x) (mm_trans_begin_proc m))
     @ unknown_out W (mm_unknown m)"

definition MsgMetrics_SerializeToArray :: "wirelib \<Rightarrow> MsgMetrics \<Rightarrow> bytes \<Rightarrow> bytes" where
  "MsgMetrics_SerializeToArray W m target =
     (let target1 = (case mm_msg_header m of None \<Rightarrow> target
         | Some h \<Rightarrow> MsgHeader_SerializeToArray W h
             (WriteMessageHeadToArray W 1 (MsgHeader_ByteSize W h) target));
          target2 = (if dbl_nonzero (mm_trans_commit_total m) then WriteDoubleToArray W 2 (mm_trans_commit_total m) target1 else target1);
          target3 = fold (\<lambda>x t. PairIntDbl_SerializeToArray W x
           (WriteMessageHeadToArray W 3 (PairIntDbl_ByteSize W x) t)) (mm_trans_begin_proc m) target2
      in target3 @ unknown_out W (mm_unknown m))"

definition MsgMetrics_MergeFrom :: "MsgMetrics \<Rightarrow> MsgMetrics \<Rightarrow> MsgMetrics" where
  "MsgMetrics_MergeFrom this from =
     (let this0 = this\<lparr>mm_unknown := mm_unknown this @ mm_unknown from\<rparr>;
          this1 = this0\<lparr>mm_trans_begin_proc := mm_trans_begin_proc this0 @ map (PairIntDbl_MergeFrom PairIntDbl_SharedCtor) (mm_trans_begin_proc from)\<rparr>;
          this2 = (case mm_msg_header from of None \<Rightarrow> this1
         | Some h \<Rightarrow> this1\<lparr>mm_msg_header := Some (MsgHeader_MergeFrom (MsgMetrics_mutable_msg_header this1) h)\<rparr>);
          this3 = (if dbl_nonzero (mm_trans_commit_total from) then this2\<lparr>mm_trans_commit_total := mm_trans_commit_total from\<rparr> else this2)
      in this3)"

definition MsgMetrics_CopyFrom :: "bool \<Rightarrow> MsgMetrics \<Rightarrow> MsgMetrics \<Rightarrow> MsgMetrics" where
  "MsgMetrics_CopyFrom same_object this from =
     (if same_object then this else MsgMetrics_MergeFrom (MsgMetrics_Clear this) from)"

definition MsgMetrics_InternalSwap :: "MsgMetrics \<Rightarrow> MsgMetrics \<Rightarrow> MsgMetrics \<times> MsgMetrics" where
  "MsgMetrics_InternalSwap this other =
     (this\<lparr>mm_msg_header := mm_msg_header other, mm_trans_commit_total := mm_trans_commit_total other, mm_trans_begin_proc := mm_trans_begin_proc other, mm_unknown := mm_unknown other\<rparr>,
      other\<lparr>mm_msg_header := mm_msg_header this, mm_trans_commit_total := mm_trans_commit_total this, mm_trans_begin_proc := mm_trans_begin_proc this, mm_unknown := mm_unknown this\<rparr>)"

definition MsgMetrics_valid :: "wirelib \<Rightarrow> MsgMetrics \<Rightarrow> bool" where
  "MsgMetrics_valid W m \<longleftrightarrow>
     (case mm_msg_header m of None \<Rightarrow> True | Some h \<Rightarrow> MsgHeader_valid W h \<and> len_ok (length (MsgHeader_Serialize W h))) \<and>
     dbl_ok (mm_trans_commit_total m) \<and>
     list_all (\<lambda>x. PairIntDbl_valid W x \<and> len_ok (length (PairIntDbl_Serialize W x))) (mm_trans_begin_proc m) \<and>
     mm_unknown m = []"

lemma MsgMetrics_fold_trans_begin_proc:
  "fold (\<lambda>x m0. m0\<lparr>mm_trans_begin_proc := mm_trans_begin_proc m0 @ [g x]\<rparr>) xs m0 =
    m0\<lparr>mm_trans_begin_proc := mm_trans_begin_proc m0 @ map g xs\<rparr>"
  by (induction xs arbitrary: m0) simp_all

lemma MsgMetrics_swap: "MsgMetrics_InternalSwap a b = (b, a)"
  by (simp add: MsgMetrics_InternalSwap_def)

lemma MsgMetrics_Clear_eq: "MsgMetrics_Clear m = MsgMetrics_SharedCtor"
  by (simp add: MsgMetrics_Clear_def MsgMetrics_SharedCtor_def)

lemma MsgMetrics_merge_ctor: "MsgMetrics_valid W m \<Longrightarrow> MsgMetrics_MergeFrom MsgMetrics_SharedCtor m = m"
  by (cases m) (auto simp: MsgMetrics_MergeFrom_def MsgMetrics_SharedCtor_def MsgMetrics_valid_def dbl_ok_def Let_def MsgMetrics_mutable_msg_header_def MsgHeader_merge_ctor PairIntDbl_merge_ctor list_all_iff intro!: map_idI
      split: option.splits)

context wire_format
begin

lemma MsgMetrics_sw_ok: "sw_ok (MsgMetrics_switch W)"
  by (auto simp: sw_ok_def MsgMetrics_switch_def split: if_splits option.splits dest: readers_shrink)

lemma MsgMetrics_chunk:
  assumes "MsgMetrics_valid W m"
  shows "chunk W (MsgMetrics_switch W) MsgMetrics_add_unknown (MsgMetrics_Serialize W m)
    (\<lambda>m0. MsgMetrics_MergeFrom m0 m)"
proof -
  have msg_header: "chunk W (MsgMetrics_switch W) MsgMetrics_add_unknown
      (WriteMessageHead W 1 (MsgHeader_ByteSize W h) @ MsgHeader_Serialize W h)
      (\<lambda>m0. m0\<lparr>mm_msg_header := Some (MsgHeader_MergeFrom (MsgMetrics_mutable_msg_header m0) h)\<rparr>)"
    if "mm_msg_header m = Some h" for h
    by (rule chunk_submessage [OF MsgHeader_codec, where get = MsgMetrics_mutable_msg_header
          and put = "\<lambda>m0 h. m0\<lparr>mm_msg_header := Some h\<rparr>"])
      (use assms that MsgMetrics_sw_ok in \<open>simp_all add: MsgMetrics_switch_def MsgMetrics_valid_def field_no_def\<close>)
  have trans_commit_total: "chunk W (MsgMetrics_switch W) MsgMetrics_add_unknown
      (WriteDouble W 2 (mm_trans_commit_total m)) (\<lambda>m0. m0\<lparr>mm_trans_commit_total := mm_trans_commit_total m\<rparr>)"
    by (rule chunk_field [OF double_codec MsgMetrics_sw_ok])
      (use assms in \<open>simp_all add: MsgMetrics_switch_def MsgMetrics_valid_def field_no_def\<close>)
  have trans_begin_proc: "chunk W (MsgMetrics_switch W) MsgMetrics_add_unknown
      (WriteMessageHead W 3 (PairIntDbl_ByteSize W x) @ PairIntDbl_Serialize W x)
      (\<lambda>m0. m0\<lparr>mm_trans_begin_proc := mm_trans_begin_proc m0 @ [PairIntDbl_MergeFrom PairIntDbl_SharedCtor x]\<rparr>)"
    if "x \<in> set (mm_trans_begin_proc m)" for x
    by (rule chunk_submessage [OF PairIntDbl_codec, where get = "\<lambda>_. PairIntDbl_SharedCtor"
          and put = "\<lambda>m0 x. m0\<lparr>mm_trans_begin_proc := mm_trans_begin_proc m0 @ [x]\<rparr>"])
      (use assms that MsgMetrics_sw_ok in \<open>simp_all add: MsgMetrics_switch_def MsgMetrics_valid_def field_no_def list_all_iff\<close>)
  have unk: "mm_unknown m = []" using assms by (simp add: MsgMetrics_valid_def)
  show ?thesis
    unfolding MsgMetrics_Serialize_def unk unknown_out_Nil
    by (rule chunk_cong, (rule msg_header trans_commit_total trans_begin_proc chunk_intros | assumption)+)
      (simp add: MsgMetrics_MergeFrom_def Let_def unk MsgMetrics_fold_trans_begin_proc MsgMetrics_mutable_msg_header_def split: option.splits)
qed

lemma MsgMetrics_size:
  assumes "MsgMetrics_valid W m"
  shows "MsgMetrics_ByteSize W m = length (MsgMetrics_Serialize W m)"
proof -
  have trans_begin_proc: "length (concat (map (\<lambda>x. WriteMessageHead W 3 (PairIntDbl_ByteSize W x)
      @ PairIntDbl_Serialize W x) (mm_trans_begin_proc m)))
    = length (mm_trans_begin_proc m) + sum_list (map (\<lambda>x. LengthDelimitedSize W (PairIntDbl_ByteSize W x)) (mm_trans_begin_proc m))"
    using assms
    by (intro length_concat_chunks submessage_length)
      (simp_all add: MsgMetrics_valid_def list_all_iff field_no_def PairIntDbl_size)
  have msg_header: "length (WriteMessageHead W 1 (MsgHeader_ByteSize W h) @ MsgHeader_Serialize W h)
    = 1 + LengthDelimitedSize W (MsgHeader_ByteSize W h)" if "mm_msg_header m = Some h" for h
    using assms that by (intro submessage_length) (simp_all add: MsgMetrics_valid_def field_no_def MsgHeader_size)
  show ?thesis
    using assms trans_begin_proc msg_header
    by (simp add: MsgMetrics_ByteSize_def MsgMetrics_Serialize_def MsgMetrics_valid_def field_lengths field_no_def
        del: length_concat split: option.splits)
qed

lemma MsgMetrics_array: "MsgMetrics_SerializeToArray W m t = t @ MsgMetrics_Serialize W m"
  by (simp add: MsgMetrics_SerializeToArray_def MsgMetrics_Serialize_def Let_def to_array_laws MsgHeader_array PairIntDbl_array fold_array
      split: option.splits)

lemma MsgMetrics_codec: "message_codec (MsgMetrics_MergePartial W) (MsgMetrics_Serialize W) (MsgMetrics_SerializeToArray W)
    (MsgMetrics_ByteSize W) MsgMetrics_MergeFrom MsgMetrics_Clear (MsgMetrics_valid W)"
  unfolding MsgMetrics_MergePartial_def
  by (rule codecI [OF MsgMetrics_sw_ok MsgMetrics_chunk MsgMetrics_size MsgMetrics_array])
    (simp_all add: MsgMetrics_Clear_eq MsgMetrics_merge_ctor)

end

sublocale wire_format \<subseteq> MsgMetrics: message_codec "MsgMetrics_MergePartial W" "MsgMetrics_Serialize W"
  "MsgMetrics_SerializeToArray W" "MsgMetrics_ByteSize W" MsgMetrics_MergeFrom MsgMetrics_Clear "MsgMetrics_valid W"
  by (rule MsgMetrics_codec)

end
