(* ===== verification/AdminView.thy ===== *)
theory AdminView
  imports AdminMsg
begin

text \<open>
  What a receiver learns when it first parses a whole packet as a \<open>MsgHeaderWrap\<close>, to find out
  which message it holds: field 1 of the three message classes is the header, and every other
  field is unknown to the wrapper and is skipped without touching the header.
\<close>

section \<open>Fields the wrapper skips\<close>

definition silent :: "wirelib \<Rightarrow> bytes \<Rightarrow> bool" where
  "silent W F \<longleftrightarrow>
     (\<exists>u. chunk W (MsgHeaderWrap_switch W) MsgHeaderWrap_add_unknown F u \<and>
          (\<forall>w. hw_msg_header (u w) = hw_msg_header w))"

lemma silent_Nil: "silent W []"
  unfolding silent_def by (rule exI [of _ "\<lambda>w. w"]) (simp add: chunk_Nil)

lemma silentI:
  "chunk W (MsgHeaderWrap_switch W) MsgHeaderWrap_add_unknown F u \<Longrightarrow>
   (\<And>w. hw_msg_header (u w) = hw_msg_header w) \<Longrightarrow> silent W F"
  by (auto simp: silent_def)

lemma silent_append:
  assumes "silent W F" and "silent W G"
  shows "silent W (F @ G)"
proof -
  obtain u v where u: "chunk W (MsgHeaderWrap_switch W) MsgHeaderWrap_add_unknown F u"
      "\<And>w. hw_msg_header (u w) = hw_msg_header w"
    and v: "chunk W (MsgHeaderWrap_switch W) MsgHeaderWrap_add_unknown G v"
      "\<And>w. hw_msg_header (v w) = hw_msg_header w"
    using assms by (auto simp: silent_def)
  show ?thesis by (rule silentI [OF chunk_append [OF u(1) v(1)]]) (simp add: u v)
qed

lemma silent_if: "(c \<Longrightarrow> silent W F) \<Longrightarrow> silent W (if c then F else [])"
  by (simp add: silent_Nil)

lemma silent_concat: "(\<And>x. x \<in> set xs \<Longrightarrow> silent W (F x)) \<Longrightarrow> silent W (concat (map F xs))"
  by (induction xs) (simp_all add: silent_Nil silent_append)

lemmas silent_intros = silent_append silent_if silent_concat silent_Nil

lemma wrap_switch_other:
  assumes "field_no f" and "wt < 8" and "f \<noteq> 1"
  shows "MsgHeaderWrap_switch W (mk_tag f wt) m s = Unusual"
proof -
  have "unat (word_of_nat f :: 32 word) = f mod 2 ^ LENGTH(32)" by (rule unat_of_nat)
  then have "unat (word_of_nat f :: 32 word) = f" using assms(1) by (simp add: field_no_def)
  then have "(word_of_nat f :: 32 word) \<noteq> 1" using assms(3) by auto
  then show ?thesis using assms by (simp add: MsgHeaderWrap_switch_def)
qed

text \<open>The header of a packet is the header of the message, and a packet cut at a NUL is refused.\<close>

definition wrap_view :: "wirelib \<Rightarrow> bytes \<Rightarrow> MsgHeader \<Rightarrow> bool" where
  "wrap_view W F h \<longleftrightarrow>
     (\<forall>w0. \<exists>w. parse_bytes (MsgHeaderWrap_MergePartial W) MsgHeaderWrap_Clear w0 F = Some w \<and>
        hw_msg_header w = Some h) \<and>
     (cstr F \<noteq> F \<longrightarrow> (\<forall>w0. parse_bytes (MsgHeaderWrap_MergePartial W) MsgHeaderWrap_Clear w0
        (cstr F) = None))"

context wire_format
begin

lemma silent_field:
  assumes "field_skips W (mk_tag f wt) F" and "field_no f" and "wt < 8" and "f \<noteq> 1"
    and "F \<noteq> []" and "hd F \<noteq> CHR 0x00"
  shows "silent W F"
  by (rule silentI [OF chunk_skip [OF assms(1,5,6) MsgHeaderWrap_sw_ok
        mk_tag_nonzero [OF assms(2,3)] wrap_switch_other [OF assms(2-4)]]])
    (simp add: MsgHeaderWrap_add_unknown_def)

lemma silent_string: "field_no f \<Longrightarrow> f \<noteq> 1 \<Longrightarrow> len_ok (length x) \<Longrightarrow> silent W (WriteString W f x)"
  using silent_field [OF string_skips] field_first [OF string_codec] by simp

lemma silent_double: "field_no f \<Longrightarrow> f \<noteq> 1 \<Longrightarrow> silent W (WriteDouble W f x)"
  using silent_field [OF double_skips] field_first [OF double_codec] by simp

lemma silent_submessage:
  "field_no f \<Longrightarrow> f \<noteq> 1 \<Longrightarrow> len_ok (length body) \<Longrightarrow> n = length body \<Longrightarrow>
   silent W (WriteMessageHead W f n @ body)"
  using silent_field [OF submessage_skips] head_tag [of f n] by simp

lemma wrap_header_chunk:
  assumes "MsgHeader_valid W h" and "len_ok (length (MsgHeader_Serialize W h))"
  shows "chunk W (MsgHeaderWrap_switch W) MsgHeaderWrap_add_unknown
    (WriteMessageHead W 1 (MsgHeader_ByteSize W h) @ MsgHeader_Serialize W h)
    (\<lambda>w. MsgHeaderWrap_MergeFrom w \<lparr>hw_msg_header = Some h, hw_unknown = []\<rparr>)"
  using MsgHeaderWrap_chunk [of "\<lparr>hw_msg_header = Some h, hw_unknown = []\<rparr>"] assms
  by (simp add: MsgHeaderWrap_valid_def MsgHeaderWrap_Serialize_def)

lemma header_then_silent:
  assumes h: "MsgHeader_valid W h" "len_ok (length (MsgHeader_Serialize W h))"
    and F: "silent W F"
  shows "wrap_view W ((WriteMessageHead W 1 (MsgHeader_ByteSize W h) @ MsgHeader_Serialize W h) @ F) h"
proof -
  define G where "G = (WriteMessageHead W 1 (MsgHeader_ByteSize W h) @ MsgHeader_Serialize W h) @ F"
  obtain u where u: "chunk W (MsgHeaderWrap_switch W) MsgHeaderWrap_add_unknown G
      (\<lambda>w. u (MsgHeaderWrap_MergeFrom w \<lparr>hw_msg_header = Some h, hw_unknown = []\<rparr>))"
    and keep: "\<And>w. hw_msg_header (u w) = hw_msg_header w"
  proof -
    obtain u where u: "chunk W (MsgHeaderWrap_switch W) MsgHeaderWrap_add_unknown F u"
      "\<And>w. hw_msg_header (u w) = hw_msg_header w"
      using F by (auto simp: silent_def)
    show thesis
      by (rule that) (unfold G_def, rule chunk_append [OF wrap_header_chunk [OF h] u(1)], rule u(2))
  qed
  have merge: "MsgHeaderWrap_MergePartial W w G
      = Some (u (MsgHeaderWrap_MergeFrom w \<lparr>hw_msg_header = Some h, hw_unknown = []\<rparr>), [])" for w
    using u merge_all_eof [OF MsgHeaderWrap_sw_ok]
    unfolding chunk_def absorbs_def MsgHeaderWrap_MergePartial_def by (metis append_Nil2)
  have "hw_msg_header (u (MsgHeaderWrap_MergeFrom (MsgHeaderWrap_Clear w0)
      \<lparr>hw_msg_header = Some h, hw_unknown = []\<rparr>)) = Some h" for w0
    unfolding keep using MsgHeader_merge_ctor [OF h(1)]
    by (simp add: MsgHeaderWrap_MergeFrom_def MsgHeaderWrap_Clear_def Let_def
        MsgHeaderWrap_mutable_msg_header_def)
  moreover have "parse_bytes (MsgHeaderWrap_MergePartial W) MsgHeaderWrap_Clear w0 (cstr G) = None"
    if "cstr G \<noteq> G" for w0
    using u that
    by (simp add: chunk_def nulsafe_def parse_bytes_def MsgHeaderWrap_MergePartial_def)
  ultimately show ?thesis
    unfolding wrap_view_def G_def [symmetric] by (simp add: parse_bytes_def merge)
qed

lemma result_view:
  assumes v: "MsgResult_valid W m" and h: "mr_msg_header m = Some h"
  shows "wrap_view W (MsgResult_Serialize W m) h"
proof -
  have "silent W ((if mr_rc m \<noteq> [] then WriteString W 2 (mr_rc m) else []) @
    (if mr_msg m \<noteq> [] then WriteString W 3 (mr_msg m) else []) @
    concat (map (\<lambda>x. WriteMessageHead W 4 (PairStrStr_ByteSize W x) @ PairStrStr_Serialize W x)
      (mr_rt_pairs m)))"
    using v
    by (intro silent_intros silent_string silent_submessage)
      (auto simp: MsgResult_valid_def field_no_def list_all_iff PairStrStr_size)
  moreover have "MsgHeader_valid W h" "len_ok (length (MsgHeader_Serialize W h))" "mr_unknown m = []"
    using v h by (simp_all add: MsgResult_valid_def)
  ultimately show ?thesis
    using header_then_silent by (simp add: MsgResult_Serialize_def h)
qed

lemma cmd_view:
  assumes v: "MsgCmd_valid W m" and h: "mc_msg_header m = Some h"
  shows "wrap_view W (MsgCmd_Serialize W m) h"
proof -
  have "silent W ((if mc_cmd m \<noteq> [] then WriteString W 2 (mc_cmd m) else []) @
    concat (map (\<lambda>x. WriteMessageHead W 3 (PairStrStr_ByteSize W x) @ PairStrStr_Serialize W x)
      (mc_params m)))"
    using v
    by (intro silent_intros silent_string silent_submessage)
      (auto simp: MsgCmd_valid_def field_no_def list_all_iff PairStrStr_size)
  moreover have "MsgHeader_valid W h" "len_ok (length (MsgHeader_Serialize W h))" "mc_unknown m = []"
    using v h by (simp_all add: MsgCmd_valid_def)
  ultimately show ?thesis
    using header_then_silent by (simp add: MsgCmd_Serialize_def h)
qed

lemma metrics_view:
  assumes v: "MsgMetrics_valid W m" and h: "mm_msg_header m = Some h"
  shows "wrap_view W (MsgMetrics_Serialize W m) h"
proof -
  have "silent W ((if dbl_nonzero (mm_trans_commit_total m)
      then WriteDouble W 2 (mm_trans_commit_total m) else []) @
    concat (map (\<lambda>x. WriteMessageHead W 3 (PairIntDbl_ByteSize W x) @ PairIntDbl_Serialize W x)
      (mm_trans_begin_proc m)))"
    using v
    by (intro silent_intros silent_double silent_submessage)
      (auto simp: MsgMetrics_valid_def field_no_def list_all_iff PairIntDbl_size)
  moreover have "MsgHeader_valid W h" "len_ok (length (MsgHeader_Serialize W h))" "mm_unknown m = []"
    using v h by (simp_all add: MsgMetrics_valid_def)
  ultimately show ?thesis
    using header_then_silent by (simp add: MsgMetrics_Serialize_def h)
qed

end

end
