(* ===== verification/MsgRW.thy ===== *)
theory MsgRW
  imports SocketFunc AdminView
begin

text \<open>
  The class \<open>CMsgRW\<close> of \<open>qdcadm/CAdmMsg.h\<close> and \<open>CAdmMsg.cpp\<close>: packets read from and written to
  a socket, and the messages parsed from and packed into them.  An access outside a buffer is
  the result \<open>Overflow\<close>, a call that never returns is \<open>Block\<close>.  Memory nobody has initialised
  (the local \<open>header\<close>, a buffer from \<open>new char[]\<close>) is a parameter of every definition that
  could show it.
\<close>

section \<open>The environment\<close>

record cenv =
  c_strerror :: "int \<Rightarrow> bytes"
  header_junk :: bytes
  new_bytes :: "nat \<Rightarrow> bytes"
  frame_err :: bytes
  frame_buf :: bytes

definition env_ok :: "cenv \<Rightarrow> bool" where
  "env_ok C \<longleftrightarrow> length (header_junk C) = 4 \<and> (\<forall>n. length (new_bytes C n) = n) \<and>
     length (frame_err C) = 514 \<and> length (frame_buf C) = 1026"

section \<open>The state\<close>

definition LEN_ERR_MSG :: nat where "LEN_ERR_MSG = 512"
definition LEN_ADM_PKG :: int where "LEN_ADM_PKG = 1024"
definition MAX_ADM_PKG :: int where "MAX_ADM_PKG = 1048576"

text \<open>What is done to the heap, with the number of bytes of the buffer.\<close>

datatype heap_call = New nat | Delete nat

text \<open>
  \<open>m_heap\<close> is the memory \<open>m_msgbuf\<close> points to when that is not \<open>m_buf\<close>; \<open>m_heap_calls\<close> records the
  \<open>new char[]\<close> and \<open>delete []\<close> the object has executed.
\<close>

record msgrw =
  m_errbuf :: bytes
  m_buf :: bytes
  m_heap :: "bytes option"
  m_lenbuf :: nat
  m_lenmsg :: nat
  m_heap_calls :: "heap_call list"

definition m_msgbuf :: "msgrw \<Rightarrow> bytes" where
  "m_msgbuf rw = (case m_heap rw of None \<Rightarrow> m_buf rw | Some h \<Rightarrow> h)"

definition set_msgbuf :: "bytes \<Rightarrow> msgrw \<Rightarrow> msgrw" where
  "set_msgbuf mem rw =
     (case m_heap rw of None \<Rightarrow> rw\<lparr>m_buf := mem\<rparr> | Some h \<Rightarrow> rw\<lparr>m_heap := Some mem\<rparr>)"

text \<open>The constructor, on a stack frame whose two arrays hold whatever was there.\<close>

definition CMsgRW :: "cenv \<Rightarrow> msgrw" where
  "CMsgRW C =
     \<lparr>m_errbuf = (frame_err C)[0 := CHR 0x00], m_buf = (frame_buf C)[0 := CHR 0x00], m_heap = None,
      m_lenbuf = 0, m_lenmsg = 0, m_heap_calls = []\<rparr>"

definition GetErrMsg :: "msgrw \<Rightarrow> bytes" where
  "GetErrMsg rw = cstr (m_errbuf rw)"

text \<open>The \<open>delete []\<close> of a buffer that is not \<open>m_buf\<close>, where the code has it.\<close>

definition delete_heap :: "msgrw \<Rightarrow> heap_call list" where
  "delete_heap rw =
     (case m_heap rw of None \<Rightarrow> [] | Some h \<Rightarrow> (if 0 < m_lenbuf rw then [Delete (length h)] else []))"

definition Clear :: "bool \<Rightarrow> msgrw \<Rightarrow> msgrw" where
  "Clear bFreeBuf rw =
     (let rw1 = rw\<lparr>m_lenmsg := 0, m_errbuf := (m_errbuf rw)[0 := CHR 0x00]\<rparr> in
      if bFreeBuf then
        (if 0 < m_lenbuf rw1 \<and> m_heap rw1 \<noteq> None then
           rw1\<lparr>m_heap := None, m_lenbuf := 0, m_heap_calls := m_heap_calls rw1 @ delete_heap rw1\<rparr>
         else rw1)
      else rw1)"

text \<open>The destructor; \<open>m_msgbuf\<close> is null afterwards.\<close>

definition CMsgRW_destroy :: "msgrw \<Rightarrow> msgrw" where
  "CMsgRW_destroy rw =
     (if 0 < m_lenbuf rw \<and> m_heap rw \<noteq> None then
        rw\<lparr>m_heap := None, m_lenbuf := 0, m_heap_calls := m_heap_calls rw @ delete_heap rw\<rparr>
      else rw)"

text \<open>\<open>snprintf(m_errbuf, LEN_ERR_MSG, ...)\<close>\<close>

definition set_err :: "bytes \<Rightarrow> msgrw \<Rightarrow> msgrw" where
  "set_err s rw = rw\<lparr>m_errbuf := snprintf_at (m_errbuf rw) LEN_ERR_MSG s\<rparr>"

section \<open>ReadPacket and SendPacket\<close>

text \<open>The larger buffer, when the message needs one (lines 64 to 72).\<close>

definition grow :: "cenv \<Rightarrow> int \<Rightarrow> msgrw \<Rightarrow> msgrw" where
  "grow C len rw =
     (if LEN_ADM_PKG < len then
        (if m_lenbuf rw < nat len then
           rw\<lparr>m_lenbuf := nat len + 2, m_heap := Some (new_bytes C (nat len + 2)),
             m_heap_calls := m_heap_calls rw @ delete_heap rw @ [New (nat len + 2)]\<rparr>
         else rw)
      else rw)"

text \<open>
  The payload (lines 74 to 85): \<open>SocketRead\<close> stores what it got at the start of \<open>m_msgbuf\<close>, and
  the NUL goes to index \<open>len\<close> whether or not all of it came.
\<close>

definition read_payload :: "cenv \<Rightarrow> int \<Rightarrow> msgrw \<Rightarrow> sockst \<Rightarrow> (int \<times> msgrw \<times> sockst) outcome" where
  "read_payload C len rw st =
     obind (wait (SocketRead (c_strerror C) len (m_errbuf rw) st)) (\<lambda>(iRet, got, err, st').
       if length (m_msgbuf rw) < length got \<or> length (m_msgbuf rw) \<le> nat len then Overflow
       else
         (let rw1 = set_msgbuf ((overwrite (m_msgbuf rw) got)[nat len := CHR 0x00]) (rw\<lparr>m_errbuf := err\<rparr>)
          in if iRet \<noteq> len then Ret (-1, set_err ''can not read enough data'' rw1, st')
             else Ret (iRet, rw1\<lparr>m_lenmsg := nat iRet\<rparr>, st')))"

definition MsgRW_ReadPacket :: "cenv \<Rightarrow> msgrw \<Rightarrow> sockst \<Rightarrow> (int \<times> msgrw \<times> sockst) outcome" where
  "MsgRW_ReadPacket C rw st =
     (let rw0 = Clear False rw in
      obind (wait (SocketRead (c_strerror C) 4 (m_errbuf rw0) st)) (\<lambda>(iRet, hdr, err, st1).
        let rw1 = rw0\<lparr>m_errbuf := err\<rparr> in
        if iRet < 0 then Ret (iRet, rw1, st1)
        else
          (let len = sint (ntohl_bytes (header_mem (header_junk C) hdr)) in
           if len < 0 then Ret (-1, set_err ''Invalid packet data format!'' rw1, st1)
           else if MAX_ADM_PKG < len then
             Ret (-1, set_err (''message size is too long! '' @ int_dec len) rw1, st1)
           else read_payload C len (grow C len rw1) st1)))"

definition MsgRW_SendPacket :: "cenv \<Rightarrow> bytes \<Rightarrow> int \<Rightarrow> msgrw \<Rightarrow> sockst
    \<Rightarrow> (int \<times> msgrw \<times> sockst) outcome" where
  "MsgRW_SendPacket C pkg len rw st =
     obind (wait (SendPacket (c_strerror C) pkg len (m_errbuf rw) st)) (\<lambda>(wLen, err, st').
       Ret (wLen, rw\<lparr>m_errbuf := err\<rparr>, st'))"

definition GetPacket :: "msgrw \<Rightarrow> (bytes \<times> nat) option" where
  "GetPacket rw = (if m_lenmsg rw \<le> 0 then None else Some (m_msgbuf rw, m_lenmsg rw))"

section \<open>Messages in packets\<close>

text \<open>The values of \<open>MsgType\<close> and the texts of \<open>CAdmMsg.h\<close>.\<close>

definition MsgType_Result :: "32 word" where "MsgType_Result = 0"
definition MsgType_Command :: "32 word" where "MsgType_Command = 1"
definition MsgType_Metrics :: "32 word" where "MsgType_Metrics = 2"

definition RMSG_INV_MSG_HDR :: bytes where "RMSG_INV_MSG_HDR = ''invalid message header''"
definition RMSG_INV_MSG_BDY :: bytes where "RMSG_INV_MSG_BDY = ''invalid message body''"
definition RMSG_NOT_CMD :: bytes where "RMSG_NOT_CMD = ''not a command message''"
definition RMSG_NOT_RESULT :: bytes where "RMSG_NOT_RESULT = ''not a result message''"
definition RMSG_PACK_FAIL :: bytes where "RMSG_PACK_FAIL = ''pack message fail''"
definition RC_OK :: bytes where "RC_OK = ''OK''"
definition RC_ERR :: bytes where "RC_ERR = ''error''"

definition MakeMsgHdr :: "32 word \<Rightarrow> MsgHeader" where
  "MakeMsgHdr msgType = MsgHeader_SharedCtor\<lparr>mh_msg_type := msgType\<rparr>"

text \<open>
  \<open>hdr.msg_header().msg_type()\<close>: without a header the default instance is asked, whose type is 0.
\<close>

definition hdr_msg_type :: "MsgHeaderWrap \<Rightarrow> 32 word" where
  "hdr_msg_type w =
     (case hw_msg_header w of None \<Rightarrow> mh_msg_type MsgHeader_SharedCtor | Some h \<Rightarrow> mh_msg_type h)"

text \<open>
  \<open>ParseFromString(m_msgbuf) || ParseFromArray(m_msgbuf, m_lenmsg)\<close>: the \<open>std::string\<close> made from
  the pointer ends at the first NUL.
\<close>

definition parse_either :: "('m \<Rightarrow> bytes \<Rightarrow> ('m \<times> bytes) option) \<Rightarrow> ('m \<Rightarrow> 'm) \<Rightarrow> 'm \<Rightarrow> msgrw
    \<Rightarrow> 'm option" where
  "parse_either merge clear m rw =
     (case parse_bytes merge clear m (cstr (m_msgbuf rw)) of
        Some m' \<Rightarrow> Some m'
      | None \<Rightarrow> parse_bytes merge clear m (take (m_lenmsg rw) (m_msgbuf rw)))"

text \<open>
  The results are the return code, the message, and the reader.  A parse that fails leaves the
  caller's message half filled; nothing is said about it (\<open>None\<close>).
\<close>

definition ParseMsgHeader :: "wirelib \<Rightarrow> MsgHeaderWrap \<Rightarrow> msgrw \<Rightarrow> int \<times> MsgHeaderWrap option \<times> msgrw"
where
  "ParseMsgHeader W m rw =
     (if m_lenmsg rw \<le> 0 then (-1, Some m, rw)
      else (case parse_either (MsgHeaderWrap_MergePartial W) MsgHeaderWrap_Clear m rw of
              None \<Rightarrow> (-1, None, set_err RMSG_INV_MSG_BDY rw)
            | Some m' \<Rightarrow> (0, Some m', rw)))"

definition ParseCommand :: "wirelib \<Rightarrow> MsgCmd \<Rightarrow> msgrw \<Rightarrow> int \<times> MsgCmd option \<times> msgrw" where
  "ParseCommand W m rw =
     (if m_lenmsg rw \<le> 0 then (-1, Some m, rw)
      else (case parse_either (MsgCmd_MergePartial W) MsgCmd_Clear m rw of
              None \<Rightarrow> (-1, None, set_err RMSG_INV_MSG_BDY rw)
            | Some m' \<Rightarrow> (0, Some m', rw)))"

definition ParseResult :: "wirelib \<Rightarrow> MsgResult \<Rightarrow> msgrw \<Rightarrow> int \<times> MsgResult option \<times> msgrw" where
  "ParseResult W m rw =
     (if m_lenmsg rw \<le> 0 then (-1, Some m, rw)
      else (case parse_either (MsgResult_MergePartial W) MsgResult_Clear m rw of
              None \<Rightarrow> (-1, None, set_err RMSG_INV_MSG_BDY rw)
            | Some m' \<Rightarrow> (0, Some m', rw)))"

definition ReadCommand :: "cenv \<Rightarrow> wirelib \<Rightarrow> MsgCmd \<Rightarrow> msgrw \<Rightarrow> sockst
    \<Rightarrow> (int \<times> MsgCmd option \<times> msgrw \<times> sockst) outcome" where
  "ReadCommand C W msgCmd rw st =
     obind (MsgRW_ReadPacket C rw st) (\<lambda>(rc, rw1, st1).
       if rc \<le> 0 then Ret (-1, Some msgCmd, rw1, st1)
       else
         (case parse_either (MsgHeaderWrap_MergePartial W) MsgHeaderWrap_Clear
                 MsgHeaderWrap_SharedCtor rw1 of
            None \<Rightarrow> Ret (-1, Some msgCmd, set_err RMSG_INV_MSG_HDR rw1, st1)
          | Some hdr \<Rightarrow>
              (if hdr_msg_type hdr \<noteq> MsgType_Command then
                 Ret (-1, Some msgCmd, set_err RMSG_NOT_CMD rw1, st1)
               else
                 (case parse_either (MsgCmd_MergePartial W) MsgCmd_Clear (MsgCmd_Clear msgCmd) rw1 of
                    None \<Rightarrow> Ret (-1, None, set_err RMSG_INV_MSG_BDY rw1, st1)
                  | Some m' \<Rightarrow> Ret (0, Some m', rw1, st1)))))"

definition ReadResult :: "cenv \<Rightarrow> wirelib \<Rightarrow> MsgResult \<Rightarrow> msgrw \<Rightarrow> sockst
    \<Rightarrow> (int \<times> MsgResult option \<times> msgrw \<times> sockst) outcome" where
  "ReadResult C W msgResult rw st =
     obind (MsgRW_ReadPacket C rw st) (\<lambda>(rc, rw1, st1).
       if rc \<le> 0 then Ret (-1, Some msgResult, rw1, st1)
       else
         (case parse_either (MsgHeaderWrap_MergePartial W) MsgHeaderWrap_Clear
                 MsgHeaderWrap_SharedCtor rw1 of
            None \<Rightarrow> Ret (-1, Some msgResult, set_err RMSG_INV_MSG_HDR rw1, st1)
          | Some hdr \<Rightarrow>
              (if hdr_msg_type hdr \<noteq> MsgType_Result then
                 Ret (-1, Some msgResult, set_err RMSG_NOT_RESULT rw1, st1)
               else
                 (case parse_either (MsgResult_MergePartial W) MsgResult_Clear
                         (MsgResult_Clear msgResult) rw1 of
                    None \<Rightarrow> Ret (-1, None, set_err RMSG_INV_MSG_BDY rw1, st1)
                  | Some m' \<Rightarrow> Ret (0, Some m', rw1, st1)))))"

text \<open>The length of a \<open>std::string\<close> passed as an \<open>int\<close>, and an \<open>int\<close> compared with a \<open>size_t\<close>.\<close>

definition int_of_size :: "nat \<Rightarrow> int" where
  "int_of_size n = sint (word_of_nat n :: 32 word)"

definition int_eq_size :: "int \<Rightarrow> nat \<Rightarrow> bool" where
  "int_eq_size i n \<longleftrightarrow> (word_of_int i :: 64 word) = word_of_nat n"

text \<open>Both overloads of \<open>ReplyResult\<close> end alike; \<open>pack_and_send\<close> is that end.\<close>

definition pack_and_send :: "cenv \<Rightarrow> wirelib \<Rightarrow> MsgResult \<Rightarrow> msgrw \<Rightarrow> sockst
    \<Rightarrow> (int \<times> msgrw \<times> sockst) outcome" where
  "pack_and_send C W rt rw st =
     (case SerializeToString W (MsgResult_ByteSize W) (MsgResult_SerializeToArray W) rt of
        None \<Rightarrow> Ret (-1, set_err RMSG_PACK_FAIL rw, st)
      | Some msgStr \<Rightarrow>
          obind (MsgRW_SendPacket C msgStr (int_of_size (length msgStr)) rw st) (\<lambda>(wLen, rw1, st1).
            if \<not> int_eq_size wLen (length msgStr) then Ret (-1, rw1, st1) else Ret (0, rw1, st1)))"

definition result_message :: "bytes \<Rightarrow> bytes \<Rightarrow> MsgResult" where
  "result_message rc msg =
     MsgResult_SharedCtor\<lparr>mr_msg_header := Some (MakeMsgHdr MsgType_Result), mr_rc := rc, mr_msg := msg\<rparr>"

definition ReplyResult :: "cenv \<Rightarrow> wirelib \<Rightarrow> bytes \<Rightarrow> bytes \<Rightarrow> msgrw \<Rightarrow> sockst
    \<Rightarrow> (int \<times> msgrw \<times> sockst) outcome" where
  "ReplyResult C W rc msg rw st = pack_and_send C W (result_message rc msg) rw st"

text \<open>The pairs of \<open>apdmsg\<close> come in the order in which the map is iterated.\<close>

definition add_pair :: "bytes \<times> bytes \<Rightarrow> PairStrStr" where
  "add_pair kv = PairStrStr_SharedCtor\<lparr>pss_key := fst kv, pss_val := snd kv\<rparr>"

definition ReplyResult_apd :: "cenv \<Rightarrow> wirelib \<Rightarrow> bytes \<Rightarrow> bytes \<Rightarrow> (bytes \<times> bytes) list \<Rightarrow> msgrw \<Rightarrow> sockst
    \<Rightarrow> (int \<times> msgrw \<times> sockst) outcome" where
  "ReplyResult_apd C W rc msg apdmsg rw st =
     (let rt = fold (\<lambda>kv rt. rt\<lparr>mr_rt_pairs := mr_rt_pairs rt @ [add_pair kv]\<rparr>) apdmsg
                 (result_message rc msg)
      in pack_and_send C W rt rw st)"

definition ReplyErr :: "cenv \<Rightarrow> wirelib \<Rightarrow> bytes \<Rightarrow> msgrw \<Rightarrow> sockst \<Rightarrow> (int \<times> msgrw \<times> sockst) outcome" where
  "ReplyErr C W msg rw st = ReplyResult C W RC_ERR msg rw st"

definition ReplyOK :: "cenv \<Rightarrow> wirelib \<Rightarrow> bytes \<Rightarrow> msgrw \<Rightarrow> sockst \<Rightarrow> (int \<times> msgrw \<times> sockst) outcome" where
  "ReplyOK C W msg rw st = ReplyResult C W RC_OK msg rw st"

definition ExecCmdResult :: "cenv \<Rightarrow> wirelib \<Rightarrow> MsgCmd \<Rightarrow> MsgResult \<Rightarrow> msgrw \<Rightarrow> sockst
    \<Rightarrow> (int \<times> MsgResult option \<times> msgrw \<times> sockst) outcome" where
  "ExecCmdResult C W cmd result rw st =
     (case SerializeToString W (MsgCmd_ByteSize W) (MsgCmd_SerializeToArray W) cmd of
        None \<Rightarrow> Ret (-1, Some result, set_err ''serialize protobuf fail'' rw, st)
      | Some pkg \<Rightarrow>
          obind (MsgRW_SendPacket C pkg (int_of_size (length pkg)) rw st) (\<lambda>(rc, rw1, st1).
            if rc \<le> 0 then Ret (-1, Some result, rw1, st1)
            else ReadResult C W result rw1 st1))"

section \<open>The invariant of the reader\<close>

text \<open>
  The arrays have their sizes; the heap buffer has the size \<open>m_lenbuf\<close> says and is larger than
  \<open>m_buf\<close>; a message that was read is followed by a NUL inside its buffer.
\<close>

definition rw_ok :: "msgrw \<Rightarrow> bool" where
  "rw_ok rw \<longleftrightarrow>
     length (m_errbuf rw) = 514 \<and> length (m_buf rw) = 1026 \<and>
     (case m_heap rw of
        None \<Rightarrow> m_lenbuf rw = 0
      | Some h \<Rightarrow> length h = m_lenbuf rw \<and> 1026 < m_lenbuf rw \<and> m_lenbuf rw \<le> 1048578) \<and>
     m_lenmsg rw < length (m_msgbuf rw) \<and>
     (0 < m_lenmsg rw \<longrightarrow> m_msgbuf rw ! m_lenmsg rw = CHR 0x00)"

lemma CMsgRW_ok: "env_ok C \<Longrightarrow> rw_ok (CMsgRW C)"
  by (simp add: rw_ok_def CMsgRW_def m_msgbuf_def env_ok_def)

lemma Clear_ok: "rw_ok rw \<Longrightarrow> rw_ok (Clear b rw)"
  by (auto simp: rw_ok_def Clear_def m_msgbuf_def Let_def split: option.splits)

lemma set_err_ok: "rw_ok rw \<Longrightarrow> rw_ok (set_err s rw)"
  by (simp add: rw_ok_def set_err_def m_msgbuf_def length_snprintf LEN_ERR_MSG_def split: option.splits)

lemma errbuf_ok: "rw_ok rw \<Longrightarrow> length eb = 514 \<Longrightarrow> rw_ok (rw\<lparr>m_errbuf := eb\<rparr>)"
  by (simp add: rw_ok_def m_msgbuf_def split: option.splits)

lemma length_overwrite_errinfo:
  "int_range e \<Longrightarrow> length err = 514 \<Longrightarrow> length (overwrite err (GetSysErrorInfo strerr e)) = 514"
  using GetSysErrorInfo_length(2) [of e strerr] by (simp add: length_overwrite int_range_def)

lemma Clear_simps [simp]:
  "m_lenmsg (Clear b rw) = 0" "m_heap (Clear False rw) = m_heap rw"
  "m_lenbuf (Clear False rw) = m_lenbuf rw" "m_buf (Clear b rw) = m_buf rw"
  "m_msgbuf (Clear False rw) = m_msgbuf rw"
  by (simp_all add: Clear_def Let_def m_msgbuf_def split: option.splits)

lemma errbuf_simps [simp]:
  "m_msgbuf (rw\<lparr>m_errbuf := e\<rparr>) = m_msgbuf rw" "m_msgbuf (set_err s rw) = m_msgbuf rw"
  "m_lenmsg (set_err s rw) = m_lenmsg rw" "m_lenbuf (set_err s rw) = m_lenbuf rw"
  "m_heap (set_err s rw) = m_heap rw"
  by (simp_all add: m_msgbuf_def set_err_def split: option.splits)

lemma grow_ok:
  assumes "rw_ok rw" and "m_lenmsg rw = 0" and "0 \<le> len" and "len \<le> MAX_ADM_PKG" and "env_ok C"
  shows "rw_ok (grow C len rw)" and "m_lenmsg (grow C len rw) = 0"
    and "m_errbuf (grow C len rw) = m_errbuf rw"
  using assms
  by (auto simp: rw_ok_def grow_def m_msgbuf_def MAX_ADM_PKG_def LEN_ADM_PKG_def env_ok_def)

text \<open>Where the NUL goes after \<open>grow\<close>: inside the buffer, but for one length.\<close>

definition one_past :: "msgrw \<Rightarrow> int \<Rightarrow> bool" where
  "one_past rw len \<longleftrightarrow> LEN_ADM_PKG < len \<and> nat len = m_lenbuf rw"

lemma grow_room:
  assumes "rw_ok rw" and "0 \<le> len" and "env_ok C"
  shows "nat len < length (m_msgbuf (grow C len rw)) \<longleftrightarrow> \<not> one_past rw len"
    and "nat len \<le> length (m_msgbuf (grow C len rw))"
  using assms
  by (auto simp: rw_ok_def grow_def m_msgbuf_def LEN_ADM_PKG_def env_ok_def one_past_def
      split: option.splits)

lemma set_msgbuf_simps [simp]:
  "m_msgbuf (set_msgbuf mem rw) = mem" "m_lenmsg (set_msgbuf mem rw) = m_lenmsg rw"
  "m_errbuf (set_msgbuf mem rw) = m_errbuf rw" "m_lenbuf (set_msgbuf mem rw) = m_lenbuf rw"
  by (simp_all add: set_msgbuf_def m_msgbuf_def split: option.splits)

lemma set_msgbuf_ok:
  assumes "rw_ok rw" and "length mem = length (m_msgbuf rw)" and "m_lenmsg rw = 0"
  shows "rw_ok (set_msgbuf mem rw)"
  using assms by (auto simp: rw_ok_def set_msgbuf_def m_msgbuf_def split: option.splits)

lemma lenmsg_ok:
  assumes "rw_ok rw" and "n < length (m_msgbuf rw)" and "m_msgbuf rw ! n = CHR 0x00"
  shows "rw_ok (rw\<lparr>m_lenmsg := n\<rparr>)"
  using assms by (auto simp: rw_ok_def m_msgbuf_def split: option.splits)

section \<open>read_payload and ReadPacket\<close>

lemma read_payload_ok:
  assumes rp: "read_payload C len rw st = Ret (r, rw', st')"
    and ok: "rw_ok rw" "m_lenmsg rw = 0" and pr: "proper (s_in st)" and len: "0 \<le> len"
  shows "rw_ok rw'" and "proper (s_in st')" and "same_out st st'"
    and "r = -1 \<and> m_lenmsg rw' = 0 \<or> r = len \<and> m_lenmsg rw' = nat len"
proof -
  obtain iRet got err st1 where sr: "SocketRead (c_strerror C) len (m_errbuf rw) st = Some (iRet, got, err, st1)"
    using rp by (cases "SocketRead (c_strerror C) len (m_errbuf rw) st") (auto simp: read_payload_def)
  note res = SocketRead_results [OF sr pr len]
  define rw1 where
    "rw1 = set_msgbuf ((overwrite (m_msgbuf rw) got)[nat len := CHR 0x00]) (rw\<lparr>m_errbuf := err\<rparr>)"
  have room: "length got \<le> length (m_msgbuf rw)" "nat len < length (m_msgbuf rw)"
    using rp sr by (auto simp: read_payload_def split: if_splits)
  have "length err = 514"
    using res(4) length_overwrite_errinfo ok(1) by (auto simp: rw_ok_def)
  then have ok1: "rw_ok rw1" "m_lenmsg rw1 = 0" "m_msgbuf rw1 ! nat len = CHR 0x00"
      "nat len < length (m_msgbuf rw1)"
    unfolding rw1_def using ok room
    by (auto simp: length_overwrite intro!: set_msgbuf_ok errbuf_ok)
  have eq: "(if iRet \<noteq> len then Ret (-1, set_err ''can not read enough data'' rw1, st1)
      else Ret (iRet, rw1\<lparr>m_lenmsg := nat iRet\<rparr>, st1)) = Ret (r, rw', st')"
    using rp sr room by (auto simp: read_payload_def rw1_def Let_def split: if_split_asm)
  show "rw_ok rw'" "proper (s_in st')" "same_out st st'"
    "r = -1 \<and> m_lenmsg rw' = 0 \<or> r = len \<and> m_lenmsg rw' = nat len"
    using eq ok1 res(5,6) by (auto simp: set_err_ok lenmsg_ok split: if_splits)
qed

lemma ReadPacket_ok:
  assumes rp: "MsgRW_ReadPacket C rw st = Ret (r, rw', st')"
    and ok: "rw_ok rw" and pr: "proper (s_in st)" and env: "env_ok C"
  shows "rw_ok rw' \<and> proper (s_in st') \<and> same_out st st' \<and>
    (r \<le> 0 \<and> m_lenmsg rw' = 0 \<or> 0 < r \<and> m_lenmsg rw' = nat r)"
proof -
  define rw0 where "rw0 = Clear False rw"
  have ok0: "rw_ok rw0" "m_lenmsg rw0 = 0" using ok by (simp_all add: rw0_def Clear_ok)
  obtain iRet hdr err st1 where
    sr: "SocketRead (c_strerror C) 4 (m_errbuf rw0) st = Some (iRet, hdr, err, st1)"
    using rp by (cases "SocketRead (c_strerror C) 4 (m_errbuf rw0) st")
      (auto simp: MsgRW_ReadPacket_def rw0_def)
  note res = SocketRead_results [OF sr pr]
  define rw1 where "rw1 = rw0\<lparr>m_errbuf := err\<rparr>"
  have "length err = 514"
    using res(4) length_overwrite_errinfo ok0(1) by (auto simp: rw_ok_def)
  then have ok1: "rw_ok rw1" "m_lenmsg rw1 = 0" using ok0 by (simp_all add: rw1_def errbuf_ok)
  define len where "len = sint (ntohl_bytes (header_mem (header_junk C) hdr))"
  have eq: "MsgRW_ReadPacket C rw st =
     (if iRet < 0 then Ret (iRet, rw1, st1)
      else if len < 0 then Ret (-1, set_err ''Invalid packet data format!'' rw1, st1)
      else if MAX_ADM_PKG < len then
        Ret (-1, set_err (''message size is too long! '' @ int_dec len) rw1, st1)
      else read_payload C len (grow C len rw1) st1)"
    using sr by (simp add: MsgRW_ReadPacket_def rw0_def rw1_def len_def Let_def)
  show ?thesis
  proof (cases "iRet < 0 \<or> len < 0 \<or> MAX_ADM_PKG < len")
    case True
    have pr1: "proper (s_in st1)" and o1: "same_out st st1" using res(5,6) by simp_all
    from True rp consider "r = iRet" "iRet < 0" "rw' = rw1" "st' = st1"
      | e where "r = -1" "rw' = set_err e rw1" "st' = st1"
      unfolding eq by (auto split: if_split_asm)
    then show ?thesis using ok1 pr1 o1 by cases (simp_all add: set_err_ok)
  next
    case False
    then have len: "0 \<le> len" "len \<le> MAX_ADM_PKG"
      and pl: "read_payload C len (grow C len rw1) st1 = Ret (r, rw', st')"
      using rp unfolding eq by auto
    note g = grow_ok [OF ok1 len env]
    have pr1: "proper (s_in st1)" and o1: "same_out st st1" using res(5,6) by simp_all
    note p = read_payload_ok [OF pl g(1,2) pr1 len(1)]
    have "r \<le> 0 \<and> m_lenmsg rw' = 0 \<or> 0 < r \<and> m_lenmsg rw' = nat r"
      using p(4) by (cases "0 < r") auto
    then show ?thesis using p(1,2) same_out_trans [OF o1 p(3)] by blast
  qed
qed

section \<open>The write past the buffer\<close>

lemma read_payload_overflow_iff:
  assumes "rw_ok rw" and "0 \<le> len" and "env_ok C" and "proper (s_in st)"
  shows "read_payload C len (grow C len rw) st = Overflow \<longleftrightarrow>
    one_past rw len \<and> SocketRead (c_strerror C) len (m_errbuf rw) st \<noteq> None"
proof (cases "SocketRead (c_strerror C) len (m_errbuf rw) st")
  case None
  then show ?thesis by (simp add: read_payload_def grow_def)
next
  case (Some res)
  obtain iRet got err st' where res: "res = (iRet, got, err, st')" by (cases res) auto
  have "length got \<le> nat len" using SocketRead_results(2) [OF Some [unfolded res] assms(4,2)] by simp
  then have "length got \<le> length (m_msgbuf (grow C len rw))"
    using grow_room(2) [OF assms(1-3)] by linarith
  moreover have "m_errbuf (grow C len rw) = m_errbuf rw" by (simp add: grow_def)
  ultimately show ?thesis
    using grow_room(1) [OF assms(1-3)] Some res
    by (auto simp: read_payload_def Let_def not_less not_le)
qed

section \<open>Packets that arrive\<close>

lemma ReadPacket_header:
  assumes pr: "proper (s_in st)" and av: "avail (s_in st) = hdr @ rest" and hl: "length hdr = 4"
    and env: "env_ok C"
  shows "\<exists>st1. same_out st st1 \<and> proper (s_in st1) \<and> avail (s_in st1) = rest \<and>
    ending (s_in st1) = ending (s_in st) \<and>
    MsgRW_ReadPacket C rw st =
      (let rw0 = Clear False rw; len = sint (ntohl_bytes hdr) in
       if len < 0 then Ret (-1, set_err ''Invalid packet data format!'' rw0, st1)
       else if MAX_ADM_PKG < len then
         Ret (-1, set_err (''message size is too long! '' @ int_dec len) rw0, st1)
       else read_payload C len (grow C len rw0) st1)"
proof -
  obtain st1 where r1: "SocketRead (c_strerror C) 4 (m_errbuf (Clear False rw)) st
      = Some (4, hdr, m_errbuf (Clear False rw), st1)"
    and o: "same_out st st1" "proper (s_in st1)" "avail (s_in st1) = rest"
      "ending (s_in st1) = ending (s_in st)"
    using SocketRead_enough [OF pr av, of 4 "c_strerror C" "m_errbuf (Clear False rw)"] hl by auto
  have "header_mem (header_junk C) hdr = hdr"
    using hl env by (simp add: header_mem_def overwrite_def env_ok_def)
  then have "MsgRW_ReadPacket C rw st =
      (let rw0 = Clear False rw; len = sint (ntohl_bytes hdr) in
       if len < 0 then Ret (-1, set_err ''Invalid packet data format!'' rw0, st1)
       else if MAX_ADM_PKG < len then
         Ret (-1, set_err (''message size is too long! '' @ int_dec len) rw0, st1)
       else read_payload C len (grow C len rw0) st1)"
    using r1 by (simp add: MsgRW_ReadPacket_def Let_def)
  with o show ?thesis by blast
qed

text \<open>The reader holds the message \<open>F\<close>.\<close>

definition holds :: "msgrw \<Rightarrow> bytes \<Rightarrow> bool" where
  "holds rw F \<longleftrightarrow>
     m_lenmsg rw = length F \<and> take (length F) (m_msgbuf rw) = F \<and>
     m_msgbuf rw ! length F = CHR 0x00 \<and> cstr (m_msgbuf rw) = cstr F"

lemma read_payload_received:
  assumes ok: "rw_ok rw" "m_lenmsg rw = 0" and pr: "proper (s_in st)"
    and av: "avail (s_in st) = payload @ rest" and room: "length payload < length (m_msgbuf rw)"
  shows "\<exists>rw' st'.
    read_payload C (int (length payload)) rw st = Ret (int (length payload), rw', st') \<and>
    holds rw' payload \<and> rw_ok rw' \<and> same_out st st' \<and> proper (s_in st') \<and>
    avail (s_in st') = rest \<and> m_lenbuf rw' = m_lenbuf rw"
proof -
  define n where "n = length payload"
  obtain st' where r: "SocketRead (c_strerror C) (int n) (m_errbuf rw) st
      = Some (int n, payload, m_errbuf rw, st')"
    and o: "same_out st st'" "proper (s_in st')" "avail (s_in st') = rest"
    using SocketRead_enough [OF pr av, of "int n" "c_strerror C" "m_errbuf rw"] by (auto simp: n_def)
  define mem where "mem = (overwrite (m_msgbuf rw) payload)[n := CHR 0x00]"
  obtain x post where post: "drop n (m_msgbuf rw) = x # post"
    using room by (cases "drop n (m_msgbuf rw)") (simp_all add: n_def)
  have mem: "mem = payload @ CHR 0x00 # post"
    by (simp add: mem_def overwrite_def n_def [symmetric] post list_update_append)
  define rw' where "rw' = (set_msgbuf mem rw)\<lparr>m_lenmsg := n\<rparr>"
  have rp: "read_payload C (int n) rw st = Ret (int n, rw', st')"
    using r room by (simp add: read_payload_def rw'_def mem_def Let_def n_def)
  have "m_msgbuf rw' = mem"
    by (simp add: rw'_def m_msgbuf_def set_msgbuf_def split: option.splits)
  then have "holds rw' payload" by (simp add: holds_def mem rw'_def n_def)
  moreover have "rw_ok rw'" using read_payload_ok(1) [OF rp ok pr] by simp
  moreover have "m_lenbuf rw' = m_lenbuf rw" by (simp add: rw'_def)
  ultimately show ?thesis using rp [unfolded n_def] o by blast
qed

lemma ReadPacket_received:
  assumes ok: "rw_ok rw" and env: "env_ok C" and pr: "proper (s_in st)"
    and av: "avail (s_in st) = packet payload @ rest" and len: "int (length payload) \<le> MAX_ADM_PKG"
    and np: "\<not> one_past rw (int (length payload))"
  shows "\<exists>rw' st'. MsgRW_ReadPacket C rw st = Ret (int (length payload), rw', st') \<and>
    holds rw' payload \<and> rw_ok rw' \<and> same_out st st' \<and> proper (s_in st') \<and>
    avail (s_in st') = rest \<and>
    m_lenbuf rw' = (if 1024 < length payload \<and> m_lenbuf rw < length payload
      then length payload + 2 else m_lenbuf rw)"
proof -
  define n where "n = length payload"
  have nw: "sint (word_of_nat (length payload) :: 32 word) = int (length payload)"
    using len by (simp add: sint_length MAX_ADM_PKG_def)
  obtain st1 where o1: "same_out st st1" "proper (s_in st1)" "avail (s_in st1) = payload @ rest"
    and eq: "MsgRW_ReadPacket C rw st =
      read_payload C (int n) (grow C (int n) (Clear False rw)) st1"
  proof -
    have "avail (s_in st) = htonl_bytes (word_of_nat n) @ payload @ rest"
      using av by (simp add: packet_def n_def)
    from ReadPacket_header [OF pr this length_htonl env, of rw] show thesis
      using len that by (auto simp: Let_def nw n_def)
  qed
  define rw1 where "rw1 = grow C (int n) (Clear False rw)"
  have ok1: "rw_ok rw1" "m_lenmsg rw1 = 0"
    unfolding rw1_def using grow_ok(1,2) [OF Clear_ok [OF ok], where len = "int n" and C = C] len env
    by (simp_all add: n_def)
  have "\<not> one_past (Clear False rw) (int n)" using np by (simp add: one_past_def n_def)
  then have room: "length payload < length (m_msgbuf rw1)"
    using grow_room(1) [OF Clear_ok [OF ok], where len = "int n" and C = C] env by (simp add: rw1_def n_def)
  have lb: "m_lenbuf rw1 = (if 1024 < length payload \<and> m_lenbuf rw < length payload
      then length payload + 2 else m_lenbuf rw)"
    by (simp add: rw1_def grow_def LEN_ADM_PKG_def n_def)
  obtain rw' st' where rp: "read_payload C (int n) rw1 st1 = Ret (int n, rw', st')"
    and h: "holds rw' payload" "rw_ok rw'" and o2: "same_out st1 st'" "proper (s_in st')"
    "avail (s_in st') = rest" and b: "m_lenbuf rw' = m_lenbuf rw1"
    using read_payload_received [OF ok1 o1(2,3) room, where C = C] unfolding n_def by blast
  have "MsgRW_ReadPacket C rw st = Ret (int (length payload), rw', st')"
    using eq rp by (simp add: rw1_def n_def)
  then show ?thesis using h o2 b lb same_out_trans [OF o1(1) o2(1)] by auto
qed

lemma ReadPacket_one_past:
  assumes ok: "rw_ok rw" and env: "env_ok C" and pr: "proper (s_in st)"
    and av: "avail (s_in st) = packet payload @ rest" and len: "int (length payload) \<le> MAX_ADM_PKG"
    and op: "one_past rw (int (length payload))"
  shows "MsgRW_ReadPacket C rw st = Overflow"
proof -
  define n where "n = int (length payload)"
  have nw: "sint (word_of_nat (length payload) :: 32 word) = n"
    using len by (simp add: sint_length MAX_ADM_PKG_def n_def)
  have "avail (s_in st) = htonl_bytes (word_of_nat (length payload)) @ payload @ rest"
    using av by (simp add: packet_def)
  from ReadPacket_header [OF pr this length_htonl env, of rw] obtain st1
    where o: "proper (s_in st1)" "avail (s_in st1) = payload @ rest"
      and eq: "MsgRW_ReadPacket C rw st = read_payload C n (grow C n (Clear False rw)) st1"
    using len by (auto simp: Let_def nw) (auto simp: n_def)
  have "SocketRead (c_strerror C) n (m_errbuf (Clear False rw)) st1 \<noteq> None"
    using SocketRead_enough [OF o n_def, of "c_strerror C" "m_errbuf (Clear False rw)"] by auto
  moreover have "one_past (Clear False rw) n" using op by (simp add: one_past_def n_def)
  ultimately show ?thesis
    unfolding eq using read_payload_overflow_iff [OF Clear_ok [OF ok] _ env o(1), of n] by (simp add: n_def)
qed

text \<open>A write outside the buffer always comes from the one length \<open>one_past\<close> names.\<close>

lemma ReadPacket_no_Abort: "MsgRW_ReadPacket C rw st \<noteq> Abort"
proof -
  have "read_payload C len rw1 st1 \<noteq> Abort" for len rw1 st1
    by (cases "SocketRead (c_strerror C) len (m_errbuf rw1) st1")
      (auto simp: read_payload_def Let_def split: if_split_asm)
  then show ?thesis
    by (cases "SocketRead (c_strerror C) 4 (m_errbuf (Clear False rw)) st")
      (auto simp: MsgRW_ReadPacket_def Let_def split: if_split_asm)
qed

lemma ReadPacket_overflowD:
  assumes rp: "MsgRW_ReadPacket C rw st = Overflow"
    and ok: "rw_ok rw" and env: "env_ok C" and pr: "proper (s_in st)"
  shows "\<exists>len. 0 \<le> len \<and> one_past (Clear False rw) len"
proof -
  define rw0 where "rw0 = Clear False rw"
  have ok0: "rw_ok rw0" by (simp add: rw0_def Clear_ok ok)
  obtain iRet hdr err st1 where
    sr: "SocketRead (c_strerror C) 4 (m_errbuf rw0) st = Some (iRet, hdr, err, st1)"
    using rp by (cases "SocketRead (c_strerror C) 4 (m_errbuf rw0) st")
      (auto simp: MsgRW_ReadPacket_def rw0_def)
  note res = SocketRead_results [OF sr pr]
  define rw1 where "rw1 = rw0\<lparr>m_errbuf := err\<rparr>"
  have "length err = 514" using res(4) length_overwrite_errinfo ok0 by (auto simp: rw_ok_def)
  then have ok1: "rw_ok rw1" using ok0 by (simp add: rw1_def errbuf_ok)
  define len where "len = sint (ntohl_bytes (header_mem (header_junk C) hdr))"
  have "MsgRW_ReadPacket C rw st =
     (if iRet < 0 then Ret (iRet, rw1, st1)
      else if len < 0 then Ret (-1, set_err ''Invalid packet data format!'' rw1, st1)
      else if MAX_ADM_PKG < len then
        Ret (-1, set_err (''message size is too long! '' @ int_dec len) rw1, st1)
      else read_payload C len (grow C len rw1) st1)"
    using sr by (simp add: MsgRW_ReadPacket_def rw0_def rw1_def len_def Let_def)
  then have len: "0 \<le> len" and "read_payload C len (grow C len rw1) st1 = Overflow"
    using rp by (auto split: if_split_asm)
  then have "one_past rw1 len"
    using read_payload_overflow_iff [OF ok1 len env] res(5) by simp
  then show ?thesis using len by (auto simp: one_past_def rw1_def rw0_def)
qed

lemma ReadPacket_closed:
  assumes ok: "rw_ok rw" and env: "env_ok C" and pr: "proper (s_in st)"
    and few: "length (avail (s_in st)) < 4" and cl: "ending (s_in st) = Closed"
  shows "MsgRW_ReadPacket C rw st = Overflow \<or>
    (\<exists>r rw' st'. MsgRW_ReadPacket C rw st = Ret (r, rw', st') \<and> r \<le> 0)"
proof -
  define rw0 where "rw0 = Clear False rw"
  obtain st1 where sr: "SocketRead (c_strerror C) 4 (m_errbuf rw0) st
      = Some (0, avail (s_in st), m_errbuf rw0, st1)"
    and o: "proper (s_in st1)" "avail (s_in st1) = []" "ending (s_in st1) = Closed"
    using SocketRead_closed [OF pr _ _ cl, of 4 "c_strerror C" "m_errbuf rw0"] few by auto
  define len where "len = sint (ntohl_bytes (header_mem (header_junk C) (avail (s_in st))))"
  define rw1 where "rw1 = grow C len rw0"
  have eq: "MsgRW_ReadPacket C rw st =
     (if len < 0 then Ret (-1, set_err ''Invalid packet data format!'' rw0, st1)
      else if MAX_ADM_PKG < len then
        Ret (-1, set_err (''message size is too long! '' @ int_dec len) rw0, st1)
      else read_payload C len rw1 st1)"
    using sr by (simp add: MsgRW_ReadPacket_def rw0_def rw1_def len_def Let_def)
  have "\<exists>st2. SocketRead (c_strerror C) len (m_errbuf rw1) st1 = Some (0, [], m_errbuf rw1, st2)"
    if "0 \<le> len"
  proof (cases "len = 0")
    case True
    then show ?thesis using SocketRead_enough [OF o(1), of "[]" "[]" 0] o(2) by auto
  next
    case False
    then show ?thesis
      using SocketRead_closed [OF o(1) that _ o(3), of "c_strerror C" "m_errbuf rw1"] o(2) that by auto
  qed
  then show ?thesis
    unfolding eq by (auto simp: read_payload_def Let_def split: if_splits)
qed

end
