(* ===== verification/MsgTransport.thy ===== *)
theory MsgTransport
  imports MsgRW
begin

text \<open>
  Messages through \<open>CMsgRW\<close>: what one side packs and sends, the other side reads and parses,
  however the bytes are cut on their way.  The lemmas of the message classes come from the
  contract \<open>message_codec\<close>, those of the socket from \<open>SocketFunc\<close>.
\<close>

section \<open>Parsing what a reader holds\<close>

context message_codec
begin

lemma parse_either_holds:
  assumes "valid m" and "holds rw (serialize m)"
  shows "parse_either merge clear m0 rw = Some m"
  using nul_terminated_parse [OF assms(1), of m0] roundtrip [OF assms(1), of m0] assms(2)
  by (simp add: parse_either_def holds_def)

end

lemma parse_either_wrap:
  assumes "wrap_view W F h" and "holds rw F"
  shows "\<exists>w. parse_either (MsgHeaderWrap_MergePartial W) MsgHeaderWrap_Clear w0 rw = Some w \<and>
    hw_msg_header w = Some h"
proof (cases "cstr F = F")
  case True
  then have "cstr (m_msgbuf rw) = F" using assms(2) by (simp add: holds_def)
  moreover obtain w where
    "parse_bytes (MsgHeaderWrap_MergePartial W) MsgHeaderWrap_Clear w0 F = Some w"
    "hw_msg_header w = Some h"
    using assms(1) unfolding wrap_view_def by blast
  ultimately show ?thesis by (simp add: parse_either_def)
next
  case False
  then have "parse_bytes (MsgHeaderWrap_MergePartial W) MsgHeaderWrap_Clear w0 (cstr (m_msgbuf rw)) = None"
    using assms by (simp add: holds_def wrap_view_def)
  moreover have "take (m_lenmsg rw) (m_msgbuf rw) = F" using assms(2) by (auto simp: holds_def)
  moreover obtain w where
    "parse_bytes (MsgHeaderWrap_MergePartial W) MsgHeaderWrap_Clear w0 F = Some w"
    "hw_msg_header w = Some h"
    using assms(1) unfolding wrap_view_def by blast
  ultimately show ?thesis by (simp add: parse_either_def)
qed

section \<open>Reading messages\<close>

text \<open>A packet of acceptable size is on its way to a reader in good order.\<close>

definition arrives :: "cenv \<Rightarrow> msgrw \<Rightarrow> sockst \<Rightarrow> bytes \<Rightarrow> bytes \<Rightarrow> bool" where
  "arrives C rw st F rest \<longleftrightarrow>
     env_ok C \<and> rw_ok rw \<and> proper (s_in st) \<and> avail (s_in st) = packet F @ rest \<and>
     F \<noteq> [] \<and> int (length F) \<le> MAX_ADM_PKG \<and> \<not> one_past rw (int (length F))"

lemma ReadPacket_arrives:
  assumes "arrives C rw st F rest"
  obtains rw' st' where "MsgRW_ReadPacket C rw st = Ret (int (length F), rw', st')"
    and "holds rw' F" and "rw_ok rw'" and "same_out st st'" and "proper (s_in st')"
    and "avail (s_in st') = rest"
  using assms ReadPacket_received [where C = C and rw = rw and st = st and payload = F and rest = rest]
  unfolding arrives_def by blast

context wire_format
begin

lemma ReadResult_sent:
  assumes v: "MsgResult_valid W m" and h: "mr_msg_header m = Some h"
    and a: "arrives C rw st (MsgResult_Serialize W m) rest"
  shows "\<exists>rw' st'. rw_ok rw' \<and> proper (s_in st') \<and> avail (s_in st') = rest \<and> same_out st st' \<and>
    ReadResult C W m0 rw st =
      (if mh_msg_type h = MsgType_Result then Ret (0, Some m, rw', st')
       else Ret (-1, Some m0, set_err RMSG_NOT_RESULT rw', st'))"
proof -
  obtain rw' st' where r: "MsgRW_ReadPacket C rw st
      = Ret (int (length (MsgResult_Serialize W m)), rw', st')"
    and hold: "holds rw' (MsgResult_Serialize W m)"
    and o: "rw_ok rw'" "same_out st st'" "proper (s_in st')" "avail (s_in st') = rest"
    using ReadPacket_arrives [OF a] by metis
  obtain w where w: "parse_either (MsgHeaderWrap_MergePartial W) MsgHeaderWrap_Clear
      MsgHeaderWrap_SharedCtor rw' = Some w" "hw_msg_header w = Some h"
    using parse_either_wrap [OF result_view [OF v h] hold] by blast
  have p: "parse_either (MsgResult_MergePartial W) MsgResult_Clear (MsgResult_Clear m0) rw' = Some m"
    by (rule MsgResult.parse_either_holds [OF v hold])
  have "MsgResult_Serialize W m \<noteq> []" using a by (simp add: arrives_def)
  then have "ReadResult C W m0 rw st =
      (if mh_msg_type h = MsgType_Result then Ret (0, Some m, rw', st')
       else Ret (-1, Some m0, set_err RMSG_NOT_RESULT rw', st'))"
    by (simp add: ReadResult_def r w p hdr_msg_type_def)
  with o show ?thesis by blast
qed

lemma ReadCommand_sent:
  assumes v: "MsgCmd_valid W m" and h: "mc_msg_header m = Some h"
    and a: "arrives C rw st (MsgCmd_Serialize W m) rest"
  shows "\<exists>rw' st'. rw_ok rw' \<and> proper (s_in st') \<and> avail (s_in st') = rest \<and> same_out st st' \<and>
    ReadCommand C W m0 rw st =
      (if mh_msg_type h = MsgType_Command then Ret (0, Some m, rw', st')
       else Ret (-1, Some m0, set_err RMSG_NOT_CMD rw', st'))"
proof -
  obtain rw' st' where r: "MsgRW_ReadPacket C rw st
      = Ret (int (length (MsgCmd_Serialize W m)), rw', st')"
    and hold: "holds rw' (MsgCmd_Serialize W m)"
    and o: "rw_ok rw'" "same_out st st'" "proper (s_in st')" "avail (s_in st') = rest"
    using ReadPacket_arrives [OF a] by metis
  obtain w where w: "parse_either (MsgHeaderWrap_MergePartial W) MsgHeaderWrap_Clear
      MsgHeaderWrap_SharedCtor rw' = Some w" "hw_msg_header w = Some h"
    using parse_either_wrap [OF cmd_view [OF v h] hold] by blast
  have p: "parse_either (MsgCmd_MergePartial W) MsgCmd_Clear (MsgCmd_Clear m0) rw' = Some m"
    by (rule MsgCmd.parse_either_holds [OF v hold])
  have "MsgCmd_Serialize W m \<noteq> []" using a by (simp add: arrives_def)
  then have "ReadCommand C W m0 rw st =
      (if mh_msg_type h = MsgType_Command then Ret (0, Some m, rw', st')
       else Ret (-1, Some m0, set_err RMSG_NOT_CMD rw', st'))"
    by (simp add: ReadCommand_def r w p hdr_msg_type_def)
  with o show ?thesis by blast
qed

end

section \<open>Sending messages\<close>

lemma int_of_size_small: "len_ok n \<Longrightarrow> int_of_size n = int n"
  by (simp add: int_of_size_def len_ok_def sint_length)

lemma int_eq_size_refl [simp]: "int_eq_size (int n) n"
  by (simp add: int_eq_size_def)

lemma int_eq_size_minus1: "len_ok n \<Longrightarrow> \<not> int_eq_size (-1) n"
proof
  assume n: "len_ok n" and "int_eq_size (-1) n"
  then have "(word_of_nat n :: 64 word) = -1" by (simp add: int_eq_size_def)
  then have "unat (word_of_nat n :: 64 word) = unat (-1 :: 64 word)" by simp
  moreover have "unat (word_of_nat n :: 64 word) = n"
    using n by (simp add: unat_of_nat len_ok_def)
  ultimately show False using n by (simp add: unsigned_minus_1_eq_mask mask_eq_exp_minus_1 len_ok_def)
qed

text \<open>The script lets a whole packet out and is left with \<open>evs2\<close>.\<close>

definition lets_packet :: "nat \<Rightarrow> send_event list \<Rightarrow> send_event list \<Rightarrow> bool" where
  "lets_packet n evs evs2 \<longleftrightarrow>
     (\<exists>evs1. lets_through 4 evs = Some evs1 \<and> lets_through n evs1 = Some evs2)"

lemma MsgRW_SendPacket_sends:
  assumes "lets_packet (length F) (s_out st) evs2" and "len_ok (length F)"
  shows "\<exists>st'. MsgRW_SendPacket C F (int_of_size (length F)) rw st = Ret (int (length F), rw, st') \<and>
    sends st (packet F) st' \<and> s_out st' = evs2"
proof -
  obtain evs1 where "lets_through 4 (s_out st) = Some evs1" "lets_through (length F) evs1 = Some evs2"
    using assms(1) unfolding lets_packet_def by blast
  from SendPacket_sends [OF this, of "c_strerror C" "m_errbuf rw"] show ?thesis
    using assms(2) by (auto simp: MsgRW_SendPacket_def int_of_size_small)
qed

context wire_format
begin

lemma pack_and_send_sends:
  assumes v: "MsgResult_valid W m" and len: "len_ok (length (MsgResult_Serialize W m))"
    and out: "lets_packet (length (MsgResult_Serialize W m)) (s_out st) evs2"
  shows "\<exists>st'. pack_and_send C W m rw st = Ret (0, rw, st') \<and>
    sends st (packet (MsgResult_Serialize W m)) st' \<and> s_out st' = evs2"
proof -
  have ser: "SerializeToString W (MsgResult_ByteSize W) (MsgResult_SerializeToArray W) m
      = Some (MsgResult_Serialize W m)"
    using can_serialize [OF len] MsgResult.size_exact [OF v]
    by (simp add: SerializeToString_def MsgResult.array_exact)
  show ?thesis
    using MsgRW_SendPacket_sends [OF out len, of C rw] by (auto simp: pack_and_send_def ser)
qed

end

end
