(* ===== verification/SocketSetup.thy ===== *)
theory SocketSetup
  imports SocketFunc
begin

text \<open>
  The functions of \<open>qdcadm/SimpleSocketFunc.cpp\<close> around a connection: \<open>Listen\<close>, \<open>Accept\<close>,
  \<open>TestCanRecv\<close> and \<open>CloseSocket\<close>.  What \<open>select\<close> reports is a script, like the script of \<open>recv\<close>;
  the other system calls answer once.
\<close>

section \<open>select\<close>

text \<open>
  The return value, the \<open>errno\<close> a failing call sets, and whether the descriptor is in the set of
  readable and of exceptional descriptors afterwards.
\<close>

record selres =
  sel_ret :: int
  sel_errno :: int
  sel_rd :: bool
  sel_ex :: bool

definition after_select :: "selres \<Rightarrow> int \<Rightarrow> int" where
  "after_select s e = (if sel_ret s < 0 then sel_errno s else e)"

section \<open>TestCanRecv\<close>

fun TestCanRecv_loop :: "(int \<Rightarrow> bytes) \<Rightarrow> bytes \<Rightarrow> int \<Rightarrow> selres list \<Rightarrow> (int \<times> bytes) outcome" where
  "TestCanRecv_loop strerr err e [] = Block"
| "TestCanRecv_loop strerr err e (s # ss) =
     (let e1 = after_select s e in
      if sel_ret s = 0 then Ret (0, err)
      else if sel_ret s < 0 then
        (if e1 = EINTR then TestCanRecv_loop strerr err e1 ss
         else Ret (-1, overwrite err (GetSysErrorInfo strerr e1)))
      else if sel_ex s then Ret (-1, overwrite err (GetSysErrorInfo strerr e1))
      else if sel_rd s then Ret (1, err)
      else TestCanRecv_loop strerr err e1 ss)"

definition TestCanRecv :: "(int \<Rightarrow> bytes) \<Rightarrow> int \<Rightarrow> bytes \<Rightarrow> int \<Rightarrow> selres list \<Rightarrow> (int \<times> bytes) outcome" where
  "TestCanRecv strerr sockfd err e ss =
     (if sockfd < 0 then Ret (-1, err) else TestCanRecv_loop strerr err e ss)"

section \<open>Accept\<close>

text \<open>
  The two waiting loops.  They yield what \<open>select\<close> returned, whether the descriptor is still in
  \<open>acceptready\<close>, the error buffer and \<open>errno\<close> (\<open>Inr\<close>), or the value \<open>Accept\<close> returns at once (\<open>Inl\<close>).
  The loop with a timeout works on a copy of \<open>acceptready\<close>, which so stays set, and reports any
  \<open>errno\<close> that is not 0, an old one too.
\<close>

fun wait_forever :: "(int \<Rightarrow> bytes) \<Rightarrow> bytes \<Rightarrow> int \<Rightarrow> selres list
    \<Rightarrow> ((int \<times> bytes) + (int \<times> bool \<times> bytes \<times> int)) outcome" where
  "wait_forever strerr err e [] = Block"
| "wait_forever strerr err e (s # ss) =
     (let e1 = after_select s e in
      if 0 \<le> sel_ret s then Ret (Inr (sel_ret s, sel_rd s, err, e1))
      else if e1 = EINTR then wait_forever strerr err e1 ss
      else Ret (Inl (-1, overwrite err (GetSysErrorInfo strerr e1))))"

fun wait_timeout :: "(int \<Rightarrow> bytes) \<Rightarrow> bytes \<Rightarrow> int \<Rightarrow> selres list
    \<Rightarrow> ((int \<times> bytes) + (int \<times> bool \<times> bytes \<times> int)) outcome" where
  "wait_timeout strerr err e [] = Block"
| "wait_timeout strerr err e (s # ss) =
     (let e1 = after_select s e;
          err1 = (if e1 \<noteq> 0 then overwrite err (GetSysErrorInfo strerr e1) else err) in
      if sel_ret s < 0 \<and> e1 = EINTR then wait_timeout strerr err1 e1 ss
      else if sel_ret s < 0 \<and> e1 \<noteq> EINTR then Ret (Inl (sel_ret s, err1))
      else if sel_ex s then Ret (Inl (-1, overwrite err1 (GetSysErrorInfo strerr e1)))
      else Ret (Inr (sel_ret s, True, err1, e1)))"

definition Accept :: "(int \<Rightarrow> bytes) \<Rightarrow> int \<Rightarrow> bytes \<Rightarrow> int \<Rightarrow> selres list \<Rightarrow> int \<times> int
    \<Rightarrow> (int \<times> bytes) outcome" where
  "Accept strerr timeoutms err e ss acc =
     obind (if timeoutms = -1 then wait_forever strerr err e ss else wait_timeout strerr err e ss)
       (\<lambda>r. case r of
           Inl res \<Rightarrow> Ret res
         | Inr (ret, ready, err1, e1) \<Rightarrow>
             (if ret = 0 then Ret (0, err1)
              else if ready then
                (case acc of (acceptfd, ea) \<Rightarrow>
                   let e2 = (if acceptfd = -1 then ea else e1);
                       err2 = (if e2 \<noteq> 0 then overwrite err1 (GetSysErrorInfo strerr e2) else err1) in
                   if acceptfd = -1 then (if e2 = EINTR then Ret (0, err2) else Ret (-1, err2))
                   else Ret (acceptfd, err2))
              else Ret (0, err1)))"

section \<open>Listen\<close>

record listensys =
  ls_inet_addr :: "bytes \<Rightarrow> 32 word"
  ls_socket :: "int \<times> int"
  ls_bind :: "32 word \<Rightarrow> 16 word \<Rightarrow> int \<times> int"
  ls_listen :: "int \<times> int"

text \<open>
  The error text goes into the local \<open>szSysErrorInfo\<close> of \<open>SYS_ERRMSG_MAX_SIZE\<close> bytes first, and the
  message looks at \<open>aIpAddr[0]\<close>, which is an access to no object when the pointer is null (\<open>None\<close>).
\<close>

definition listen_error :: "(int \<Rightarrow> bytes) \<Rightarrow> bytes \<Rightarrow> int \<Rightarrow> bytes option \<Rightarrow> bytes \<Rightarrow> int
    \<Rightarrow> (int \<times> bytes) outcome" where
  "listen_error strerr what aPort aIpAddr szErrInfo e =
     (let info = GetSysErrorInfo strerr e in
      if SYS_ERRMSG_MAX_SIZE < length info then Overflow
      else
        (case aIpAddr of
           None \<Rightarrow> Overflow
         | Some ip \<Rightarrow>
             (if cstr ip = [] then
                Ret (-1, sprintf_at szErrInfo
                  (what @ '' error in all local ip, port '' @ int_dec aPort @ '': '' @ cstr info))
              else
                Ret (-1, sprintf_at szErrInfo
                  (what @ '' error in ip '' @ cstr ip @ '', port '' @ int_dec aPort @ '': '' @ cstr info)))))"

definition Listen :: "(int \<Rightarrow> bytes) \<Rightarrow> listensys \<Rightarrow> int \<Rightarrow> bytes \<Rightarrow> bytes option \<Rightarrow> (int \<times> bytes) outcome" where
  "Listen strerr N aPort szErrInfo aIpAddr =
     (let addr = (case aIpAddr of
                    None \<Rightarrow> 0
                  | Some ip \<Rightarrow> (if cstr ip = [] then 0 else ls_inet_addr N (cstr ip))) in
      case ls_socket N of (listensockfd, e) \<Rightarrow>
        if listensockfd = -1 then Ret (-1, overwrite szErrInfo (GetSysErrorInfo strerr e))
        else
          (case ls_bind N addr (word_of_int aPort) of (ret, e1) \<Rightarrow>
             if ret = -1 then listen_error strerr ''bind'' aPort aIpAddr szErrInfo e1
             else
               (case ls_listen N of (ret2, e2) \<Rightarrow>
                  if ret2 = -1 then listen_error strerr ''listen'' aPort aIpAddr szErrInfo e2
                  else Ret (listensockfd, szErrInfo))))"

text \<open>\<open>CloseSocket\<close>: the calls it makes; its assignment to \<open>sockfd\<close> is to its own copy.\<close>

definition CloseSocket :: "int \<Rightarrow> close_call list" where
  "CloseSocket sockfd = (if sockfd \<noteq> -1 then [Shutdown sockfd, Close sockfd] else [])"

section \<open>What they report\<close>

lemma TestCanRecv_interrupted:
  "TestCanRecv_loop strerr err e ss = Ret (r, err') \<Longrightarrow>
   r \<in> {-1, 0, 1} \<and> (r = 1 \<longrightarrow> (\<exists>s \<in> set ss. 0 < sel_ret s \<and> sel_rd s \<and> \<not> sel_ex s) \<and> err' = err) \<and>
   (r = 0 \<longrightarrow> (\<exists>s \<in> set ss. sel_ret s = 0) \<and> err' = err)"
  by (induction strerr err e ss rule: TestCanRecv_loop.induct) (auto simp: Let_def split: if_split_asm)

lemma wait_forever_ready:
  "wait_forever strerr err e ss = Ret (Inr (ret, ready, err1, e1)) \<Longrightarrow>
   0 \<le> ret \<and> (\<exists>s \<in> set ss. ret = sel_ret s \<and> ready = sel_rd s)"
  by (induction strerr err e ss rule: wait_forever.induct) (auto simp: Let_def split: if_split_asm)

lemma wait_timeout_ready:
  "wait_timeout strerr err e ss = Ret (Inr (ret, ready, err1, e1)) \<Longrightarrow>
   0 \<le> ret \<and> ready \<and> (\<exists>s \<in> set ss. ret = sel_ret s \<and> \<not> sel_ex s)"
  by (induction strerr err e ss rule: wait_timeout.induct) (auto simp: Let_def split: if_split_asm)

lemma wait_results:
  "wait_forever strerr err e ss = Ret (Inl (r, err')) \<Longrightarrow> r = -1"
  "wait_timeout strerr err e ss = Ret (Inl (r, err')) \<Longrightarrow> r < 0"
  by (induction strerr err e ss rule: wait_forever.induct; auto simp: Let_def split: if_split_asm)
    (induction strerr err e ss rule: wait_timeout.induct; auto simp: Let_def split: if_split_asm)

lemma Accept_result:
  assumes "Accept strerr timeoutms err e ss acc = Ret (r, err')"
  shows "r < 0 \<or> (r = 0 \<and> (fst acc = 0 \<or> snd acc = EINTR \<or>
      (\<exists>s \<in> set ss. sel_ret s = 0 \<or> \<not> sel_rd s))) \<or>
    (0 < r \<and> r = fst acc \<and> (\<exists>s \<in> set ss. 0 < sel_ret s))"
proof -
  define w where "w = (if timeoutms = -1 then wait_forever strerr err e ss else wait_timeout strerr err e ss)"
  obtain x where w: "w = Ret x" using assms by (cases w) (auto simp: Accept_def w_def)
  show ?thesis
  proof (cases x)
    case (Inl res)
    then have "w = Ret (Inl (r, err'))" using assms w by (simp add: Accept_def w_def)
    then have "r < 0" using wait_results unfolding w_def by (fastforce split: if_split_asm)
    then show ?thesis by simp
  next
    case (Inr y)
    obtain ret ready err1 e1 where y: "y = (ret, ready, err1, e1)" by (cases y) auto
    have "0 \<le> ret \<and> (\<exists>s \<in> set ss. ret = sel_ret s \<and> (ready \<longrightarrow> True) \<and> (\<not> ready \<longrightarrow> \<not> sel_rd s))"
      using w Inr y wait_forever_ready [of strerr err e ss ret ready err1 e1]
        wait_timeout_ready [of strerr err e ss ret ready err1 e1]
      unfolding w_def by (auto split: if_split_asm)
    then obtain s where s: "0 \<le> ret" "s \<in> set ss" "ret = sel_ret s" "\<not> ready \<longrightarrow> \<not> sel_rd s" by blast
    have res: "(if ret = 0 then Ret (0, err1)
        else if ready then
          (case acc of (acceptfd, ea) \<Rightarrow>
             let e2 = (if acceptfd = -1 then ea else e1);
                 err2 = (if e2 \<noteq> 0 then overwrite err1 (GetSysErrorInfo strerr e2) else err1) in
             if acceptfd = -1 then (if e2 = EINTR then Ret (0, err2) else Ret (-1, err2))
             else Ret (acceptfd, err2))
        else Ret (0, err1)) = Ret (r, err')"
      using assms w Inr y by (simp add: Accept_def w_def)
    show ?thesis
    proof (cases "ret = 0 \<or> \<not> ready")
      case True
      then have "r = 0" using res by (auto split: if_split_asm)
      then show ?thesis using True s by metis
    next
      case False
      then have "0 < sel_ret s" using s by simp
      moreover have "r = fst acc \<or> fst acc = -1 \<and> (r = -1 \<or> r = 0 \<and> snd acc = EINTR)"
        using res False by (cases acc) (auto simp: Let_def split: if_split_asm)
      ultimately show ?thesis using s(2) by (cases "0 < r"; cases "r = 0") auto
    qed
  qed
qed

section \<open>Accept and the error number of an earlier call\<close>

text \<open>Calls of \<open>select\<close> that a signal interrupts.\<close>

definition interrupted :: "selres list \<Rightarrow> bool" where
  "interrupted ss \<longleftrightarrow> list_all (\<lambda>s. sel_ret s < 0 \<and> sel_errno s = EINTR) ss"

lemma overwrite_twice [simp]: "overwrite (overwrite err t) t = overwrite err t"
  by (simp add: overwrite_def)

lemma wait_forever_interrupted:
  "interrupted ss \<Longrightarrow> 0 \<le> sel_ret s \<Longrightarrow>
   wait_forever strerr err e (ss @ s # rest) =
     Ret (Inr (sel_ret s, sel_rd s, err, if ss = [] then e else EINTR))"
  by (induction ss arbitrary: e) (auto simp: interrupted_def after_select_def)

lemma wait_timeout_interrupted:
  "interrupted ss \<Longrightarrow> 0 \<le> sel_ret s \<Longrightarrow> \<not> sel_ex s \<Longrightarrow>
   wait_timeout strerr err e (ss @ s # rest) =
     Ret (Inr (sel_ret s, True,
       (if ss = [] \<and> e = 0 then err else overwrite err (GetSysErrorInfo strerr (if ss = [] then e else EINTR))),
       if ss = [] then e else EINTR))"
proof (induction ss arbitrary: err e)
  case (Cons x ss)
  then show ?case by (auto simp: interrupted_def after_select_def EINTR_def)
qed (simp add: after_select_def)

end
