(* ===== verification/AdmClient.thy ===== *)
theory AdmClient
  imports MsgTransport SocketSetup
begin

text \<open>
  The class \<open>CAdmClient\<close> of \<open>qdcadm/CAdmClient.h\<close> and \<open>CAdmClient.cpp\<close>: one connection to the
  admin server, the login, and the sending of a command.  The results of the system calls that
  set a connection up are the record \<open>netsys\<close>.
\<close>

section \<open>The connection\<close>

record netsys =
  sys_inet_addr :: "bytes \<Rightarrow> 32 word"
  sys_socket :: "int \<times> int"
  sys_connect :: "32 word \<Rightarrow> 16 word \<Rightarrow> int \<times> int"
  sys_sndtimeo :: int
  sys_rcvtimeo :: int

definition INADDR_NONE :: "32 word" where
  "INADDR_NONE = -1"

record admclient =
  m_sock :: int
  m_pwd :: bytes
  m_err :: bytes
  so_sndtimeo :: int
  so_rcvtimeo :: int
  cl_closed :: "close_call list"

definition set_m_err :: "bytes \<Rightarrow> admclient \<Rightarrow> admclient" where
  "set_m_err s cl = cl\<lparr>m_err := snprintf_at (m_err cl) LEN_ERR_MSG s\<rparr>"

text \<open>
  The two \<open>setsockopt\<close> calls, for sending and for receiving: each takes effect when it returns 0.
\<close>

definition set_timeouts :: "netsys \<Rightarrow> int \<Rightarrow> admclient \<Rightarrow> admclient" where
  "set_timeouts N timeoutS cl =
     (let cl1 = (if sys_sndtimeo N = 0 then cl\<lparr>so_sndtimeo := timeoutS\<rparr> else cl)
      in if sys_rcvtimeo N = 0 then cl1\<lparr>so_rcvtimeo := timeoutS\<rparr> else cl1)"

lemma set_timeouts_keeps [simp]:
  "m_sock (set_timeouts N s cl) = m_sock cl" "m_pwd (set_timeouts N s cl) = m_pwd cl"
  "m_err (set_timeouts N s cl) = m_err cl" "cl_closed (set_timeouts N s cl) = cl_closed cl"
  by (simp_all add: set_timeouts_def Let_def)

text \<open>
  The constructor; \<open>eb\<close> is what the array \<open>m_err\<close> holds before.  \<open>htons\<close> keeps the low sixteen
  bits of the port.  A timeout of 0 is the kernel's default, none.  \<open>cl_closed\<close> is what the object
  has done to close a descriptor.
\<close>

definition CAdmClient :: "(int \<Rightarrow> bytes) \<Rightarrow> netsys \<Rightarrow> bytes \<Rightarrow> bytes \<Rightarrow> int \<Rightarrow> bytes \<Rightarrow> admclient" where
  "CAdmClient strerr N eb host port pwd =
     (let cl = \<lparr>m_sock = -1, m_pwd = pwd, m_err = eb[0 := CHR 0x00], so_sndtimeo = 0, so_rcvtimeo = 0,
                cl_closed = []\<rparr>;
          addr = sys_inet_addr N (cstr host) in
      if addr = INADDR_NONE then
        set_m_err (''Bad format ip address:'' @ cstr host @ [CHR 0x0A]) cl
      else
        (case sys_socket N of (fd, e) \<Rightarrow>
           let cl1 = cl\<lparr>m_sock := fd\<rparr> in
           if fd < 0 then
             set_m_err (''can't create socket:'' @ cstr (strerr e) @ [CHR 0x0A]) cl1
           else
             (case sys_connect N addr (word_of_int port) of (rc, e1) \<Rightarrow>
                if rc < 0 then
                  (set_m_err (''Can not connect to '' @ cstr host @ '':'' @ int_dec port @ '',error:''
                     @ cstr (strerr e1) @ [CHR 0x0A]) cl1)\<lparr>cl_closed := CloseSocket fd, m_sock := -1\<rparr>
                else set_timeouts N 5 cl1)))"

definition IsConnected :: "admclient \<Rightarrow> bool" where
  "IsConnected cl \<longleftrightarrow> 0 \<le> m_sock cl"

definition GetSock :: "admclient \<Rightarrow> int" where
  "GetSock cl = m_sock cl"

definition client_GetErrMsg :: "admclient \<Rightarrow> bytes" where
  "client_GetErrMsg cl = cstr (m_err cl)"

text \<open>The destructor: the calls it makes on a connection that is open.\<close>

definition CAdmClient_destroy :: "admclient \<Rightarrow> close_call list" where
  "CAdmClient_destroy cl = (if 0 \<le> m_sock cl then CloseSocket (m_sock cl) else [])"

lemma CAdmClient_destroy_calls:
  "CAdmClient_destroy cl = (if IsConnected cl then [Shutdown (m_sock cl), Close (m_sock cl)] else [])"
  by (simp add: CAdmClient_destroy_def CloseSocket_def IsConnected_def)

definition SetTimeout :: "netsys \<Rightarrow> int \<Rightarrow> admclient \<Rightarrow> bool \<times> admclient" where
  "SetTimeout N timeoutS cl =
     (sys_sndtimeo N + sys_rcvtimeo N = 0, set_timeouts N timeoutS cl)"

section \<open>Login and SendCommand\<close>

definition CMD_LOGIN :: bytes where "CMD_LOGIN = ''login''"

definition command_message :: "bytes \<Rightarrow> (bytes \<times> bytes) list \<Rightarrow> MsgCmd" where
  "command_message cmd params =
     fold (\<lambda>kv m. m\<lparr>mc_params := mc_params m @ [add_pair kv]\<rparr>) params
       (MsgCmd_SharedCtor\<lparr>mc_msg_header := Some (MakeMsgHdr MsgType_Command), mc_cmd := cmd\<rparr>)"

definition Login :: "cenv \<Rightarrow> wirelib \<Rightarrow> admclient \<Rightarrow> sockst \<Rightarrow> (int \<times> admclient \<times> sockst) outcome" where
  "Login C W cl st =
     (if \<not> IsConnected cl then Ret (-1, set_m_err ''not connected to Admin Server'' cl, st)
      else
        obind (ExecCmdResult C W (command_message CMD_LOGIN [(''password'', m_pwd cl)])
                 MsgResult_SharedCtor (CMsgRW C) st) (\<lambda>(rc, msgResult, msgrw, st1).
          if rc \<noteq> 0 then Ret (rc, set_m_err (GetErrMsg msgrw) cl, st1)
          else
            (case msgResult of
               None \<Rightarrow> Ret (rc, cl, st1)
             | Some res \<Rightarrow>
                 (if \<not> strcasecmp_eq (mr_rc res) RC_OK then
                    Ret (-1, set_m_err (mr_msg res) cl, st1)
                  else Ret (0, cl, st1)))))"

definition SendCommand :: "cenv \<Rightarrow> wirelib \<Rightarrow> bytes \<Rightarrow> (bytes \<times> bytes) list \<Rightarrow> admclient \<Rightarrow> sockst
    \<Rightarrow> (int \<times> admclient \<times> sockst) outcome" where
  "SendCommand C W cmd params cl st =
     obind (Login C W cl st) (\<lambda>(rc, cl1, st1).
       if rc \<noteq> 0 then Ret (rc, cl1, st1)
       else
         (case SerializeToString W (MsgCmd_ByteSize W) (MsgCmd_SerializeToArray W)
                 (command_message cmd params) of
            None \<Rightarrow> Ret (-1, set_m_err ''serialize protobuf fail'' cl1, st1)
          | Some pkg \<Rightarrow>
              obind (MsgRW_SendPacket C pkg (int_of_size (length pkg)) (CMsgRW C) st1)
                (\<lambda>(rc2, msgrw, st2).
                  if rc2 \<le> 0 then Ret (-1, cl1, st2) else Ret (0, cl1, st2))))"

section \<open>What goes over the wire\<close>

definition text_ok :: "wirelib \<Rightarrow> bytes \<Rightarrow> bool" where
  "text_ok W s \<longleftrightarrow> len_ok (length s) \<and> VerifyUtf8String W s"

text \<open>The strings of a command or a result are fit to be sent.\<close>

definition pairs_ok :: "wirelib \<Rightarrow> (bytes \<times> bytes) list \<Rightarrow> bool" where
  "pairs_ok W kvs \<longleftrightarrow>
     list_all (\<lambda>kv. text_ok W (fst kv) \<and> text_ok W (snd kv) \<and>
       len_ok (length (PairStrStr_Serialize W (add_pair kv)))) kvs"

definition header_ok :: "wirelib \<Rightarrow> bool" where
  "header_ok W \<longleftrightarrow> (\<forall>ty. len_ok (length (MsgHeader_Serialize W (MakeMsgHdr ty))))"

lemma add_pair_valid: "text_ok W (fst kv) \<Longrightarrow> text_ok W (snd kv) \<Longrightarrow> PairStrStr_valid W (add_pair kv)"
  by (simp add: PairStrStr_valid_def add_pair_def PairStrStr_SharedCtor_def text_ok_def)

lemma add_params: "fold (\<lambda>kv m. m\<lparr>mc_params := mc_params m @ [add_pair kv]\<rparr>) kvs m
    = m\<lparr>mc_params := mc_params m @ map add_pair kvs\<rparr>"
  by (induction kvs arbitrary: m) simp_all

lemma add_rt_pairs: "fold (\<lambda>kv m. m\<lparr>mr_rt_pairs := mr_rt_pairs m @ [add_pair kv]\<rparr>) kvs m
    = m\<lparr>mr_rt_pairs := mr_rt_pairs m @ map add_pair kvs\<rparr>"
  by (induction kvs arbitrary: m) simp_all

lemma command_message_eq: "command_message cmd kvs =
    \<lparr>mc_msg_header = Some (MakeMsgHdr MsgType_Command), mc_cmd = cmd, mc_params = map add_pair kvs,
     mc_unknown = []\<rparr>"
  by (simp add: command_message_def add_params MsgCmd_SharedCtor_def)

lemma MakeMsgHdr_simps [simp]: "mh_msg_type (MakeMsgHdr ty) = ty" "mh_unknown (MakeMsgHdr ty) = []"
  by (simp_all add: MakeMsgHdr_def MsgHeader_SharedCtor_def)

lemma command_message_valid:
  "header_ok W \<Longrightarrow> text_ok W cmd \<Longrightarrow> pairs_ok W kvs \<Longrightarrow> MsgCmd_valid W (command_message cmd kvs)"
  by (simp add: MsgCmd_valid_def command_message_eq MsgHeader_valid_def header_ok_def text_ok_def
      pairs_ok_def list_all_iff add_pair_valid)

definition result_with :: "bytes \<Rightarrow> bytes \<Rightarrow> (bytes \<times> bytes) list \<Rightarrow> MsgResult" where
  "result_with rc msg kvs =
     \<lparr>mr_msg_header = Some (MakeMsgHdr MsgType_Result), mr_rc = rc, mr_msg = msg,
      mr_rt_pairs = map add_pair kvs, mr_unknown = []\<rparr>"

lemma result_with_valid:
  "header_ok W \<Longrightarrow> text_ok W rc \<Longrightarrow> text_ok W msg \<Longrightarrow> pairs_ok W kvs \<Longrightarrow>
   MsgResult_valid W (result_with rc msg kvs)"
  by (simp add: MsgResult_valid_def result_with_def MsgHeader_valid_def header_ok_def text_ok_def
      pairs_ok_def list_all_iff add_pair_valid)

lemma ReplyResult_eq: "ReplyResult C W rc msg rw st = pack_and_send C W (result_with rc msg []) rw st"
  by (simp add: ReplyResult_def result_message_def result_with_def MsgResult_SharedCtor_def)

lemma ReplyResult_apd_eq:
  "ReplyResult_apd C W rc msg kvs rw st = pack_and_send C W (result_with rc msg kvs) rw st"
  by (simp add: ReplyResult_apd_def result_message_def result_with_def MsgResult_SharedCtor_def
      add_rt_pairs)

section \<open>Frames of the calls\<close>

text \<open>What a call may do to the connection: send more bytes, and consume input.\<close>

definition sent_more :: "sockst \<Rightarrow> bytes \<Rightarrow> sockst \<Rightarrow> bool" where
  "sent_more st bs st' \<longleftrightarrow> s_sent st' = s_sent st @ bs"

lemma sent_more_sends: "sends st bs st' \<Longrightarrow> sent_more st bs st'"
  by (simp add: sends_def sent_more_def)

lemma sent_more_same: "sent_more st bs st1 \<Longrightarrow> same_out st1 st2 \<Longrightarrow> sent_more st bs st2"
  by (simp add: same_out_def sent_more_def)

lemma sent_more_trans: "sent_more a x b \<Longrightarrow> sent_more b y c \<Longrightarrow> sent_more a (x @ y) c"
  by (simp add: sent_more_def)

lemma ReadResult_frame:
  assumes rr: "ReadResult C W m0 rw st = Ret (rc, m, rw', st')"
    and "rw_ok rw" and "proper (s_in st)" and "env_ok C"
  shows "rw_ok rw' \<and> proper (s_in st') \<and> same_out st st' \<and>
    (rc = 0 \<and> m \<noteq> None \<or> rc = -1)"
proof -
  obtain n rw1 st1 where rp: "MsgRW_ReadPacket C rw st = Ret (n, rw1, st1)"
    using rr by (cases "MsgRW_ReadPacket C rw st") (auto simp: ReadResult_def)
  note ok = ReadPacket_ok [OF rp assms(2-4)]
  have "st' = st1 \<and> (rw' = rw1 \<or> (\<exists>s. rw' = set_err s rw1)) \<and> (rc = 0 \<and> m \<noteq> None \<or> rc = -1)"
    using rr by (auto simp: ReadResult_def rp split: if_split_asm option.split_asm) metis
  with ok show ?thesis using set_err_ok by blast
qed

lemma MsgRW_SendPacket_frame:
  assumes "MsgRW_SendPacket C F (int_of_size (length F)) rw st = Ret (rc, rw', st')"
    and "len_ok (length F)"
  shows "(rc = int (length F) \<and> rw' = rw \<and> sends st (packet F) st') \<or>
    (rc = -1 \<and> (\<exists>k < length (packet F). sends st (take k (packet F)) st'))"
proof -
  obtain err where sp: "SendPacket (c_strerror C) F (int (length F)) (m_errbuf rw) st = Some (rc, err, st')"
    and rw': "rw' = rw\<lparr>m_errbuf := err\<rparr>"
    using assms
    by (cases "SendPacket (c_strerror C) F (int (length F)) (m_errbuf rw) st")
      (auto simp: MsgRW_SendPacket_def int_of_size_small)
  from SendPacket_outcome [OF sp] rw' show ?thesis by auto
qed

context wire_format
begin

lemma serialize_cmd:
  "MsgCmd_valid W m \<Longrightarrow> len_ok (length (MsgCmd_Serialize W m)) \<Longrightarrow>
   SerializeToString W (MsgCmd_ByteSize W) (MsgCmd_SerializeToArray W) m = Some (MsgCmd_Serialize W m)"
  using can_serialize MsgCmd.size_exact by (simp add: SerializeToString_def MsgCmd.array_exact)

text \<open>A header with any type leaves a packet that is not empty.\<close>

lemma packed_nonempty: "MsgCmd_Serialize W (command_message cmd kvs) \<noteq> []"
  "MsgResult_Serialize W (result_with rc msg kvs) \<noteq> []"
  using head_tag [of 1]
  by (simp_all add: MsgCmd_Serialize_def MsgResult_Serialize_def command_message_eq result_with_def
      field_no_def)

lemma ExecCmdResult_frame:
  assumes ex: "ExecCmdResult C W m m0 rw st = Ret (rc, res, rw', st')"
    and v: "MsgCmd_valid W m" "len_ok (length (MsgCmd_Serialize W m))"
    and ok: "rw_ok rw" "proper (s_in st)" "env_ok C"
  shows "proper (s_in st') \<and>
    (rc = 0 \<and> res \<noteq> None \<and> sent_more st (packet (MsgCmd_Serialize W m)) st' \<or>
     rc = -1 \<and> (\<exists>k. sent_more st (take k (packet (MsgCmd_Serialize W m))) st'))"
proof -
  define F where "F = MsgCmd_Serialize W m"
  obtain n rw1 st1 where snd: "MsgRW_SendPacket C F (int_of_size (length F)) rw st = Ret (n, rw1, st1)"
    using ex serialize_cmd [OF v]
    by (cases "MsgRW_SendPacket C F (int_of_size (length F)) rw st") (auto simp: ExecCmdResult_def F_def)
  have ex1: "(if n \<le> 0 then Ret (-1, Some m0, rw1, st1) else ReadResult C W m0 rw1 st1)
      = Ret (rc, res, rw', st')"
    using ex snd serialize_cmd [OF v] by (simp add: ExecCmdResult_def F_def)
  have len: "len_ok (length F)" using v(2) by (simp add: F_def)
  from MsgRW_SendPacket_frame [OF snd len] show ?thesis
  proof
    assume a: "n = int (length F) \<and> rw1 = rw \<and> sends st (packet F) st1"
    then have more: "sent_more st (packet F) st1" by (simp add: sent_more_sends)
    have full: "sent_more st (take (length (packet F)) (packet F)) st1" using more by simp
    have pr1: "proper (s_in st1)" using a ok(2) by (simp add: sends_def)
    show ?thesis
    proof (cases "n \<le> 0")
      case True
      then have "rc = -1" "st' = st1" using ex1 by simp_all
      with full pr1 show ?thesis unfolding F_def by blast
    next
      case False
      then have rr: "ReadResult C W m0 rw st1 = Ret (rc, res, rw', st')" using ex1 a by simp
      note fr = ReadResult_frame [OF rr ok(1) pr1 ok(3)]
      then have "sent_more st (packet F) st'" "sent_more st (take (length (packet F)) (packet F)) st'"
        using more full sent_more_same by blast+
      with fr show ?thesis unfolding F_def by blast
    qed
  next
    assume a: "n = -1 \<and> (\<exists>k < length (packet F). sends st (take k (packet F)) st1)"
    then have "rc = -1" "st' = st1" using ex1 by simp_all
    with a ok(2) show ?thesis unfolding F_def by (auto simp: sends_def sent_more_def)
  qed
qed

text \<open>The other direction: the answer is on its way, and everything goes out.\<close>

lemma ExecCmdResult_exchange:
  assumes v: "MsgCmd_valid W m" "len_ok (length (MsgCmd_Serialize W m))" "MsgCmd_Serialize W m \<noteq> []"
    and out: "lets_packet (length (MsgCmd_Serialize W m)) (s_out st) evs2"
    and r: "MsgResult_valid W r" "mr_msg_header r = Some (MakeMsgHdr MsgType_Result)"
    and a: "arrives C rw st (MsgResult_Serialize W r) rest"
  shows "\<exists>rw' st'. ExecCmdResult C W m m0 rw st = Ret (0, Some r, rw', st') \<and> rw_ok rw' \<and>
    proper (s_in st') \<and> avail (s_in st') = rest \<and> s_out st' = evs2 \<and>
    sent_more st (packet (MsgCmd_Serialize W m)) st'"
proof -
  define F where "F = MsgCmd_Serialize W m"
  obtain st1 where snd: "MsgRW_SendPacket C F (int_of_size (length F)) rw st = Ret (int (length F), rw, st1)"
    and s1: "sends st (packet F) st1" "s_out st1 = evs2"
    using MsgRW_SendPacket_sends [OF out v(2), of C rw] unfolding F_def by blast
  have a1: "arrives C rw st1 (MsgResult_Serialize W r) rest"
    using a s1(1) by (simp add: arrives_def sends_def)
  obtain rw' st' where rr: "ReadResult C W m0 rw st1 = Ret (0, Some r, rw', st')"
    and o: "rw_ok rw'" "proper (s_in st')" "avail (s_in st') = rest" "same_out st1 st'"
    using ReadResult_sent [OF r a1, of m0] by auto
  have "ExecCmdResult C W m m0 rw st = Ret (0, Some r, rw', st')"
    using serialize_cmd [OF v(1,2)] snd rr v(3) by (simp add: ExecCmdResult_def F_def)
  moreover have "sent_more st (packet F) st'"
    using s1(1) o(4) sent_more_sends sent_more_same by blast
  moreover have "s_out st' = evs2" using s1(2) o(4) by (simp add: same_out_def)
  ultimately show ?thesis using o unfolding F_def by blast
qed

lemma Login_frame:
  assumes lg: "Login C W cl st = Ret (rc, cl1, st1)"
    and h: "header_ok W" and kvs: "text_ok W CMD_LOGIN" "pairs_ok W [(''password'', m_pwd cl)]"
    and len: "len_ok (length (MsgCmd_Serialize W (command_message CMD_LOGIN [(''password'', m_pwd cl)])))"
    and ok: "proper (s_in st)" "env_ok C"
  shows "proper (s_in st1) \<and>
    (rc = 0 \<and> cl1 = cl \<and> sent_more st (packet (MsgCmd_Serialize W
        (command_message CMD_LOGIN [(''password'', m_pwd cl)]))) st1 \<or>
     rc = -1 \<and> (\<exists>k. sent_more st (take k (packet (MsgCmd_Serialize W
        (command_message CMD_LOGIN [(''password'', m_pwd cl)])))) st1))"
proof (cases "IsConnected cl")
  case False
  then have "rc = -1" "st1 = st" using lg by (simp_all add: Login_def)
  moreover have "sent_more st (take 0 bs) st" for bs by (simp add: sent_more_def)
  ultimately show ?thesis using ok(1) by blast
next
  case True
  define m where "m = command_message CMD_LOGIN [(''password'', m_pwd cl)]"
  have v: "MsgCmd_valid W m" unfolding m_def by (rule command_message_valid [OF h kvs])
  obtain r0 res rw st0 where ex: "ExecCmdResult C W m MsgResult_SharedCtor (CMsgRW C) st
      = Ret (r0, res, rw, st0)"
    using lg True by (cases "ExecCmdResult C W m MsgResult_SharedCtor (CMsgRW C) st")
      (auto simp: Login_def m_def)
  have st1: "st1 = st0" and rc: "rc = 0 \<and> cl1 = cl \<and> r0 = 0 \<or> rc = -1 \<or> rc = r0 \<and> rc \<noteq> 0"
    using lg True ex by (auto simp: Login_def m_def [symmetric] split: if_split_asm option.split_asm)
  have full: "sent_more st bs st0 \<Longrightarrow> \<exists>k. sent_more st (take k bs) st0" for bs
    by (rule exI [of _ "length bs"]) simp
  from ExecCmdResult_frame [OF ex v len [folded m_def] CMsgRW_ok [OF ok(2)] ok]
  show ?thesis using rc full [of "packet (MsgCmd_Serialize W m)"] unfolding m_def [symmetric] st1 by auto
qed

lemma Login_answered:
  assumes h: "header_ok W" and kvs: "text_ok W CMD_LOGIN" "pairs_ok W [(''password'', m_pwd cl)]"
    and conn: "IsConnected cl"
    and L: "F = MsgCmd_Serialize W (command_message CMD_LOGIN [(''password'', m_pwd cl)])" "len_ok (length F)"
    and out: "lets_packet (length F) (s_out st) evs2"
    and r: "MsgResult_valid W r" "mr_msg_header r = Some (MakeMsgHdr MsgType_Result)"
    and a: "arrives C (CMsgRW C) st (MsgResult_Serialize W r) rest"
  shows "\<exists>st'. Login C W cl st =
      (if strcasecmp_eq (mr_rc r) RC_OK then Ret (0, cl, st')
       else Ret (-1, set_m_err (mr_msg r) cl, st')) \<and>
    proper (s_in st') \<and> avail (s_in st') = rest \<and> s_out st' = evs2 \<and> sent_more st (packet F) st'"
proof -
  have v: "MsgCmd_valid W (command_message CMD_LOGIN [(''password'', m_pwd cl)])"
    by (rule command_message_valid [OF h kvs])
  obtain rw' st' where ex: "ExecCmdResult C W (command_message CMD_LOGIN [(''password'', m_pwd cl)])
      MsgResult_SharedCtor (CMsgRW C) st = Ret (0, Some r, rw', st')"
    and o: "proper (s_in st')" "avail (s_in st') = rest" "s_out st' = evs2" "sent_more st (packet F) st'"
    using ExecCmdResult_exchange [OF v L(2) [unfolded L(1)] packed_nonempty(1) out [unfolded L(1)] r a]
    unfolding L(1) by blast
  with conn show ?thesis by (auto simp: Login_def)
qed

lemma SendCommand_accepted:
  assumes h: "header_ok W" and kvs: "text_ok W CMD_LOGIN" "pairs_ok W [(''password'', m_pwd cl)]"
    and conn: "IsConnected cl"
    and L: "F = MsgCmd_Serialize W (command_message CMD_LOGIN [(''password'', m_pwd cl)])" "len_ok (length F)"
    and c: "text_ok W cmd" "pairs_ok W kvs" "G = MsgCmd_Serialize W (command_message cmd kvs)" "len_ok (length G)"
    and out: "lets_packet (length F) (s_out st) evs1" "lets_packet (length G) evs1 evs2"
    and r: "MsgResult_valid W r" "mr_msg_header r = Some (MakeMsgHdr MsgType_Result)"
      "strcasecmp_eq (mr_rc r) RC_OK"
    and a: "arrives C (CMsgRW C) st (MsgResult_Serialize W r) rest"
  shows "\<exists>st'. SendCommand C W cmd kvs cl st = Ret (0, cl, st') \<and>
    sent_more st (packet F @ packet G) st' \<and> avail (s_in st') = rest \<and> proper (s_in st')"
proof -
  obtain st1 where lg: "Login C W cl st = Ret (0, cl, st1)" and o: "avail (s_in st1) = rest"
      "s_out st1 = evs1" "sent_more st (packet F) st1" "proper (s_in st1)"
    using Login_answered [OF h kvs conn L out(1) r(1,2) a] r(3) by auto
  have v: "MsgCmd_valid W (command_message cmd kvs)" by (rule command_message_valid [OF h c(1,2)])
  obtain st2 where snd: "MsgRW_SendPacket C G (int_of_size (length G)) (CMsgRW C) st1
      = Ret (int (length G), CMsgRW C, st2)" and s: "sends st1 (packet G) st2"
    using MsgRW_SendPacket_sends [of G st1 evs2] out(2) c(4) o(2) by blast
  have "0 < length G" using packed_nonempty(1) c(3) by simp
  then have "SendCommand C W cmd kvs cl st = Ret (0, cl, st2)"
    using lg snd serialize_cmd [OF v] c(3,4) by (simp add: SendCommand_def)
  moreover have "sent_more st (packet F @ packet G) st2"
    using sent_more_trans [OF o(3) sent_more_sends [OF s]] .
  moreover have "avail (s_in st2) = rest" "proper (s_in st2)" using o(1,4) s by (simp_all add: sends_def)
  ultimately show ?thesis by blast
qed

end

end
