(* ===== verification/StringMap.thy ===== *)
theory StringMap
  imports O2kPrelude "HOL-Library.List_Lexorder" "HOL-Library.Char_ord"
begin

text \<open>
  The \<open>std::map<std::string, std::string>\<close> the programs keep parameters in: the list of its entries in
  the order of its keys.  Strings are compared byte by byte as unsigned values, which is the
  lexicographic order of the library.  What a client relies on is the locale \<open>key_store\<close>.
\<close>

section \<open>The map\<close>

fun bytes_less :: "bytes \<Rightarrow> bytes \<Rightarrow> bool" where
  "bytes_less _ [] = False"
| "bytes_less [] (_ # _) = True"
| "bytes_less (a # as) (b # bs) =
     ((of_char a :: nat) < of_char b \<or> a = b \<and> bytes_less as bs)"

fun map_set :: "bytes \<Rightarrow> bytes \<Rightarrow> (bytes \<times> bytes) list \<Rightarrow> (bytes \<times> bytes) list" where
  "map_set k v [] = [(k, v)]"
| "map_set k v ((k', v') # m) =
     (if k = k' then (k, v) # m
      else if bytes_less k k' then (k, v) # (k', v') # m
      else (k', v') # map_set k v m)"

definition map_get :: "bytes \<Rightarrow> (bytes \<times> bytes) list \<Rightarrow> bytes" where
  "map_get k m = (case map_of m k of None \<Rightarrow> [] | Some v \<Rightarrow> v)"

definition map_ok :: "(bytes \<times> bytes) list \<Rightarrow> bool" where
  "map_ok m \<longleftrightarrow> sorted_wrt bytes_less (map fst m)"

lemma bytes_less_iff: "bytes_less a b \<longleftrightarrow> a < b"
  by (induction a b rule: bytes_less.induct) (auto simp: less_char_def)

lemma map_of_map_set: "map_of (map_set k v m) = (map_of m)(k \<mapsto> v)"
  by (induction m) auto

lemma keys_map_set: "fst ` set (map_set k v m) = insert k (fst ` set m)"
  by (induction k v m rule: map_set.induct) (simp_all add: insert_commute)

lemma map_ok_Cons: "map_ok ((k, v) # m) = ((\<forall>x \<in> fst ` set m. k < x) \<and> map_ok m)"
  by (auto simp: map_ok_def bytes_less_iff)

lemma map_set_ok: "map_ok m \<Longrightarrow> map_ok (map_set k v m)"
proof (induction k v m rule: map_set.induct)
  case (2 k v k' v' m)
  consider "k = k'" | "k < k'" | "k' < k" using less_linear by blast
  then show ?case
  proof cases
    case 2
    then show ?thesis
      using "2.prems" by (auto simp: map_ok_Cons bytes_less_iff intro: less_trans)
  next
    case 3
    then have "\<not> bytes_less k k'" "k \<noteq> k'" by (auto simp: bytes_less_iff)
    with 3 2 show ?thesis by (simp add: map_ok_Cons keys_map_set)
  qed (use 2 in \<open>simp add: map_ok_Cons\<close>)
qed (simp add: map_ok_def)

lemma map_set_last:
  "\<forall>x \<in> fst ` set m. bytes_less x k \<Longrightarrow> map_set k v m = m @ [(k, v)]"
  by (induction k v m rule: map_set.induct) (auto simp: bytes_less_iff)

section \<open>What a client relies on\<close>

locale key_store =
  fixes put :: "'k \<Rightarrow> 'v \<Rightarrow> 'm \<Rightarrow> 'm"
    and look :: "'m \<Rightarrow> 'k \<Rightarrow> 'v option"
    and entries :: "'m \<Rightarrow> nat"
    and ok :: "'m \<Rightarrow> bool"
  assumes look_put: "look (put k v m) = (look m)(k \<mapsto> v)"
    and ok_put: "ok m \<Longrightarrow> ok (put k v m)"
    and entries_put: "look m k = None \<Longrightarrow> entries (put k v m) = Suc (entries m)"
begin

definition put_all :: "('k \<times> 'v) list \<Rightarrow> 'm \<Rightarrow> 'm" where
  "put_all kvs m = fold (\<lambda>(k, v). put k v) kvs m"

lemma put_all_ok: "ok m \<Longrightarrow> ok (put_all kvs m)"
  unfolding put_all_def by (induction kvs arbitrary: m) (auto simp: ok_put)

lemma put_all_look: "look (put_all kvs m) = look m ++ map_of (rev kvs)"
  unfolding put_all_def
  by (induction kvs arbitrary: m) (auto simp: look_put map_add_def fun_eq_iff split: option.split)

text \<open>With keys that differ nothing is overwritten.\<close>

lemma put_all_distinct:
  assumes "distinct (map fst kvs)" and "(k, v) \<in> set kvs"
  shows "look (put_all kvs m) k = Some v"
proof -
  have "map_of (rev kvs) k = Some v"
    using assms by (intro map_of_is_SomeI) (simp_all add: rev_map [symmetric])
  then show ?thesis by (simp add: put_all_look)
qed

lemma put_all_entries:
  assumes "distinct (map fst kvs)" and "\<forall>k \<in> fst ` set kvs. look m k = None"
  shows "entries (put_all kvs m) = entries m + length kvs"
  using assms
proof (induction kvs arbitrary: m)
  case (Cons p kvs)
  obtain k v where p: "p = (k, v)" by (cases p)
  have "\<forall>x \<in> fst ` set kvs. look (put k v m) x = None" using Cons.prems p by (auto simp: look_put)
  with Cons p show ?case by (simp add: put_all_def entries_put)
qed (simp add: put_all_def)

end

interpretation params: key_store map_set map_of length map_ok
proof
  fix k v :: bytes and m
  show "map_of (map_set k v m) = (map_of m)(k \<mapsto> v)" by (rule map_of_map_set)
  show "map_ok m \<Longrightarrow> map_ok (map_set k v m)" by (rule map_set_ok)
  show "map_of m k = None \<Longrightarrow> length (map_set k v m) = Suc (length m)"
    by (induction k v m rule: map_set.induct) (auto split: if_split_asm)
qed

end
