(* ===== verification/Qdcadm.thy ===== *)
theory Qdcadm
  imports AdmClient StringMap
begin

text \<open>
  The program \<open>qdcadm/qdcadm.cpp\<close>: its command line, the execution of one command over one
  connection, and the loop of \<open>get_perf\<close>.  What the program prints to standard output is a value
  of the model.  The wall clock (\<open>tm\<close>), the rendering of a \<open>double\<close> by \<open>%.0f\<close> and the build stamp
  come from outside and are parameters.
\<close>

section \<open>Text\<close>

definition nl :: bytes where "nl = [CHR 0x0A]"
definition tab :: bytes where "tab = [CHR 0x09]"

definition strLower :: "bytes \<Rightarrow> bytes" where
  "strLower str = map c_tolower str"

text \<open>\<open>%0wd\<close>: padding on the left with zeros, behind a sign.\<close>

definition pad0 :: "nat \<Rightarrow> int \<Rightarrow> bytes" where
  "pad0 w i =
     (if i < 0 then ''-'' @ replicate (w - 1 - length (nat_dec (nat (- i)))) CHR ''0'' @ nat_dec (nat (- i))
      else replicate (w - length (nat_dec (nat i))) CHR ''0'' @ nat_dec (nat i))"

record tm =
  tm_year :: int
  tm_mon :: int
  tm_mday :: int
  tm_hour :: int
  tm_min :: int
  tm_sec :: int

definition nowStr :: "tm \<Rightarrow> bytes" where
  "nowStr t =
     pad0 4 (tm_year t + 1900) @ ''-'' @ pad0 2 (tm_mon t + 1) @ ''-'' @ pad0 2 (tm_mday t) @ '' '' @
     pad0 2 (tm_hour t) @ '':'' @ pad0 2 (tm_min t) @ '':'' @ pad0 2 (tm_sec t)"

definition usage :: "bytes \<Rightarrow> bytes \<Rightarrow> bytes" where
  "usage stamp name =
     cstr name @ '' 3.0 build '' @ stamp @ nl @
     ''Usange: '' @ cstr name @ '' <assembler_server_ip:port> <password> <command> [args]'' @ nl @
     tab @ ''command:'' @ nl @
     tab @ tab @ ''list : list all commands which assembler server supported.'' @ nl @
     tab @ ''for Example:'' @ nl @
     tab @ tab @ '' '' @ cstr name @ '' 127.0.0.1:9876 qdecoder list'' @ nl @
     tab @ tab @ '' '' @ cstr name @ '' 127.0.0.1:9876 qdecoder get_stat'' @ nl @
     tab @ tab @ '' '' @ cstr name @ '' 127.0.0.1:9876 qdecoder set_conf print_dict 1'' @ nl"

section \<open>One command over one connection\<close>

record session =
  ses_net :: netsys
  ses_err :: bytes
  ses_sock :: sockst
  ses_now :: tm

definition CMD_GET_METRICS :: bytes where "CMD_GET_METRICS = ''get_metrics''"
definition CMD_GET_PERF :: bytes where "CMD_GET_PERF = ''get_perf''"

text \<open>The names of all commands and the texts of all results, in the order of \<open>CAdmMsg.h\<close>.\<close>

definition command_names :: "bytes list" where
  "command_names =
     [CMD_LOGIN, ''ping'', ''list'', ''get_start_scn'', ''get_current_scn'', ''get_binlog_scn'',
      ''get_binlog_listen'', ''get_parser_listen'', ''get_conf_node_name'', ''get_db_info'',
      ''get_sync_table_num'', ''get_sync_partition_num'', ''get_sync_table_info'', ''get_dict'',
      ''get_log_level'', CMD_GET_METRICS, ''reset_stat'', ''reset_statistics'', ''get_stat'',
      ''get_statistics'', CMD_GET_PERF, ''get_sync_delay'', ''get_conf'', ''set_conf'',
      ''write_conf'', ''write_dict'', ''write_conf_dict'', ''write_dict_conf'']"

definition result_texts :: "bytes list" where
  "result_texts =
     [''pong'', ''welcome'', ''invalid package'', RMSG_INV_MSG_HDR, RMSG_INV_MSG_BDY,
      ''unknow message type'', RMSG_NOT_CMD, RMSG_NOT_RESULT, ''not login command'',
      ''not supported command'', ''missing password'', ''given a invalid password'',
      RMSG_PACK_FAIL, ''send message fail'']"

text \<open>\<open>StrCaseEq\<close> tells any two of them apart.\<close>

lemma names_distinct: "distinct (map strLower command_names)" "distinct (map strLower result_texts)"
  by (simp_all add: command_names_def result_texts_def CMD_LOGIN_def CMD_GET_METRICS_def CMD_GET_PERF_def
      RMSG_INV_MSG_HDR_def RMSG_INV_MSG_BDY_def RMSG_NOT_CMD_def RMSG_NOT_RESULT_def RMSG_PACK_FAIL_def
      strLower_def c_tolower_def)

text \<open>The lines that show a successful result (lines 112 to 117).\<close>

definition show_pair :: "PairStrStr \<Rightarrow> bytes" where
  "show_pair p = pad_left 20 (cstr (pss_key p)) @ '' : '' @ cstr (pss_val p) @ nl"

definition show_result :: "tm \<Rightarrow> MsgResult \<Rightarrow> bytes" where
  "show_result t m =
     ''[OK] '' @ nowStr t @ '': '' @ cstr (mr_msg m) @ nl @ concat (map show_pair (mr_rt_pairs m))"

text \<open>The metrics (lines 123 to 142): \<open>ParseFromArray\<close> is tried before \<open>ParseFromString\<close>.\<close>

definition show_metrics :: "(64 word \<Rightarrow> bytes) \<Rightarrow> MsgMetrics \<Rightarrow> bytes" where
  "show_metrics fmt m =
     ''receive metrics:'' @ nl @ ''  total_commit: '' @ fmt (mm_trans_commit_total m) @ nl @
     concat (map (\<lambda>p. ''  proc '' @ int_dec (sint (pid_key p)) @ '' commit: '' @ fmt (pid_val p) @ nl)
       (mm_trans_begin_proc m))"

definition read_metrics :: "wirelib \<Rightarrow> (64 word \<Rightarrow> bytes) \<Rightarrow> msgrw \<Rightarrow> int \<times> bytes" where
  "read_metrics W fmt msgrw =
     (case GetPacket msgrw of
        None \<Rightarrow> (-1, ''no message body'' @ nl)
      | Some (msg, len) \<Rightarrow>
          (case (case parse_bytes (MsgMetrics_MergePartial W) MsgMetrics_Clear MsgMetrics_SharedCtor
                        (take len msg) of
                   Some m \<Rightarrow> Some m
                 | None \<Rightarrow> parse_bytes (MsgMetrics_MergePartial W) MsgMetrics_Clear MsgMetrics_SharedCtor
                        (cstr msg)) of
             None \<Rightarrow> (-1, ''can not parse to MsgMetrics'' @ nl)
           | Some m \<Rightarrow> (0, show_metrics fmt m)))"

text \<open>What follows the packet that was read (lines 93 to 144).\<close>

definition handle_packet :: "wirelib \<Rightarrow> (64 word \<Rightarrow> bytes) \<Rightarrow> tm \<Rightarrow> bytes \<Rightarrow> msgrw \<Rightarrow> int \<times> bytes" where
  "handle_packet W fmt now cmd msgrw =
     (case ParseMsgHeader W MsgHeaderWrap_SharedCtor msgrw of
        (rc, hdr, rw1) \<Rightarrow>
          if rc \<noteq> 0 then (1, ''parse msg header fail: '' @ GetErrMsg rw1 @ nl)
          else
            (let metrics = (\<lambda>out. if strcasecmp_eq cmd CMD_GET_METRICS then
                              (case read_metrics W fmt rw1 of (r, txt) \<Rightarrow> (r, out @ txt))
                            else (0, out))
             in
             if map_option hdr_msg_type hdr = Some MsgType_Result then
               (case ParseResult W MsgResult_SharedCtor rw1 of
                  (rc2, res, rw2) \<Rightarrow>
                    (case res of
                       None \<Rightarrow> (1, ''parse MsgResult fail: '' @ GetErrMsg rw2 @ nl)
                     | Some m \<Rightarrow>
                         if rc2 \<noteq> 0 then (1, ''parse MsgResult fail: '' @ GetErrMsg rw2 @ nl)
                         else if \<not> strcasecmp_eq (mr_rc m) RC_OK then (1, cstr (mr_msg m) @ nl)
                         else metrics (show_result now m)))
             else metrics []))"

text \<open>
  What \<open>ExecuteCommand\<close> does with its client; each of its returns runs the destructor of \<open>ses\<close>.
\<close>

definition ExecuteCommand_body :: "cenv \<Rightarrow> wirelib \<Rightarrow> (64 word \<Rightarrow> bytes) \<Rightarrow> session \<Rightarrow> int \<Rightarrow> bytes
    \<Rightarrow> (bytes \<times> bytes) list \<Rightarrow> admclient \<Rightarrow> (int \<times> bytes \<times> admclient \<times> sockst) outcome" where
  "ExecuteCommand_body C W fmt S timeoutS cmd params ses =
     (if GetSock ses < 0 then
        Ret (1, ''Connect to server fail: '' @ client_GetErrMsg ses @ nl, ses, ses_sock S)
      else
        (let ses1 = (if 0 < timeoutS then snd (SetTimeout (ses_net S) timeoutS ses) else ses) in
         obind (SendCommand C W cmd params ses1 (ses_sock S)) (\<lambda>(rc, ses2, st1).
           if rc \<noteq> 0 then Ret (1, ''send command fail: '' @ client_GetErrMsg ses2 @ nl, ses2, st1)
           else
             obind (MsgRW_ReadPacket C (CMsgRW C) st1) (\<lambda>(n, msgrw, st2).
               if n \<le> 0 then Ret (1, ''read result fail: '' @ GetErrMsg msgrw @ nl, ses2, st2)
               else (case handle_packet W fmt (ses_now S) cmd msgrw of
                       (r, out) \<Rightarrow> Ret (r, out, ses2, st2))))))"

text \<open>The descriptors \<open>ses\<close> has closed when its destructor is through.\<close>

definition close_client :: "admclient \<Rightarrow> sockst \<Rightarrow> sockst" where
  "close_client ses st = st\<lparr>s_closed := s_closed st @ cl_closed ses @ CAdmClient_destroy ses\<rparr>"

definition ExecuteCommand :: "cenv \<Rightarrow> wirelib \<Rightarrow> (64 word \<Rightarrow> bytes) \<Rightarrow> session \<Rightarrow> bytes \<Rightarrow> int \<Rightarrow> bytes
    \<Rightarrow> int \<Rightarrow> bytes \<Rightarrow> (bytes \<times> bytes) list \<Rightarrow> (int \<times> bytes \<times> sockst) outcome" where
  "ExecuteCommand C W fmt S szIpAddr iPort pwd timeoutS cmd params =
     obind (ExecuteCommand_body C W fmt S timeoutS cmd params
              (CAdmClient (c_strerror C) (ses_net S) (ses_err S) szIpAddr iPort pwd)) (\<lambda>(rc, out, ses, st).
       Ret (rc, out, close_client ses st))"

lemma close_client_simps [simp]:
  "s_in (close_client ses st) = s_in st" "s_sent (close_client ses st) = s_sent st"
  "sent_more a bs (close_client ses st) = sent_more a bs st"
  by (simp_all add: close_client_def sent_more_def)

section \<open>The parameters\<close>

text \<open>The loop \<open>for (int i = 4; i < argc; i++)\<close> over the arguments from \<open>argv[4]\<close> on.\<close>

fun collect_params :: "nat \<Rightarrow> bytes list \<Rightarrow> (bytes \<times> bytes) list \<Rightarrow> (bytes \<times> bytes) list" where
  "collect_params i [] params = params"
| "collect_params i (a # as) params = collect_params (Suc i) as (map_set (nat_dec (i - 3)) a params)"

section \<open>main\<close>

text \<open>The text before the first colon and behind it; none when there is no colon.\<close>

fun split_colon :: "bytes \<Rightarrow> (bytes \<times> bytes) option" where
  "split_colon [] = None"
| "split_colon (c # cs) =
     (if c = CHR '':'' then Some ([], cs)
      else (case split_colon cs of None \<Rightarrow> None | Some (a, b) \<Rightarrow> Some (c # a, b)))"

text \<open>
  The loop of \<open>main\<close> over \<open>nLoop\<close> runs; the \<open>i\<close>-th run meets the \<open>i\<close>-th session.  Its result is
  the list of what the runs returned and printed.
\<close>

fun run_loop :: "(nat \<Rightarrow> (int \<times> bytes \<times> sockst) outcome) \<Rightarrow> nat \<Rightarrow> nat
    \<Rightarrow> (int \<times> bytes \<times> sockst) list outcome" where
  "run_loop run i 0 = Ret []"
| "run_loop run i (Suc k) =
     obind (run i) (\<lambda>r. obind (run_loop run (Suc i) k) (\<lambda>rs. Ret (r # rs)))"

text \<open>The settings \<open>main\<close> works out for the command: the loop count and the timeout, or the refusal.\<close>

definition perf_settings :: "bytes \<Rightarrow> (bytes \<times> bytes) list \<Rightarrow> (bytes, int \<times> int \<times> bytes) sum" where
  "perf_settings cmd params =
     (if strLower cmd = CMD_GET_PERF then
        (if length params < 1 then Inl (''missing argument: interval [loop times]'' @ nl)
         else
           (let itv = c_atoi (map_get ''1'' params) in
            if itv < 1 \<or> 300 < itv then Inl (''invalid interval, must be in the range 1~300'' @ nl)
            else
              (let nLoop = (if 1 < length params then
                              (let loop = c_atoi (map_get ''2'' params) in if 0 < loop then loop else 1)
                            else 1)
               in Inr (nLoop, 300, CMD_GET_PERF @ '' will run '' @ int_dec nLoop @
                    '' times, each time will wait '' @ int_dec itv @ '' seconds ...'' @ nl))))
      else Inr (1, 5, []))"

definition qdcadm_main :: "cenv \<Rightarrow> wirelib \<Rightarrow> (64 word \<Rightarrow> bytes) \<Rightarrow> bytes \<Rightarrow> (nat \<Rightarrow> session) \<Rightarrow> bytes list
    \<Rightarrow> (int \<times> bytes \<times> (int \<times> bytes \<times> sockst) list) outcome" where
  "qdcadm_main C W fmt stamp Ses argv =
     (if length argv < 4 then Ret (0, usage stamp (argv ! 0), [])
      else
        (case split_colon (cstr (argv ! 1)) of
           None \<Rightarrow> Ret (1, ''Bad format ip address and port:'' @ cstr (argv ! 1) @ nl, [])
         | Some (szIpAddr, szPort) \<Rightarrow>
             (let iPort = c_atoi szPort; pwd = cstr (argv ! 2); cmd = cstr (argv ! 3);
                  params = collect_params 4 (map cstr (drop 4 argv)) []
              in case perf_settings cmd params of
                   Inl txt \<Rightarrow> Ret (1, txt, [])
                 | Inr (nLoop, timeoutS, txt) \<Rightarrow>
                     obind (run_loop (\<lambda>i. ExecuteCommand C W fmt (Ses i) szIpAddr iPort pwd timeoutS cmd
                                params) 0 (nat nLoop))
                       (\<lambda>rs. Ret (0, txt @ concat (map (\<lambda>(_, out, _). out) rs), rs)))))"

section \<open>Parameters are kept and ordered\<close>

text \<open>The parameters are put into the map one after the other, under keys that differ.\<close>

definition numbered :: "nat \<Rightarrow> bytes list \<Rightarrow> (bytes \<times> bytes) list" where
  "numbered i as = zip (map (\<lambda>j. nat_dec (j - 3)) [i..<i + length as]) as"

lemma collect_params_put: "collect_params i as params = params.put_all (numbered i as) params"
proof (induction i as params rule: collect_params.induct)
  case (2 i a as params)
  then show ?case by (simp add: params.put_all_def numbered_def upt_conv_Cons del: upt_Suc)
qed (simp add: params.put_all_def numbered_def)

lemma distinct_numbered: "3 \<le> i \<Longrightarrow> distinct (map fst (numbered i as))"
  by (auto simp: numbered_def distinct_map inj_on_def)

lemma length_numbered [simp]: "length (numbered i as) = length as"
  by (simp add: numbered_def)

lemma collect_params_length: "length (collect_params 4 as []) = length as"
  using params.put_all_entries [OF distinct_numbered, of 4 as "[]"] by (simp add: collect_params_put)

lemma collect_params_sorted: "sorted_wrt bytes_less (map fst (collect_params 4 as []))"
  using params.put_all_ok [of "[]" "numbered 4 as"] by (simp add: collect_params_put map_ok_def)

lemma collect_params_lookup:
  assumes "j < length as"
  shows "map_of (collect_params 4 as []) (nat_dec (Suc j)) = Some (as ! j)"
proof -
  have "(nat_dec (Suc j), as ! j) \<in> set (numbered 4 as)"
    using assms by (auto simp: numbered_def set_zip intro!: exI [of _ j])
  then show ?thesis
    unfolding collect_params_put by (rule params.put_all_distinct [OF distinct_numbered, rotated]) simp
qed

lemma collect_params_snoc:
  "collect_params i (as @ [a]) params
    = map_set (nat_dec (i + length as - 3)) a (collect_params i as params)"
  by (induction i as params rule: collect_params.induct) simp_all

lemma digit_less: "m < n \<Longrightarrow> n < 10 \<Longrightarrow> bytes_less (nat_dec m) (nat_dec n)"
  by (simp add: nat_dec.simps [of m] nat_dec.simps [of n])

text \<open>Up to nine arguments the order of the keys is the order of the arguments.\<close>

lemma collect_params_nine:
  "length as \<le> 9 \<Longrightarrow> collect_params 4 as [] = zip (map (\<lambda>j. nat_dec (Suc j)) [0..<length as]) as"
proof (induction as rule: rev_induct)
  case Nil
  then show ?case by simp
next
  case (snoc a as)
  have IH: "collect_params 4 as [] = zip (map (\<lambda>j. nat_dec (Suc j)) [0..<length as]) as"
    using snoc by simp
  have "\<forall>x \<in> fst ` set (collect_params 4 as []). bytes_less x (nat_dec (Suc (length as)))"
    unfolding IH using snoc.prems by (auto simp: set_zip intro!: digit_less)
  then show ?case using IH by (simp add: collect_params_snoc map_set_last)
qed

lemma nat_dec_digit: "n < 10 \<Longrightarrow> nat_dec n = [digit_char n]"
  by (simp add: nat_dec.simps)

lemma nat_dec_ten: "nat_dec 10 = [digit_char 1, digit_char 0]"
  by (subst nat_dec.simps) (simp add: nat_dec_digit)

lemma digit_char_inj: "m < 10 \<Longrightarrow> n < 10 \<Longrightarrow> digit_char m = digit_char n \<longleftrightarrow> m = n"
  by (metis add_left_cancel of_char_digit)

lemma collect_params_ten: "map snd (collect_params 4 [a, b, c, d, e, f, g, h, i, j] [])
    = [a, j, b, c, d, e, f, g, h, i]"
proof -
  have nine: "collect_params 4 [a, b, c, d, e, f, g, h, i] [] =
      zip (map (\<lambda>j. nat_dec (Suc j)) [0..<length [a, b, c, d, e, f, g, h, i]])
        [a, b, c, d, e, f, g, h, i]"
    by (rule collect_params_nine) simp
  have keys: "map (\<lambda>j. nat_dec (Suc j)) [0..<length [a, b, c, d, e, f, g, h, i]] = map (\<lambda>d. [digit_char d]) [1, 2, 3, 4, 5, 6, 7, 8, 9]"
    by (simp add: nat_dec_digit upt_rec eval_nat_numeral)
  have "collect_params 4 [a, b, c, d, e, f, g, h, i, j] []
      = map_set (nat_dec 10) j (collect_params 4 [a, b, c, d, e, f, g, h, i] [])"
    using collect_params_snoc [of 4 "[a, b, c, d, e, f, g, h, i]" j "[]"] by simp
  then show ?thesis
    unfolding nine keys nat_dec_ten by (simp add: digit_char_inj del: One_nat_def)
qed

section \<open>The loop of main\<close>

lemma run_loop_results:
  "run_loop run i k = Ret rs \<Longrightarrow> length rs = k \<and> (\<forall>j < k. run (i + j) = Ret (rs ! j))"
proof (induction k arbitrary: i rs)
  case 0
  then show ?case by simp
next
  case (Suc k)
  obtain r where r: "run i = Ret r" using Suc.prems by (cases "run i") auto
  obtain rs' where rs': "run_loop run (Suc i) k = Ret rs'" "rs = r # rs'"
    using Suc.prems r by (cases "run_loop run (Suc i) k") auto
  from Suc.IH [OF rs'(1)] r rs'(2) show ?case by (auto simp: nth_Cons split: nat.splits)
qed

lemma run_loop_all: "(\<forall>j < k. \<exists>r. run (i + j) = Ret r) \<Longrightarrow> \<exists>rs. run_loop run i k = Ret rs"
proof (induction k arbitrary: i)
  case 0
  then show ?case by simp
next
  case (Suc k)
  obtain r where "run i = Ret r" using Suc.prems by (metis add.right_neutral zero_less_Suc)
  moreover have "\<forall>j < k. \<exists>r. run (Suc i + j) = Ret r"
    using Suc.prems by (metis Suc_less_eq add_Suc add_Suc_right)
  ultimately show ?case using Suc.IH [of "Suc i"] by auto
qed

section \<open>What main refuses\<close>

lemma split_colon_none: "CHR '':'' \<notin> set s \<Longrightarrow> split_colon s = None"
  by (induction s) auto

lemma split_colon_found: "CHR '':'' \<in> set s \<Longrightarrow> split_colon s \<noteq> None"
  by (induction s) (auto split: option.splits)

lemma map_of_Nil_length: "length m < 1 \<longleftrightarrow> m = []"
  by auto

lemma perf_refused:
  assumes "strLower cmd = CMD_GET_PERF" and "4 \<le> length argv"
    and "length argv = 4 \<or> c_atoi (cstr (argv ! 4)) < 1 \<or> 300 < c_atoi (cstr (argv ! 4))"
  shows "\<exists>txt. perf_settings cmd (collect_params 4 (map cstr (drop 4 argv)) []) = Inl txt"
proof (cases "length argv = 4")
  case True
  then show ?thesis using assms(1) by (simp add: perf_settings_def)
next
  case False
  define ps where "ps = collect_params 4 (map cstr (drop 4 argv)) []"
  have "nat_dec (Suc 0) = ''1''" by (simp add: nat_dec.simps digit_char_def char_of_def bit_Suc_0_iff)
  then have "map_of ps ''1'' = Some (cstr (argv ! 4))"
    using collect_params_lookup [of 0 "map cstr (drop 4 argv)"] False assms(2) by (simp add: ps_def)
  moreover have "\<not> length ps < 1" using False assms(2) by (simp add: ps_def collect_params_length)
  ultimately show ?thesis
    using assms False unfolding ps_def [symmetric] by (auto simp: perf_settings_def map_get_def Let_def)
qed

section \<open>A command that succeeds\<close>

lemma CAdmClient_fields:
  "m_pwd (CAdmClient e N eb host port pwd) = pwd"
  "m_pwd (snd (SetTimeout N s cl)) = m_pwd cl" "m_sock (snd (SetTimeout N s cl)) = m_sock cl"
  by (simp_all add: CAdmClient_def set_m_err_def SetTimeout_def Let_def split: prod.splits)

context wire_format
begin

lemma handle_result:
  assumes v: "MsgResult_valid W m" and h: "mr_msg_header m = Some (MakeMsgHdr MsgType_Result)"
    and hold: "holds rw (MsgResult_Serialize W m)" and ne: "MsgResult_Serialize W m \<noteq> []"
    and cmd: "\<not> strcasecmp_eq cmd CMD_GET_METRICS"
  shows "handle_packet W fmt now cmd rw =
    (if strcasecmp_eq (mr_rc m) RC_OK then (0, show_result now m) else (1, cstr (mr_msg m) @ nl))"
proof -
  obtain w where w: "parse_either (MsgHeaderWrap_MergePartial W) MsgHeaderWrap_Clear
      MsgHeaderWrap_SharedCtor rw = Some w" "hw_msg_header w = Some (MakeMsgHdr MsgType_Result)"
    using parse_either_wrap [OF result_view [OF v h] hold] by blast
  have p: "parse_either (MsgResult_MergePartial W) MsgResult_Clear MsgResult_SharedCtor rw = Some m"
    by (rule message_codec.parse_either_holds [OF MsgResult_codec v hold])
  have "m_lenmsg rw \<noteq> 0" using hold ne by (simp add: holds_def)
  then show ?thesis
    using cmd by (simp add: handle_packet_def ParseMsgHeader_def ParseResult_def w p hdr_msg_type_def)
qed

lemma ExecuteCommand_answered:
  assumes h: "header_ok W" and kvs: "text_ok W CMD_LOGIN" "pairs_ok W [(''password'', pwd)]"
    and conn: "0 \<le> GetSock (CAdmClient (c_strerror C) (ses_net S) (ses_err S) ip port pwd)"
    and L: "F = MsgCmd_Serialize W (command_message CMD_LOGIN [(''password'', pwd)])" "len_ok (length F)"
    and c: "text_ok W cmd" "pairs_ok W params" "G = MsgCmd_Serialize W (command_message cmd params)"
      "len_ok (length G)" "\<not> strcasecmp_eq cmd CMD_GET_METRICS"
    and out: "lets_packet (length F) (s_out (ses_sock S)) evs1" "lets_packet (length G) evs1 evs2"
    and r: "MsgResult_valid W r" "mr_msg_header r = Some (MakeMsgHdr MsgType_Result)"
      "strcasecmp_eq (mr_rc r) RC_OK"
    and m: "MsgResult_valid W m" "mr_msg_header m = Some (MakeMsgHdr MsgType_Result)"
      "MsgResult_Serialize W m \<noteq> []" "int (length (MsgResult_Serialize W m)) \<le> MAX_ADM_PKG"
    and a: "arrives C (CMsgRW C) (ses_sock S) (MsgResult_Serialize W r)
      (packet (MsgResult_Serialize W m) @ rest)"
  shows "\<exists>st'. ExecuteCommand C W fmt S ip port pwd timeoutS cmd params =
      (if strcasecmp_eq (mr_rc m) RC_OK then Ret (0, show_result (ses_now S) m, st')
       else Ret (1, cstr (mr_msg m) @ nl, st')) \<and>
    sent_more (ses_sock S) (packet F @ packet G) st' \<and> avail (s_in st') = rest"
proof -
  define ses where "ses = CAdmClient (c_strerror C) (ses_net S) (ses_err S) ip port pwd"
  define ses1 where "ses1 = (if 0 < timeoutS then snd (SetTimeout (ses_net S) timeoutS ses) else ses)"
  have p1: "m_pwd ses1 = pwd" and s1: "m_sock ses1 = m_sock ses"
    by (simp_all add: ses1_def ses_def CAdmClient_fields)
  have c1: "IsConnected ses1" using conn s1 by (simp add: IsConnected_def GetSock_def ses_def)
  obtain st1 where sc: "SendCommand C W cmd params ses1 (ses_sock S) = Ret (0, ses1, st1)"
    and o1: "sent_more (ses_sock S) (packet F @ packet G) st1"
      "avail (s_in st1) = packet (MsgResult_Serialize W m) @ rest" "proper (s_in st1)"
    using SendCommand_accepted [where cl = ses1, unfolded p1, OF h kvs c1 L c(1-4) out r a] by blast
  have a2: "arrives C (CMsgRW C) st1 (MsgResult_Serialize W m) rest"
    using a o1 m(3,4) by (auto simp: arrives_def one_past_def CMsgRW_def LEN_ADM_PKG_def)
  obtain rw' st' where rp: "MsgRW_ReadPacket C (CMsgRW C) st1
      = Ret (int (length (MsgResult_Serialize W m)), rw', st')"
    and hold: "holds rw' (MsgResult_Serialize W m)" and o2: "same_out st1 st'" "avail (s_in st') = rest"
    using ReadPacket_arrives [OF a2] by metis
  have "ExecuteCommand C W fmt S ip port pwd timeoutS cmd params =
      (if strcasecmp_eq (mr_rc m) RC_OK then Ret (0, show_result (ses_now S) m, close_client ses1 st')
       else Ret (1, cstr (mr_msg m) @ nl, close_client ses1 st'))"
    using sc rp conn m(3) handle_result [OF m(1,2) hold m(3) c(5), of fmt "ses_now S"]
    by (simp add: ExecuteCommand_def ExecuteCommand_body_def ses_def [symmetric] ses1_def [symmetric] Let_def)
  moreover have "sent_more (ses_sock S) (packet F @ packet G) (close_client ses1 st')"
    "avail (s_in (close_client ses1 st')) = rest"
    using o1(1) o2 sent_more_same by simp_all
  ultimately show ?thesis by blast
qed

end

end
