(* ===== verification/EntryRows.thy ===== *)
theory EntryRows
  imports WireFormat
begin

text \<open>
  The rows of \<open>binlogdump/BinlogEntry.pb.cc\<close>: \<open>Pair\<close> (here \<open>EntryPair\<close>), \<open>Column\<close>, \<open>RowData\<close> and
  \<open>RowChange\<close>, modelled as the admin messages are.  A member of a \<open>oneof\<close> with one alternative
  is an option: \<open>None\<close> is the case \<open>..._NOT_SET\<close> of \<open>_oneof_case_\<close>.
\<close>

section \<open>EntryPair\<close>

text \<open>
  A key with a value; in the source the class is \<open>Pair\<close>.
\<close>

record EntryPair =
  pr_key :: "bytes"
  pr_value :: "bytes"
  pr_unknown :: bytes

definition EntryPair_SharedCtor :: EntryPair where
  "EntryPair_SharedCtor = \<lparr>pr_key = [], pr_value = [], pr_unknown = []\<rparr>"

definition EntryPair_Clear :: "EntryPair \<Rightarrow> EntryPair" where
  "EntryPair_Clear m = m\<lparr>pr_key := [], pr_value := [], pr_unknown := []\<rparr>"

definition EntryPair_switch :: "wirelib \<Rightarrow> 32 word \<Rightarrow> EntryPair \<Rightarrow> bytes \<Rightarrow> EntryPair fstep" where
  "EntryPair_switch W tag m s =
     (if GetTagFieldNumber tag = 1 then
       (if uint8 tag = 10 then
          Field (case ReadString W s of
            None \<Rightarrow> None
          | Some (v, s') \<Rightarrow> (if VerifyUtf8String W v then Some (m\<lparr>pr_key := v\<rparr>, s') else None))
        else Unusual)
      else if GetTagFieldNumber tag = 2 then
       (if uint8 tag = 18 then
          Field (case ReadString W s of
            None \<Rightarrow> None
          | Some (v, s') \<Rightarrow> (if VerifyUtf8String W v then Some (m\<lparr>pr_value := v\<rparr>, s') else None))
        else Unusual)
      else Unusual)"

definition EntryPair_add_unknown :: "bytes \<Rightarrow> EntryPair \<Rightarrow> EntryPair" where
  "EntryPair_add_unknown raw m = m\<lparr>pr_unknown := pr_unknown m @ raw\<rparr>"

definition EntryPair_MergePartial :: "wirelib \<Rightarrow> EntryPair \<Rightarrow> bytes \<Rightarrow> (EntryPair \<times> bytes) option" where
  "EntryPair_MergePartial W = merge_all W (EntryPair_switch W) EntryPair_add_unknown"

definition EntryPair_ByteSize :: "wirelib \<Rightarrow> EntryPair \<Rightarrow> nat" where
  "EntryPair_ByteSize W m =
     length (unknown_out W (pr_unknown m))
     + (if pr_key m \<noteq> [] then 1 + StringSize W (pr_key m) else 0)
     + (if pr_value m \<noteq> [] then 1 + StringSize W (pr_value m) else 0)"

definition EntryPair_Serialize :: "wirelib \<Rightarrow> EntryPair \<Rightarrow> bytes" where
  "EntryPair_Serialize W m =
     (if pr_key m \<noteq> [] then WriteString W 1 (pr_key m) else [])
     @ (if pr_value m \<noteq> [] then WriteString W 2 (pr_value m) else [])
     @ unknown_out W (pr_unknown m)"

definition EntryPair_SerializeToArray :: "wirelib \<Rightarrow> EntryPair \<Rightarrow> bytes \<Rightarrow> bytes" where
  "EntryPair_SerializeToArray W m target =
     (let target1 = (if pr_key m \<noteq> [] then WriteStringToArray W 1 (pr_key m) target else target);
          target2 = (if pr_value m \<noteq> [] then WriteStringToArray W 2 (pr_value m) target1 else target1)
      in target2 @ unknown_out W (pr_unknown m))"

definition EntryPair_MergeFrom :: "EntryPair \<Rightarrow> EntryPair \<Rightarrow> EntryPair" where
  "EntryPair_MergeFrom this from =
     (let this0 = this\<lparr>pr_unknown := pr_unknown this @ pr_unknown from\<rparr>;
          this1 = (if pr_key from \<noteq> [] then this0\<lparr>pr_key := pr_key from\<rparr> else this0);
          this2 = (if pr_value from \<noteq> [] then this1\<lparr>pr_value := pr_value from\<rparr> else this1)
      in this2)"

definition EntryPair_CopyFrom :: "bool \<Rightarrow> EntryPair \<Rightarrow> EntryPair \<Rightarrow> EntryPair" where
  "EntryPair_CopyFrom same_object this from =
     (if same_object then this else EntryPair_MergeFrom (EntryPair_Clear this) from)"

definition EntryPair_InternalSwap :: "EntryPair \<Rightarrow> EntryPair \<Rightarrow> EntryPair \<times> EntryPair" where
  "EntryPair_InternalSwap this other =
     (this\<lparr>pr_key := pr_key other, pr_value := pr_value other, pr_unknown := pr_unknown other\<rparr>,
      other\<lparr>pr_key := pr_key this, pr_value := pr_value this, pr_unknown := pr_unknown this\<rparr>)"

definition EntryPair_valid :: "wirelib \<Rightarrow> EntryPair \<Rightarrow> bool" where
  "EntryPair_valid W m \<longleftrightarrow>
     len_ok (length (pr_key m)) \<and> VerifyUtf8String W (pr_key m) \<and>
     len_ok (length (pr_value m)) \<and> VerifyUtf8String W (pr_value m) \<and>
     pr_unknown m = []"

lemma EntryPair_steps:
  "(if c then t\<lparr>pr_key := w1\<rparr> else t) = t\<lparr>pr_key := (if c then w1 else pr_key t)\<rparr>"
  "(if c then t\<lparr>pr_value := w2\<rparr> else t) = t\<lparr>pr_value := (if c then w2 else pr_value t)\<rparr>"
  by (simp_all split: option.split)

lemma EntryPair_MergeFrom_eq:
  "EntryPair_MergeFrom this from = this\<lparr>
      pr_unknown := pr_unknown this @ pr_unknown from,
      pr_key := (if pr_key from \<noteq> [] then pr_key from else pr_key this),
      pr_value := (if pr_value from \<noteq> [] then pr_value from else pr_value this)\<rparr>"
  by (simp add: EntryPair_MergeFrom_def Let_def EntryPair_steps cong: if_cong option.case_cong split del: if_split)

lemma EntryPair_swap: "EntryPair_InternalSwap a b = (b, a)"
  by (simp add: EntryPair_InternalSwap_def)

lemma EntryPair_Clear_eq: "EntryPair_Clear m = EntryPair_SharedCtor"
  by (simp add: EntryPair_Clear_def EntryPair_SharedCtor_def)

lemma EntryPair_merge_ctor: "EntryPair_valid W m \<Longrightarrow> EntryPair_MergeFrom EntryPair_SharedCtor m = m"
  by (cases m) (simp_all add: EntryPair_MergeFrom_eq EntryPair_SharedCtor_def EntryPair_valid_def option_self
       cong: if_cong option.case_cong)

context wire_format
begin

lemma EntryPair_sw_ok: "sw_ok (EntryPair_switch W)"
  by (rule sw_okI, unfold EntryPair_switch_def)
    (rule fstep_ok_intros reader_shrinks read_message_shrinks | assumption | simp)+

lemma EntryPair_chunk:
  assumes "EntryPair_valid W m"
  shows "chunk W (EntryPair_switch W) EntryPair_add_unknown (EntryPair_Serialize W m)
    (\<lambda>m0. EntryPair_MergeFrom m0 m)"
proof -
  have c_key: "chunk W (EntryPair_switch W) EntryPair_add_unknown
      (WriteString W 1 (pr_key m)) (\<lambda>m0. m0\<lparr>pr_key := pr_key m\<rparr>)"
    by (rule chunk_field [OF string_codec EntryPair_sw_ok])
      (use assms in \<open>simp_all add: EntryPair_switch_def EntryPair_valid_def field_no_def\<close>)
  have c_value: "chunk W (EntryPair_switch W) EntryPair_add_unknown
      (WriteString W 2 (pr_value m)) (\<lambda>m0. m0\<lparr>pr_value := pr_value m\<rparr>)"
    by (rule chunk_field [OF string_codec EntryPair_sw_ok])
      (use assms in \<open>simp_all add: EntryPair_switch_def EntryPair_valid_def field_no_def\<close>)
  have unk: "pr_unknown m = []" using assms by (simp add: EntryPair_valid_def)
  show ?thesis
    unfolding EntryPair_Serialize_def unk unknown_out_Nil
    by (rule chunk_cong, (rule c_key c_value chunk_intros | assumption)+)
      (simp add: EntryPair_MergeFrom_eq EntryPair_steps unk   cong: if_cong option.case_cong split del: if_split)
qed

lemma EntryPair_size: "EntryPair_valid W m \<Longrightarrow> EntryPair_ByteSize W m = length (EntryPair_Serialize W m)"
  by (simp add: EntryPair_ByteSize_def EntryPair_Serialize_def EntryPair_valid_def field_lengths field_no_def)

lemma EntryPair_array: "EntryPair_SerializeToArray W m t = t @ EntryPair_Serialize W m"
  by (simp add: EntryPair_SerializeToArray_def EntryPair_Serialize_def Let_def to_array_laws 
      if_append option_append cong: if_cong option.case_cong split del: if_split)

lemma EntryPair_codec: "message_codec (EntryPair_MergePartial W) (EntryPair_Serialize W) (EntryPair_SerializeToArray W)
    (EntryPair_ByteSize W) EntryPair_MergeFrom EntryPair_Clear (EntryPair_valid W)"
  unfolding EntryPair_MergePartial_def
  by (rule codecI [OF EntryPair_sw_ok EntryPair_chunk EntryPair_size EntryPair_array])
    (simp_all add: EntryPair_Clear_eq EntryPair_merge_ctor)

end

sublocale wire_format \<subseteq> EntryPair: message_codec "EntryPair_MergePartial W" "EntryPair_Serialize W"
  "EntryPair_SerializeToArray W" "EntryPair_ByteSize W" EntryPair_MergeFrom EntryPair_Clear "EntryPair_valid W"
  by (rule EntryPair_codec)

section \<open>Column\<close>

text \<open>
  A column of a row, with its value as text.
\<close>

record Column =
  co_index :: "32 word"
  co_sqltype :: "32 word"
  co_name :: "bytes"
  co_iskey :: "bool"
  co_updated :: "bool"
  co_isnull :: "bool option"
  co_props :: "EntryPair list"
  co_value :: "bytes"
  co_length :: "32 word"
  co_mysqltype :: "bytes"
  co_unknown :: bytes

definition Column_SharedCtor :: Column where
  "Column_SharedCtor = \<lparr>co_index = 0, co_sqltype = 0, co_name = [], co_iskey = False, co_updated = False, co_isnull = None, co_props = [], co_value = [], co_length = 0, co_mysqltype = [], co_unknown = []\<rparr>"

definition Column_Clear :: "Column \<Rightarrow> Column" where
  "Column_Clear m = m\<lparr>co_index := 0, co_sqltype := 0, co_name := [], co_iskey := False, co_updated := False, co_isnull := None, co_props := [], co_value := [], co_length := 0, co_mysqltype := [], co_unknown := []\<rparr>"

definition Column_switch :: "wirelib \<Rightarrow> 32 word \<Rightarrow> Column \<Rightarrow> bytes \<Rightarrow> Column fstep" where
  "Column_switch W tag m s =
     (if GetTagFieldNumber tag = 1 then
       (if uint8 tag = 8 then
          Field (case ReadInt32 W s of
            None \<Rightarrow> None
          | Some (v, s') \<Rightarrow> Some (m\<lparr>co_index := v\<rparr>, s'))
        else Unusual)
      else if GetTagFieldNumber tag = 2 then
       (if uint8 tag = 16 then
          Field (case ReadInt32 W s of
            None \<Rightarrow> None
          | Some (v, s') \<Rightarrow> Some (m\<lparr>co_sqltype := v\<rparr>, s'))
        else Unusual)
      else if GetTagFieldNumber tag = 3 then
       (if uint8 tag = 26 then
          Field (case ReadString W s of
            None \<Rightarrow> None
          | Some (v, s') \<Rightarrow> (if VerifyUtf8String W v then Some (m\<lparr>co_name := v\<rparr>, s') else None))
        else Unusual)
      else if GetTagFieldNumber tag = 4 then
       (if uint8 tag = 32 then
          Field (case ReadBool W s of
            None \<Rightarrow> None
          | Some (v, s') \<Rightarrow> Some (m\<lparr>co_iskey := v\<rparr>, s'))
        else Unusual)
      else if GetTagFieldNumber tag = 5 then
       (if uint8 tag = 40 then
          Field (case ReadBool W s of
            None \<Rightarrow> None
          | Some (v, s') \<Rightarrow> Some (m\<lparr>co_updated := v\<rparr>, s'))
        else Unusual)
      else if GetTagFieldNumber tag = 6 then
       (if uint8 tag = 48 then
          Field (case ReadBool W s of
            None \<Rightarrow> None
          | Some (v, s') \<Rightarrow> Some (m\<lparr>co_isnull := Some v\<rparr>, s'))
        else Unusual)
      else if GetTagFieldNumber tag = 7 then
       (if uint8 tag = 58 then
          Field (case read_message W (EntryPair_MergePartial W) EntryPair_SharedCtor s of
            None \<Rightarrow> None
          | Some (x, s') \<Rightarrow> Some (m\<lparr>co_props := co_props m @ [x]\<rparr>, s'))
        else Unusual)
      else if GetTagFieldNumber tag = 8 then
       (if uint8 tag = 66 then
          Field (case ReadString W s of
            None \<Rightarrow> None
          | Some (v, s') \<Rightarrow> (if VerifyUtf8String W v then Some (m\<lparr>co_value := v\<rparr>, s') else None))
        else Unusual)
      else if GetTagFieldNumber tag = 9 then
       (if uint8 tag = 72 then
          Field (case ReadInt32 W s of
            None \<Rightarrow> None
          | Some (v, s') \<Rightarrow> Some (m\<lparr>co_length := v\<rparr>, s'))
        else Unusual)
      else if GetTagFieldNumber tag = 10 then
       (if uint8 tag = 82 then
          Field (case ReadString W s of
            None \<Rightarrow> None
          | Some (v, s') \<Rightarrow> (if VerifyUtf8String W v then Some (m\<lparr>co_mysqltype := v\<rparr>, s') else None))
        else Unusual)
      else Unusual)"

definition Column_add_unknown :: "bytes \<Rightarrow> Column \<Rightarrow> Column" where
  "Column_add_unknown raw m = m\<lparr>co_unknown := co_unknown m @ raw\<rparr>"

definition Column_MergePartial :: "wirelib \<Rightarrow> Column \<Rightarrow> bytes \<Rightarrow> (Column \<times> bytes) option" where
  "Column_MergePartial W = merge_all W (Column_switch W) Column_add_unknown"

definition Column_ByteSize :: "wirelib \<Rightarrow> Column \<Rightarrow> nat" where
  "Column_ByteSize W m =
     length (unknown_out W (co_unknown m))
     + 1 * length (co_props m) + sum_list (map (\<lambda>x. LengthDelimitedSize W (EntryPair_ByteSize W x)) (co_props m))
     + (if co_name m \<noteq> [] then 1 + StringSize W (co_name m) else 0)
     + (if co_value m \<noteq> [] then 1 + StringSize W (co_value m) else 0)
     + (if co_mysqltype m \<noteq> [] then 1 + StringSize W (co_mysqltype m) else 0)
     + (if co_index m \<noteq> 0 then 1 + Int32Size W (co_index m) else 0)
     + (if co_sqltype m \<noteq> 0 then 1 + Int32Size W (co_sqltype m) else 0)
     + (if co_iskey m then 1 + 1 else 0)
     + (if co_updated m then 1 + 1 else 0)
     + (if co_length m \<noteq> 0 then 1 + Int32Size W (co_length m) else 0)
     + (case co_isnull m of None \<Rightarrow> 0 | Some v \<Rightarrow> 1 + 1)"

definition Column_Serialize :: "wirelib \<Rightarrow> Column \<Rightarrow> bytes" where
  "Column_Serialize W m =
     (if co_index m \<noteq> 0 then WriteInt32 W 1 (co_index m) else [])
     @ (if co_sqltype m \<noteq> 0 then WriteInt32 W 2 (co_sqltype m) else [])
     @ (if co_name m \<noteq> [] then WriteString W 3 (co_name m) else [])
     @ (if co_iskey m then WriteBool W 4 (co_iskey m) else [])
     @ (if co_updated m then WriteBool W 5 (co_updated m) else [])
     @ (case co_isnull m of None \<Rightarrow> [] | Some v \<Rightarrow> WriteBool W 6 v)
     @ concat (map (\<lambda>x. WriteMessageHead W 7 (EntryPair_ByteSize W x) @ EntryPair_Serialize W x) (co_props m))
     @ (if co_value m \<noteq> [] then WriteString W 8 (co_value m) else [])
     @ (if co_length m \<noteq> 0 then WriteInt32 W 9 (co_length m) else [])
     @ (if co_mysqltype m \<noteq> [] then WriteString W 10 (co_mysqltype m) else [])
     @ unknown_out W (co_unknown m)"

definition Column_SerializeToArray :: "wirelib \<Rightarrow> Column \<Rightarrow> bytes \<Rightarrow> bytes" where
  "Column_SerializeToArray W m target =
     (let target1 = (if co_index m \<noteq> 0 then WriteInt32ToArray W 1 (co_index m) target else target);
          target2 = (if co_sqltype m \<noteq> 0 then WriteInt32ToArray W 2 (co_sqltype m) target1 else target1);
          target3 = (if co_name m \<noteq> [] then WriteStringToArray W 3 (co_name m) target2 else target2);
          target4 = (if co_iskey m then WriteBoolToArray W 4 (co_iskey m) target3 else target3);
          target5 = (if co_updated m then WriteBoolToArray W 5 (co_updated m) target4 else target4);
          target6 = (case co_isnull m of None \<Rightarrow> target5 | Some v \<Rightarrow> WriteBoolToArray W 6 v target5);
          target7 = fold (\<lambda>x t. EntryPair_SerializeToArray W x
           (WriteMessageHeadToArray W 7 (EntryPair_ByteSize W x) t)) (co_props m) target6;
          target8 = (if co_value m \<noteq> [] then WriteStringToArray W 8 (co_value m) target7 else target7);
          target9 = (if co_length m \<noteq> 0 then WriteInt32ToArray W 9 (co_length m) target8 else target8);
          target10 = (if co_mysqltype m \<noteq> [] then WriteStringToArray W 10 (co_mysqltype m) target9 else target9)
      in target10 @ unknown_out W (co_unknown m))"

definition Column_MergeFrom :: "Column \<Rightarrow> Column \<Rightarrow> Column" where
  "Column_MergeFrom this from =
     (let this0 = this\<lparr>co_unknown := co_unknown this @ co_unknown from\<rparr>;
          this1 = this0\<lparr>co_props := co_props this0 @ map (EntryPair_MergeFrom EntryPair_SharedCtor) (co_props from)\<rparr>;
          this2 = (if co_name from \<noteq> [] then this1\<lparr>co_name := co_name from\<rparr> else this1);
          this3 = (if co_value from \<noteq> [] then this2\<lparr>co_value := co_value from\<rparr> else this2);
          this4 = (if co_mysqltype from \<noteq> [] then this3\<lparr>co_mysqltype := co_mysqltype from\<rparr> else this3);
          this5 = (if co_index from \<noteq> 0 then this4\<lparr>co_index := co_index from\<rparr> else this4);
          this6 = (if co_sqltype from \<noteq> 0 then this5\<lparr>co_sqltype := co_sqltype from\<rparr> else this5);
          this7 = (if co_iskey from then this6\<lparr>co_iskey := co_iskey from\<rparr> else this6);
          this8 = (if co_updated from then this7\<lparr>co_updated := co_updated from\<rparr> else this7);
          this9 = (if co_length from \<noteq> 0 then this8\<lparr>co_length := co_length from\<rparr> else this8);
          this10 = (case co_isnull from of None \<Rightarrow> this9 | Some v \<Rightarrow> this9\<lparr>co_isnull := Some v\<rparr>)
      in this10)"

definition Column_CopyFrom :: "bool \<Rightarrow> Column \<Rightarrow> Column \<Rightarrow> Column" where
  "Column_CopyFrom same_object this from =
     (if same_object then this else Column_MergeFrom (Column_Clear this) from)"

definition Column_InternalSwap :: "Column \<Rightarrow> Column \<Rightarrow> Column \<times> Column" where
  "Column_InternalSwap this other =
     (this\<lparr>co_index := co_index other, co_sqltype := co_sqltype other, co_name := co_name other, co_iskey := co_iskey other, co_updated := co_updated other, co_isnull := co_isnull other, co_props := co_props other, co_value := co_value other, co_length := co_length other, co_mysqltype := co_mysqltype other, co_unknown := co_unknown other\<rparr>,
      other\<lparr>co_index := co_index this, co_sqltype := co_sqltype this, co_name := co_name this, co_iskey := co_iskey this, co_updated := co_updated this, co_isnull := co_isnull this, co_props := co_props this, co_value := co_value this, co_length := co_length this, co_mysqltype := co_mysqltype this, co_unknown := co_unknown this\<rparr>)"

definition Column_valid :: "wirelib \<Rightarrow> Column \<Rightarrow> bool" where
  "Column_valid W m \<longleftrightarrow>
     len_ok (length (co_name m)) \<and> VerifyUtf8String W (co_name m) \<and>
     list_all (\<lambda>x. EntryPair_valid W x \<and> len_ok (length (EntryPair_Serialize W x))) (co_props m) \<and>
     len_ok (length (co_value m)) \<and> VerifyUtf8String W (co_value m) \<and>
     len_ok (length (co_mysqltype m)) \<and> VerifyUtf8String W (co_mysqltype m) \<and>
     co_unknown m = []"

lemma Column_fold_props:
  "fold (\<lambda>x m0. m0\<lparr>co_props := co_props m0 @ [g x]\<rparr>) xs m0 =
    m0\<lparr>co_props := co_props m0 @ map g xs\<rparr>"
  by (induction xs arbitrary: m0) simp_all

lemma Column_steps:
  "(if c then t\<lparr>co_name := w3\<rparr> else t) = t\<lparr>co_name := (if c then w3 else co_name t)\<rparr>"
  "(if c then t\<lparr>co_value := w8\<rparr> else t) = t\<lparr>co_value := (if c then w8 else co_value t)\<rparr>"
  "(if c then t\<lparr>co_mysqltype := w10\<rparr> else t) = t\<lparr>co_mysqltype := (if c then w10 else co_mysqltype t)\<rparr>"
  "(if c then t\<lparr>co_index := w1\<rparr> else t) = t\<lparr>co_index := (if c then w1 else co_index t)\<rparr>"
  "(if c then t\<lparr>co_sqltype := w2\<rparr> else t) = t\<lparr>co_sqltype := (if c then w2 else co_sqltype t)\<rparr>"
  "(if c then t\<lparr>co_iskey := w4\<rparr> else t) = t\<lparr>co_iskey := (if c then w4 else co_iskey t)\<rparr>"
  "(if c then t\<lparr>co_updated := w5\<rparr> else t) = t\<lparr>co_updated := (if c then w5 else co_updated t)\<rparr>"
  "(if c then t\<lparr>co_length := w9\<rparr> else t) = t\<lparr>co_length := (if c then w9 else co_length t)\<rparr>"
  "(case y6 of None \<Rightarrow> t | Some v \<Rightarrow> t\<lparr>co_isnull := Some v\<rparr>) =
    t\<lparr>co_isnull := (case y6 of None \<Rightarrow> co_isnull t | Some v \<Rightarrow> Some v)\<rparr>"
  by (simp_all split: option.split)

lemma Column_MergeFrom_eq:
  "Column_MergeFrom this from = this\<lparr>
      co_unknown := co_unknown this @ co_unknown from,
      co_props := co_props this @ map (EntryPair_MergeFrom EntryPair_SharedCtor) (co_props from),
      co_name := (if co_name from \<noteq> [] then co_name from else co_name this),
      co_value := (if co_value from \<noteq> [] then co_value from else co_value this),
      co_mysqltype := (if co_mysqltype from \<noteq> [] then co_mysqltype from else co_mysqltype this),
      co_index := (if co_index from \<noteq> 0 then co_index from else co_index this),
      co_sqltype := (if co_sqltype from \<noteq> 0 then co_sqltype from else co_sqltype this),
      co_iskey := (if co_iskey from then co_iskey from else co_iskey this),
      co_updated := (if co_updated from then co_updated from else co_updated this),
      co_length := (if co_length from \<noteq> 0 then co_length from else co_length this),
      co_isnull := (case co_isnull from of None \<Rightarrow> co_isnull this | Some v \<Rightarrow> Some v)\<rparr>"
  by (simp add: Column_MergeFrom_def Let_def Column_steps cong: if_cong option.case_cong split del: if_split)

lemma Column_swap: "Column_InternalSwap a b = (b, a)"
  by (simp add: Column_InternalSwap_def)

lemma Column_Clear_eq: "Column_Clear m = Column_SharedCtor"
  by (simp add: Column_Clear_def Column_SharedCtor_def)

lemma Column_merge_ctor: "Column_valid W m \<Longrightarrow> Column_MergeFrom Column_SharedCtor m = m"
  by (cases m) (simp_all add: Column_MergeFrom_eq Column_SharedCtor_def Column_valid_def option_self list_all_iff
      EntryPair_merge_ctor [of W] map_idI cong: if_cong option.case_cong)

context wire_format
begin

lemma Column_sw_ok: "sw_ok (Column_switch W)"
  by (rule sw_okI, unfold Column_switch_def)
    (rule fstep_ok_intros reader_shrinks read_message_shrinks | assumption | simp)+

lemma Column_chunk:
  assumes "Column_valid W m"
  shows "chunk W (Column_switch W) Column_add_unknown (Column_Serialize W m)
    (\<lambda>m0. Column_MergeFrom m0 m)"
proof -
  have c_index: "chunk W (Column_switch W) Column_add_unknown
      (WriteInt32 W 1 (co_index m)) (\<lambda>m0. m0\<lparr>co_index := co_index m\<rparr>)"
    by (rule chunk_field [OF int32_codec Column_sw_ok])
      (use assms in \<open>simp_all add: Column_switch_def Column_valid_def field_no_def\<close>)
  have c_sqltype: "chunk W (Column_switch W) Column_add_unknown
      (WriteInt32 W 2 (co_sqltype m)) (\<lambda>m0. m0\<lparr>co_sqltype := co_sqltype m\<rparr>)"
    by (rule chunk_field [OF int32_codec Column_sw_ok])
      (use assms in \<open>simp_all add: Column_switch_def Column_valid_def field_no_def\<close>)
  have c_name: "chunk W (Column_switch W) Column_add_unknown
      (WriteString W 3 (co_name m)) (\<lambda>m0. m0\<lparr>co_name := co_name m\<rparr>)"
    by (rule chunk_field [OF string_codec Column_sw_ok])
      (use assms in \<open>simp_all add: Column_switch_def Column_valid_def field_no_def\<close>)
  have c_iskey: "chunk W (Column_switch W) Column_add_unknown
      (WriteBool W 4 (co_iskey m)) (\<lambda>m0. m0\<lparr>co_iskey := co_iskey m\<rparr>)"
    by (rule chunk_field [OF bool_codec Column_sw_ok])
      (use assms in \<open>simp_all add: Column_switch_def Column_valid_def field_no_def\<close>)
  have c_updated: "chunk W (Column_switch W) Column_add_unknown
      (WriteBool W 5 (co_updated m)) (\<lambda>m0. m0\<lparr>co_updated := co_updated m\<rparr>)"
    by (rule chunk_field [OF bool_codec Column_sw_ok])
      (use assms in \<open>simp_all add: Column_switch_def Column_valid_def field_no_def\<close>)
  have c_isnull: "chunk W (Column_switch W) Column_add_unknown
      (WriteBool W 6 v) (\<lambda>m0. m0\<lparr>co_isnull := Some v\<rparr>)" if "co_isnull m = Some v" for v
    by (rule chunk_field [OF bool_codec Column_sw_ok])
      (use assms in \<open>simp_all add: Column_switch_def Column_valid_def field_no_def\<close>)
  have c_props: "chunk W (Column_switch W) Column_add_unknown
      (WriteMessageHead W 7 (EntryPair_ByteSize W x) @ EntryPair_Serialize W x)
      (\<lambda>m0. m0\<lparr>co_props := co_props m0 @ [EntryPair_MergeFrom EntryPair_SharedCtor x]\<rparr>)"
    if "x \<in> set (co_props m)" for x
    by (rule chunk_submessage [OF EntryPair_codec, where get = "\<lambda>_. EntryPair_SharedCtor"
          and put = "\<lambda>m0 x. m0\<lparr>co_props := co_props m0 @ [x]\<rparr>"])
      (use assms that Column_sw_ok in \<open>simp_all add: Column_switch_def Column_valid_def field_no_def list_all_iff\<close>)
  have c_value: "chunk W (Column_switch W) Column_add_unknown
      (WriteString W 8 (co_value m)) (\<lambda>m0. m0\<lparr>co_value := co_value m\<rparr>)"
    by (rule chunk_field [OF string_codec Column_sw_ok])
      (use assms in \<open>simp_all add: Column_switch_def Column_valid_def field_no_def\<close>)
  have c_length: "chunk W (Column_switch W) Column_add_unknown
      (WriteInt32 W 9 (co_length m)) (\<lambda>m0. m0\<lparr>co_length := co_length m\<rparr>)"
    by (rule chunk_field [OF int32_codec Column_sw_ok])
      (use assms in \<open>simp_all add: Column_switch_def Column_valid_def field_no_def\<close>)
  have c_mysqltype: "chunk W (Column_switch W) Column_add_unknown
      (WriteString W 10 (co_mysqltype m)) (\<lambda>m0. m0\<lparr>co_mysqltype := co_mysqltype m\<rparr>)"
    by (rule chunk_field [OF string_codec Column_sw_ok])
      (use assms in \<open>simp_all add: Column_switch_def Column_valid_def field_no_def\<close>)
  have unk: "co_unknown m = []" using assms by (simp add: Column_valid_def)
  show ?thesis
    unfolding Column_Serialize_def unk unknown_out_Nil
    by (rule chunk_cong, (rule c_index c_sqltype c_name c_iskey c_updated c_isnull c_props c_value c_length c_mysqltype chunk_intros | assumption)+)
      (simp add: Column_MergeFrom_eq Column_steps unk Column_fold_props  cong: if_cong option.case_cong split del: if_split)
qed

lemma Column_size:
  assumes "Column_valid W m"
  shows "Column_ByteSize W m = length (Column_Serialize W m)"
proof -
  have c_props: "length (concat (map (\<lambda>x. WriteMessageHead W 7 (EntryPair_ByteSize W x)
      @ EntryPair_Serialize W x) (co_props m)))
    = length (co_props m) + sum_list (map (\<lambda>x. LengthDelimitedSize W (EntryPair_ByteSize W x)) (co_props m))"
    using assms
    by (intro length_concat_chunks submessage_length)
      (simp_all add: Column_valid_def list_all_iff field_no_def EntryPair_size)
  show ?thesis
    using assms c_props
    by (simp add: Column_ByteSize_def Column_Serialize_def Column_valid_def field_lengths field_no_def
        length_if length_option add_ac del: length_concat split del: if_split cong: if_cong option.case_cong)
qed

lemma Column_array: "Column_SerializeToArray W m t = t @ Column_Serialize W m"
  by (simp add: Column_SerializeToArray_def Column_Serialize_def Let_def to_array_laws EntryPair_array fold_array
      if_append option_append cong: if_cong option.case_cong split del: if_split)

lemma Column_codec: "message_codec (Column_MergePartial W) (Column_Serialize W) (Column_SerializeToArray W)
    (Column_ByteSize W) Column_MergeFrom Column_Clear (Column_valid W)"
  unfolding Column_MergePartial_def
  by (rule codecI [OF Column_sw_ok Column_chunk Column_size Column_array])
    (simp_all add: Column_Clear_eq Column_merge_ctor)

end

sublocale wire_format \<subseteq> Column: message_codec "Column_MergePartial W" "Column_Serialize W"
  "Column_SerializeToArray W" "Column_ByteSize W" Column_MergeFrom Column_Clear "Column_valid W"
  by (rule Column_codec)

section \<open>RowData\<close>

text \<open>
  A row before and after the change.
\<close>

record RowData =
  rd_beforecolumns :: "Column list"
  rd_aftercolumns :: "Column list"
  rd_props :: "EntryPair list"
  rd_unknown :: bytes

definition RowData_SharedCtor :: RowData where
  "RowData_SharedCtor = \<lparr>rd_beforecolumns = [], rd_aftercolumns = [], rd_props = [], rd_unknown = []\<rparr>"

definition RowData_Clear :: "RowData \<Rightarrow> RowData" where
  "RowData_Clear m = m\<lparr>rd_beforecolumns := [], rd_aftercolumns := [], rd_props := [], rd_unknown := []\<rparr>"

definition RowData_switch :: "wirelib \<Rightarrow> 32 word \<Rightarrow> RowData \<Rightarrow> bytes \<Rightarrow> RowData fstep" where
  "RowData_switch W tag m s =
     (if GetTagFieldNumber tag = 1 then
       (if uint8 tag = 10 then
          Field (case read_message W (Column_MergePartial W) Column_SharedCtor s of
            None \<Rightarrow> None
          | Some (x, s') \<Rightarrow> Some (m\<lparr>rd_beforecolumns := rd_beforecolumns m @ [x]\<rparr>, s'))
        else Unusual)
      else if GetTagFieldNumber tag = 2 then
       (if uint8 tag = 18 then
          Field (case read_message W (Column_MergePartial W) Column_SharedCtor s of
            None \<Rightarrow> None
          | Some (x, s') \<Rightarrow> Some (m\<lparr>rd_aftercolumns := rd_aftercolumns m @ [x]\<rparr>, s'))
        else Unusual)
      else if GetTagFieldNumber tag = 3 then
       (if uint8 tag = 26 then
          Field (case read_message W (EntryPair_MergePartial W) EntryPair_SharedCtor s of
            None \<Rightarrow> None
          | Some (x, s') \<Rightarrow> Some (m\<lparr>rd_props := rd_props m @ [x]\<rparr>, s'))
        else Unusual)
      else Unusual)"

definition RowData_add_unknown :: "bytes \<Rightarrow> RowData \<Rightarrow> RowData" where
  "RowData_add_unknown raw m = m\<lparr>rd_unknown := rd_unknown m @ raw\<rparr>"

definition RowData_MergePartial :: "wirelib \<Rightarrow> RowData \<Rightarrow> bytes \<Rightarrow> (RowData \<times> bytes) option" where
  "RowData_MergePartial W = merge_all W (RowData_switch W) RowData_add_unknown"

definition RowData_ByteSize :: "wirelib \<Rightarrow> RowData \<Rightarrow> nat" where
  "RowData_ByteSize W m =
     length (unknown_out W (rd_unknown m))
     + 1 * length (rd_beforecolumns m) + sum_list (map (\<lambda>x. LengthDelimitedSize W (Column_ByteSize W x)) (rd_beforecolumns m))
     + 1 * length (rd_aftercolumns m) + sum_list (map (\<lambda>x. LengthDelimitedSize W (Column_ByteSize W x)) (rd_aftercolumns m))
     + 1 * length (rd_props m) + sum_list (map (\<lambda>x. LengthDelimitedSize W (EntryPair_ByteSize W x)) (rd_props m))"

definition RowData_Serialize :: "wirelib \<Rightarrow> RowData \<Rightarrow> bytes" where
  "RowData_Serialize W m =
     concat (map (\<lambda>x. WriteMessageHead W 1 (Column_ByteSize W x) @ Column_Serialize W x) (rd_beforecolumns m))
     @ concat (map (\<lambda>x. WriteMessageHead W 2 (Column_ByteSize W x) @ Column_Serialize W x) (rd_aftercolumns m))
     @ concat (map (\<lambda>x. WriteMessageHead W 3 (EntryPair_ByteSize W x) @ EntryPair_Serialize W x) (rd_props m))
     @ unknown_out W (rd_unknown m)"

definition RowData_SerializeToArray :: "wirelib \<Rightarrow> RowData \<Rightarrow> bytes \<Rightarrow> bytes" where
  "RowData_SerializeToArray W m target =
     (let target1 = fold (\<lambda>x t. Column_SerializeToArray W x
           (WriteMessageHeadToArray W 1 (Column_ByteSize W x) t)) (rd_beforecolumns m) target;
          target2 = fold (\<lambda>x t. Column_SerializeToArray W x
           (WriteMessageHeadToArray W 2 (Column_ByteSize W x) t)) (rd_aftercolumns m) target1;
          target3 = fold (\<lambda>x t. EntryPair_SerializeToArray W x
           (WriteMessageHeadToArray W 3 (EntryPair_ByteSize W x) t)) (rd_props m) target2
      in target3 @ unknown_out W (rd_unknown m))"

definition RowData_MergeFrom :: "RowData \<Rightarrow> RowData \<Rightarrow> RowData" where
  "RowData_MergeFrom this from =
     (let this0 = this\<lparr>rd_unknown := rd_unknown this @ rd_unknown from\<rparr>;
          this1 = this0\<lparr>rd_beforecolumns := rd_beforecolumns this0 @ map (Column_MergeFrom Column_SharedCtor) (rd_beforecolumns from)\<rparr>;
          this2 = this1\<lparr>rd_aftercolumns := rd_aftercolumns this1 @ map (Column_MergeFrom Column_SharedCtor) (rd_aftercolumns from)\<rparr>;
          this3 = this2\<lparr>rd_props := rd_props this2 @ map (EntryPair_MergeFrom EntryPair_SharedCtor) (rd_props from)\<rparr>
      in this3)"

definition RowData_CopyFrom :: "bool \<Rightarrow> RowData \<Rightarrow> RowData \<Rightarrow> RowData" where
  "RowData_CopyFrom same_object this from =
     (if same_object then this else RowData_MergeFrom (RowData_Clear this) from)"

definition RowData_InternalSwap :: "RowData \<Rightarrow> RowData \<Rightarrow> RowData \<times> RowData" where
  "RowData_InternalSwap this other =
     (this\<lparr>rd_beforecolumns := rd_beforecolumns other, rd_aftercolumns := rd_aftercolumns other, rd_props := rd_props other, rd_unknown := rd_unknown other\<rparr>,
      other\<lparr>rd_beforecolumns := rd_beforecolumns this, rd_aftercolumns := rd_aftercolumns this, rd_props := rd_props this, rd_unknown := rd_unknown this\<rparr>)"

definition RowData_valid :: "wirelib \<Rightarrow> RowData \<Rightarrow> bool" where
  "RowData_valid W m \<longleftrightarrow>
     list_all (\<lambda>x. Column_valid W x \<and> len_ok (length (Column_Serialize W x))) (rd_beforecolumns m) \<and>
     list_all (\<lambda>x. Column_valid W x \<and> len_ok (length (Column_Serialize W x))) (rd_aftercolumns m) \<and>
     list_all (\<lambda>x. EntryPair_valid W x \<and> len_ok (length (EntryPair_Serialize W x))) (rd_props m) \<and>
     rd_unknown m = []"

lemma RowData_fold_beforecolumns:
  "fold (\<lambda>x m0. m0\<lparr>rd_beforecolumns := rd_beforecolumns m0 @ [g x]\<rparr>) xs m0 =
    m0\<lparr>rd_beforecolumns := rd_beforecolumns m0 @ map g xs\<rparr>"
  by (induction xs arbitrary: m0) simp_all

lemma RowData_fold_aftercolumns:
  "fold (\<lambda>x m0. m0\<lparr>rd_aftercolumns := rd_aftercolumns m0 @ [g x]\<rparr>) xs m0 =
    m0\<lparr>rd_aftercolumns := rd_aftercolumns m0 @ map g xs\<rparr>"
  by (induction xs arbitrary: m0) simp_all

lemma RowData_fold_props:
  "fold (\<lambda>x m0. m0\<lparr>rd_props := rd_props m0 @ [g x]\<rparr>) xs m0 =
    m0\<lparr>rd_props := rd_props m0 @ map g xs\<rparr>"
  by (induction xs arbitrary: m0) simp_all

lemma RowData_MergeFrom_eq:
  "RowData_MergeFrom this from = this\<lparr>
      rd_unknown := rd_unknown this @ rd_unknown from,
      rd_beforecolumns := rd_beforecolumns this @ map (Column_MergeFrom Column_SharedCtor) (rd_beforecolumns from),
      rd_aftercolumns := rd_aftercolumns this @ map (Column_MergeFrom Column_SharedCtor) (rd_aftercolumns from),
      rd_props := rd_props this @ map (EntryPair_MergeFrom EntryPair_SharedCtor) (rd_props from)\<rparr>"
  by (simp add: RowData_MergeFrom_def Let_def  cong: if_cong option.case_cong split del: if_split)

lemma RowData_swap: "RowData_InternalSwap a b = (b, a)"
  by (simp add: RowData_InternalSwap_def)

lemma RowData_Clear_eq: "RowData_Clear m = RowData_SharedCtor"
  by (simp add: RowData_Clear_def RowData_SharedCtor_def)

lemma RowData_merge_ctor: "RowData_valid W m \<Longrightarrow> RowData_MergeFrom RowData_SharedCtor m = m"
  by (cases m) (simp_all add: RowData_MergeFrom_eq RowData_SharedCtor_def RowData_valid_def option_self list_all_iff
      Column_merge_ctor [of W] EntryPair_merge_ctor [of W] map_idI cong: if_cong option.case_cong)

context wire_format
begin

lemma RowData_sw_ok: "sw_ok (RowData_switch W)"
  by (rule sw_okI, unfold RowData_switch_def)
    (rule fstep_ok_intros reader_shrinks read_message_shrinks | assumption | simp)+

lemma RowData_chunk:
  assumes "RowData_valid W m"
  shows "chunk W (RowData_switch W) RowData_add_unknown (RowData_Serialize W m)
    (\<lambda>m0. RowData_MergeFrom m0 m)"
proof -
  have c_beforecolumns: "chunk W (RowData_switch W) RowData_add_unknown
      (WriteMessageHead W 1 (Column_ByteSize W x) @ Column_Serialize W x)
      (\<lambda>m0. m0\<lparr>rd_beforecolumns := rd_beforecolumns m0 @ [Column_MergeFrom Column_SharedCtor x]\<rparr>)"
    if "x \<in> set (rd_beforecolumns m)" for x
    by (rule chunk_submessage [OF Column_codec, where get = "\<lambda>_. Column_SharedCtor"
          and put = "\<lambda>m0 x. m0\<lparr>rd_beforecolumns := rd_beforecolumns m0 @ [x]\<rparr>"])
      (use assms that RowData_sw_ok in \<open>simp_all add: RowData_switch_def RowData_valid_def field_no_def list_all_iff\<close>)
  have c_aftercolumns: "chunk W (RowData_switch W) RowData_add_unknown
      (WriteMessageHead W 2 (Column_ByteSize W x) @ Column_Serialize W x)
      (\<lambda>m0. m0\<lparr>rd_aftercolumns := rd_aftercolumns m0 @ [Column_MergeFrom Column_SharedCtor x]\<rparr>)"
    if "x \<in> set (rd_aftercolumns m)" for x
    by (rule chunk_submessage [OF Column_codec, where get = "\<lambda>_. Column_SharedCtor"
          and put = "\<lambda>m0 x. m0\<lparr>rd_aftercolumns := rd_aftercolumns m0 @ [x]\<rparr>"])
      (use assms that RowData_sw_ok in \<open>simp_all add: RowData_switch_def RowData_valid_def field_no_def list_all_iff\<close>)
  have c_props: "chunk W (RowData_switch W) RowData_add_unknown
      (WriteMessageHead W 3 (EntryPair_ByteSize W x) @ EntryPair_Serialize W x)
      (\<lambda>m0. m0\<lparr>rd_props := rd_props m0 @ [EntryPair_MergeFrom EntryPair_SharedCtor x]\<rparr>)"
    if "x \<in> set (rd_props m)" for x
    by (rule chunk_submessage [OF EntryPair_codec, where get = "\<lambda>_. EntryPair_SharedCtor"
          and put = "\<lambda>m0 x. m0\<lparr>rd_props := rd_props m0 @ [x]\<rparr>"])
      (use assms that RowData_sw_ok in \<open>simp_all add: RowData_switch_def RowData_valid_def field_no_def list_all_iff\<close>)
  have unk: "rd_unknown m = []" using assms by (simp add: RowData_valid_def)
  show ?thesis
    unfolding RowData_Serialize_def unk unknown_out_Nil
    by (rule chunk_cong, (rule c_beforecolumns c_aftercolumns c_props chunk_intros | assumption)+)
      (simp add: RowData_MergeFrom_eq  unk RowData_fold_beforecolumns RowData_fold_aftercolumns RowData_fold_props  cong: if_cong option.case_cong split del: if_split)
qed

lemma RowData_size:
  assumes "RowData_valid W m"
  shows "RowData_ByteSize W m = length (RowData_Serialize W m)"
proof -
  have c_beforecolumns: "length (concat (map (\<lambda>x. WriteMessageHead W 1 (Column_ByteSize W x)
      @ Column_Serialize W x) (rd_beforecolumns m)))
    = length (rd_beforecolumns m) + sum_list (map (\<lambda>x. LengthDelimitedSize W (Column_ByteSize W x)) (rd_beforecolumns m))"
    using assms
    by (intro length_concat_chunks submessage_length)
      (simp_all add: RowData_valid_def list_all_iff field_no_def Column_size)
  have c_aftercolumns: "length (concat (map (\<lambda>x. WriteMessageHead W 2 (Column_ByteSize W x)
      @ Column_Serialize W x) (rd_aftercolumns m)))
    = length (rd_aftercolumns m) + sum_list (map (\<lambda>x. LengthDelimitedSize W (Column_ByteSize W x)) (rd_aftercolumns m))"
    using assms
    by (intro length_concat_chunks submessage_length)
      (simp_all add: RowData_valid_def list_all_iff field_no_def Column_size)
  have c_props: "length (concat (map (\<lambda>x. WriteMessageHead W 3 (EntryPair_ByteSize W x)
      @ EntryPair_Serialize W x) (rd_props m)))
    = length (rd_props m) + sum_list (map (\<lambda>x. LengthDelimitedSize W (EntryPair_ByteSize W x)) (rd_props m))"
    using assms
    by (intro length_concat_chunks submessage_length)
      (simp_all add: RowData_valid_def list_all_iff field_no_def EntryPair_size)
  show ?thesis
    using assms c_beforecolumns c_aftercolumns c_props
    by (simp add: RowData_ByteSize_def RowData_Serialize_def RowData_valid_def field_lengths field_no_def
        length_if length_option add_ac del: length_concat split del: if_split cong: if_cong option.case_cong)
qed

lemma RowData_array: "RowData_SerializeToArray W m t = t @ RowData_Serialize W m"
  by (simp add: RowData_SerializeToArray_def RowData_Serialize_def Let_def to_array_laws Column_array EntryPair_array fold_array
      if_append option_append cong: if_cong option.case_cong split del: if_split)

lemma RowData_codec: "message_codec (RowData_MergePartial W) (RowData_Serialize W) (RowData_SerializeToArray W)
    (RowData_ByteSize W) RowData_MergeFrom RowData_Clear (RowData_valid W)"
  unfolding RowData_MergePartial_def
  by (rule codecI [OF RowData_sw_ok RowData_chunk RowData_size RowData_array])
    (simp_all add: RowData_Clear_eq RowData_merge_ctor)

end

sublocale wire_format \<subseteq> RowData: message_codec "RowData_MergePartial W" "RowData_Serialize W"
  "RowData_SerializeToArray W" "RowData_ByteSize W" RowData_MergeFrom RowData_Clear "RowData_valid W"
  by (rule RowData_codec)

section \<open>RowChange\<close>

text \<open>
  The change of some rows of a table, or a statement.
\<close>

record RowChange =
  rc_tableid :: "64 word"
  rc_eventtype :: "32 word option"
  rc_isddl :: "bool option"
  rc_sql :: "bytes"
  rc_rowdatas :: "RowData list"
  rc_props :: "EntryPair list"
  rc_ddlschemaname :: "bytes"
  rc_unknown :: bytes

definition RowChange_SharedCtor :: RowChange where
  "RowChange_SharedCtor = \<lparr>rc_tableid = 0, rc_eventtype = None, rc_isddl = None, rc_sql = [], rc_rowdatas = [], rc_props = [], rc_ddlschemaname = [], rc_unknown = []\<rparr>"

definition RowChange_Clear :: "RowChange \<Rightarrow> RowChange" where
  "RowChange_Clear m = m\<lparr>rc_tableid := 0, rc_eventtype := None, rc_isddl := None, rc_sql := [], rc_rowdatas := [], rc_props := [], rc_ddlschemaname := [], rc_unknown := []\<rparr>"

definition RowChange_switch :: "wirelib \<Rightarrow> 32 word \<Rightarrow> RowChange \<Rightarrow> bytes \<Rightarrow> RowChange fstep" where
  "RowChange_switch W tag m s =
     (if GetTagFieldNumber tag = 1 then
       (if uint8 tag = 8 then
          Field (case ReadInt64 W s of
            None \<Rightarrow> None
          | Some (v, s') \<Rightarrow> Some (m\<lparr>rc_tableid := v\<rparr>, s'))
        else Unusual)
      else if GetTagFieldNumber tag = 2 then
       (if uint8 tag = 16 then
          Field (case ReadEnum W s of
            None \<Rightarrow> None
          | Some (v, s') \<Rightarrow> Some (m\<lparr>rc_eventtype := Some v\<rparr>, s'))
        else Unusual)
      else if GetTagFieldNumber tag = 10 then
       (if uint8 tag = 80 then
          Field (case ReadBool W s of
            None \<Rightarrow> None
          | Some (v, s') \<Rightarrow> Some (m\<lparr>rc_isddl := Some v\<rparr>, s'))
        else Unusual)
      else if GetTagFieldNumber tag = 11 then
       (if uint8 tag = 90 then
          Field (case ReadString W s of
            None \<Rightarrow> None
          | Some (v, s') \<Rightarrow> (if VerifyUtf8String W v then Some (m\<lparr>rc_sql := v\<rparr>, s') else None))
        else Unusual)
      else if GetTagFieldNumber tag = 12 then
       (if uint8 tag = 98 then
          Field (case read_message W (RowData_MergePartial W) RowData_SharedCtor s of
            None \<Rightarrow> None
          | Some (x, s') \<Rightarrow> Some (m\<lparr>rc_rowdatas := rc_rowdatas m @ [x]\<rparr>, s'))
        else Unusual)
      else if GetTagFieldNumber tag = 13 then
       (if uint8 tag = 106 then
          Field (case read_message W (EntryPair_MergePartial W) EntryPair_SharedCtor s of
            None \<Rightarrow> None
          | Some (x, s') \<Rightarrow> Some (m\<lparr>rc_props := rc_props m @ [x]\<rparr>, s'))
        else Unusual)
      else if GetTagFieldNumber tag = 14 then
       (if uint8 tag = 114 then
          Field (case ReadString W s of
            None \<Rightarrow> None
          | Some (v, s') \<Rightarrow> (if VerifyUtf8String W v then Some (m\<lparr>rc_ddlschemaname := v\<rparr>, s') else None))
        else Unusual)
      else Unusual)"

definition RowChange_add_unknown :: "bytes \<Rightarrow> RowChange \<Rightarrow> RowChange" where
  "RowChange_add_unknown raw m = m\<lparr>rc_unknown := rc_unknown m @ raw\<rparr>"

definition RowChange_MergePartial :: "wirelib \<Rightarrow> RowChange \<Rightarrow> bytes \<Rightarrow> (RowChange \<times> bytes) option" where
  "RowChange_MergePartial W = merge_all W (RowChange_switch W) RowChange_add_unknown"

definition RowChange_ByteSize :: "wirelib \<Rightarrow> RowChange \<Rightarrow> nat" where
  "RowChange_ByteSize W m =
     length (unknown_out W (rc_unknown m))
     + 1 * length (rc_rowdatas m) + sum_list (map (\<lambda>x. LengthDelimitedSize W (RowData_ByteSize W x)) (rc_rowdatas m))
     + 1 * length (rc_props m) + sum_list (map (\<lambda>x. LengthDelimitedSize W (EntryPair_ByteSize W x)) (rc_props m))
     + (if rc_sql m \<noteq> [] then 1 + StringSize W (rc_sql m) else 0)
     + (if rc_ddlschemaname m \<noteq> [] then 1 + StringSize W (rc_ddlschemaname m) else 0)
     + (if rc_tableid m \<noteq> 0 then 1 + Int64Size W (rc_tableid m) else 0)
     + (case rc_eventtype m of None \<Rightarrow> 0 | Some v \<Rightarrow> 1 + EnumSize W v)
     + (case rc_isddl m of None \<Rightarrow> 0 | Some v \<Rightarrow> 1 + 1)"

definition RowChange_Serialize :: "wirelib \<Rightarrow> RowChange \<Rightarrow> bytes" where
  "RowChange_Serialize W m =
     (if rc_tableid m \<noteq> 0 then WriteInt64 W 1 (rc_tableid m) else [])
     @ (case rc_eventtype m of None \<Rightarrow> [] | Some v \<Rightarrow> WriteEnum W 2 v)
     @ (case rc_isddl m of None \<Rightarrow> [] | Some v \<Rightarrow> WriteBool W 10 v)
     @ (if rc_sql m \<noteq> [] then WriteString W 11 (rc_sql m) else [])
     @ concat (map (\<lambda>x. WriteMessageHead W 12 (RowData_ByteSize W x) @ RowData_Serialize W x) (rc_rowdatas m))
     @ concat (map (\<lambda>x. WriteMessageHead W 13 (EntryPair_ByteSize W x) @ EntryPair_Serialize W x) (rc_props m))
     @ (if rc_ddlschemaname m \<noteq> [] then WriteString W 14 (rc_ddlschemaname m) else [])
     @ unknown_out W (rc_unknown m)"

definition RowChange_SerializeToArray :: "wirelib \<Rightarrow> RowChange \<Rightarrow> bytes \<Rightarrow> bytes" where
  "RowChange_SerializeToArray W m target =
     (let target1 = (if rc_tableid m \<noteq> 0 then WriteInt64ToArray W 1 (rc_tableid m) target else target);
          target2 = (case rc_eventtype m of None \<Rightarrow> target1 | Some v \<Rightarrow> WriteEnumToArray W 2 v target1);
          target3 = (case rc_isddl m of None \<Rightarrow> target2 | Some v \<Rightarrow> WriteBoolToArray W 10 v target2);
          target4 = (if rc_sql m \<noteq> [] then WriteStringToArray W 11 (rc_sql m) target3 else target3);
          target5 = fold (\<lambda>x t. RowData_SerializeToArray W x
           (WriteMessageHeadToArray W 12 (RowData_ByteSize W x) t)) (rc_rowdatas m) target4;
          target6 = fold (\<lambda>x t. EntryPair_SerializeToArray W x
           (WriteMessageHeadToArray W 13 (EntryPair_ByteSize W x) t)) (rc_props m) target5;
          target7 = (if rc_ddlschemaname m \<noteq> [] then WriteStringToArray W 14 (rc_ddlschemaname m) target6 else target6)
      in target7 @ unknown_out W (rc_unknown m))"

definition RowChange_MergeFrom :: "RowChange \<Rightarrow> RowChange \<Rightarrow> RowChange" where
  "RowChange_MergeFrom this from =
     (let this0 = this\<lparr>rc_unknown := rc_unknown this @ rc_unknown from\<rparr>;
          this1 = this0\<lparr>rc_rowdatas := rc_rowdatas this0 @ map (RowData_MergeFrom RowData_SharedCtor) (rc_rowdatas from)\<rparr>;
          this2 = this1\<lparr>rc_props := rc_props this1 @ map (EntryPair_MergeFrom EntryPair_SharedCtor) (rc_props from)\<rparr>;
          this3 = (if rc_sql from \<noteq> [] then this2\<lparr>rc_sql := rc_sql from\<rparr> else this2);
          this4 = (if rc_ddlschemaname from \<noteq> [] then this3\<lparr>rc_ddlschemaname := rc_ddlschemaname from\<rparr> else this3);
          this5 = (if rc_tableid from \<noteq> 0 then this4\<lparr>rc_tableid := rc_tableid from\<rparr> else this4);
          this6 = (case rc_eventtype from of None \<Rightarrow> this5 | Some v \<Rightarrow> this5\<lparr>rc_eventtype := Some v\<rparr>);
          this7 = (case rc_isddl from of None \<Rightarrow> this6 | Some v \<Rightarrow> this6\<lparr>rc_isddl := Some v\<rparr>)
      in this7)"

definition RowChange_CopyFrom :: "bool \<Rightarrow> RowChange \<Rightarrow> RowChange \<Rightarrow> RowChange" where
  "RowChange_CopyFrom same_object this from =
     (if same_object then this else RowChange_MergeFrom (RowChange_Clear this) from)"

definition RowChange_InternalSwap :: "RowChange \<Rightarrow> RowChange \<Rightarrow> RowChange \<times> RowChange" where
  "RowChange_InternalSwap this other =
     (this\<lparr>rc_tableid := rc_tableid other, rc_eventtype := rc_eventtype other, rc_isddl := rc_isddl other, rc_sql := rc_sql other, rc_rowdatas := rc_rowdatas other, rc_props := rc_props other, rc_ddlschemaname := rc_ddlschemaname other, rc_unknown := rc_unknown other\<rparr>,
      other\<lparr>rc_tableid := rc_tableid this, rc_eventtype := rc_eventtype this, rc_isddl := rc_isddl this, rc_sql := rc_sql this, rc_rowdatas := rc_rowdatas this, rc_props := rc_props this, rc_ddlschemaname := rc_ddlschemaname this, rc_unknown := rc_unknown this\<rparr>)"

definition RowChange_valid :: "wirelib \<Rightarrow> RowChange \<Rightarrow> bool" where
  "RowChange_valid W m \<longleftrightarrow>
     len_ok (length (rc_sql m)) \<and> VerifyUtf8String W (rc_sql m) \<and>
     list_all (\<lambda>x. RowData_valid W x \<and> len_ok (length (RowData_Serialize W x))) (rc_rowdatas m) \<and>
     list_all (\<lambda>x. EntryPair_valid W x \<and> len_ok (length (EntryPair_Serialize W x))) (rc_props m) \<and>
     len_ok (length (rc_ddlschemaname m)) \<and> VerifyUtf8String W (rc_ddlschemaname m) \<and>
     rc_unknown m = []"

lemma RowChange_fold_rowdatas:
  "fold (\<lambda>x m0. m0\<lparr>rc_rowdatas := rc_rowdatas m0 @ [g x]\<rparr>) xs m0 =
    m0\<lparr>rc_rowdatas := rc_rowdatas m0 @ map g xs\<rparr>"
  by (induction xs arbitrary: m0) simp_all

lemma RowChange_fold_props:
  "fold (\<lambda>x m0. m0\<lparr>rc_props := rc_props m0 @ [g x]\<rparr>) xs m0 =
    m0\<lparr>rc_props := rc_props m0 @ map g xs\<rparr>"
  by (induction xs arbitrary: m0) simp_all

lemma RowChange_steps:
  "(if c then t\<lparr>rc_sql := w11\<rparr> else t) = t\<lparr>rc_sql := (if c then w11 else rc_sql t)\<rparr>"
  "(if c then t\<lparr>rc_ddlschemaname := w14\<rparr> else t) = t\<lparr>rc_ddlschemaname := (if c then w14 else rc_ddlschemaname t)\<rparr>"
  "(if c then t\<lparr>rc_tableid := w1\<rparr> else t) = t\<lparr>rc_tableid := (if c then w1 else rc_tableid t)\<rparr>"
  "(case y2 of None \<Rightarrow> t | Some v \<Rightarrow> t\<lparr>rc_eventtype := Some v\<rparr>) =
    t\<lparr>rc_eventtype := (case y2 of None \<Rightarrow> rc_eventtype t | Some v \<Rightarrow> Some v)\<rparr>"
  "(case y10 of None \<Rightarrow> t | Some v \<Rightarrow> t\<lparr>rc_isddl := Some v\<rparr>) =
    t\<lparr>rc_isddl := (case y10 of None \<Rightarrow> rc_isddl t | Some v \<Rightarrow> Some v)\<rparr>"
  by (simp_all split: option.split)

lemma RowChange_MergeFrom_eq:
  "RowChange_MergeFrom this from = this\<lparr>
      rc_unknown := rc_unknown this @ rc_unknown from,
      rc_rowdatas := rc_rowdatas this @ map (RowData_MergeFrom RowData_SharedCtor) (rc_rowdatas from),
      rc_props := rc_props this @ map (EntryPair_MergeFrom EntryPair_SharedCtor) (rc_props from),
      rc_sql := (if rc_sql from \<noteq> [] then rc_sql from else rc_sql this),
      rc_ddlschemaname := (if rc_ddlschemaname from \<noteq> [] then rc_ddlschemaname from else rc_ddlschemaname this),
      rc_tableid := (if rc_tableid from \<noteq> 0 then rc_tableid from else rc_tableid this),
      rc_eventtype := (case rc_eventtype from of None \<Rightarrow> rc_eventtype this | Some v \<Rightarrow> Some v),
      rc_isddl := (case rc_isddl from of None \<Rightarrow> rc_isddl this | Some v \<Rightarrow> Some v)\<rparr>"
  by (simp add: RowChange_MergeFrom_def Let_def RowChange_steps cong: if_cong option.case_cong split del: if_split)

lemma RowChange_swap: "RowChange_InternalSwap a b = (b, a)"
  by (simp add: RowChange_InternalSwap_def)

lemma RowChange_Clear_eq: "RowChange_Clear m = RowChange_SharedCtor"
  by (simp add: RowChange_Clear_def RowChange_SharedCtor_def)

lemma RowChange_merge_ctor: "RowChange_valid W m \<Longrightarrow> RowChange_MergeFrom RowChange_SharedCtor m = m"
  by (cases m) (simp_all add: RowChange_MergeFrom_eq RowChange_SharedCtor_def RowChange_valid_def option_self list_all_iff
      EntryPair_merge_ctor [of W] RowData_merge_ctor [of W] map_idI cong: if_cong option.case_cong)

context wire_format
begin

lemma RowChange_sw_ok: "sw_ok (RowChange_switch W)"
  by (rule sw_okI, unfold RowChange_switch_def)
    (rule fstep_ok_intros reader_shrinks read_message_shrinks | assumption | simp)+

lemma RowChange_chunk:
  assumes "RowChange_valid W m"
  shows "chunk W (RowChange_switch W) RowChange_add_unknown (RowChange_Serialize W m)
    (\<lambda>m0. RowChange_MergeFrom m0 m)"
proof -
  have c_tableid: "chunk W (RowChange_switch W) RowChange_add_unknown
      (WriteInt64 W 1 (rc_tableid m)) (\<lambda>m0. m0\<lparr>rc_tableid := rc_tableid m\<rparr>)"
    by (rule chunk_field [OF int64_codec RowChange_sw_ok])
      (use assms in \<open>simp_all add: RowChange_switch_def RowChange_valid_def field_no_def\<close>)
  have c_eventtype: "chunk W (RowChange_switch W) RowChange_add_unknown
      (WriteEnum W 2 v) (\<lambda>m0. m0\<lparr>rc_eventtype := Some v\<rparr>)" if "rc_eventtype m = Some v" for v
    by (rule chunk_field [OF enum_codec RowChange_sw_ok])
      (use assms in \<open>simp_all add: RowChange_switch_def RowChange_valid_def field_no_def\<close>)
  have c_isddl: "chunk W (RowChange_switch W) RowChange_add_unknown
      (WriteBool W 10 v) (\<lambda>m0. m0\<lparr>rc_isddl := Some v\<rparr>)" if "rc_isddl m = Some v" for v
    by (rule chunk_field [OF bool_codec RowChange_sw_ok])
      (use assms in \<open>simp_all add: RowChange_switch_def RowChange_valid_def field_no_def\<close>)
  have c_sql: "chunk W (RowChange_switch W) RowChange_add_unknown
      (WriteString W 11 (rc_sql m)) (\<lambda>m0. m0\<lparr>rc_sql := rc_sql m\<rparr>)"
    by (rule chunk_field [OF string_codec RowChange_sw_ok])
      (use assms in \<open>simp_all add: RowChange_switch_def RowChange_valid_def field_no_def\<close>)
  have c_rowdatas: "chunk W (RowChange_switch W) RowChange_add_unknown
      (WriteMessageHead W 12 (RowData_ByteSize W x) @ RowData_Serialize W x)
      (\<lambda>m0. m0\<lparr>rc_rowdatas := rc_rowdatas m0 @ [RowData_MergeFrom RowData_SharedCtor x]\<rparr>)"
    if "x \<in> set (rc_rowdatas m)" for x
    by (rule chunk_submessage [OF RowData_codec, where get = "\<lambda>_. RowData_SharedCtor"
          and put = "\<lambda>m0 x. m0\<lparr>rc_rowdatas := rc_rowdatas m0 @ [x]\<rparr>"])
      (use assms that RowChange_sw_ok in \<open>simp_all add: RowChange_switch_def RowChange_valid_def field_no_def list_all_iff\<close>)
  have c_props: "chunk W (RowChange_switch W) RowChange_add_unknown
      (WriteMessageHead W 13 (EntryPair_ByteSize W x) @ EntryPair_Serialize W x)
      (\<lambda>m0. m0\<lparr>rc_props := rc_props m0 @ [EntryPair_MergeFrom EntryPair_SharedCtor x]\<rparr>)"
    if "x \<in> set (rc_props m)" for x
    by (rule chunk_submessage [OF EntryPair_codec, where get = "\<lambda>_. EntryPair_SharedCtor"
          and put = "\<lambda>m0 x. m0\<lparr>rc_props := rc_props m0 @ [x]\<rparr>"])
      (use assms that RowChange_sw_ok in \<open>simp_all add: RowChange_switch_def RowChange_valid_def field_no_def list_all_iff\<close>)
  have c_ddlschemaname: "chunk W (RowChange_switch W) RowChange_add_unknown
      (WriteString W 14 (rc_ddlschemaname m)) (\<lambda>m0. m0\<lparr>rc_ddlschemaname := rc_ddlschemaname m\<rparr>)"
    by (rule chunk_field [OF string_codec RowChange_sw_ok])
      (use assms in \<open>simp_all add: RowChange_switch_def RowChange_valid_def field_no_def\<close>)
  have unk: "rc_unknown m = []" using assms by (simp add: RowChange_valid_def)
  show ?thesis
    unfolding RowChange_Serialize_def unk unknown_out_Nil
    by (rule chunk_cong, (rule c_tableid c_eventtype c_isddl c_sql c_rowdatas c_props c_ddlschemaname chunk_intros | assumption)+)
      (simp add: RowChange_MergeFrom_eq RowChange_steps unk RowChange_fold_rowdatas RowChange_fold_props  cong: if_cong option.case_cong split del: if_split)
qed

lemma RowChange_size:
  assumes "RowChange_valid W m"
  shows "RowChange_ByteSize W m = length (RowChange_Serialize W m)"
proof -
  have c_rowdatas: "length (concat (map (\<lambda>x. WriteMessageHead W 12 (RowData_ByteSize W x)
      @ RowData_Serialize W x) (rc_rowdatas m)))
    = length (rc_rowdatas m) + sum_list (map (\<lambda>x. LengthDelimitedSize W (RowData_ByteSize W x)) (rc_rowdatas m))"
    using assms
    by (intro length_concat_chunks submessage_length)
      (simp_all add: RowChange_valid_def list_all_iff field_no_def RowData_size)
  have c_props: "length (concat (map (\<lambda>x. WriteMessageHead W 13 (EntryPair_ByteSize W x)
      @ EntryPair_Serialize W x) (rc_props m)))
    = length (rc_props m) + sum_list (map (\<lambda>x. LengthDelimitedSize W (EntryPair_ByteSize W x)) (rc_props m))"
    using assms
    by (intro length_concat_chunks submessage_length)
      (simp_all add: RowChange_valid_def list_all_iff field_no_def EntryPair_size)
  show ?thesis
    using assms c_rowdatas c_props
    by (simp add: RowChange_ByteSize_def RowChange_Serialize_def RowChange_valid_def field_lengths field_no_def
        length_if length_option add_ac del: length_concat split del: if_split cong: if_cong option.case_cong)
qed

lemma RowChange_array: "RowChange_SerializeToArray W m t = t @ RowChange_Serialize W m"
  by (simp add: RowChange_SerializeToArray_def RowChange_Serialize_def Let_def to_array_laws EntryPair_array RowData_array fold_array
      if_append option_append cong: if_cong option.case_cong split del: if_split)

lemma RowChange_codec: "message_codec (RowChange_MergePartial W) (RowChange_Serialize W) (RowChange_SerializeToArray W)
    (RowChange_ByteSize W) RowChange_MergeFrom RowChange_Clear (RowChange_valid W)"
  unfolding RowChange_MergePartial_def
  by (rule codecI [OF RowChange_sw_ok RowChange_chunk RowChange_size RowChange_array])
    (simp_all add: RowChange_Clear_eq RowChange_merge_ctor)

end

sublocale wire_format \<subseteq> RowChange: message_codec "RowChange_MergePartial W" "RowChange_Serialize W"
  "RowChange_SerializeToArray W" "RowChange_ByteSize W" RowChange_MergeFrom RowChange_Clear "RowChange_valid W"
  by (rule RowChange_codec)

end
