(* ===== verification/EntryMsg.thy ===== *)
theory EntryMsg
  imports EntryRows
begin

text \<open>
  The remaining messages of \<open>binlogdump/BinlogEntry.pb.cc\<close>: \<open>Header\<close>, \<open>TransactionBegin\<close>,
  \<open>TransactionEnd\<close> and \<open>Entry\<close>, the message a Kafka record holds.
\<close>

section \<open>Header\<close>

text \<open>
  Where an entry comes from.
\<close>

record Header =
  he_version :: "32 word option"
  he_logfilename :: "bytes"
  he_logfileoffset :: "64 word"
  he_serverid :: "64 word"
  he_serverencode :: "bytes"
  he_executetime :: "64 word"
  he_sourcetype :: "32 word option"
  he_schemaname :: "bytes"
  he_tablename :: "bytes"
  he_eventlength :: "64 word"
  he_eventtype :: "32 word option"
  he_props :: "EntryPair list"
  he_gtid :: "bytes"
  he_unknown :: bytes

definition Header_SharedCtor :: Header where
  "Header_SharedCtor = \<lparr>he_version = None, he_logfilename = [], he_logfileoffset = 0, he_serverid = 0, he_serverencode = [], he_executetime = 0, he_sourcetype = None, he_schemaname = [], he_tablename = [], he_eventlength = 0, he_eventtype = None, he_props = [], he_gtid = [], he_unknown = []\<rparr>"

definition Header_Clear :: "Header \<Rightarrow> Header" where
  "Header_Clear m = m\<lparr>he_version := None, he_logfilename := [], he_logfileoffset := 0, he_serverid := 0, he_serverencode := [], he_executetime := 0, he_sourcetype := None, he_schemaname := [], he_tablename := [], he_eventlength := 0, he_eventtype := None, he_props := [], he_gtid := [], he_unknown := []\<rparr>"

definition Header_switch :: "wirelib \<Rightarrow> 32 word \<Rightarrow> Header \<Rightarrow> bytes \<Rightarrow> Header fstep" where
  "Header_switch W tag m s =
     (if GetTagFieldNumber tag = 1 then
       (if uint8 tag = 8 then
          Field (case ReadInt32 W s of
            None \<Rightarrow> None
          | Some (v, s') \<Rightarrow> Some (m\<lparr>he_version := Some v\<rparr>, s'))
        else Unusual)
      else if GetTagFieldNumber tag = 2 then
       (if uint8 tag = 18 then
          Field (case ReadString W s of
            None \<Rightarrow> None
          | Some (v, s') \<Rightarrow> (if VerifyUtf8String W v then Some (m\<lparr>he_logfilename := v\<rparr>, s') else None))
        else Unusual)
      else if GetTagFieldNumber tag = 3 then
       (if uint8 tag = 24 then
          Field (case ReadInt64 W s of
            None \<Rightarrow> None
          | Some (v, s') \<Rightarrow> Some (m\<lparr>he_logfileoffset := v\<rparr>, s'))
        else Unusual)
      else if GetTagFieldNumber tag = 4 then
       (if uint8 tag = 32 then
          Field (case ReadInt64 W s of
            None \<Rightarrow> None
          | Some (v, s') \<Rightarrow> Some (m\<lparr>he_serverid := v\<rparr>, s'))
        else Unusual)
      else if GetTagFieldNumber tag = 5 then
       (if uint8 tag = 42 then
          Field (case ReadString W s of
            None \<Rightarrow> None
          | Some (v, s') \<Rightarrow> (if VerifyUtf8String W v then Some (m\<lparr>he_serverencode := v\<rparr>, s') else None))
        else Unusual)
      else if GetTagFieldNumber tag = 6 then
       (if uint8 tag = 48 then
          Field (case ReadInt64 W s of
            None \<Rightarrow> None
          | Some (v, s') \<Rightarrow> Some (m\<lparr>he_executetime := v\<rparr>, s'))
        else Unusual)
      else if GetTagFieldNumber tag = 7 then
       (if uint8 tag = 56 then
          Field (case ReadEnum W s of
            None \<Rightarrow> None
          | Some (v, s') \<Rightarrow> Some (m\<lparr>he_sourcetype := Some v\<rparr>, s'))
        else Unusual)
      else if GetTagFieldNumber tag = 8 then
       (if uint8 tag = 66 then
          Field (case ReadString W s of
            None \<Rightarrow> None
          | Some (v, s') \<Rightarrow> (if VerifyUtf8String W v then Some (m\<lparr>he_schemaname := v\<rparr>, s') else None))
        else Unusual)
      else if GetTagFieldNumber tag = 9 then
       (if uint8 tag = 74 then
          Field (case ReadString W s of
            None \<Rightarrow> None
          | Some (v, s') \<Rightarrow> (if VerifyUtf8String W v then Some (m\<lparr>he_tablename := v\<rparr>, s') else None))
        else Unusual)
      else if GetTagFieldNumber tag = 10 then
       (if uint8 tag = 80 then
          Field (case ReadInt64 W s of
            None \<Rightarrow> None
          | Some (v, s') \<Rightarrow> Some (m\<lparr>he_eventlength := v\<rparr>, s'))
        else Unusual)
      else if GetTagFieldNumber tag = 11 then
       (if uint8 tag = 88 then
          Field (case ReadEnum W s of
            None \<Rightarrow> None
          | Some (v, s') \<Rightarrow> Some (m\<lparr>he_eventtype := Some v\<rparr>, s'))
        else Unusual)
      else if GetTagFieldNumber tag = 12 then
       (if uint8 tag = 98 then
          Field (case read_message W (EntryPair_MergePartial W) EntryPair_SharedCtor s of
            None \<Rightarrow> None
          | Some (x, s') \<Rightarrow> Some (m\<lparr>he_props := he_props m @ [x]\<rparr>, s'))
        else Unusual)
      else if GetTagFieldNumber tag = 13 then
       (if uint8 tag = 106 then
          Field (case ReadString W s of
            None \<Rightarrow> None
          | Some (v, s') \<Rightarrow> (if VerifyUtf8String W v then Some (m\<lparr>he_gtid := v\<rparr>, s') else None))
        else Unusual)
      else Unusual)"

definition Header_add_unknown :: "bytes \<Rightarrow> Header \<Rightarrow> Header" where
  "Header_add_unknown raw m = m\<lparr>he_unknown := he_unknown m @ raw\<rparr>"

definition Header_MergePartial :: "wirelib \<Rightarrow> Header \<Rightarrow> bytes \<Rightarrow> (Header \<times> bytes) option" where
  "Header_MergePartial W = merge_all W (Header_switch W) Header_add_unknown"

definition Header_ByteSize :: "wirelib \<Rightarrow> Header \<Rightarrow> nat" where
  "Header_ByteSize W m =
     length (unknown_out W (he_unknown m))
     + 1 * length (he_props m) + sum_list (map (\<lambda>x. LengthDelimitedSize W (EntryPair_ByteSize W x)) (he_props m))
     + (if he_logfilename m \<noteq> [] then 1 + StringSize W (he_logfilename m) else 0)
     + (if he_serverencode m \<noteq> [] then 1 + StringSize W (he_serverencode m) else 0)
     + (if he_schemaname m \<noteq> [] then 1 + StringSize W (he_schemaname m) else 0)
     + (if he_tablename m \<noteq> [] then 1 + StringSize W (he_tablename m) else 0)
     + (if he_gtid m \<noteq> [] then 1 + StringSize W (he_gtid m) else 0)
     + (if he_logfileoffset m \<noteq> 0 then 1 + Int64Size W (he_logfileoffset m) else 0)
     + (if he_serverid m \<noteq> 0 then 1 + Int64Size W (he_serverid m) else 0)
     + (if he_executetime m \<noteq> 0 then 1 + Int64Size W (he_executetime m) else 0)
     + (if he_eventlength m \<noteq> 0 then 1 + Int64Size W (he_eventlength m) else 0)
     + (case he_version m of None \<Rightarrow> 0 | Some v \<Rightarrow> 1 + Int32Size W v)
     + (case he_sourcetype m of None \<Rightarrow> 0 | Some v \<Rightarrow> 1 + EnumSize W v)
     + (case he_eventtype m of None \<Rightarrow> 0 | Some v \<Rightarrow> 1 + EnumSize W v)"

definition Header_Serialize :: "wirelib \<Rightarrow> Header \<Rightarrow> bytes" where
  "Header_Serialize W m =
     (case he_version m of None \<Rightarrow> [] | Some v \<Rightarrow> WriteInt32 W 1 v)
     @ (if he_logfilename m \<noteq> [] then WriteString W 2 (he_logfilename m) else [])
     @ (if he_logfileoffset m \<noteq> 0 then WriteInt64 W 3 (he_logfileoffset m) else [])
     @ (if he_serverid m \<noteq> 0 then WriteInt64 W 4 (he_serverid m) else [])
     @ (if he_serverencode m \<noteq> [] then WriteString W 5 (he_serverencode m) else [])
     @ (if he_executetime m \<noteq> 0 then WriteInt64 W 6 (he_executetime m) else [])
     @ (case he_sourcetype m of None \<Rightarrow> [] | Some v \<Rightarrow> WriteEnum W 7 v)
     @ (if he_schemaname m \<noteq> [] then WriteString W 8 (he_schemaname m) else [])
     @ (if he_tablename m \<noteq> [] then WriteString W 9 (he_tablename m) else [])
     @ (if he_eventlength m \<noteq> 0 then WriteInt64 W 10 (he_eventlength m) else [])
     @ (case he_eventtype m of None \<Rightarrow> [] | Some v \<Rightarrow> WriteEnum W 11 v)
     @ concat (map (\<lambda>x. WriteMessageHead W 12 (EntryPair_ByteSize W x) @ EntryPair_Serialize W x) (he_props m))
     @ (if he_gtid m \<noteq> [] then WriteString W 13 (he_gtid m) else [])
     @ unknown_out W (he_unknown m)"

definition Header_SerializeToArray :: "wirelib \<Rightarrow> Header \<Rightarrow> bytes \<Rightarrow> bytes" where
  "Header_SerializeToArray W m target =
     (let target1 = (case he_version m of None \<Rightarrow> target | Some v \<Rightarrow> WriteInt32ToArray W 1 v target);
          target2 = (if he_logfilename m \<noteq> [] then WriteStringToArray W 2 (he_logfilename m) target1 else target1);
          target3 = (if he_logfileoffset m \<noteq> 0 then WriteInt64ToArray W 3 (he_logfileoffset m) target2 else target2);
          target4 = (if he_serverid m \<noteq> 0 then WriteInt64ToArray W 4 (he_serverid m) target3 else target3);
          target5 = (if he_serverencode m \<noteq> [] then WriteStringToArray W 5 (he_serverencode m) target4 else target4);
          target6 = (if he_executetime m \<noteq> 0 then WriteInt64ToArray W 6 (he_executetime m) target5 else target5);
          target7 = (case he_sourcetype m of None \<Rightarrow> target6 | Some v \<Rightarrow> WriteEnumToArray W 7 v target6);
          target8 = (if he_schemaname m \<noteq> [] then WriteStringToArray W 8 (he_schemaname m) target7 else target7);
          target9 = (if he_tablename m \<noteq> [] then WriteStringToArray W 9 (he_tablename m) target8 else target8);
          target10 = (if he_eventlength m \<noteq> 0 then WriteInt64ToArray W 10 (he_eventlength m) target9 else target9);
          target11 = (case he_eventtype m of None \<Rightarrow> target10 | Some v \<Rightarrow> WriteEnumToArray W 11 v target10);
          target12 = fold (\<lambda>x t. EntryPair_SerializeToArray W x
           (WriteMessageHeadToArray W 12 (EntryPair_ByteSize W x) t)) (he_props m) target11;
          target13 = (if he_gtid m \<noteq> [] then WriteStringToArray W 13 (he_gtid m) target12 else target12)
      in target13 @ unknown_out W (he_unknown m))"

definition Header_MergeFrom :: "Header \<Rightarrow> Header \<Rightarrow> Header" where
  "Header_MergeFrom this from =
     (let this0 = this\<lparr>he_unknown := he_unknown this @ he_unknown from\<rparr>;
          this1 = this0\<lparr>he_props := he_props this0 @ map (EntryPair_MergeFrom EntryPair_SharedCtor) (he_props from)\<rparr>;
          this2 = (if he_logfilename from \<noteq> [] then this1\<lparr>he_logfilename := he_logfilename from\<rparr> else this1);
          this3 = (if he_serverencode from \<noteq> [] then this2\<lparr>he_serverencode := he_serverencode from\<rparr> else this2);
          this4 = (if he_schemaname from \<noteq> [] then this3\<lparr>he_schemaname := he_schemaname from\<rparr> else this3);
          this5 = (if he_tablename from \<noteq> [] then this4\<lparr>he_tablename := he_tablename from\<rparr> else this4);
          this6 = (if he_gtid from \<noteq> [] then this5\<lparr>he_gtid := he_gtid from\<rparr> else this5);
          this7 = (if he_logfileoffset from \<noteq> 0 then this6\<lparr>he_logfileoffset := he_logfileoffset from\<rparr> else this6);
          this8 = (if he_serverid from \<noteq> 0 then this7\<lparr>he_serverid := he_serverid from\<rparr> else this7);
          this9 = (if he_executetime from \<noteq> 0 then this8\<lparr>he_executetime := he_executetime from\<rparr> else this8);
          this10 = (if he_eventlength from \<noteq> 0 then this9\<lparr>he_eventlength := he_eventlength from\<rparr> else this9);
          this11 = (case he_version from of None \<Rightarrow> this10 | Some v \<Rightarrow> this10\<lparr>he_version := Some v\<rparr>);
          this12 = (case he_sourcetype from of None \<Rightarrow> this11 | Some v \<Rightarrow> this11\<lparr>he_sourcetype := Some v\<rparr>);
          this13 = (case he_eventtype from of None \<Rightarrow> this12 | Some v \<Rightarrow> this12\<lparr>he_eventtype := Some v\<rparr>)
      in this13)"

definition Header_CopyFrom :: "bool \<Rightarrow> Header \<Rightarrow> Header \<Rightarrow> Header" where
  "Header_CopyFrom same_object this from =
     (if same_object then this else Header_MergeFrom (Header_Clear this) from)"

definition Header_InternalSwap :: "Header \<Rightarrow> Header \<Rightarrow> Header \<times> Header" where
  "Header_InternalSwap this other =
     (this\<lparr>he_version := he_version other, he_logfilename := he_logfilename other, he_logfileoffset := he_logfileoffset other, he_serverid := he_serverid other, he_serverencode := he_serverencode other, he_executetime := he_executetime other, he_sourcetype := he_sourcetype other, he_schemaname := he_schemaname other, he_tablename := he_tablename other, he_eventlength := he_eventlength other, he_eventtype := he_eventtype other, he_props := he_props other, he_gtid := he_gtid other, he_unknown := he_unknown other\<rparr>,
      other\<lparr>he_version := he_version this, he_logfilename := he_logfilename this, he_logfileoffset := he_logfileoffset this, he_serverid := he_serverid this, he_serverencode := he_serverencode this, he_executetime := he_executetime this, he_sourcetype := he_sourcetype this, he_schemaname := he_schemaname this, he_tablename := he_tablename this, he_eventlength := he_eventlength this, he_eventtype := he_eventtype this, he_props := he_props this, he_gtid := he_gtid this, he_unknown := he_unknown this\<rparr>)"

definition Header_valid :: "wirelib \<Rightarrow> Header \<Rightarrow> bool" where
  "Header_valid W m \<longleftrightarrow>
     len_ok (length (he_logfilename m)) \<and> VerifyUtf8String W (he_logfilename m) \<and>
     len_ok (length (he_serverencode m)) \<and> VerifyUtf8String W (he_serverencode m) \<and>
     len_ok (length (he_schemaname m)) \<and> VerifyUtf8String W (he_schemaname m) \<and>
     len_ok (length (he_tablename m)) \<and> VerifyUtf8String W (he_tablename m) \<and>
     list_all (\<lambda>x. EntryPair_valid W x \<and> len_ok (length (EntryPair_Serialize W x))) (he_props m) \<and>
     len_ok (length (he_gtid m)) \<and> VerifyUtf8String W (he_gtid m) \<and>
     he_unknown m = []"

lemma Header_fold_props:
  "fold (\<lambda>x m0. m0\<lparr>he_props := he_props m0 @ [g x]\<rparr>) xs m0 =
    m0\<lparr>he_props := he_props m0 @ map g xs\<rparr>"
  by (induction xs arbitrary: m0) simp_all

lemma Header_steps:
  "(if c then t\<lparr>he_logfilename := w2\<rparr> else t) = t\<lparr>he_logfilename := (if c then w2 else he_logfilename t)\<rparr>"
  "(if c then t\<lparr>he_serverencode := w5\<rparr> else t) = t\<lparr>he_serverencode := (if c then w5 else he_serverencode t)\<rparr>"
  "(if c then t\<lparr>he_schemaname := w8\<rparr> else t) = t\<lparr>he_schemaname := (if c then w8 else he_schemaname t)\<rparr>"
  "(if c then t\<lparr>he_tablename := w9\<rparr> else t) = t\<lparr>he_tablename := (if c then w9 else he_tablename t)\<rparr>"
  "(if c then t\<lparr>he_gtid := w13\<rparr> else t) = t\<lparr>he_gtid := (if c then w13 else he_gtid t)\<rparr>"
  "(if c then t\<lparr>he_logfileoffset := w3\<rparr> else t) = t\<lparr>he_logfileoffset := (if c then w3 else he_logfileoffset t)\<rparr>"
  "(if c then t\<lparr>he_serverid := w4\<rparr> else t) = t\<lparr>he_serverid := (if c then w4 else he_serverid t)\<rparr>"
  "(if c then t\<lparr>he_executetime := w6\<rparr> else t) = t\<lparr>he_executetime := (if c then w6 else he_executetime t)\<rparr>"
  "(if c then t\<lparr>he_eventlength := w10\<rparr> else t) = t\<lparr>he_eventlength := (if c then w10 else he_eventlength t)\<rparr>"
  "(case y1 of None \<Rightarrow> t | Some v \<Rightarrow> t\<lparr>he_version := Some v\<rparr>) =
    t\<lparr>he_version := (case y1 of None \<Rightarrow> he_version t | Some v \<Rightarrow> Some v)\<rparr>"
  "(case y7 of None \<Rightarrow> t | Some v \<Rightarrow> t\<lparr>he_sourcetype := Some v\<rparr>) =
    t\<lparr>he_sourcetype := (case y7 of None \<Rightarrow> he_sourcetype t | Some v \<Rightarrow> Some v)\<rparr>"
  "(case y11 of None \<Rightarrow> t | Some v \<Rightarrow> t\<lparr>he_eventtype := Some v\<rparr>) =
    t\<lparr>he_eventtype := (case y11 of None \<Rightarrow> he_eventtype t | Some v \<Rightarrow> Some v)\<rparr>"
  by (simp_all split: option.split)

lemma Header_MergeFrom_eq:
  "Header_MergeFrom this from = this\<lparr>
      he_unknown := he_unknown this @ he_unknown from,
      he_props := he_props this @ map (EntryPair_MergeFrom EntryPair_SharedCtor) (he_props from),
      he_logfilename := (if he_logfilename from \<noteq> [] then he_logfilename from else he_logfilename this),
      he_serverencode := (if he_serverencode from \<noteq> [] then he_serverencode from else he_serverencode this),
      he_schemaname := (if he_schemaname from \<noteq> [] then he_schemaname from else he_schemaname this),
      he_tablename := (if he_tablename from \<noteq> [] then he_tablename from else he_tablename this),
      he_gtid := (if he_gtid from \<noteq> [] then he_gtid from else he_gtid this),
      he_logfileoffset := (if he_logfileoffset from \<noteq> 0 then he_logfileoffset from else he_logfileoffset this),
      he_serverid := (if he_serverid from \<noteq> 0 then he_serverid from else he_serverid this),
      he_executetime := (if he_executetime from \<noteq> 0 then he_executetime from else he_executetime this),
      he_eventlength := (if he_eventlength from \<noteq> 0 then he_eventlength from else he_eventlength this),
      he_version := (case he_version from of None \<Rightarrow> he_version this | Some v \<Rightarrow> Some v),
      he_sourcetype := (case he_sourcetype from of None \<Rightarrow> he_sourcetype this | Some v \<Rightarrow> Some v),
      he_eventtype := (case he_eventtype from of None \<Rightarrow> he_eventtype this | Some v \<Rightarrow> Some v)\<rparr>"
  by (simp add: Header_MergeFrom_def Let_def Header_steps cong: if_cong option.case_cong split del: if_split)

lemma Header_swap: "Header_InternalSwap a b = (b, a)"
  by (simp add: Header_InternalSwap_def)

lemma Header_Clear_eq: "Header_Clear m = Header_SharedCtor"
  by (simp add: Header_Clear_def Header_SharedCtor_def)

lemma Header_merge_ctor: "Header_valid W m \<Longrightarrow> Header_MergeFrom Header_SharedCtor m = m"
  by (cases m) (simp_all add: Header_MergeFrom_eq Header_SharedCtor_def Header_valid_def option_self list_all_iff
      EntryPair_merge_ctor [of W] map_idI cong: if_cong option.case_cong)

context wire_format
begin

lemma Header_sw_ok: "sw_ok (Header_switch W)"
  by (rule sw_okI, unfold Header_switch_def)
    (rule fstep_ok_intros reader_shrinks read_message_shrinks | assumption | simp)+

lemma Header_chunk:
  assumes "Header_valid W m"
  shows "chunk W (Header_switch W) Header_add_unknown (Header_Serialize W m)
    (\<lambda>m0. Header_MergeFrom m0 m)"
proof -
  have c_version: "chunk W (Header_switch W) Header_add_unknown
      (WriteInt32 W 1 v) (\<lambda>m0. m0\<lparr>he_version := Some v\<rparr>)" if "he_version m = Some v" for v
    by (rule chunk_field [OF int32_codec Header_sw_ok])
      (use assms in \<open>simp_all add: Header_switch_def Header_valid_def field_no_def\<close>)
  have c_logfilename: "chunk W (Header_switch W) Header_add_unknown
      (WriteString W 2 (he_logfilename m)) (\<lambda>m0. m0\<lparr>he_logfilename := he_logfilename m\<rparr>)"
    by (rule chunk_field [OF string_codec Header_sw_ok])
      (use assms in \<open>simp_all add: Header_switch_def Header_valid_def field_no_def\<close>)
  have c_logfileoffset: "chunk W (Header_switch W) Header_add_unknown
      (WriteInt64 W 3 (he_logfileoffset m)) (\<lambda>m0. m0\<lparr>he_logfileoffset := he_logfileoffset m\<rparr>)"
    by (rule chunk_field [OF int64_codec Header_sw_ok])
      (use assms in \<open>simp_all add: Header_switch_def Header_valid_def field_no_def\<close>)
  have c_serverid: "chunk W (Header_switch W) Header_add_unknown
      (WriteInt64 W 4 (he_serverid m)) (\<lambda>m0. m0\<lparr>he_serverid := he_serverid m\<rparr>)"
    by (rule chunk_field [OF int64_codec Header_sw_ok])
      (use assms in \<open>simp_all add: Header_switch_def Header_valid_def field_no_def\<close>)
  have c_serverencode: "chunk W (Header_switch W) Header_add_unknown
      (WriteString W 5 (he_serverencode m)) (\<lambda>m0. m0\<lparr>he_serverencode := he_serverencode m\<rparr>)"
    by (rule chunk_field [OF string_codec Header_sw_ok])
      (use assms in \<open>simp_all add: Header_switch_def Header_valid_def field_no_def\<close>)
  have c_executetime: "chunk W (Header_switch W) Header_add_unknown
      (WriteInt64 W 6 (he_executetime m)) (\<lambda>m0. m0\<lparr>he_executetime := he_executetime m\<rparr>)"
    by (rule chunk_field [OF int64_codec Header_sw_ok])
      (use assms in \<open>simp_all add: Header_switch_def Header_valid_def field_no_def\<close>)
  have c_sourcetype: "chunk W (Header_switch W) Header_add_unknown
      (WriteEnum W 7 v) (\<lambda>m0. m0\<lparr>he_sourcetype := Some v\<rparr>)" if "he_sourcetype m = Some v" for v
    by (rule chunk_field [OF enum_codec Header_sw_ok])
      (use assms in \<open>simp_all add: Header_switch_def Header_valid_def field_no_def\<close>)
  have c_schemaname: "chunk W (Header_switch W) Header_add_unknown
      (WriteString W 8 (he_schemaname m)) (\<lambda>m0. m0\<lparr>he_schemaname := he_schemaname m\<rparr>)"
    by (rule chunk_field [OF string_codec Header_sw_ok])
      (use assms in \<open>simp_all add: Header_switch_def Header_valid_def field_no_def\<close>)
  have c_tablename: "chunk W (Header_switch W) Header_add_unknown
      (WriteString W 9 (he_tablename m)) (\<lambda>m0. m0\<lparr>he_tablename := he_tablename m\<rparr>)"
    by (rule chunk_field [OF string_codec Header_sw_ok])
      (use assms in \<open>simp_all add: Header_switch_def Header_valid_def field_no_def\<close>)
  have c_eventlength: "chunk W (Header_switch W) Header_add_unknown
      (WriteInt64 W 10 (he_eventlength m)) (\<lambda>m0. m0\<lparr>he_eventlength := he_eventlength m\<rparr>)"
    by (rule chunk_field [OF int64_codec Header_sw_ok])
      (use assms in \<open>simp_all add: Header_switch_def Header_valid_def field_no_def\<close>)
  have c_eventtype: "chunk W (Header_switch W) Header_add_unknown
      (WriteEnum W 11 v) (\<lambda>m0. m0\<lparr>he_eventtype := Some v\<rparr>)" if "he_eventtype m = Some v" for v
    by (rule chunk_field [OF enum_codec Header_sw_ok])
      (use assms in \<open>simp_all add: Header_switch_def Header_valid_def field_no_def\<close>)
  have c_props: "chunk W (Header_switch W) Header_add_unknown
      (WriteMessageHead W 12 (EntryPair_ByteSize W x) @ EntryPair_Serialize W x)
      (\<lambda>m0. m0\<lparr>he_props := he_props m0 @ [EntryPair_MergeFrom EntryPair_SharedCtor x]\<rparr>)"
    if "x \<in> set (he_props m)" for x
    by (rule chunk_submessage [OF EntryPair_codec, where get = "\<lambda>_. EntryPair_SharedCtor"
          and put = "\<lambda>m0 x. m0\<lparr>he_props := he_props m0 @ [x]\<rparr>"])
      (use assms that Header_sw_ok in \<open>simp_all add: Header_switch_def Header_valid_def field_no_def list_all_iff\<close>)
  have c_gtid: "chunk W (Header_switch W) Header_add_unknown
      (WriteString W 13 (he_gtid m)) (\<lambda>m0. m0\<lparr>he_gtid := he_gtid m\<rparr>)"
    by (rule chunk_field [OF string_codec Header_sw_ok])
      (use assms in \<open>simp_all add: Header_switch_def Header_valid_def field_no_def\<close>)
  have unk: "he_unknown m = []" using assms by (simp add: Header_valid_def)
  show ?thesis
    unfolding Header_Serialize_def unk unknown_out_Nil
    by (rule chunk_cong, (rule c_version c_logfilename c_logfileoffset c_serverid c_serverencode c_executetime c_sourcetype c_schemaname c_tablename c_eventlength c_eventtype c_props c_gtid chunk_intros | assumption)+)
      (simp add: Header_MergeFrom_eq Header_steps unk Header_fold_props  cong: if_cong option.case_cong split del: if_split)
qed

lemma Header_size:
  assumes "Header_valid W m"
  shows "Header_ByteSize W m = length (Header_Serialize W m)"
proof -
  have c_props: "length (concat (map (\<lambda>x. WriteMessageHead W 12 (EntryPair_ByteSize W x)
      @ EntryPair_Serialize W x) (he_props m)))
    = length (he_props m) + sum_list (map (\<lambda>x. LengthDelimitedSize W (EntryPair_ByteSize W x)) (he_props m))"
    using assms
    by (intro length_concat_chunks submessage_length)
      (simp_all add: Header_valid_def list_all_iff field_no_def EntryPair_size)
  show ?thesis
    using assms c_props
    by (simp add: Header_ByteSize_def Header_Serialize_def Header_valid_def field_lengths field_no_def
        length_if length_option add_ac del: length_concat split del: if_split cong: if_cong option.case_cong)
qed

lemma Header_array: "Header_SerializeToArray W m t = t @ Header_Serialize W m"
  by (simp add: Header_SerializeToArray_def Header_Serialize_def Let_def to_array_laws EntryPair_array fold_array
      if_append option_append cong: if_cong option.case_cong split del: if_split)

lemma Header_codec: "message_codec (Header_MergePartial W) (Header_Serialize W) (Header_SerializeToArray W)
    (Header_ByteSize W) Header_MergeFrom Header_Clear (Header_valid W)"
  unfolding Header_MergePartial_def
  by (rule codecI [OF Header_sw_ok Header_chunk Header_size Header_array])
    (simp_all add: Header_Clear_eq Header_merge_ctor)

end

sublocale wire_format \<subseteq> Header: message_codec "Header_MergePartial W" "Header_Serialize W"
  "Header_SerializeToArray W" "Header_ByteSize W" Header_MergeFrom Header_Clear "Header_valid W"
  by (rule Header_codec)

section \<open>TransactionBegin\<close>

text \<open>
  The start of a transaction.
\<close>

record TransactionBegin =
  tb_executetime :: "64 word"
  tb_transactionid :: "bytes"
  tb_props :: "EntryPair list"
  tb_threadid :: "64 word"
  tb_unknown :: bytes

definition TransactionBegin_SharedCtor :: TransactionBegin where
  "TransactionBegin_SharedCtor = \<lparr>tb_executetime = 0, tb_transactionid = [], tb_props = [], tb_threadid = 0, tb_unknown = []\<rparr>"

definition TransactionBegin_Clear :: "TransactionBegin \<Rightarrow> TransactionBegin" where
  "TransactionBegin_Clear m = m\<lparr>tb_executetime := 0, tb_transactionid := [], tb_props := [], tb_threadid := 0, tb_unknown := []\<rparr>"

definition TransactionBegin_switch :: "wirelib \<Rightarrow> 32 word \<Rightarrow> TransactionBegin \<Rightarrow> bytes \<Rightarrow> TransactionBegin fstep" where
  "TransactionBegin_switch W tag m s =
     (if GetTagFieldNumber tag = 1 then
       (if uint8 tag = 8 then
          Field (case ReadInt64 W s of
            None \<Rightarrow> None
          | Some (v, s') \<Rightarrow> Some (m\<lparr>tb_executetime := v\<rparr>, s'))
        else Unusual)
      else if GetTagFieldNumber tag = 2 then
       (if uint8 tag = 18 then
          Field (case ReadString W s of
            None \<Rightarrow> None
          | Some (v, s') \<Rightarrow> (if VerifyUtf8String W v then Some (m\<lparr>tb_transactionid := v\<rparr>, s') else None))
        else Unusual)
      else if GetTagFieldNumber tag = 3 then
       (if uint8 tag = 26 then
          Field (case read_message W (EntryPair_MergePartial W) EntryPair_SharedCtor s of
            None \<Rightarrow> None
          | Some (x, s') \<Rightarrow> Some (m\<lparr>tb_props := tb_props m @ [x]\<rparr>, s'))
        else Unusual)
      else if GetTagFieldNumber tag = 4 then
       (if uint8 tag = 32 then
          Field (case ReadInt64 W s of
            None \<Rightarrow> None
          | Some (v, s') \<Rightarrow> Some (m\<lparr>tb_threadid := v\<rparr>, s'))
        else Unusual)
      else Unusual)"

definition TransactionBegin_add_unknown :: "bytes \<Rightarrow> TransactionBegin \<Rightarrow> TransactionBegin" where
  "TransactionBegin_add_unknown raw m = m\<lparr>tb_unknown := tb_unknown m @ raw\<rparr>"

definition TransactionBegin_MergePartial :: "wirelib \<Rightarrow> TransactionBegin \<Rightarrow> bytes \<Rightarrow> (TransactionBegin \<times> bytes) option" where
  "TransactionBegin_MergePartial W = merge_all W (TransactionBegin_switch W) TransactionBegin_add_unknown"

definition TransactionBegin_ByteSize :: "wirelib \<Rightarrow> TransactionBegin \<Rightarrow> nat" where
  "TransactionBegin_ByteSize W m =
     length (unknown_out W (tb_unknown m))
     + 1 * length (tb_props m) + sum_list (map (\<lambda>x. LengthDelimitedSize W (EntryPair_ByteSize W x)) (tb_props m))
     + (if tb_transactionid m \<noteq> [] then 1 + StringSize W (tb_transactionid m) else 0)
     + (if tb_executetime m \<noteq> 0 then 1 + Int64Size W (tb_executetime m) else 0)
     + (if tb_threadid m \<noteq> 0 then 1 + Int64Size W (tb_threadid m) else 0)"

definition TransactionBegin_Serialize :: "wirelib \<Rightarrow> TransactionBegin \<Rightarrow> bytes" where
  "TransactionBegin_Serialize W m =
     (if tb_executetime m \<noteq> 0 then WriteInt64 W 1 (tb_executetime m) else [])
     @ (if tb_transactionid m \<noteq> [] then WriteString W 2 (tb_transactionid m) else [])
     @ concat (map (\<lambda>x. WriteMessageHead W 3 (EntryPair_ByteSize W x) @ EntryPair_Serialize W x) (tb_props m))
     @ (if tb_threadid m \<noteq> 0 then WriteInt64 W 4 (tb_threadid m) else [])
     @ unknown_out W (tb_unknown m)"

definition TransactionBegin_SerializeToArray :: "wirelib \<Rightarrow> TransactionBegin \<Rightarrow> bytes \<Rightarrow> bytes" where
  "TransactionBegin_SerializeToArray W m target =
     (let target1 = (if tb_executetime m \<noteq> 0 then WriteInt64ToArray W 1 (tb_executetime m) target else target);
          target2 = (if tb_transactionid m \<noteq> [] then WriteStringToArray W 2 (tb_transactionid m) target1 else target1);
          target3 = fold (\<lambda>x t. EntryPair_SerializeToArray W x
           (WriteMessageHeadToArray W 3 (EntryPair_ByteSize W x) t)) (tb_props m) target2;
          target4 = (if tb_threadid m \<noteq> 0 then WriteInt64ToArray W 4 (tb_threadid m) target3 else target3)
      in target4 @ unknown_out W (tb_unknown m))"

definition TransactionBegin_MergeFrom :: "TransactionBegin \<Rightarrow> TransactionBegin \<Rightarrow> TransactionBegin" where
  "TransactionBegin_MergeFrom this from =
     (let this0 = this\<lparr>tb_unknown := tb_unknown this @ tb_unknown from\<rparr>;
          this1 = this0\<lparr>tb_props := tb_props this0 @ map (EntryPair_MergeFrom EntryPair_SharedCtor) (tb_props from)\<rparr>;
          this2 = (if tb_transactionid from \<noteq> [] then this1\<lparr>tb_transactionid := tb_transactionid from\<rparr> else this1);
          this3 = (if tb_executetime from \<noteq> 0 then this2\<lparr>tb_executetime := tb_executetime from\<rparr> else this2);
          this4 = (if tb_threadid from \<noteq> 0 then this3\<lparr>tb_threadid := tb_threadid from\<rparr> else this3)
      in this4)"

definition TransactionBegin_CopyFrom :: "bool \<Rightarrow> TransactionBegin \<Rightarrow> TransactionBegin \<Rightarrow> TransactionBegin" where
  "TransactionBegin_CopyFrom same_object this from =
     (if same_object then this else TransactionBegin_MergeFrom (TransactionBegin_Clear this) from)"

definition TransactionBegin_InternalSwap :: "TransactionBegin \<Rightarrow> TransactionBegin \<Rightarrow> TransactionBegin \<times> TransactionBegin" where
  "TransactionBegin_InternalSwap this other =
     (this\<lparr>tb_executetime := tb_executetime other, tb_transactionid := tb_transactionid other, tb_props := tb_props other, tb_threadid := tb_threadid other, tb_unknown := tb_unknown other\<rparr>,
      other\<lparr>tb_executetime := tb_executetime this, tb_transactionid := tb_transactionid this, tb_props := tb_props this, tb_threadid := tb_threadid this, tb_unknown := tb_unknown this\<rparr>)"

definition TransactionBegin_valid :: "wirelib \<Rightarrow> TransactionBegin \<Rightarrow> bool" where
  "TransactionBegin_valid W m \<longleftrightarrow>
     len_ok (length (tb_transactionid m)) \<and> VerifyUtf8String W (tb_transactionid m) \<and>
     list_all (\<lambda>x. EntryPair_valid W x \<and> len_ok (length (EntryPair_Serialize W x))) (tb_props m) \<and>
     tb_unknown m = []"

lemma TransactionBegin_fold_props:
  "fold (\<lambda>x m0. m0\<lparr>tb_props := tb_props m0 @ [g x]\<rparr>) xs m0 =
    m0\<lparr>tb_props := tb_props m0 @ map g xs\<rparr>"
  by (induction xs arbitrary: m0) simp_all

lemma TransactionBegin_steps:
  "(if c then t\<lparr>tb_transactionid := w2\<rparr> else t) = t\<lparr>tb_transactionid := (if c then w2 else tb_transactionid t)\<rparr>"
  "(if c then t\<lparr>tb_executetime := w1\<rparr> else t) = t\<lparr>tb_executetime := (if c then w1 else tb_executetime t)\<rparr>"
  "(if c then t\<lparr>tb_threadid := w4\<rparr> else t) = t\<lparr>tb_threadid := (if c then w4 else tb_threadid t)\<rparr>"
  by (simp_all split: option.split)

lemma TransactionBegin_MergeFrom_eq:
  "TransactionBegin_MergeFrom this from = this\<lparr>
      tb_unknown := tb_unknown this @ tb_unknown from,
      tb_props := tb_props this @ map (EntryPair_MergeFrom EntryPair_SharedCtor) (tb_props from),
      tb_transactionid := (if tb_transactionid from \<noteq> [] then tb_transactionid from else tb_transactionid this),
      tb_executetime := (if tb_executetime from \<noteq> 0 then tb_executetime from else tb_executetime this),
      tb_threadid := (if tb_threadid from \<noteq> 0 then tb_threadid from else tb_threadid this)\<rparr>"
  by (simp add: TransactionBegin_MergeFrom_def Let_def TransactionBegin_steps cong: if_cong option.case_cong split del: if_split)

lemma TransactionBegin_swap: "TransactionBegin_InternalSwap a b = (b, a)"
  by (simp add: TransactionBegin_InternalSwap_def)

lemma TransactionBegin_Clear_eq: "TransactionBegin_Clear m = TransactionBegin_SharedCtor"
  by (simp add: TransactionBegin_Clear_def TransactionBegin_SharedCtor_def)

lemma TransactionBegin_merge_ctor: "TransactionBegin_valid W m \<Longrightarrow> TransactionBegin_MergeFrom TransactionBegin_SharedCtor m = m"
  by (cases m) (simp_all add: TransactionBegin_MergeFrom_eq TransactionBegin_SharedCtor_def TransactionBegin_valid_def option_self list_all_iff
      EntryPair_merge_ctor [of W] map_idI cong: if_cong option.case_cong)

context wire_format
begin

lemma TransactionBegin_sw_ok: "sw_ok (TransactionBegin_switch W)"
  by (rule sw_okI, unfold TransactionBegin_switch_def)
    (rule fstep_ok_intros reader_shrinks read_message_shrinks | assumption | simp)+

lemma TransactionBegin_chunk:
  assumes "TransactionBegin_valid W m"
  shows "chunk W (TransactionBegin_switch W) TransactionBegin_add_unknown (TransactionBegin_Serialize W m)
    (\<lambda>m0. TransactionBegin_MergeFrom m0 m)"
proof -
  have c_executetime: "chunk W (TransactionBegin_switch W) TransactionBegin_add_unknown
      (WriteInt64 W 1 (tb_executetime m)) (\<lambda>m0. m0\<lparr>tb_executetime := tb_executetime m\<rparr>)"
    by (rule chunk_field [OF int64_codec TransactionBegin_sw_ok])
      (use assms in \<open>simp_all add: TransactionBegin_switch_def TransactionBegin_valid_def field_no_def\<close>)
  have c_transactionid: "chunk W (TransactionBegin_switch W) TransactionBegin_add_unknown
      (WriteString W 2 (tb_transactionid m)) (\<lambda>m0. m0\<lparr>tb_transactionid := tb_transactionid m\<rparr>)"
    by (rule chunk_field [OF string_codec TransactionBegin_sw_ok])
      (use assms in \<open>simp_all add: TransactionBegin_switch_def TransactionBegin_valid_def field_no_def\<close>)
  have c_props: "chunk W (TransactionBegin_switch W) TransactionBegin_add_unknown
      (WriteMessageHead W 3 (EntryPair_ByteSize W x) @ EntryPair_Serialize W x)
      (\<lambda>m0. m0\<lparr>tb_props := tb_props m0 @ [EntryPair_MergeFrom EntryPair_SharedCtor x]\<rparr>)"
    if "x \<in> set (tb_props m)" for x
    by (rule chunk_submessage [OF EntryPair_codec, where get = "\<lambda>_. EntryPair_SharedCtor"
          and put = "\<lambda>m0 x. m0\<lparr>tb_props := tb_props m0 @ [x]\<rparr>"])
      (use assms that TransactionBegin_sw_ok in \<open>simp_all add: TransactionBegin_switch_def TransactionBegin_valid_def field_no_def list_all_iff\<close>)
  have c_threadid: "chunk W (TransactionBegin_switch W) TransactionBegin_add_unknown
      (WriteInt64 W 4 (tb_threadid m)) (\<lambda>m0. m0\<lparr>tb_threadid := tb_threadid m\<rparr>)"
    by (rule chunk_field [OF int64_codec TransactionBegin_sw_ok])
      (use assms in \<open>simp_all add: TransactionBegin_switch_def TransactionBegin_valid_def field_no_def\<close>)
  have unk: "tb_unknown m = []" using assms by (simp add: TransactionBegin_valid_def)
  show ?thesis
    unfolding TransactionBegin_Serialize_def unk unknown_out_Nil
    by (rule chunk_cong, (rule c_executetime c_transactionid c_props c_threadid chunk_intros | assumption)+)
      (simp add: TransactionBegin_MergeFrom_eq TransactionBegin_steps unk TransactionBegin_fold_props  cong: if_cong option.case_cong split del: if_split)
qed

lemma TransactionBegin_size:
  assumes "TransactionBegin_valid W m"
  shows "TransactionBegin_ByteSize W m = length (TransactionBegin_Serialize W m)"
proof -
  have c_props: "length (concat (map (\<lambda>x. WriteMessageHead W 3 (EntryPair_ByteSize W x)
      @ EntryPair_Serialize W x) (tb_props m)))
    = length (tb_props m) + sum_list (map (\<lambda>x. LengthDelimitedSize W (EntryPair_ByteSize W x)) (tb_props m))"
    using assms
    by (intro length_concat_chunks submessage_length)
      (simp_all add: TransactionBegin_valid_def list_all_iff field_no_def EntryPair_size)
  show ?thesis
    using assms c_props
    by (simp add: TransactionBegin_ByteSize_def TransactionBegin_Serialize_def TransactionBegin_valid_def field_lengths field_no_def
        length_if length_option add_ac del: length_concat split del: if_split cong: if_cong option.case_cong)
qed

lemma TransactionBegin_array: "TransactionBegin_SerializeToArray W m t = t @ TransactionBegin_Serialize W m"
  by (simp add: TransactionBegin_SerializeToArray_def TransactionBegin_Serialize_def Let_def to_array_laws EntryPair_array fold_array
      if_append option_append cong: if_cong option.case_cong split del: if_split)

lemma TransactionBegin_codec: "message_codec (TransactionBegin_MergePartial W) (TransactionBegin_Serialize W) (TransactionBegin_SerializeToArray W)
    (TransactionBegin_ByteSize W) TransactionBegin_MergeFrom TransactionBegin_Clear (TransactionBegin_valid W)"
  unfolding TransactionBegin_MergePartial_def
  by (rule codecI [OF TransactionBegin_sw_ok TransactionBegin_chunk TransactionBegin_size TransactionBegin_array])
    (simp_all add: TransactionBegin_Clear_eq TransactionBegin_merge_ctor)

end

sublocale wire_format \<subseteq> TransactionBegin: message_codec "TransactionBegin_MergePartial W" "TransactionBegin_Serialize W"
  "TransactionBegin_SerializeToArray W" "TransactionBegin_ByteSize W" TransactionBegin_MergeFrom TransactionBegin_Clear "TransactionBegin_valid W"
  by (rule TransactionBegin_codec)

section \<open>TransactionEnd\<close>

text \<open>
  The end of a transaction.
\<close>

record TransactionEnd =
  te_executetime :: "64 word"
  te_transactionid :: "bytes"
  te_props :: "EntryPair list"
  te_unknown :: bytes

definition TransactionEnd_SharedCtor :: TransactionEnd where
  "TransactionEnd_SharedCtor = \<lparr>te_executetime = 0, te_transactionid = [], te_props = [], te_unknown = []\<rparr>"

definition TransactionEnd_Clear :: "TransactionEnd \<Rightarrow> TransactionEnd" where
  "TransactionEnd_Clear m = m\<lparr>te_executetime := 0, te_transactionid := [], te_props := [], te_unknown := []\<rparr>"

definition TransactionEnd_switch :: "wirelib \<Rightarrow> 32 word \<Rightarrow> TransactionEnd \<Rightarrow> bytes \<Rightarrow> TransactionEnd fstep" where
  "TransactionEnd_switch W tag m s =
     (if GetTagFieldNumber tag = 1 then
       (if uint8 tag = 8 then
          Field (case ReadInt64 W s of
            None \<Rightarrow> None
          | Some (v, s') \<Rightarrow> Some (m\<lparr>te_executetime := v\<rparr>, s'))
        else Unusual)
      else if GetTagFieldNumber tag = 2 then
       (if uint8 tag = 18 then
          Field (case ReadString W s of
            None \<Rightarrow> None
          | Some (v, s') \<Rightarrow> (if VerifyUtf8String W v then Some (m\<lparr>te_transactionid := v\<rparr>, s') else None))
        else Unusual)
      else if GetTagFieldNumber tag = 3 then
       (if uint8 tag = 26 then
          Field (case read_message W (EntryPair_MergePartial W) EntryPair_SharedCtor s of
            None \<Rightarrow> None
          | Some (x, s') \<Rightarrow> Some (m\<lparr>te_props := te_props m @ [x]\<rparr>, s'))
        else Unusual)
      else Unusual)"

definition TransactionEnd_add_unknown :: "bytes \<Rightarrow> TransactionEnd \<Rightarrow> TransactionEnd" where
  "TransactionEnd_add_unknown raw m = m\<lparr>te_unknown := te_unknown m @ raw\<rparr>"

definition TransactionEnd_MergePartial :: "wirelib \<Rightarrow> TransactionEnd \<Rightarrow> bytes \<Rightarrow> (TransactionEnd \<times> bytes) option" where
  "TransactionEnd_MergePartial W = merge_all W (TransactionEnd_switch W) TransactionEnd_add_unknown"

definition TransactionEnd_ByteSize :: "wirelib \<Rightarrow> TransactionEnd \<Rightarrow> nat" where
  "TransactionEnd_ByteSize W m =
     length (unknown_out W (te_unknown m))
     + 1 * length (te_props m) + sum_list (map (\<lambda>x. LengthDelimitedSize W (EntryPair_ByteSize W x)) (te_props m))
     + (if te_transactionid m \<noteq> [] then 1 + StringSize W (te_transactionid m) else 0)
     + (if te_executetime m \<noteq> 0 then 1 + Int64Size W (te_executetime m) else 0)"

definition TransactionEnd_Serialize :: "wirelib \<Rightarrow> TransactionEnd \<Rightarrow> bytes" where
  "TransactionEnd_Serialize W m =
     (if te_executetime m \<noteq> 0 then WriteInt64 W 1 (te_executetime m) else [])
     @ (if te_transactionid m \<noteq> [] then WriteString W 2 (te_transactionid m) else [])
     @ concat (map (\<lambda>x. WriteMessageHead W 3 (EntryPair_ByteSize W x) @ EntryPair_Serialize W x) (te_props m))
     @ unknown_out W (te_unknown m)"

definition TransactionEnd_SerializeToArray :: "wirelib \<Rightarrow> TransactionEnd \<Rightarrow> bytes \<Rightarrow> bytes" where
  "TransactionEnd_SerializeToArray W m target =
     (let target1 = (if te_executetime m \<noteq> 0 then WriteInt64ToArray W 1 (te_executetime m) target else target);
          target2 = (if te_transactionid m \<noteq> [] then WriteStringToArray W 2 (te_transactionid m) target1 else target1);
          target3 = fold (\<lambda>x t. EntryPair_SerializeToArray W x
           (WriteMessageHeadToArray W 3 (EntryPair_ByteSize W x) t)) (te_props m) target2
      in target3 @ unknown_out W (te_unknown m))"

definition TransactionEnd_MergeFrom :: "TransactionEnd \<Rightarrow> TransactionEnd \<Rightarrow> TransactionEnd" where
  "TransactionEnd_MergeFrom this from =
     (let this0 = this\<lparr>te_unknown := te_unknown this @ te_unknown from\<rparr>;
          this1 = this0\<lparr>te_props := te_props this0 @ map (EntryPair_MergeFrom EntryPair_SharedCtor) (te_props from)\<rparr>;
          this2 = (if te_transactionid from \<noteq> [] then this1\<lparr>te_transactionid := te_transactionid from\<rparr> else this1);
          this3 = (if te_executetime from \<noteq> 0 then this2\<lparr>te_executetime := te_executetime from\<rparr> else this2)
      in this3)"

definition TransactionEnd_CopyFrom :: "bool \<Rightarrow> TransactionEnd \<Rightarrow> TransactionEnd \<Rightarrow> TransactionEnd" where
  "TransactionEnd_CopyFrom same_object this from =
     (if same_object then this else TransactionEnd_MergeFrom (TransactionEnd_Clear this) from)"

definition TransactionEnd_InternalSwap :: "TransactionEnd \<Rightarrow> TransactionEnd \<Rightarrow> TransactionEnd \<times> TransactionEnd" where
  "TransactionEnd_InternalSwap this other =
     (this\<lparr>te_executetime := te_executetime other, te_transactionid := te_transactionid other, te_props := te_props other, te_unknown := te_unknown other\<rparr>,
      other\<lparr>te_executetime := te_executetime this, te_transactionid := te_transactionid this, te_props := te_props this, te_unknown := te_unknown this\<rparr>)"

definition TransactionEnd_valid :: "wirelib \<Rightarrow> TransactionEnd \<Rightarrow> bool" where
  "TransactionEnd_valid W m \<longleftrightarrow>
     len_ok (length (te_transactionid m)) \<and> VerifyUtf8String W (te_transactionid m) \<and>
     list_all (\<lambda>x. EntryPair_valid W x \<and> len_ok (length (EntryPair_Serialize W x))) (te_props m) \<and>
     te_unknown m = []"

lemma TransactionEnd_fold_props:
  "fold (\<lambda>x m0. m0\<lparr>te_props := te_props m0 @ [g x]\<rparr>) xs m0 =
    m0\<lparr>te_props := te_props m0 @ map g xs\<rparr>"
  by (induction xs arbitrary: m0) simp_all

lemma TransactionEnd_steps:
  "(if c then t\<lparr>te_transactionid := w2\<rparr> else t) = t\<lparr>te_transactionid := (if c then w2 else te_transactionid t)\<rparr>"
  "(if c then t\<lparr>te_executetime := w1\<rparr> else t) = t\<lparr>te_executetime := (if c then w1 else te_executetime t)\<rparr>"
  by (simp_all split: option.split)

lemma TransactionEnd_MergeFrom_eq:
  "TransactionEnd_MergeFrom this from = this\<lparr>
      te_unknown := te_unknown this @ te_unknown from,
      te_props := te_props this @ map (EntryPair_MergeFrom EntryPair_SharedCtor) (te_props from),
      te_transactionid := (if te_transactionid from \<noteq> [] then te_transactionid from else te_transactionid this),
      te_executetime := (if te_executetime from \<noteq> 0 then te_executetime from else te_executetime this)\<rparr>"
  by (simp add: TransactionEnd_MergeFrom_def Let_def TransactionEnd_steps cong: if_cong option.case_cong split del: if_split)

lemma TransactionEnd_swap: "TransactionEnd_InternalSwap a b = (b, a)"
  by (simp add: TransactionEnd_InternalSwap_def)

lemma TransactionEnd_Clear_eq: "TransactionEnd_Clear m = TransactionEnd_SharedCtor"
  by (simp add: TransactionEnd_Clear_def TransactionEnd_SharedCtor_def)

lemma TransactionEnd_merge_ctor: "TransactionEnd_valid W m \<Longrightarrow> TransactionEnd_MergeFrom TransactionEnd_SharedCtor m = m"
  by (cases m) (simp_all add: TransactionEnd_MergeFrom_eq TransactionEnd_SharedCtor_def TransactionEnd_valid_def option_self list_all_iff
      EntryPair_merge_ctor [of W] map_idI cong: if_cong option.case_cong)

context wire_format
begin

lemma TransactionEnd_sw_ok: "sw_ok (TransactionEnd_switch W)"
  by (rule sw_okI, unfold TransactionEnd_switch_def)
    (rule fstep_ok_intros reader_shrinks read_message_shrinks | assumption | simp)+

lemma TransactionEnd_chunk:
  assumes "TransactionEnd_valid W m"
  shows "chunk W (TransactionEnd_switch W) TransactionEnd_add_unknown (TransactionEnd_Serialize W m)
    (\<lambda>m0. TransactionEnd_MergeFrom m0 m)"
proof -
  have c_executetime: "chunk W (TransactionEnd_switch W) TransactionEnd_add_unknown
      (WriteInt64 W 1 (te_executetime m)) (\<lambda>m0. m0\<lparr>te_executetime := te_executetime m\<rparr>)"
    by (rule chunk_field [OF int64_codec TransactionEnd_sw_ok])
      (use assms in \<open>simp_all add: TransactionEnd_switch_def TransactionEnd_valid_def field_no_def\<close>)
  have c_transactionid: "chunk W (TransactionEnd_switch W) TransactionEnd_add_unknown
      (WriteString W 2 (te_transactionid m)) (\<lambda>m0. m0\<lparr>te_transactionid := te_transactionid m\<rparr>)"
    by (rule chunk_field [OF string_codec TransactionEnd_sw_ok])
      (use assms in \<open>simp_all add: TransactionEnd_switch_def TransactionEnd_valid_def field_no_def\<close>)
  have c_props: "chunk W (TransactionEnd_switch W) TransactionEnd_add_unknown
      (WriteMessageHead W 3 (EntryPair_ByteSize W x) @ EntryPair_Serialize W x)
      (\<lambda>m0. m0\<lparr>te_props := te_props m0 @ [EntryPair_MergeFrom EntryPair_SharedCtor x]\<rparr>)"
    if "x \<in> set (te_props m)" for x
    by (rule chunk_submessage [OF EntryPair_codec, where get = "\<lambda>_. EntryPair_SharedCtor"
          and put = "\<lambda>m0 x. m0\<lparr>te_props := te_props m0 @ [x]\<rparr>"])
      (use assms that TransactionEnd_sw_ok in \<open>simp_all add: TransactionEnd_switch_def TransactionEnd_valid_def field_no_def list_all_iff\<close>)
  have unk: "te_unknown m = []" using assms by (simp add: TransactionEnd_valid_def)
  show ?thesis
    unfolding TransactionEnd_Serialize_def unk unknown_out_Nil
    by (rule chunk_cong, (rule c_executetime c_transactionid c_props chunk_intros | assumption)+)
      (simp add: TransactionEnd_MergeFrom_eq TransactionEnd_steps unk TransactionEnd_fold_props  cong: if_cong option.case_cong split del: if_split)
qed

lemma TransactionEnd_size:
  assumes "TransactionEnd_valid W m"
  shows "TransactionEnd_ByteSize W m = length (TransactionEnd_Serialize W m)"
proof -
  have c_props: "length (concat (map (\<lambda>x. WriteMessageHead W 3 (EntryPair_ByteSize W x)
      @ EntryPair_Serialize W x) (te_props m)))
    = length (te_props m) + sum_list (map (\<lambda>x. LengthDelimitedSize W (EntryPair_ByteSize W x)) (te_props m))"
    using assms
    by (intro length_concat_chunks submessage_length)
      (simp_all add: TransactionEnd_valid_def list_all_iff field_no_def EntryPair_size)
  show ?thesis
    using assms c_props
    by (simp add: TransactionEnd_ByteSize_def TransactionEnd_Serialize_def TransactionEnd_valid_def field_lengths field_no_def
        length_if length_option add_ac del: length_concat split del: if_split cong: if_cong option.case_cong)
qed

lemma TransactionEnd_array: "TransactionEnd_SerializeToArray W m t = t @ TransactionEnd_Serialize W m"
  by (simp add: TransactionEnd_SerializeToArray_def TransactionEnd_Serialize_def Let_def to_array_laws EntryPair_array fold_array
      if_append option_append cong: if_cong option.case_cong split del: if_split)

lemma TransactionEnd_codec: "message_codec (TransactionEnd_MergePartial W) (TransactionEnd_Serialize W) (TransactionEnd_SerializeToArray W)
    (TransactionEnd_ByteSize W) TransactionEnd_MergeFrom TransactionEnd_Clear (TransactionEnd_valid W)"
  unfolding TransactionEnd_MergePartial_def
  by (rule codecI [OF TransactionEnd_sw_ok TransactionEnd_chunk TransactionEnd_size TransactionEnd_array])
    (simp_all add: TransactionEnd_Clear_eq TransactionEnd_merge_ctor)

end

sublocale wire_format \<subseteq> TransactionEnd: message_codec "TransactionEnd_MergePartial W" "TransactionEnd_Serialize W"
  "TransactionEnd_SerializeToArray W" "TransactionEnd_ByteSize W" TransactionEnd_MergeFrom TransactionEnd_Clear "TransactionEnd_valid W"
  by (rule TransactionEnd_codec)

section \<open>Entry\<close>

text \<open>
  One entry of the binlog; \<open>storevalue\<close> is a serialized message of the kind \<open>entrytype\<close> says.
\<close>

record Entry =
  en_header :: "Header option"
  en_entrytype :: "32 word option"
  en_storevalue :: "bytes"
  en_unknown :: bytes

definition Entry_SharedCtor :: Entry where
  "Entry_SharedCtor = \<lparr>en_header = None, en_entrytype = None, en_storevalue = [], en_unknown = []\<rparr>"

definition Entry_Clear :: "Entry \<Rightarrow> Entry" where
  "Entry_Clear m = m\<lparr>en_header := None, en_entrytype := None, en_storevalue := [], en_unknown := []\<rparr>"

definition Entry_mutable_header :: "Entry \<Rightarrow> Header" where
  "Entry_mutable_header m =
     (case en_header m of None \<Rightarrow> Header_SharedCtor | Some h \<Rightarrow> h)"

definition Entry_switch :: "wirelib \<Rightarrow> 32 word \<Rightarrow> Entry \<Rightarrow> bytes \<Rightarrow> Entry fstep" where
  "Entry_switch W tag m s =
     (if GetTagFieldNumber tag = 1 then
       (if uint8 tag = 10 then
          Field (case read_message W (Header_MergePartial W) (Entry_mutable_header m) s of
            None \<Rightarrow> None
          | Some (h, s') \<Rightarrow> Some (m\<lparr>en_header := Some h\<rparr>, s'))
        else Unusual)
      else if GetTagFieldNumber tag = 2 then
       (if uint8 tag = 16 then
          Field (case ReadEnum W s of
            None \<Rightarrow> None
          | Some (v, s') \<Rightarrow> Some (m\<lparr>en_entrytype := Some v\<rparr>, s'))
        else Unusual)
      else if GetTagFieldNumber tag = 3 then
       (if uint8 tag = 26 then
          Field (case ReadBytes W s of
            None \<Rightarrow> None
          | Some (v, s') \<Rightarrow> Some (m\<lparr>en_storevalue := v\<rparr>, s'))
        else Unusual)
      else Unusual)"

definition Entry_add_unknown :: "bytes \<Rightarrow> Entry \<Rightarrow> Entry" where
  "Entry_add_unknown raw m = m\<lparr>en_unknown := en_unknown m @ raw\<rparr>"

definition Entry_MergePartial :: "wirelib \<Rightarrow> Entry \<Rightarrow> bytes \<Rightarrow> (Entry \<times> bytes) option" where
  "Entry_MergePartial W = merge_all W (Entry_switch W) Entry_add_unknown"

definition Entry_ByteSize :: "wirelib \<Rightarrow> Entry \<Rightarrow> nat" where
  "Entry_ByteSize W m =
     length (unknown_out W (en_unknown m))
     + (if en_storevalue m \<noteq> [] then 1 + BytesSize W (en_storevalue m) else 0)
     + (case en_header m of None \<Rightarrow> 0 | Some h \<Rightarrow> 1 + LengthDelimitedSize W (Header_ByteSize W h))
     + (case en_entrytype m of None \<Rightarrow> 0 | Some v \<Rightarrow> 1 + EnumSize W v)"

definition Entry_Serialize :: "wirelib \<Rightarrow> Entry \<Rightarrow> bytes" where
  "Entry_Serialize W m =
     (case en_header m of None \<Rightarrow> []
      | Some h \<Rightarrow> WriteMessageHead W 1 (Header_ByteSize W h) @ Header_Serialize W h)
     @ (case en_entrytype m of None \<Rightarrow> [] | Some v \<Rightarrow> WriteEnum W 2 v)
     @ (if en_storevalue m \<noteq> [] then WriteBytes W 3 (en_storevalue m) else [])
     @ unknown_out W (en_unknown m)"

definition Entry_SerializeToArray :: "wirelib \<Rightarrow> Entry \<Rightarrow> bytes \<Rightarrow> bytes" where
  "Entry_SerializeToArray W m target =
     (let target1 = (case en_header m of None \<Rightarrow> target
         | Some h \<Rightarrow> Header_SerializeToArray W h
             (WriteMessageHeadToArray W 1 (Header_ByteSize W h) target));
          target2 = (case en_entrytype m of None \<Rightarrow> target1 | Some v \<Rightarrow> WriteEnumToArray W 2 v target1);
          target3 = (if en_storevalue m \<noteq> [] then WriteBytesToArray W 3 (en_storevalue m) target2 else target2)
      in target3 @ unknown_out W (en_unknown m))"

definition Entry_MergeFrom :: "Entry \<Rightarrow> Entry \<Rightarrow> Entry" where
  "Entry_MergeFrom this from =
     (let this0 = this\<lparr>en_unknown := en_unknown this @ en_unknown from\<rparr>;
          this1 = (if en_storevalue from \<noteq> [] then this0\<lparr>en_storevalue := en_storevalue from\<rparr> else this0);
          this2 = (case en_header from of None \<Rightarrow> this1
         | Some h \<Rightarrow> this1\<lparr>en_header := Some (Header_MergeFrom (Entry_mutable_header this1) h)\<rparr>);
          this3 = (case en_entrytype from of None \<Rightarrow> this2 | Some v \<Rightarrow> this2\<lparr>en_entrytype := Some v\<rparr>)
      in this3)"

definition Entry_CopyFrom :: "bool \<Rightarrow> Entry \<Rightarrow> Entry \<Rightarrow> Entry" where
  "Entry_CopyFrom same_object this from =
     (if same_object then this else Entry_MergeFrom (Entry_Clear this) from)"

definition Entry_InternalSwap :: "Entry \<Rightarrow> Entry \<Rightarrow> Entry \<times> Entry" where
  "Entry_InternalSwap this other =
     (this\<lparr>en_header := en_header other, en_entrytype := en_entrytype other, en_storevalue := en_storevalue other, en_unknown := en_unknown other\<rparr>,
      other\<lparr>en_header := en_header this, en_entrytype := en_entrytype this, en_storevalue := en_storevalue this, en_unknown := en_unknown this\<rparr>)"

definition Entry_valid :: "wirelib \<Rightarrow> Entry \<Rightarrow> bool" where
  "Entry_valid W m \<longleftrightarrow>
     (case en_header m of None \<Rightarrow> True | Some h \<Rightarrow> Header_valid W h \<and> len_ok (length (Header_Serialize W h))) \<and>
     len_ok (length (en_storevalue m)) \<and>
     en_unknown m = []"

lemma Entry_steps:
  "(if c then t\<lparr>en_storevalue := w3\<rparr> else t) = t\<lparr>en_storevalue := (if c then w3 else en_storevalue t)\<rparr>"
  "(case y1 of None \<Rightarrow> t | Some h \<Rightarrow> t\<lparr>en_header := Some (g h)\<rparr>) =
    t\<lparr>en_header := (case y1 of None \<Rightarrow> en_header t | Some h \<Rightarrow> Some (g h))\<rparr>"
  "(case y2 of None \<Rightarrow> t | Some v \<Rightarrow> t\<lparr>en_entrytype := Some v\<rparr>) =
    t\<lparr>en_entrytype := (case y2 of None \<Rightarrow> en_entrytype t | Some v \<Rightarrow> Some v)\<rparr>"
  by (simp_all split: option.split)

lemma Entry_MergeFrom_eq:
  "Entry_MergeFrom this from = this\<lparr>
      en_unknown := en_unknown this @ en_unknown from,
      en_storevalue := (if en_storevalue from \<noteq> [] then en_storevalue from else en_storevalue this),
      en_header := (case en_header from of None \<Rightarrow> en_header this
        | Some h \<Rightarrow> Some (Header_MergeFrom (Entry_mutable_header this) h)),
      en_entrytype := (case en_entrytype from of None \<Rightarrow> en_entrytype this | Some v \<Rightarrow> Some v)\<rparr>"
  by (simp add: Entry_MergeFrom_def Let_def Entry_steps Entry_mutable_header_def cong: if_cong option.case_cong split del: if_split)

lemma Entry_swap: "Entry_InternalSwap a b = (b, a)"
  by (simp add: Entry_InternalSwap_def)

lemma Entry_Clear_eq: "Entry_Clear m = Entry_SharedCtor"
  by (simp add: Entry_Clear_def Entry_SharedCtor_def)

lemma Entry_merge_ctor: "Entry_valid W m \<Longrightarrow> Entry_MergeFrom Entry_SharedCtor m = m"
  by (cases "en_header m"; cases m) (simp_all add: Entry_MergeFrom_eq Entry_SharedCtor_def Entry_valid_def option_self Entry_mutable_header_def
      Header_merge_ctor [of W] cong: if_cong option.case_cong split: option.split)

context wire_format
begin

lemma Entry_sw_ok: "sw_ok (Entry_switch W)"
  by (rule sw_okI, unfold Entry_switch_def)
    (rule fstep_ok_intros reader_shrinks read_message_shrinks | assumption | simp)+

lemma Entry_chunk:
  assumes "Entry_valid W m"
  shows "chunk W (Entry_switch W) Entry_add_unknown (Entry_Serialize W m)
    (\<lambda>m0. Entry_MergeFrom m0 m)"
proof -
  have c_header: "chunk W (Entry_switch W) Entry_add_unknown
      (WriteMessageHead W 1 (Header_ByteSize W h) @ Header_Serialize W h)
      (\<lambda>m0. m0\<lparr>en_header := Some (Header_MergeFrom (Entry_mutable_header m0) h)\<rparr>)"
    if "en_header m = Some h" for h
    by (rule chunk_submessage [OF Header_codec, where get = Entry_mutable_header
          and put = "\<lambda>m0 h. m0\<lparr>en_header := Some h\<rparr>"])
      (use assms that Entry_sw_ok in \<open>simp_all add: Entry_switch_def Entry_valid_def field_no_def\<close>)
  have c_entrytype: "chunk W (Entry_switch W) Entry_add_unknown
      (WriteEnum W 2 v) (\<lambda>m0. m0\<lparr>en_entrytype := Some v\<rparr>)" if "en_entrytype m = Some v" for v
    by (rule chunk_field [OF enum_codec Entry_sw_ok])
      (use assms in \<open>simp_all add: Entry_switch_def Entry_valid_def field_no_def\<close>)
  have c_storevalue: "chunk W (Entry_switch W) Entry_add_unknown
      (WriteBytes W 3 (en_storevalue m)) (\<lambda>m0. m0\<lparr>en_storevalue := en_storevalue m\<rparr>)"
    by (rule chunk_field [OF bytes_codec Entry_sw_ok])
      (use assms in \<open>simp_all add: Entry_switch_def Entry_valid_def field_no_def\<close>)
  have unk: "en_unknown m = []" using assms by (simp add: Entry_valid_def)
  show ?thesis
    unfolding Entry_Serialize_def unk unknown_out_Nil
    by (rule chunk_cong, (rule c_header c_entrytype c_storevalue chunk_intros | assumption)+)
      (simp add: Entry_MergeFrom_eq Entry_steps unk  Entry_mutable_header_def cong: if_cong option.case_cong split del: if_split)
qed

lemma Entry_size:
  assumes "Entry_valid W m"
  shows "Entry_ByteSize W m = length (Entry_Serialize W m)"
proof -
  have c_header: "length (WriteMessageHead W 1 (Header_ByteSize W h) @ Header_Serialize W h)
    = 1 + LengthDelimitedSize W (Header_ByteSize W h)" if "en_header m = Some h" for h
    using assms that by (intro submessage_length) (simp_all add: Entry_valid_def field_no_def Header_size)
  show ?thesis
    using assms c_header
    by (simp add: Entry_ByteSize_def Entry_Serialize_def Entry_valid_def field_lengths field_no_def
        length_if length_option add_ac del: length_concat split del: if_split cong: if_cong option.case_cong)
qed

lemma Entry_array: "Entry_SerializeToArray W m t = t @ Entry_Serialize W m"
  by (simp add: Entry_SerializeToArray_def Entry_Serialize_def Let_def to_array_laws Header_array
      if_append option_append cong: if_cong option.case_cong split del: if_split)

lemma Entry_codec: "message_codec (Entry_MergePartial W) (Entry_Serialize W) (Entry_SerializeToArray W)
    (Entry_ByteSize W) Entry_MergeFrom Entry_Clear (Entry_valid W)"
  unfolding Entry_MergePartial_def
  by (rule codecI [OF Entry_sw_ok Entry_chunk Entry_size Entry_array])
    (simp_all add: Entry_Clear_eq Entry_merge_ctor)

end

sublocale wire_format \<subseteq> Entry: message_codec "Entry_MergePartial W" "Entry_Serialize W"
  "Entry_SerializeToArray W" "Entry_ByteSize W" Entry_MergeFrom Entry_Clear "Entry_valid W"
  by (rule Entry_codec)

end
