(* ===== verification/WireInstance.thy ===== *)
theory WireInstance
  imports AdminMsg EntryMsg
begin

text \<open>
  A concrete runtime: the documented protobuf encoding (base-128 varints, little-endian fixed
  64-bit values, length-delimited strings and messages, negative enums and \<open>int32\<close>s written
  sign-extended to ten bytes).  It shows that the contract \<open>wire_format\<close> can be met, and the
  witnesses of the properties evaluate the generated classes over it.
\<close>

section \<open>Varints\<close>

fun enc_varint :: "nat \<Rightarrow> bytes" where
  "enc_varint n =
     (if n < 128 then [char_of n] else char_of (n mod 128 + 128) # enc_varint (n div 128))"

declare enc_varint.simps [simp del]

fun dec_varint :: "nat \<Rightarrow> bytes \<Rightarrow> (nat \<times> bytes) option" where
  "dec_varint 0 bs = None"
| "dec_varint (Suc k) [] = None"
| "dec_varint (Suc k) (c # cs) =
     (if (of_char c :: nat) < 128 then Some (of_char c, cs)
      else (case dec_varint k cs of
              None \<Rightarrow> None
            | Some (n, r) \<Rightarrow> Some (of_char c - 128 + 128 * n, r)))"

lemma dec_varint_Nil [simp]: "dec_varint k [] = None"
  by (cases k) simp_all

lemma dec_enc_varint: "n < 128 ^ k \<Longrightarrow> 0 < k \<Longrightarrow> dec_varint k (enc_varint n @ r) = Some (n, r)"
proof (induction n arbitrary: k rule: enc_varint.induct)
  case (1 n)
  then obtain j where k: "k = Suc j" by (cases k) auto
  show ?case
  proof (cases "n < 128")
    case True
    then show ?thesis unfolding k by (subst enc_varint.simps) simp
  next
    case False
    then have "0 < j" using "1.prems" k by (cases j) auto
    moreover have "n div 128 < 128 ^ j" using "1.prems" k by (simp add: less_mult_imp_div_less mult.commute)
    ultimately have "dec_varint j (enc_varint (n div 128) @ r) = Some (n div 128, r)"
      using "1.IH" False by simp
    then show ?thesis unfolding k using False by (subst enc_varint.simps) simp
  qed
qed

lemma enc_varint_nonempty [simp]: "enc_varint n \<noteq> []"
  by (subst enc_varint.simps) simp

lemma enc_varint_cut: "enc_varint n = p @ q \<Longrightarrow> q \<noteq> [] \<Longrightarrow> dec_varint k p = None"
proof (induction n arbitrary: k p rule: enc_varint.induct)
  case (1 n)
  show ?case
  proof (cases "n < 128")
    case True
    with "1.prems" have "p = []" by (subst (asm) enc_varint.simps) (auto simp: Cons_eq_append_conv)
    then show ?thesis by (cases k) simp_all
  next
    case False
    show ?thesis
    proof (cases p)
      case Nil
      then show ?thesis by (cases k) simp_all
    next
      case (Cons c p')
      with "1.prems" False have "c = char_of (n mod 128 + 128)" "enc_varint (n div 128) = p' @ q"
        by (subst (asm) enc_varint.simps, simp)+
      with "1.IH" [OF False] "1.prems"(2) Cons show ?thesis by (cases k) simp_all
    qed
  qed
qed

lemma dec_varint_shrinks: "dec_varint k s = Some (n, r) \<Longrightarrow> length r < length s"
  by (induction k s arbitrary: n r rule: dec_varint.induct)
    (force split: if_splits option.splits)+

section \<open>Fixed-width values\<close>

fun le_bytes :: "nat \<Rightarrow> nat \<Rightarrow> bytes" where
  "le_bytes 0 n = []"
| "le_bytes (Suc k) n = char_of n # le_bytes k (n div 256)"

fun le_val :: "bytes \<Rightarrow> nat" where
  "le_val [] = 0"
| "le_val (c # cs) = of_char c + 256 * le_val cs"

lemma length_le_bytes [simp]: "length (le_bytes k n) = k"
  by (induction k arbitrary: n) simp_all

lemma le_val_le_bytes: "n < 256 ^ k \<Longrightarrow> le_val (le_bytes k n) = n"
proof (induction k arbitrary: n)
  case 0
  then show ?case by simp
next
  case (Suc k)
  then have "n div 256 < 256 ^ k" by (simp add: less_mult_imp_div_less mult.commute)
  then have "le_val (le_bytes k (n div 256)) = n div 256" by (rule Suc.IH)
  then show ?case by simp
qed

section \<open>UTF-8\<close>

definition utf8_cont :: "char \<Rightarrow> bool" where
  "utf8_cont c \<longleftrightarrow> 128 \<le> (of_char c :: nat) \<and> (of_char c :: nat) < 192"

fun utf8_ok :: "bytes \<Rightarrow> bool" where
  "utf8_ok [] = True"
| "utf8_ok (a # as) =
     (let n = (of_char a :: nat) in
      if n < 128 then utf8_ok as
      else if 194 \<le> n \<and> n < 224 then
        (case as of b # bs \<Rightarrow> utf8_cont b \<and> utf8_ok bs | _ \<Rightarrow> False)
      else if 224 \<le> n \<and> n < 240 then
        (case as of b # c # cs \<Rightarrow> utf8_cont b \<and> utf8_cont c \<and>
             (n = 224 \<longrightarrow> 160 \<le> (of_char b :: nat)) \<and> (n = 237 \<longrightarrow> (of_char b :: nat) < 160) \<and>
             utf8_ok cs
         | _ \<Rightarrow> False)
      else if 240 \<le> n \<and> n < 245 then
        (case as of b # c # d # ds \<Rightarrow> utf8_cont b \<and> utf8_cont c \<and> utf8_cont d \<and>
             (n = 240 \<longrightarrow> 144 \<le> (of_char b :: nat)) \<and> (n = 244 \<longrightarrow> (of_char b :: nat) < 144) \<and>
             utf8_ok ds
         | _ \<Rightarrow> False)
      else False)"

section \<open>The runtime's functions\<close>

definition std_ReadTag :: "bytes \<Rightarrow> (32 word \<times> bool) \<times> bytes" where
  "std_ReadTag bs =
     (case dec_varint 5 bs of
        None \<Rightarrow> ((0, False), [])
      | Some (n, r) \<Rightarrow> ((word_of_nat n, 1 \<le> n \<and> n \<le> 127), r))"

definition std_ReadInt32 :: "bytes \<Rightarrow> (32 word \<times> bytes) option" where
  "std_ReadInt32 s = (case dec_varint 10 s of None \<Rightarrow> None | Some (n, r) \<Rightarrow> Some (word_of_nat n, r))"

definition std_ReadInt64 :: "bytes \<Rightarrow> (64 word \<times> bytes) option" where
  "std_ReadInt64 s = (case dec_varint 10 s of None \<Rightarrow> None | Some (n, r) \<Rightarrow> Some (word_of_nat n, r))"

definition std_ReadDouble :: "bytes \<Rightarrow> (64 word \<times> bytes) option" where
  "std_ReadDouble s =
     (if length s < 8 then None else Some (word_of_nat (le_val (take 8 s)), drop 8 s))"

definition std_ReadBool :: "bytes \<Rightarrow> (bool \<times> bytes) option" where
  "std_ReadBool s = (case dec_varint 10 s of None \<Rightarrow> None | Some (n, r) \<Rightarrow> Some (n \<noteq> 0, r))"

definition std_ReadString :: "bytes \<Rightarrow> (bytes \<times> bytes) option" where
  "std_ReadString s =
     (case dec_varint 5 s of
        None \<Rightarrow> None
      | Some (n, r) \<Rightarrow> (if len_ok n \<and> n \<le> length r then Some (take n r, drop n r) else None))"

text \<open>A length beyond the enclosing limit leaves that limit in force.\<close>

definition std_ReadSubmessage :: "bytes \<Rightarrow> (bytes \<times> bytes) option" where
  "std_ReadSubmessage s =
     (case dec_varint 5 s of
        None \<Rightarrow> None
      | Some (n, r) \<Rightarrow> (if len_ok n then Some (take n r, drop n r) else None))"

definition std_SkipField :: "32 word \<Rightarrow> bytes \<Rightarrow> (bytes \<times> bytes) option" where
  "std_SkipField t s =
     (let hd_bytes = enc_varint (unat t); wt = unat t mod 8 in
      if wt = 0 then map_option (\<lambda>(n, r). (hd_bytes @ enc_varint n, r)) (dec_varint 10 s)
      else if wt = 1 then
        (if length s < 8 then None else Some (hd_bytes @ take 8 s, drop 8 s))
      else if wt = 2 then
        map_option (\<lambda>(x, r). (hd_bytes @ enc_varint (length x) @ x, r)) (std_ReadString s)
      else if wt = 5 then
        (if length s < 4 then None else Some (hd_bytes @ take 4 s, drop 4 s))
      else None)"

definition std_tag :: "nat \<Rightarrow> nat \<Rightarrow> bytes" where
  "std_tag f wt = enc_varint (8 * f + wt)"

definition std_int32_body :: "32 word \<Rightarrow> bytes" where
  "std_int32_body v = enc_varint (unat (scast v :: 64 word))"

definition std_int64_body :: "64 word \<Rightarrow> bytes" where
  "std_int64_body v = enc_varint (unat v)"

definition std_bool_body :: "bool \<Rightarrow> bytes" where
  "std_bool_body b = enc_varint (if b then 1 else 0)"

definition std_string_body :: "bytes \<Rightarrow> bytes" where
  "std_string_body x = enc_varint (length x) @ x"

definition std_wire :: wirelib where
  "std_wire = \<lparr>
     ReadTag = std_ReadTag,
     ReadEnum = std_ReadInt32, ReadInt32 = std_ReadInt32, ReadInt64 = std_ReadInt64,
     ReadDouble = std_ReadDouble, ReadBool = std_ReadBool, ReadString = std_ReadString,
     ReadBytes = std_ReadString,
     ReadSubmessage = std_ReadSubmessage, SkipField = std_SkipField,
     VerifyUtf8String = utf8_ok, PreserveUnknowns = True,
     WriteEnum = (\<lambda>f v. std_tag f 0 @ std_int32_body v),
     WriteInt32 = (\<lambda>f v. std_tag f 0 @ std_int32_body v),
     WriteInt64 = (\<lambda>f v. std_tag f 0 @ std_int64_body v),
     WriteDouble = (\<lambda>f v. std_tag f 1 @ le_bytes 8 (unat v)),
     WriteBool = (\<lambda>f b. std_tag f 0 @ std_bool_body b),
     WriteString = (\<lambda>f x. std_tag f 2 @ std_string_body x),
     WriteBytes = (\<lambda>f x. std_tag f 2 @ std_string_body x),
     WriteMessageHead = (\<lambda>f n. std_tag f 2 @ enc_varint n),
     WriteEnumToArray = (\<lambda>f v a. a @ std_tag f 0 @ std_int32_body v),
     WriteInt32ToArray = (\<lambda>f v a. a @ std_tag f 0 @ std_int32_body v),
     WriteInt64ToArray = (\<lambda>f v a. a @ std_tag f 0 @ std_int64_body v),
     WriteDoubleToArray = (\<lambda>f v a. a @ std_tag f 1 @ le_bytes 8 (unat v)),
     WriteBoolToArray = (\<lambda>f b a. a @ std_tag f 0 @ std_bool_body b),
     WriteStringToArray = (\<lambda>f x a. a @ std_tag f 2 @ std_string_body x),
     WriteBytesToArray = (\<lambda>f x a. a @ std_tag f 2 @ std_string_body x),
     WriteMessageHeadToArray = (\<lambda>f n a. a @ std_tag f 2 @ enc_varint n),
     EnumSize = (\<lambda>v. length (std_int32_body v)), Int32Size = (\<lambda>v. length (std_int32_body v)),
     Int64Size = (\<lambda>v. length (std_int64_body v)), StringSize = (\<lambda>x. length (std_string_body x)),
     BytesSize = (\<lambda>x. length (std_string_body x)),
     LengthDelimitedSize = (\<lambda>n. length (enc_varint n) + n),
     CanSerialize = len_ok\<rparr>"

section \<open>The contract holds\<close>

lemma std_tag_one_byte: "field_no f \<Longrightarrow> wt < 8 \<Longrightarrow> std_tag f wt = [char_of (8 * f + wt)]"
  unfolding std_tag_def by (subst enc_varint.simps) (simp add: field_no_def)

lemma std_ReadTag_tag:
  assumes "field_no f" and "wt < 8"
  shows "std_ReadTag (std_tag f wt @ r) = ((mk_tag f wt, True), r)"
proof -
  have "8 * f + wt < 128" and "1 \<le> 8 * f + wt" using assms by (auto simp: field_no_def)
  then show ?thesis
    using dec_enc_varint [of "8 * f + wt" 5 r]
    by (simp add: std_ReadTag_def std_tag_def mk_tag_def)
qed

lemma tagged_codec:
  assumes rd: "\<And>v r. P v \<Longrightarrow> rd (body v @ r) = Some (v, r)"
    and cut: "\<And>v p q. P v \<Longrightarrow> body v = p @ q \<Longrightarrow> q \<noteq> [] \<Longrightarrow> rd p = None"
    and "shrinks rd" and wt: "wt < 8" and sz: "\<And>v. P v \<Longrightarrow> length (body v) = sz v"
  shows "field_codec std_wire P wt (\<lambda>f v. std_tag f wt @ body v) rd sz"
proof -
  have "\<exists>s. std_ReadTag p = ((mk_tag f wt, True), s) \<and> rd s = None"
    if f: "field_no f" and v: "P v" and eq: "std_tag f wt @ body v = p @ q" and "p \<noteq> []" "q \<noteq> []"
    for f v p q
  proof -
    obtain p' where p: "p = std_tag f wt @ p'" and body: "body v = p' @ q"
      using eq \<open>p \<noteq> []\<close> unfolding std_tag_one_byte [OF f wt] by (cases p) auto
    show ?thesis using std_ReadTag_tag [OF f wt, of p'] cut [OF v body \<open>q \<noteq> []\<close>] p by simp
  qed
  moreover have "hd (std_tag f wt) \<noteq> CHR 0x00" if f: "field_no f" for f
  proof -
    have "of_char (hd (std_tag f wt)) = 8 * f + wt" and "8 * f + wt \<noteq> 0"
      using f wt by (simp_all add: std_tag_one_byte field_no_def)
    then show ?thesis by (auto simp del: of_char_of)
  qed
  ultimately show ?thesis
    using rd sz wt assms(3) std_ReadTag_tag
    by (auto simp: field_codec_def std_wire_def std_tag_one_byte)
qed

lemma unat64_varint: "unat (w :: 64 word) < 128 ^ 10"
proof -
  have "unat w < 2 ^ 64" using unsigned_less [of w] by simp
  then show ?thesis by (rule less_le_trans) simp
qed

lemma dec_enc_unat64 [simp]:
  "dec_varint 10 (enc_varint (unat (w :: 64 word)) @ r) = Some (unat w, r)"
  by (rule dec_enc_varint [OF unat64_varint]) simp

lemma dec_enc_len [simp]: "len_ok n \<Longrightarrow> dec_varint 5 (enc_varint n @ r) = Some (n, r)"
  by (rule dec_enc_varint) (simp_all add: len_ok_def)

lemma low_word_scast: "(ucast (scast (v :: 32 word) :: 64 word) :: 32 word) = v"
  by (rule bit_word_eqI) (simp add: bit_simps)

lemma shrinks_std:
  "shrinks std_ReadInt32" "shrinks std_ReadInt64" "shrinks std_ReadDouble" "shrinks std_ReadString"
  "shrinks std_ReadBool"
  by (auto simp: shrinks_def std_ReadInt32_def std_ReadInt64_def std_ReadDouble_def
      std_ReadString_def std_ReadBool_def split: option.splits if_splits dest: dec_varint_shrinks)

lemma int32_std:
  "field_codec std_wire (\<lambda>_. True) 0 (\<lambda>f v. std_tag f 0 @ std_int32_body v) std_ReadInt32
     (\<lambda>v. length (std_int32_body v))"
  by (rule tagged_codec)
    (simp_all add: std_int32_body_def std_ReadInt32_def low_word_scast
      enc_varint_cut shrinks_std)

lemma int64_std:
  "field_codec std_wire (\<lambda>_. True) 0 (\<lambda>f v. std_tag f 0 @ std_int64_body v) std_ReadInt64
     (\<lambda>v. length (std_int64_body v))"
  by (rule tagged_codec)
    (simp_all add: std_int64_body_def std_ReadInt64_def
      enc_varint_cut shrinks_std)

lemma bool_std:
  "field_codec std_wire (\<lambda>_. True) 0 (\<lambda>f b. std_tag f 0 @ std_bool_body b) std_ReadBool (\<lambda>_. 1)"
  by (rule tagged_codec)
    (simp_all add: std_bool_body_def std_ReadBool_def dec_enc_varint enc_varint_cut shrinks_std
      enc_varint.simps [of 0] enc_varint.simps [of "Suc 0"])

lemma length_cut: "b = p @ q \<Longrightarrow> q \<noteq> [] \<Longrightarrow> length p < length b"
  by simp

lemma double_std:
  "field_codec std_wire (\<lambda>_. True) 1 (\<lambda>f v. std_tag f 1 @ le_bytes 8 (unat v)) std_ReadDouble
     (\<lambda>_. 8)"
proof (rule tagged_codec)
  fix v :: "64 word" and r
  have "unat v < 256 ^ 8" using unsigned_less [of v] by simp
  then show "std_ReadDouble (le_bytes 8 (unat v) @ r) = Some (v, r)"
    by (simp add: std_ReadDouble_def le_val_le_bytes)
next
  fix v :: "64 word" and p q
  assume "le_bytes 8 (unat v) = p @ q" "q \<noteq> []"
  then have "length p < 8" by (metis length_cut length_le_bytes \<open>q \<noteq> []\<close>)
  then show "std_ReadDouble p = None" by (simp add: std_ReadDouble_def)
qed (simp_all add: shrinks_std)

lemma string_cut_std:
  assumes len: "len_ok (length x)" and eq: "std_string_body x = p @ q" and q: "q \<noteq> []"
  shows "std_ReadString p = None"
proof -
  obtain us where "enc_varint (length x) = p @ us \<and> us @ x = q \<or>
      enc_varint (length x) @ us = p \<and> x = us @ q"
    using eq by (auto simp: std_string_body_def append_eq_append_conv2)
  then consider (head) "enc_varint (length x) = p @ us" "us \<noteq> []"
    | (body) us where "p = enc_varint (length x) @ us" "x = us @ q"
    by (cases "us = []") auto
  then show ?thesis
  proof cases
    case head
    then show ?thesis by (simp add: std_ReadString_def enc_varint_cut)
  next
    case body
    then have "dec_varint 5 p = Some (length x, us)" "length us < length x"
      using len q by simp_all
    then show ?thesis by (simp add: std_ReadString_def)
  qed
qed

lemma string_std:
  "field_codec std_wire (\<lambda>x. len_ok (length x)) 2 (\<lambda>f x. std_tag f 2 @ std_string_body x)
     std_ReadString (\<lambda>x. length (std_string_body x))"
proof (rule tagged_codec)
  show "std_ReadString (std_string_body x @ r) = Some (x, r)" if "len_ok (length x)" for x r
    using that by (simp add: std_ReadString_def std_string_body_def)
qed (simp_all add: shrinks_std string_cut_std)

lemma submessage_cut_std:
  assumes f: "field_no f" and len: "len_ok (length body)"
    and eq: "std_tag f 2 @ enc_varint (length body) @ body = p @ q" and ne: "p \<noteq> []" "q \<noteq> []"
  shows "\<exists>s. std_ReadTag p = ((mk_tag f 2, True), s) \<and>
    (std_ReadSubmessage s = None \<or>
     (\<exists>b. p = (std_tag f 2 @ enc_varint (length body)) @ b \<and> std_ReadSubmessage s = Some (b, [])))"
proof -
  obtain p' where p: "p = std_tag f 2 @ p'" and rest: "enc_varint (length body) @ body = p' @ q"
    using eq ne(1) f by (cases p) (auto simp: std_tag_one_byte)
  have tag: "std_ReadTag p = ((mk_tag f 2, True), p')" using f p by (simp add: std_ReadTag_tag)
  obtain us where "enc_varint (length body) = p' @ us \<and> us @ body = q \<or>
      enc_varint (length body) @ us = p' \<and> body = us @ q"
    using rest by (auto simp: append_eq_append_conv2)
  then consider (head) "enc_varint (length body) = p' @ us" "us \<noteq> []"
    | (body) us where "p' = enc_varint (length body) @ us" "body = us @ q"
    by (cases "us = []") auto
  then show ?thesis
  proof cases
    case head
    then show ?thesis using tag by (simp add: std_ReadSubmessage_def enc_varint_cut)
  next
    case body
    then have "std_ReadSubmessage p' = Some (us, [])"
      using len by (simp add: std_ReadSubmessage_def)
    with body p tag show ?thesis by auto
  qed
qed

lemma std_skip_shrinks: "std_SkipField t s = Some (raw, s') \<Longrightarrow> length s' \<le> length s"
  using shrinks_std(4)
  by (auto simp: std_SkipField_def Let_def shrinks_def split: if_splits dest!: dec_varint_shrinks)

lemma std_writers:
  "WriteEnum std_wire = (\<lambda>f v. std_tag f 0 @ std_int32_body v)"
  "WriteInt32 std_wire = (\<lambda>f v. std_tag f 0 @ std_int32_body v)"
  "WriteInt64 std_wire = (\<lambda>f v. std_tag f 0 @ std_int64_body v)"
  "WriteDouble std_wire = (\<lambda>f v. std_tag f 1 @ le_bytes 8 (unat v))"
  "WriteBool std_wire = (\<lambda>f b. std_tag f 0 @ std_bool_body b)"
  "WriteString std_wire = (\<lambda>f x. std_tag f 2 @ std_string_body x)"
  "WriteBytes std_wire = (\<lambda>f x. std_tag f 2 @ std_string_body x)"
  "WriteMessageHead std_wire = (\<lambda>f n. std_tag f 2 @ enc_varint n)"
  "WriteEnumToArray std_wire = (\<lambda>f v a. a @ std_tag f 0 @ std_int32_body v)"
  "WriteInt32ToArray std_wire = (\<lambda>f v a. a @ std_tag f 0 @ std_int32_body v)"
  "WriteInt64ToArray std_wire = (\<lambda>f v a. a @ std_tag f 0 @ std_int64_body v)"
  "WriteDoubleToArray std_wire = (\<lambda>f v a. a @ std_tag f 1 @ le_bytes 8 (unat v))"
  "WriteBoolToArray std_wire = (\<lambda>f b a. a @ std_tag f 0 @ std_bool_body b)"
  "WriteStringToArray std_wire = (\<lambda>f x a. a @ std_tag f 2 @ std_string_body x)"
  "WriteBytesToArray std_wire = (\<lambda>f x a. a @ std_tag f 2 @ std_string_body x)"
  "WriteMessageHeadToArray std_wire = (\<lambda>f n a. a @ std_tag f 2 @ enc_varint n)"
  by (simp_all add: std_wire_def)

lemma std_readers:
  "ReadTag std_wire = std_ReadTag" "ReadEnum std_wire = std_ReadInt32"
  "ReadInt32 std_wire = std_ReadInt32" "ReadInt64 std_wire = std_ReadInt64"
  "ReadDouble std_wire = std_ReadDouble" "ReadString std_wire = std_ReadString"
  "ReadSubmessage std_wire = std_ReadSubmessage" "SkipField std_wire = std_SkipField"
  "VerifyUtf8String std_wire = utf8_ok"
  "EnumSize std_wire = (\<lambda>v. length (std_int32_body v))"
  "Int32Size std_wire = (\<lambda>v. length (std_int32_body v))"
  "Int64Size std_wire = (\<lambda>v. length (std_int64_body v))"
  "StringSize std_wire = (\<lambda>x. length (std_string_body x))"
  "BytesSize std_wire = (\<lambda>x. length (std_string_body x))"
  "ReadBytes std_wire = std_ReadString" "ReadBool std_wire = std_ReadBool"
  "LengthDelimitedSize std_wire = (\<lambda>n. length (enc_varint n) + n)" "CanSerialize std_wire = len_ok"
  by (simp_all add: std_wire_def)

text \<open>An unknown field is kept byte for byte, and refused when it is cut.\<close>

lemma tag_type: "field_no f \<Longrightarrow> wt < 8 \<Longrightarrow> unat (mk_tag f wt) mod 8 = wt"
  by (simp add: unat_mk_tag)

lemma unat_std_tag: "field_no f \<Longrightarrow> wt < 8 \<Longrightarrow> enc_varint (unat (mk_tag f wt)) = std_tag f wt"
  by (simp add: std_tag_def unat_mk_tag)

lemma std_skips:
  assumes f: "field_no f" and wt: "wt < 8" and tag: "F = std_tag f wt @ b"
    and whole: "\<And>r. std_SkipField (mk_tag f wt) (b @ r) = Some (F, r)"
    and cut: "\<And>p q. b = p @ q \<Longrightarrow> q \<noteq> [] \<Longrightarrow> std_SkipField (mk_tag f wt) p = None"
  shows "field_skips std_wire (mk_tag f wt) F"
  unfolding field_skips_def std_readers
proof (intro conjI allI impI)
  show "\<exists>s. std_ReadTag (F @ r) = ((mk_tag f wt, True), s) \<and>
      std_SkipField (mk_tag f wt) s = Some (F, r)" for r
    using whole by (simp add: tag std_ReadTag_tag f wt)
  show "\<exists>s. std_ReadTag p = ((mk_tag f wt, True), s) \<and> std_SkipField (mk_tag f wt) s = None"
    if "F = p @ q \<and> p \<noteq> [] \<and> q \<noteq> []" for p q
  proof -
    have "std_tag f wt @ b = p @ q" and "p \<noteq> []" using that tag by auto
    then obtain p' where "p = std_tag f wt @ p'" "b = p' @ q"
      unfolding std_tag_one_byte [OF f wt] by (cases p) auto
    then show ?thesis using cut that by (simp add: std_ReadTag_tag f wt)
  qed
qed

lemma skips_delimited:
  assumes f: "field_no f" and len: "len_ok (length x)"
  shows "field_skips std_wire (mk_tag f 2) (std_tag f 2 @ enc_varint (length x) @ x)"
proof (rule std_skips [OF f _ refl])
  show "std_SkipField (mk_tag f 2) ((enc_varint (length x) @ x) @ r)
      = Some (std_tag f 2 @ enc_varint (length x) @ x, r)" for r
    using f len by (simp add: std_SkipField_def Let_def tag_type unat_std_tag std_ReadString_def)
  show "std_SkipField (mk_tag f 2) p = None" if "enc_varint (length x) @ x = p @ q" "q \<noteq> []" for p q
    using that string_cut_std [OF len, of p q] f
    by (simp add: std_SkipField_def Let_def tag_type std_string_body_def)
qed simp

lemma skips_double:
  assumes f: "field_no f"
  shows "field_skips std_wire (mk_tag f 1) (std_tag f 1 @ le_bytes 8 n)"
proof (rule std_skips [OF f _ refl])
  show "std_SkipField (mk_tag f 1) (le_bytes 8 n @ r) = Some (std_tag f 1 @ le_bytes 8 n, r)" for r
    using f by (simp add: std_SkipField_def Let_def tag_type unat_std_tag del: One_nat_def)
  show "std_SkipField (mk_tag f 1) p = None" if "le_bytes 8 n = p @ q" "q \<noteq> []" for p q
  proof -
    have "length p < 8" using that by (metis length_cut length_le_bytes)
    then show ?thesis using f by (simp add: std_SkipField_def Let_def tag_type del: One_nat_def)
  qed
qed simp

interpretation std: wire_format std_wire
proof
  show "\<exists>s. ReadTag std_wire [] = ((0, False), s)"
    by (simp add: std_wire_def std_ReadTag_def)
  show "length s < length bs" if "ReadTag std_wire bs = ((t, ok), s)" "t \<noteq> 0" for bs t ok s
    using that by (auto simp: std_wire_def std_ReadTag_def split: option.splits
        dest: dec_varint_shrinks)
  show "length s' \<le> length s" if "SkipField std_wire t s = Some (raw, s')" for t s raw s'
    using that std_skip_shrinks by (simp add: std_wire_def)
  show "length body + length s' \<le> length s" if "ReadSubmessage std_wire s = Some (body, s')"
    for s body s'
    using that by (auto simp: std_wire_def std_ReadSubmessage_def split: option.splits if_splits
        dest!: dec_varint_shrinks)
  show "\<exists>s. ReadTag std_wire (WriteMessageHead std_wire f (length body) @ body @ r)
      = ((mk_tag f 2, True), s) \<and> ReadSubmessage std_wire s = Some (body, r)"
    if "field_no f" "len_ok (length body)" for f body r
    using that by (simp add: std_wire_def std_ReadTag_tag std_ReadSubmessage_def)
  show "\<exists>s. ReadTag std_wire p = ((mk_tag f 2, True), s) \<and>
      (ReadSubmessage std_wire s = None \<or>
       (\<exists>b. p = WriteMessageHead std_wire f (length body) @ b \<and>
            ReadSubmessage std_wire s = Some (b, [])))"
    if "field_no f" "len_ok (length body)" "WriteMessageHead std_wire f (length body) @ body = p @ q"
      "p \<noteq> []" "q \<noteq> []" for f body p q
    using that submessage_cut_std [of f body p q] by (simp add: std_wire_def)
  show "length (WriteMessageHead std_wire f n) + n = 1 + LengthDelimitedSize std_wire n"
    if "field_no f" for f n
    using that by (simp add: std_wire_def std_tag_one_byte)
  show "WriteMessageHead std_wire f n \<noteq> [] \<and> hd (WriteMessageHead std_wire f n) \<noteq> CHR 0x00"
    if "field_no f" for f n
    using field_first [OF string_std that, of "[]"] that
    by (simp add: std_wire_def std_tag_one_byte len_ok_def)
qed (simp_all add: std_writers std_readers int32_std int64_std double_std string_std
    bool_std skips_delimited skips_double skips_delimited [folded std_string_body_def] del: One_nat_def)

end
