(* ===== verification/BinlogReader.thy ===== *)
theory BinlogReader
  imports O2kPrelude
begin

text \<open>
  The abstract class \<open>CBinlogReader\<close> of \<open>binlogdump/CBinlogReader.h\<close>: what a program that reads binlog
  messages may rely on.  \<open>Read\<close> gets the filter keys; it may never return (\<open>None\<close>), and otherwise
  yields its code with the message it allocated, if any, the text it printed on standard output,
  and the reader as it leaves it.
\<close>

type_synonym 'r read_fn = "bytes list \<Rightarrow> 'r \<Rightarrow> ((int \<times> bytes option) outcome \<times> bytes \<times> 'r) option"
type_synonym 'r commit_fn = "'r \<Rightarrow> (int \<times> 'r) outcome"

text \<open>The code is 0 on success, which is when there is a message.\<close>

locale binlog_reader =
  fixes read :: "'r read_fn"
    and commit_offset :: "'r commit_fn"
  assumes message_code: "read keys rd = Some (Ret (rc, Some bs), said, rd') \<Longrightarrow> rc = 0"
    and plain_code: "read keys rd = Some (Ret (rc, None), said, rd') \<Longrightarrow> rc \<noteq> 0"
begin

lemma code_zero_iff: "read keys rd = Some (Ret (rc, msg), said, rd') \<Longrightarrow> rc = 0 \<longleftrightarrow> msg \<noteq> None"
  using message_code plain_code by (cases msg) blast+

end

end
