(* ===== verification/KafkaReader.thy ===== *)
theory KafkaReader
  imports BinlogReader
begin

text \<open>
  The class \<open>CBinlogKafkaReader\<close> of \<open>binlogdump/CBinlogKafka.h\<close> and \<open>CBinlogKafka.cpp\<close>.  The
  consumer of librdkafka is not in the repository: it is a parameter, a record of the calls the
  reader makes, each a function of the consumer's own state.  A \<open>TopicPartition\<close> is the record
  \<open>tp\<close>.  What a call prints on standard output is part of its result.
\<close>

section \<open>The consumer\<close>

record tp =
  tp_topic :: bytes
  tp_partition :: int
  tp_offset :: int

record kmsg =
  k_err :: int
  k_key :: "bytes option"
  k_payload :: bytes
  k_errstr :: bytes

text \<open>
  The calls on vectors of partitions get the vector as it is and return it as they leave it.
  \<open>kc_watermark\<close> yields the high watermark; \<open>kc_create\<close> says whether a consumer could be made from
  the settings of the two configurations, in the order they were made; \<open>kc_set_group\<close> yields the
  result and the error text of that setting, \<open>kc_err2str\<close> is \<open>RdKafka::err2str\<close>.  The reader prints
  64-bit numbers with \<open>%d\<close>, which C leaves undefined: \<open>kc_vararg K i\<close> is the \<open>int\<close> that comes out.
\<close>

record 'k consumer =
  kc_set_group :: "bytes \<Rightarrow> int \<times> bytes"
  kc_create :: "(bytes \<times> bytes) list \<Rightarrow> (bytes \<times> bytes) list \<Rightarrow> 'k option"
  kc_subscribe :: "bytes list \<Rightarrow> 'k \<Rightarrow> int \<times> 'k"
  kc_assignment :: "tp list \<Rightarrow> 'k \<Rightarrow> (int \<times> tp list) \<times> 'k"
  kc_watermark :: "bytes \<Rightarrow> int \<Rightarrow> 'k \<Rightarrow> (int \<times> int) \<times> 'k"
  kc_position :: "tp list \<Rightarrow> 'k \<Rightarrow> (int \<times> tp list) \<times> 'k"
  kc_consume :: "'k \<Rightarrow> kmsg \<times> 'k"
  kc_commit :: "'k \<Rightarrow> int \<times> 'k"
  kc_name :: "'k \<Rightarrow> bytes"
  kc_err2str :: "int \<Rightarrow> bytes"
  kc_vararg :: "int \<Rightarrow> int"

text \<open>The codes of \<open>RdKafka::ErrorCode\<close> the reader looks at.\<close>

definition ERR_NO_ERROR :: int where "ERR_NO_ERROR = 0"
definition CONF_OK :: int where "CONF_OK = 0"
definition ERR__TIMED_OUT :: int where "ERR__TIMED_OUT = -185"
definition ERR__UNKNOWN_TOPIC :: int where "ERR__UNKNOWN_TOPIC = -188"
definition ERR__UNKNOWN_PARTITION :: int where "ERR__UNKNOWN_PARTITION = -190"
definition ERR__PARTITION_EOF :: int where "ERR__PARTITION_EOF = -191"
definition ERR__FAIL :: int where "ERR__FAIL = -196"

lemmas kafka_codes = ERR_NO_ERROR_def ERR__TIMED_OUT_def ERR__UNKNOWN_TOPIC_def
  ERR__UNKNOWN_PARTITION_def ERR__PARTITION_EOF_def ERR__FAIL_def

section \<open>The reader\<close>

record 'k kreader =
  m_consumer :: 'k
  m_logOffset :: "tp list"
  m_readOffSet :: "tp list"

text \<open>The settings \<open>Init\<close> makes; the callbacks and the topic configuration, which are objects, are left out.\<close>

definition global_conf :: "bytes \<Rightarrow> bytes \<Rightarrow> (bytes \<times> bytes) list" where
  "global_conf kafkaServer groupId =
     [(''group.id'', groupId), (''enable.auto.commit'', ''false''),
      (''message.max.bytes'', ''10240000''), (''max.partition.fetch.bytes'', ''1024000''),
      (''bootstrap.servers'', kafkaServer)]"

definition topic_conf :: "(bytes \<times> bytes) list" where
  "topic_conf = [(''auto.offset.reset'', ''earliest'')]"

text \<open>
  \<open>Init\<close>: the code, the text printed and the reader.  An unusable group id is the result -1 (the
  constructor ignores it and leaves the consumer null, \<open>None\<close>); when a consumer cannot be made or
  subscribed the process ends by \<open>abort\<close> (what \<open>printf\<close> has buffered by then is lost).
\<close>

definition Init :: "'k consumer \<Rightarrow> bytes \<Rightarrow> bytes \<Rightarrow> bytes \<Rightarrow> (int \<times> bytes \<times> 'k kreader option) outcome" where
  "Init K kafkaServer topicName groupId =
     (case kc_set_group K groupId of (res, errstr) \<Rightarrow>
        if res \<noteq> CONF_OK then Ret (-1, ''kafka: set group.id: '' @ cstr errstr, None)
        else
          (case kc_create K (global_conf kafkaServer groupId) topic_conf of
             None \<Rightarrow> Abort
           | Some k \<Rightarrow>
               (case kc_subscribe K [topicName] k of (err, k1) \<Rightarrow>
                  if err \<noteq> 0 then Abort
                  else Ret (0, ''kafka: create consumer OK: '' @ cstr (kc_name K k) @ '', for '' @
                         cstr topicName @ '','' @ cstr groupId @ '', url is '' @ cstr kafkaServer,
                       Some \<lparr>m_consumer = k1, m_logOffset = [], m_readOffSet = []\<rparr>))))"

text \<open>The constructor ignores the result of \<open>Init\<close>; without a consumer the member is null.\<close>

definition CBinlogKafkaReader :: "'k consumer \<Rightarrow> bytes \<Rightarrow> bytes \<Rightarrow> bytes \<Rightarrow> (bytes \<times> 'k kreader option) outcome" where
  "CBinlogKafkaReader K kafkaServer topicName groupId =
     obind (Init K kafkaServer topicName groupId) (\<lambda>(rc, said, rd). Ret (said, rd))"

text \<open>
  The loop of \<open>fillOffset\<close> over \<open>m_logOffset\<close>: the code, the text printed, the offsets; a failing query
  leaves the rest as it was.
\<close>

fun fill_watermarks :: "'k consumer \<Rightarrow> tp list \<Rightarrow> 'k \<Rightarrow> int \<times> bytes \<times> tp list \<times> 'k" where
  "fill_watermarks K [] k = (0, [], [], k)"
| "fill_watermarks K (t # ts) k =
     (case kc_watermark K (tp_topic t) (tp_partition t) k of ((errcode, high), k1) \<Rightarrow>
        if errcode \<noteq> ERR_NO_ERROR then
          (-1, ''kafka: get watermark offset fail: '' @ cstr (kc_err2str K errcode), t # ts, k1)
        else
          (case fill_watermarks K ts k1 of (r, said, ts', k2) \<Rightarrow>
             (r, ''kafka: get watermark offset OK: '' @ cstr (tp_topic t) @ '','' @
                   pad_left 2 (int_dec (tp_partition t)) @ '': '' @ pad_left 2 (int_dec (kc_vararg K high)) @ said,
              t\<lparr>tp_offset := high\<rparr> # ts', k2)))"

definition fillOffset :: "'k consumer \<Rightarrow> 'k kreader \<Rightarrow> int \<times> bytes \<times> 'k kreader" where
  "fillOffset K rd =
     (if m_logOffset rd = [] then
        (case kc_assignment K (m_readOffSet rd) (m_consumer rd) of ((e1, rs), k1) \<Rightarrow>
           let rd1 = rd\<lparr>m_consumer := k1, m_readOffSet := rs\<rparr> in
           if e1 \<noteq> ERR_NO_ERROR then (-1, ''kafka: get read offset fail: '' @ cstr (kc_err2str K e1), rd1)
           else
             (case kc_assignment K (m_logOffset rd1) k1 of ((e2, ls), k2) \<Rightarrow>
                let rd2 = rd1\<lparr>m_consumer := k2, m_logOffset := ls\<rparr> in
                if e2 \<noteq> ERR_NO_ERROR then (-1, ''kafka: get log offset fail: '' @ cstr (kc_err2str K e2), rd2)
                else
                  (case fill_watermarks K ls k2 of (r, said, ls', k3) \<Rightarrow>
                     (r, said, rd2\<lparr>m_consumer := k3, m_logOffset := ls'\<rparr>))))
      else (0, [], rd))"

text \<open>The calls \<open>if (m_logOffset.empty()) fillOffset();\<close> of \<open>Read\<close>, which ignore the code.\<close>

definition fill_if_empty :: "'k consumer \<Rightarrow> 'k kreader \<Rightarrow> bytes \<times> 'k kreader" where
  "fill_if_empty K rd = (if m_logOffset rd = [] then snd (fillOffset K rd) else ([], rd))"

text \<open>
  The check whether everything up to the watermarks has been read, with the text printed when it
  has not; \<open>m_readOffSet[i]\<close> beyond the end of its vector is an access outside an object.
\<close>

fun read_over :: "'k consumer \<Rightarrow> tp list \<Rightarrow> tp list \<Rightarrow> (bool \<times> bytes) outcome" where
  "read_over K rs [] = Ret (True, [])"
| "read_over K [] (l # ls) = Overflow"
| "read_over K (r # rs) (l # ls) =
     (if tp_offset r \<le> -1001 then read_over K rs ls
      else if tp_offset r < tp_offset l then
        Ret (False, ''kafka: read to '' @ int_dec (tp_partition r) @ '','' @ int_dec (kc_vararg K (tp_offset r)) @
          '', log to '' @ int_dec (tp_partition l) @ '','' @ int_dec (kc_vararg K (tp_offset l)))
      else read_over K rs ls)"

text \<open>
  What one pass of \<open>while (true)\<close> in \<open>Read\<close> does: go on, or return the code and the message
  (length and bytes; \<open>None\<close> is \<open>*msgLen = 0\<close> and \<open>*ppMsg\<close> untouched); with the text it printed.
\<close>

datatype 'k pass = Again bytes "'k kreader" | Stop "(int \<times> bytes option) outcome" bytes "'k kreader"

definition Read_pass :: "'k consumer \<Rightarrow> bytes list \<Rightarrow> 'k kreader \<Rightarrow> 'k pass" where
  "Read_pass K filterKeys rd =
     (case kc_consume K (m_consumer rd) of (kmsg, k) \<Rightarrow>
        let rd1 = rd\<lparr>m_consumer := k\<rparr> in
        if k_err kmsg = ERR__TIMED_OUT then
          (if m_logOffset rd1 = [] then (case fillOffset K rd1 of (_, said, rd2) \<Rightarrow> Again said rd2)
           else
             (case kc_position K (m_readOffSet rd1) k of ((errcode, rs), k1) \<Rightarrow>
                let rd2 = rd1\<lparr>m_consumer := k1, m_readOffSet := rs\<rparr> in
                if errcode \<noteq> ERR_NO_ERROR then
                  Stop (Ret (ERR__FAIL, None))
                    (''kafka: get current position fail: '' @ cstr (kc_err2str K errcode)) rd2
                else
                  (case read_over K rs (m_logOffset rd2) of
                     Ret (True, said) \<Rightarrow> Stop (Ret (ERR__TIMED_OUT, None)) said rd2
                   | Ret (False, said) \<Rightarrow> Again said rd2
                   | Block \<Rightarrow> Stop Block [] rd2
                   | Overflow \<Rightarrow> Stop Overflow [] rd2
                   | Abort \<Rightarrow> Stop Abort [] rd2)))
        else if k_err kmsg = ERR_NO_ERROR then
          (case fill_if_empty K rd1 of (said, rd2) \<Rightarrow>
             (case k_key kmsg of
                None \<Rightarrow>
                  Stop (Ret (ERR__FAIL, None))
                    (said @ ''kafka: no key in msg, len '' @
                       int_dec (kc_vararg K (int (length (k_payload kmsg))))) rd2
              | Some key \<Rightarrow>
                  (if filterKeys \<noteq> [] \<and> key \<notin> set filterKeys then Again said rd2
                   else Stop (Ret (ERR_NO_ERROR, Some (k_payload kmsg))) said rd2)))
        else if k_err kmsg = ERR__PARTITION_EOF then Stop (Ret (ERR__PARTITION_EOF, None)) [] rd1
        else if k_err kmsg = ERR__UNKNOWN_TOPIC \<or> k_err kmsg = ERR__UNKNOWN_PARTITION then
          Stop (Ret (ERR__UNKNOWN_PARTITION, None)) (''kafka: read msg: '' @ cstr (k_errstr kmsg)) rd1
        else Stop (Ret (ERR__FAIL, None)) (''kafka: read msg: '' @ cstr (k_errstr kmsg)) rd1)"

text \<open>
  The loop, with what has been printed since \<open>Read\<close> was called; it may run for ever, and then
  \<open>Read\<close> has no result.
\<close>

partial_function (option) Read_loop :: "'k consumer \<Rightarrow> bytes list \<Rightarrow> bytes \<Rightarrow> 'k kreader
    \<Rightarrow> ((int \<times> bytes option) outcome \<times> bytes \<times> 'k kreader) option" where
  "Read_loop K filterKeys said rd =
     (case Read_pass K filterKeys rd of
        Again new rd' \<Rightarrow> Read_loop K filterKeys (said @ new) rd'
      | Stop res new rd' \<Rightarrow> Some (res, said @ new, rd'))"

definition Read :: "'k consumer \<Rightarrow> bytes list \<Rightarrow> 'k kreader
    \<Rightarrow> ((int \<times> bytes option) outcome \<times> bytes \<times> 'k kreader) option" where
  "Read K filterKeys rd =
     (case fill_if_empty K rd of (said, rd1) \<Rightarrow> Read_loop K filterKeys said rd1)"

definition CommitOffset :: "'k consumer \<Rightarrow> 'k kreader \<Rightarrow> int \<times> 'k kreader" where
  "CommitOffset K rd =
     (case kc_commit K (m_consumer rd) of (r, k) \<Rightarrow> (r, rd\<lparr>m_consumer := k\<rparr>))"

text \<open>
  The object \<open>main\<close> works on.  The constructor ignores that \<open>Init\<close> gave up: \<open>m_consumer\<close> is null then
  and both vectors are empty (\<open>None\<close>).  On such an object \<open>Read\<close> finds \<open>m_logOffset\<close> empty and calls
  \<open>fillOffset\<close>, whose first statement calls \<open>m_consumer->assignment\<close>, and \<open>CommitOffset\<close> calls
  \<open>m_consumer->commitSync\<close>: calls through a null pointer.
\<close>

definition object_fillOffset :: "'k consumer \<Rightarrow> 'k kreader option \<Rightarrow> (int \<times> bytes \<times> 'k kreader option) outcome" where
  "object_fillOffset K ob =
     (case ob of
        None \<Rightarrow> Overflow
      | Some rd \<Rightarrow> (case fillOffset K rd of (r, said, rd1) \<Rightarrow> Ret (r, said, Some rd1)))"

definition object_Read :: "'k consumer \<Rightarrow> bytes list \<Rightarrow> 'k kreader option
    \<Rightarrow> ((int \<times> bytes option) outcome \<times> bytes \<times> 'k kreader option) option" where
  "object_Read K filterKeys ob =
     (case ob of
        None \<Rightarrow> Some (obind (object_fillOffset K ob) (\<lambda>_. Overflow), [], None)
      | Some rd \<Rightarrow>
          (case Read K filterKeys rd of
             None \<Rightarrow> None
           | Some (res, said, rd1) \<Rightarrow> Some (res, said, Some rd1)))"

definition object_CommitOffset :: "'k consumer \<Rightarrow> 'k kreader option \<Rightarrow> (int \<times> 'k kreader option) outcome" where
  "object_CommitOffset K ob =
     (case ob of
        None \<Rightarrow> Overflow
      | Some rd \<Rightarrow> (case CommitOffset K rd of (r, rd1) \<Rightarrow> Ret (r, Some rd1)))"

text \<open>
  The destructor: what it releases, in order.  The arguments say which of the two configurations
  and whether a consumer are there; the partitions are those of the reader.
\<close>

datatype release_call = DeleteConf | DeleteTopicConf | CloseConsumer | DeleteConsumer | DeletePartition tp
  | WaitDestroyed int

definition CBinlogKafkaReader_destroy :: "bool \<Rightarrow> bool \<Rightarrow> bool \<Rightarrow> tp list \<Rightarrow> tp list \<Rightarrow> release_call list" where
  "CBinlogKafkaReader_destroy conf tconf consumer readOffSet logOffset =
     (if conf then [DeleteConf] else []) @
     (if tconf then [DeleteTopicConf] else []) @
     (if consumer then [CloseConsumer, DeleteConsumer] else []) @
     map DeletePartition readOffSet @ map DeletePartition logOffset @ [WaitDestroyed 5000]"

text \<open>The event callback: what it prints.\<close>

datatype kafka_event = EVENT_ERROR bytes bytes | EVENT_STATS | EVENT_LOG | EVENT_OTHER

fun event_cb :: "kafka_event \<Rightarrow> bytes" where
  "event_cb (EVENT_ERROR str err) = ''kafka event error: '' @ cstr str @ '', '' @ cstr err"
| "event_cb EVENT_STATS = []"
| "event_cb EVENT_LOG = []"
| "event_cb EVENT_OTHER = []"

text \<open>The consume callback, which \<open>Init\<close> registers too, has an empty body: it prints nothing.\<close>

definition consume_cb :: "kmsg \<Rightarrow> bytes" where
  "consume_cb msg = []"

section \<open>When Read returns\<close>

text \<open>The passes that only go on, as a relation; \<open>said\<close> is what has been printed.\<close>

inductive goes_on :: "'k consumer \<Rightarrow> bytes list \<Rightarrow> bytes \<Rightarrow> 'k kreader \<Rightarrow> bytes \<Rightarrow> 'k kreader \<Rightarrow> bool"
  for K filterKeys where
  here: "goes_on K filterKeys said rd said rd"
| pass: "Read_pass K filterKeys rd = Again new rd1 \<Longrightarrow> goes_on K filterKeys (said @ new) rd1 said2 rd2 \<Longrightarrow>
    goes_on K filterKeys said rd said2 rd2"

lemma Read_loop_goes_on:
  "goes_on K fk said rd said' rd' \<Longrightarrow> Read_loop K fk said rd = Read_loop K fk said' rd'"
  by (induction rule: goes_on.induct) (simp_all add: Read_loop.simps [of K fk])

lemma Read_loop_stop:
  "Read_pass K fk rd = Stop res new rd' \<Longrightarrow> Read_loop K fk said rd = Some (res, said @ new, rd')"
  by (simp add: Read_loop.simps [of K fk said rd])

lemma Read_loop_stops:
  assumes "Read_loop K fk said rd = Some (res, out, rd')"
  shows "\<exists>said1 rd1 new. goes_on K fk said rd said1 rd1 \<and> Read_pass K fk rd1 = Stop res new rd' \<and>
    out = said1 @ new"
proof -
  let ?P = "\<lambda>K fk said rd y. \<exists>said1 rd1 new. goes_on K fk said rd said1 rd1 \<and>
    Read_pass K fk rd1 = Stop (fst y) new (snd (snd y)) \<and> fst (snd y) = said1 @ new"
  have "?P K fk said rd (res, out, rd')"
  proof (rule Read_loop.raw_induct [OF _ assms])
    fix RL :: "'b consumer \<Rightarrow> bytes list \<Rightarrow> bytes \<Rightarrow> 'b kreader
        \<Rightarrow> ((int \<times> bytes option) outcome \<times> bytes \<times> 'b kreader) option"
      and K fk said rd y
    assume IH: "\<And>K fk said rd y. RL K fk said rd = Some y \<Longrightarrow> ?P K fk said rd y"
      and eq: "(case Read_pass K fk rd of Again new rd' \<Rightarrow> RL K fk (said @ new) rd'
        | Stop res new rd' \<Rightarrow> Some (res, said @ new, rd')) = Some y"
    show "?P K fk said rd y"
    proof (cases "Read_pass K fk rd")
      case (Again new rd')
      with eq have "RL K fk (said @ new) rd' = Some y" by simp
      from IH [OF this] obtain said1 rd1 new1 where "goes_on K fk (said @ new) rd' said1 rd1"
        "Read_pass K fk rd1 = Stop (fst y) new1 (snd (snd y))" "fst (snd y) = said1 @ new1" by blast
      with goes_on.pass [OF Again] show ?thesis by blast
    next
      case (Stop res new rd')
      with eq have "y = (res, said @ new, rd')" by simp
      with Stop goes_on.here [of K fk said rd] show ?thesis by auto
    qed
  qed
  then show ?thesis by simp
qed

text \<open>\<open>Read\<close> returns exactly when some pass after passes that only go on returns, and with its result.\<close>

lemma Read_loop_iff:
  "Read_loop K fk said rd = Some (res, out, rd') \<longleftrightarrow>
   (\<exists>said1 rd1 new. goes_on K fk said rd said1 rd1 \<and> Read_pass K fk rd1 = Stop res new rd' \<and>
     out = said1 @ new)"
  using Read_loop_stops Read_loop_goes_on Read_loop_stop by metis

text \<open>What was printed before stands in front of what the loop prints, and changes nothing else.\<close>

lemma goes_on_any:
  "goes_on K fk said rd said' rd' \<Longrightarrow> \<exists>t. said' = said @ t \<and> (\<forall>pre. goes_on K fk pre rd (pre @ t) rd')"
proof (induction rule: goes_on.induct)
  case (here said rd)
  then show ?case using goes_on.here by (intro exI [of _ "[]"]) fastforce
next
  case (pass rd new rd1 said said2 rd2)
  then obtain t where "said2 = (said @ new) @ t" "\<forall>pre. goes_on K fk pre rd1 (pre @ t) rd2" by blast
  with goes_on.pass [OF pass.hyps(1)] show ?case by (intro exI [of _ "new @ t"]) fastforce
qed

lemma Read_loop_said:
  "Read_loop K fk said rd = Some (res, out, rd') \<Longrightarrow>
   \<exists>t. out = said @ t \<and> (\<forall>pre. Read_loop K fk pre rd = Some (res, pre @ t, rd'))"
  unfolding Read_loop_iff using goes_on_any by fastforce

lemma Read_loop_before:
  "Read_loop K fk said rd =
     (case Read_loop K fk [] rd of None \<Rightarrow> None | Some (res, out, rd') \<Rightarrow> Some (res, said @ out, rd'))"
proof (cases "Read_loop K fk [] rd")
  case None
  with Read_loop_said [of K fk said rd] show ?thesis by (cases "Read_loop K fk said rd") fastforce+
next
  case (Some r)
  then obtain res out rd' where r: "Read_loop K fk [] rd = Some (res, out, rd')" by (cases r) auto
  from Read_loop_said [OF r] r show ?thesis by auto
qed

text \<open>A set of states that no pass leaves is a set of states \<open>Read\<close> never returns from.\<close>

lemma goes_on_inside:
  "goes_on K fk said rd said' rd' \<Longrightarrow> Inv rd \<Longrightarrow>
   (\<And>rd. Inv rd \<Longrightarrow> \<exists>new rd'. Read_pass K fk rd = Again new rd' \<and> Inv rd') \<Longrightarrow> Inv rd'"
  by (induction rule: goes_on.induct) fastforce+

lemma Read_loop_for_ever:
  assumes "Inv rd" and "\<And>rd. Inv rd \<Longrightarrow> \<exists>new rd'. Read_pass K fk rd = Again new rd' \<and> Inv rd'"
  shows "Read_loop K fk said rd = None"
proof (rule ccontr)
  assume "Read_loop K fk said rd \<noteq> None"
  then obtain res out rd' where "Read_loop K fk said rd = Some (res, out, rd')" by auto
  then obtain said1 rd1 new where "goes_on K fk said rd said1 rd1" "Read_pass K fk rd1 = Stop res new rd'"
    unfolding Read_loop_iff by blast
  with goes_on_inside [OF this(1) assms] assms(2) show False by fastforce
qed

section \<open>Results of a pass\<close>

lemma read_over_iff:
  "length ls \<le> length rs \<Longrightarrow> \<exists>said. read_over K rs ls =
     Ret (\<forall>i < length ls. tp_offset (rs ! i) \<le> -1001 \<or> tp_offset (ls ! i) \<le> tp_offset (rs ! i), said)"
proof (induction K rs ls rule: read_over.induct)
  case (3 K r rs l ls)
  have "(\<forall>i < Suc n. P i) \<longleftrightarrow> P 0 \<and> (\<forall>i < n. P (Suc i))" for n and P :: "nat \<Rightarrow> bool"
    by (auto simp: less_Suc_eq_0_disj)
  with 3 show ?case by auto
qed simp_all

lemma read_over_silent: "read_over K rs ls = Ret (True, said) \<Longrightarrow> said = []"
  by (induction K rs ls rule: read_over.induct) (auto split: if_split_asm)

lemma Read_pass_message:
  assumes "Read_pass K fk rd = Stop (Ret (rc, Some bs)) said rd'"
  shows "rc = ERR_NO_ERROR \<and> (\<exists>kmsg k key. kc_consume K (m_consumer rd) = (kmsg, k) \<and>
    k_err kmsg = ERR_NO_ERROR \<and> k_key kmsg = Some key \<and> (fk = [] \<or> key \<in> set fk) \<and>
    bs = k_payload kmsg)"
proof -
  obtain kmsg k where c: "kc_consume K (m_consumer rd) = (kmsg, k)" by fastforce
  show ?thesis
    using assms unfolding Read_pass_def c
    by (auto simp: Let_def split: if_split_asm option.split_asm prod.split_asm outcome.split_asm bool.split_asm)
qed

lemma Read_pass_codes:
  "Read_pass K fk rd = Stop (Ret (rc, None)) said rd' \<Longrightarrow>
   rc \<in> {ERR__FAIL, ERR__TIMED_OUT, ERR__PARTITION_EOF, ERR__UNKNOWN_PARTITION}"
  by (auto simp: Read_pass_def Let_def split: if_split_asm option.split_asm prod.split_asm
      outcome.split_asm bool.split_asm)

lemma Read_pass_timeout:
  assumes "Read_pass K fk rd = Stop (Ret (ERR__TIMED_OUT, m)) said rd'"
  shows "m = None \<and> said = [] \<and> m_logOffset rd' \<noteq> [] \<and>
    read_over K (m_readOffSet rd') (m_logOffset rd') = Ret (True, [])"
  using assms read_over_silent
  by (fastforce simp: Read_pass_def Let_def kafka_codes split: if_split_asm option.split_asm prod.split_asm
      outcome.split_asm bool.split_asm)

lemma Read_stops:
  assumes "Read K fk rd = Some (res, said, rd')"
  shows "\<exists>rd1 new. Read_pass K fk rd1 = Stop res new rd'"
  using assms unfolding Read_def by (auto simp: Read_loop_iff split: prod.split_asm)

text \<open>So the reader keeps what the interface \<open>CBinlogReader\<close> promises.\<close>

lemma Read_message_code:
  assumes "Read K fk rd = Some (Ret (rc, Some bs), said, rd')"
  shows "rc = 0"
  using Read_stops [OF assms] Read_pass_message by (fastforce simp: kafka_codes)

lemma Read_plain_code:
  assumes "Read K fk rd = Some (Ret (rc, None), said, rd')"
  shows "rc \<noteq> 0"
  using Read_stops [OF assms] Read_pass_codes by (fastforce simp: kafka_codes)

interpretation kafka: binlog_reader "Read K" "\<lambda>rd. Ret (CommitOffset K rd)" for K
  by unfold_locales (auto dest: Read_message_code Read_plain_code)

interpretation object: binlog_reader "object_Read K" "object_CommitOffset K" for K
  by unfold_locales (auto simp: object_Read_def object_fillOffset_def dest: Read_message_code Read_plain_code
      split: option.split_asm)

section \<open>The watermarks\<close>

lemma fill_watermarks_parts:
  "fill_watermarks K ts k = (r, said, ts', k') \<Longrightarrow>
   length ts' = length ts \<and> map tp_topic ts' = map tp_topic ts \<and> map tp_partition ts' = map tp_partition ts"
  by (induction K ts k arbitrary: r said ts' k' rule: fill_watermarks.induct)
    (auto split: prod.split_asm if_split_asm)

lemma fillOffset_idle: "m_logOffset rd \<noteq> [] \<Longrightarrow> fillOffset K rd = (0, [], rd)"
  by (simp add: fillOffset_def)

lemma fill_if_empty_idle [simp]: "m_logOffset rd \<noteq> [] \<Longrightarrow> fill_if_empty K rd = ([], rd)"
  by (simp add: fill_if_empty_def)

end
