(* ===== verification/BinlogArgs.thy ===== *)
theory BinlogArgs
  imports O2kPrelude
begin

text \<open>
  The command line of \<open>binlogdump/binlogdumpK.cpp\<close>: \<open>StrSplit\<close>, \<open>GetInputArg\<close>, the defaults and
  checks at the start of \<open>main\<close>, and \<open>PintfArg\<close>.  \<open>getopt\<close> of the C library is modelled as far
  as the program uses it: options in clusters, arguments in the same or the next word, words that
  are no options passed over, \<open>--\<close> as the end, \<open>'?'\<close> for what it does not know.
\<close>

section \<open>StrSplit\<close>

text \<open>\<open>strstr\<close>: the text before the first occurrence and the text behind it.\<close>

fun starts_with :: "bytes \<Rightarrow> bytes \<Rightarrow> bool" where
  "starts_with [] s = True"
| "starts_with (a # as) [] = False"
| "starts_with (a # as) (c # cs) = (a = c \<and> starts_with as cs)"

fun strstr :: "bytes \<Rightarrow> bytes \<Rightarrow> (bytes \<times> bytes) option" where
  "strstr sep [] = (if sep = [] then Some ([], []) else None)"
| "strstr sep (c # cs) =
     (if starts_with sep (c # cs) then Some ([], drop (length sep) (c # cs))
      else (case strstr sep cs of None \<Rightarrow> None | Some (a, b) \<Rightarrow> Some (c # a, b)))"

lemma strstr_shrinks: "strstr sep s = Some (a, b) \<Longrightarrow> sep \<noteq> [] \<Longrightarrow> length b < length s"
  by (induction sep s arbitrary: a b rule: strstr.induct)
    (auto split: if_split_asm option.split_asm prod.split_asm)

function StrSplit_loop :: "bytes \<Rightarrow> bytes \<Rightarrow> bytes list \<Rightarrow> bytes list" where
  "StrSplit_loop sep srcStr out =
     (if sep = [] then out
      else
        (case strstr sep srcStr of
           Some (one, p) \<Rightarrow>
             (let out1 = (if one \<noteq> [] then out @ [one] else out) in
              if p = [] then out1 else StrSplit_loop sep p out1)
         | None \<Rightarrow> (if srcStr \<noteq> [] then out @ [srcStr] else out)))"
  by pat_completeness auto
termination
  by (relation "measure (\<lambda>(_, s, _). length s)") (auto dest: strstr_shrinks)

declare StrSplit_loop.simps [simp del]

definition StrSplit :: "bytes \<Rightarrow> bytes \<Rightarrow> bytes list \<Rightarrow> bytes list" where
  "StrSplit srcStr sep out =
     (if length (cstr srcStr) \<le> 0 then out
      else if length (cstr sep) \<le> 0 then out @ [cstr srcStr]
      else StrSplit_loop (cstr sep) (cstr srcStr) out)"

section \<open>getopt\<close>

datatype optkind = Unknown | Flag | WithArg

fun opt_kind :: "bytes \<Rightarrow> char \<Rightarrow> optkind" where
  "opt_kind [] c = Unknown"
| "opt_kind (o1 # os) c =
     (if o1 = CHR '':'' then opt_kind os c
      else if c = o1 then (case os of o2 # _ \<Rightarrow> (if o2 = CHR '':'' then WithArg else Flag) | [] \<Rightarrow> Flag)
      else opt_kind os c)"

text \<open>The letters of one word; a letter with an argument takes the rest of the word or the next word.\<close>

fun getopt_word :: "bytes \<Rightarrow> bytes \<Rightarrow> bytes list \<Rightarrow> (char \<times> bytes) list \<times> bytes list" where
  "getopt_word opts [] rest = ([], rest)"
| "getopt_word opts (c # cs) rest =
     (case opt_kind opts c of
        Unknown \<Rightarrow> (case getopt_word opts cs rest of (os, r) \<Rightarrow> ((CHR ''?'', []) # os, r))
      | Flag \<Rightarrow> (case getopt_word opts cs rest of (os, r) \<Rightarrow> ((c, []) # os, r))
      | WithArg \<Rightarrow>
          (if cs \<noteq> [] then ([(c, cs)], rest)
           else (case rest of
                   [] \<Rightarrow> ([(CHR ''?'', [])], [])
                 | a # as \<Rightarrow> ([(c, a)], as))))"

lemma getopt_word_rest: "getopt_word opts w rest = (os, r) \<Longrightarrow> length r \<le> length rest"
  by (induction opts w rest arbitrary: os r rule: getopt_word.induct)
    (auto split: optkind.split_asm prod.split_asm if_split_asm list.split_asm)

function getopt_all :: "bytes \<Rightarrow> bytes list \<Rightarrow> (char \<times> bytes) list" where
  "getopt_all opts [] = []"
| "getopt_all opts (w # ws) =
     (if w = ''--'' then []
      else if length w < 2 \<or> hd w \<noteq> CHR ''-'' then getopt_all opts ws
      else (case getopt_word opts (tl w) ws of (os, rest) \<Rightarrow> os @ getopt_all opts rest))"
  by pat_completeness auto
termination
  by (relation "measure (\<lambda>(_, ws). length ws)") (auto dest: getopt_word_rest [OF sym])

section \<open>GetInputArg\<close>

record topic_info =
  waitMode :: bool
  groupIdNum :: bytes
  commit :: bool
  topicName :: bytes
  nodeName :: bytes
  schemaName :: bytes
  tableName :: "bytes list"
  bootstrap :: bytes
  suffix :: bytes

definition MAX_FILE_NAME_LEN :: nat where "MAX_FILE_NAME_LEN = 256"

definition optstring :: bytes where "optstring = ''hvz:n:s:t:b:m:g:S:E:C:T:r''"

definition strndup :: "bytes \<Rightarrow> nat \<Rightarrow> bytes" where
  "strndup s n = take n (cstr s)"

text \<open>The program ends with an exit code, after the usage text, or goes on.\<close>

datatype 'a ending = Exit int | Go 'a

text \<open>The body of the \<open>while\<close>; the state is the topic and the flag \<open>printRaw\<close>.\<close>

definition input_arg :: "char \<times> bytes \<Rightarrow> topic_info \<times> bool \<Rightarrow> (topic_info \<times> bool) ending" where
  "input_arg = (\<lambda>(ch, optarg) (topic, printRaw).
     if ch = CHR ''h'' then Exit 0
     else if ch = CHR ''b'' then Go (topic\<lparr>bootstrap := strndup optarg MAX_FILE_NAME_LEN\<rparr>, printRaw)
     else if ch = CHR ''n'' then Go (topic\<lparr>nodeName := strndup optarg MAX_FILE_NAME_LEN\<rparr>, printRaw)
     else if ch = CHR ''s'' then Go (topic\<lparr>schemaName := strndup optarg MAX_FILE_NAME_LEN\<rparr>, printRaw)
     else if ch = CHR ''t'' then
       Go (topic\<lparr>tableName := StrSplit (strndup optarg MAX_FILE_NAME_LEN) '','' (tableName topic)\<rparr>, printRaw)
     else if ch = CHR ''m'' then Go (topic\<lparr>waitMode := (cstr optarg = ''1'')\<rparr>, printRaw)
     else if ch = CHR ''g'' then Go (topic\<lparr>groupIdNum := cstr optarg\<rparr>, printRaw)
     else if ch = CHR ''C'' then Go (topic\<lparr>commit := (cstr optarg = ''1'')\<rparr>, printRaw)
     else if ch = CHR ''r'' then Go (topic, True)
     else if ch = CHR ''x'' then Go (topic\<lparr>suffix := cstr optarg\<rparr>, printRaw)
     else Exit (-1))"

fun input_args :: "(char \<times> bytes) list \<Rightarrow> topic_info \<times> bool \<Rightarrow> (topic_info \<times> bool) ending" where
  "input_args [] st = Go st"
| "input_args (o1 # os) st = (case input_arg o1 st of Exit c \<Rightarrow> Exit c | Go st' \<Rightarrow> input_args os st')"

definition GetInputArg :: "bytes list \<Rightarrow> topic_info \<times> bool \<Rightarrow> (topic_info \<times> bool) ending" where
  "GetInputArg argv st = input_args (getopt_all optstring (drop 1 argv)) st"

text \<open>The start of \<open>main\<close> (lines 73 to 90): the defaults, the two options that must be set, the topic.\<close>

definition default_topic :: topic_info where
  "default_topic = \<lparr>waitMode = False, groupIdNum = ''binlogdumpK'', commit = False, topicName = [],
     nodeName = [], schemaName = [], tableName = [],
     bootstrap = ''qmatrix-1:9092,qmatrix-2:9092,qmatrix-3:9092'', suffix = ''.binlog''\<rparr>"

definition main_args :: "bytes list \<Rightarrow> (topic_info \<times> bool) ending" where
  "main_args argv =
     (case GetInputArg argv (default_topic, False) of
        Exit c \<Rightarrow> Exit c
      | Go (topic, printRaw) \<Rightarrow>
          (if nodeName topic = [] \<or> schemaName topic = [] then Exit (-1)
           else Go (topic\<lparr>topicName := nodeName topic @ ''.'' @ schemaName topic @ suffix topic\<rparr>, printRaw)))"

definition eol :: bytes where "eol = '' '' @ [CHR 0x0A]"

definition bool_dec :: "bool \<Rightarrow> bytes" where
  "bool_dec b = (if b then ''1'' else ''0'')"

definition PintfArg :: "topic_info \<Rightarrow> bytes" where
  "PintfArg topic =
     ''nodeName= '' @ cstr (nodeName topic) @ eol @
     ''schemaName= '' @ cstr (schemaName topic) @ eol @
     concat (map (\<lambda>tbName. ''tableName= '' @ cstr tbName @ eol) (tableName topic)) @
     ''bootstrap= '' @ cstr (bootstrap topic) @ eol @
     ''waitMode= '' @ bool_dec (waitMode topic) @ eol @
     ''groupId= '' @ cstr (groupIdNum topic) @ eol @
     ''commit= '' @ bool_dec (commit topic) @ eol"

section \<open>StrSplit yields the pieces that are not empty\<close>

text \<open>The reference: the text cut at every comma.\<close>

fun pieces :: "char \<Rightarrow> bytes \<Rightarrow> bytes list" where
  "pieces c [] = [[]]"
| "pieces c (x # xs) =
     (if x = c then [] # pieces c xs
      else (case pieces c xs of [] \<Rightarrow> [[x]] | p # ps \<Rightarrow> (x # p) # ps))"

lemma pieces_nonempty [simp]: "pieces c s \<noteq> []"
  by (cases s) (auto split: list.split)

lemma starts_with_char: "starts_with [c] s \<longleftrightarrow> s \<noteq> [] \<and> hd s = c"
  by (cases s) auto

lemma strstr_char_none: "strstr [c] s = None \<longleftrightarrow> c \<notin> set s"
  by (induction "[c]" s rule: strstr.induct) (auto split: option.splits)

lemma strstr_char_some: "strstr [c] s = Some (a, b) \<Longrightarrow> s = a @ c # b \<and> c \<notin> set a"
  by (induction "[c]" s arbitrary: a b rule: strstr.induct) (auto split: if_split_asm option.split_asm)

lemma pieces_none: "c \<notin> set s \<Longrightarrow> pieces c s = [s]"
  by (induction s) auto

lemma pieces_append: "c \<notin> set a \<Longrightarrow> pieces c (a @ c # b) = a # pieces c b"
  by (induction a) auto

lemma StrSplit_loop_pieces:
  "StrSplit_loop [c] s out = out @ filter (\<lambda>p. p \<noteq> []) (pieces c s)"
proof (induction "[c]" s out rule: StrSplit_loop.induct)
  case (1 s out)
  show ?case
  proof (cases "strstr [c] s")
    case None
    then have "pieces c s = [s]" by (simp add: strstr_char_none pieces_none)
    with None show ?thesis by (simp add: StrSplit_loop.simps [of "[c]" s])
  next
    case (Some ab)
    then obtain a b where ab: "strstr [c] s = Some (a, b)" by (cases ab) auto
    then have s: "s = a @ c # b" "c \<notin> set a" using strstr_char_some by blast+
    have "pieces c s = a # pieces c b" using s by (simp add: pieces_append)
    moreover have "b = [] \<Longrightarrow> pieces c b = [[]]" by simp
    ultimately show ?thesis
      using "1" [OF _ ab refl refl] ab by (auto simp: StrSplit_loop.simps [of "[c]" s] Let_def)
  qed
qed

lemma pieces_chars: "p \<in> set (pieces c s) \<Longrightarrow> c \<notin> set p"
proof (induction s arbitrary: p)
  case Nil
  then show ?case by simp
next
  case (Cons x s)
  then show ?case by (cases "pieces c s") (auto split: if_split_asm)
qed

section \<open>What the arguments can be\<close>

definition topic_ok :: "topic_info \<Rightarrow> bool" where
  "topic_ok topic \<longleftrightarrow> length (nodeName topic) \<le> 256 \<and> length (schemaName topic) \<le> 256 \<and>
     (\<forall>t \<in> set (tableName topic). t \<noteq> [] \<and> CHR '','' \<notin> set t)"

lemma StrSplit_comma: "StrSplit s '','' out = out @ filter (\<lambda>p. p \<noteq> []) (pieces (CHR '','') (cstr s))"
proof -
  have "cstr '','' = [CHR '','']" by (simp add: cstr_def)
  then show ?thesis by (simp add: StrSplit_def StrSplit_loop_pieces)
qed

lemma length_strndup: "length (strndup s MAX_FILE_NAME_LEN) \<le> 256"
  by (simp add: strndup_def MAX_FILE_NAME_LEN_def)

lemma input_arg_ok: "input_arg oa (topic, raw) = Go (topic', raw') \<Longrightarrow> topic_ok topic \<Longrightarrow> topic_ok topic'"
  using length_strndup pieces_chars
  by (auto simp: input_arg_def topic_ok_def StrSplit_comma split: if_split_asm prod.split_asm)

lemma input_args_ok: "input_args os st = Go st' \<Longrightarrow> topic_ok (fst st) \<Longrightarrow> topic_ok (fst st')"
proof (induction os st rule: input_args.induct)
  case (2 oa os st)
  obtain st1 where "input_arg oa st = Go st1" using "2.prems" by (auto split: ending.split_asm)
  with 2 input_arg_ok show ?case by (cases st; cases st1) auto
qed simp

lemma opt_kind_x: "opt_kind optstring (CHR ''x'') = Unknown"
  by (simp add: optstring_def)

lemma getopt_word_x:
  "getopt_word optstring w rest = (os, r) \<Longrightarrow> list_all (\<lambda>oa. fst oa \<noteq> CHR ''x'') os"
proof (induction w arbitrary: os r)
  case (Cons c cs)
  then show ?case
    by (cases "c = CHR ''x''"; cases "opt_kind optstring c")
      (auto simp: opt_kind_x split: prod.split_asm if_split_asm list.split_asm)
qed simp

lemma getopt_all_x: "list_all (\<lambda>oa. fst oa \<noteq> CHR ''x'') (getopt_all optstring ws)"
  by (induction optstring ws rule: getopt_all.induct)
    (auto split: prod.split if_split dest: getopt_word_x)

lemma getopt_never_x: "CHR ''x'' \<notin> fst ` set (getopt_all optstring ws)"
  using getopt_all_x [of ws] by (auto simp: list_all_iff)

lemma input_args_suffix:
  "CHR ''x'' \<notin> fst ` set os \<Longrightarrow> input_args os st = Go st' \<Longrightarrow> suffix (fst st') = suffix (fst st)"
proof (induction os st rule: input_args.induct)
  case (2 oa os st)
  obtain st1 where st1: "input_arg oa st = Go st1" using "2.prems" by (auto split: ending.split_asm)
  have "suffix (fst st1) = suffix (fst st)"
    using st1 "2.prems"(1) by (cases oa; cases st) (auto simp: input_arg_def split: if_split_asm)
  with 2 st1 show ?case by auto
qed simp

lemma main_args_accepted:
  assumes "main_args argv = Go (topic, raw)"
  obtains topic0 where "GetInputArg argv (default_topic, False) = Go (topic0, raw)"
    and "nodeName topic0 \<noteq> []" and "schemaName topic0 \<noteq> []" and "topic_ok topic0"
    and "topic = topic0\<lparr>topicName := nodeName topic0 @ ''.'' @ schemaName topic0 @ suffix topic0\<rparr>"
proof -
  obtain topic0 raw0 where g: "GetInputArg argv (default_topic, False) = Go (topic0, raw0)"
    using assms by (cases "GetInputArg argv (default_topic, False)") (auto simp: main_args_def)
  have ok: "topic_ok topic0"
    using input_args_ok [OF g [unfolded GetInputArg_def]] by (simp add: topic_ok_def default_topic_def)
  show thesis
    by (rule that [of topic0]) (use assms g ok in \<open>simp_all add: main_args_def split: if_split_asm\<close>)
qed

section \<open>A command line for every topic\<close>

text \<open>The words that ask for a topic, and the topics that can be asked for this way.\<close>

fun join_commas :: "bytes list \<Rightarrow> bytes" where
  "join_commas [] = []"
| "join_commas [t] = t"
| "join_commas (t # ts) = t @ CHR '','' # join_commas ts"

definition render_args :: "bytes \<Rightarrow> topic_info \<Rightarrow> bool \<Rightarrow> bytes list" where
  "render_args name topic printRaw =
     [name, ''-n'', nodeName topic, ''-s'', schemaName topic, ''-b'', bootstrap topic,
      ''-t'', join_commas (tableName topic), ''-m'', bool_dec (waitMode topic),
      ''-g'', groupIdNum topic, ''-C'', bool_dec (commit topic)] @ (if printRaw then [''-r''] else [])"

definition name_fits :: "bytes \<Rightarrow> bool" where
  "name_fits s \<longleftrightarrow> CHR 0x00 \<notin> set s \<and> length s \<le> MAX_FILE_NAME_LEN"

definition renderable :: "topic_info \<Rightarrow> bool" where
  "renderable topic \<longleftrightarrow> topic_ok topic \<and> nodeName topic \<noteq> [] \<and> schemaName topic \<noteq> [] \<and>
     name_fits (nodeName topic) \<and> name_fits (schemaName topic) \<and> name_fits (bootstrap topic) \<and>
     name_fits (join_commas (tableName topic)) \<and> CHR 0x00 \<notin> set (groupIdNum topic) \<and>
     suffix topic = suffix default_topic \<and>
     topicName topic = nodeName topic @ ''.'' @ schemaName topic @ suffix topic"

lemma pieces_join:
  "ts \<noteq> [] \<Longrightarrow> \<forall>t \<in> set ts. CHR '','' \<notin> set t \<Longrightarrow> pieces (CHR '','') (join_commas ts) = ts"
  by (induction ts rule: join_commas.induct) (simp_all add: pieces_none pieces_append)

lemma split_join:
  "\<forall>t \<in> set ts. t \<noteq> [] \<and> CHR '','' \<notin> set t \<Longrightarrow>
   filter (\<lambda>p. p \<noteq> []) (pieces (CHR '','') (join_commas ts)) = ts"
  by (cases "ts = []") (simp_all add: pieces_join filter_id_conv)

lemma strndup_fits: "name_fits s \<Longrightarrow> strndup s MAX_FILE_NAME_LEN = s"
  by (simp add: name_fits_def strndup_def cstr_id_iff [THEN iffD2])

lemma getopt_all_arg:
  "opt_kind optstring c = WithArg \<Longrightarrow> c \<noteq> CHR ''-'' \<Longrightarrow>
   getopt_all optstring ([CHR ''-'', c] # a # ws) = (c, a) # getopt_all optstring ws"
  by simp

lemma arg_letters:
  "opt_kind optstring (CHR ''n'') = WithArg" "opt_kind optstring (CHR ''s'') = WithArg"
  "opt_kind optstring (CHR ''b'') = WithArg" "opt_kind optstring (CHR ''t'') = WithArg"
  "opt_kind optstring (CHR ''m'') = WithArg" "opt_kind optstring (CHR ''g'') = WithArg"
  "opt_kind optstring (CHR ''C'') = WithArg" "opt_kind optstring (CHR ''r'') = Flag"
  by (simp_all add: optstring_def)

lemma render_options:
  "getopt_all optstring (drop 1 (render_args name topic printRaw)) =
     [(CHR ''n'', nodeName topic), (CHR ''s'', schemaName topic), (CHR ''b'', bootstrap topic),
      (CHR ''t'', join_commas (tableName topic)), (CHR ''m'', bool_dec (waitMode topic)),
      (CHR ''g'', groupIdNum topic), (CHR ''C'', bool_dec (commit topic))] @
     (if printRaw then [(CHR ''r'', [])] else [])"
  by (simp add: render_args_def getopt_all_arg arg_letters del: getopt_all.simps(2))
    (simp add: arg_letters)

lemma render_parsed:
  assumes "renderable topic"
  shows "GetInputArg (render_args name topic printRaw) (default_topic, False)
    = Go (topic\<lparr>topicName := []\<rparr>, printRaw)"
proof -
  have "cstr (bool_dec b) = ''1'' \<longleftrightarrow> b" for b by (simp add: bool_dec_def cstr_def)
  moreover have "StrSplit (join_commas (tableName topic)) '','' [] = tableName topic"
    using assms split_join [of "tableName topic"]
    by (simp add: StrSplit_comma renderable_def topic_ok_def name_fits_def cstr_id_iff [THEN iffD2])
  ultimately show ?thesis
    using assms unfolding GetInputArg_def render_options
    by (cases topic) (simp add: input_arg_def renderable_def strndup_fits
        default_topic_def cstr_id_iff [THEN iffD2])
qed

end
