(* ===== verification/Samples.thy ===== *)
theory Samples
  imports Qdcadm WireInstance SocketSetup KafkaReader BinlogArgs
begin

text \<open>
  Concrete values for the witnesses: an environment, sockets and messages, over the runtime
  \<open>std_wire\<close>.
\<close>

definition sample_env :: cenv where
  "sample_env = \<lparr>c_strerror = (\<lambda>_. ''error''), header_junk = replicate 4 CHR 0xFF,
     new_bytes = (\<lambda>n. replicate n CHR 0xAA), frame_err = replicate 514 CHR 0x55,
     frame_buf = replicate 1026 CHR 0x55\<rparr>"

lemma sample_env_ok: "env_ok sample_env"
  by (simp add: env_ok_def sample_env_def)

text \<open>A socket that interrupts, takes three bytes, then one, then as many as it gets.\<close>

definition sample_out :: "send_event list" where
  "sample_out = [SErr EINTR, SAccept 3, SAccept 1, SErr EINTR, SAccept 2000, SAccept 2000, SAccept 2000]"

definition sample_sock :: "recv_event list \<Rightarrow> sockst" where
  "sample_sock evs = \<lparr>s_in = evs, s_out = sample_out, s_sent = [], s_errno = 0, s_closed = []\<rparr>"

lemma sample_lets:
  "0 < n \<Longrightarrow> n \<le> 2000 \<Longrightarrow>
   lets_packet n (s_out (sample_sock evs)) (SAccept 2000 # [SAccept 2000])"
  by (simp add: lets_packet_def sample_sock_def sample_out_def lets_through_Cons)

lemma length_enc_varint: "n < 128 ^ k \<Longrightarrow> 0 < k \<Longrightarrow> length (enc_varint n) \<le> k"
proof (induction n arbitrary: k rule: enc_varint.induct)
  case (1 n)
  show ?case
  proof (cases "n < 128")
    case True
    then show ?thesis using "1.prems" by (subst enc_varint.simps) simp
  next
    case False
    then obtain j where k: "k = Suc j" "0 < j" using "1.prems" by (cases k; cases "k - 1") auto
    then have "n div 128 < 128 ^ j" using "1.prems" by (simp add: less_mult_imp_div_less mult.commute)
    then have "length (enc_varint (n div 128)) \<le> j" using "1.IH" False k by blast
    then show ?thesis using False k by (subst enc_varint.simps) simp
  qed
qed

lemma header_ok_std: "header_ok std_wire"
proof -
  have "length (enc_varint (unat (w :: 64 word))) \<le> 10" for w
    by (rule length_enc_varint [OF unat64_varint]) simp
  then have "length (std_int32_body v) \<le> 10" for v by (simp add: std_int32_body_def)
  then have "length (std_int32_body v) < 2147483647" for v by (rule le_less_trans) simp
  then show ?thesis
    by (simp add: header_ok_def MsgHeader_Serialize_def std_writers std_tag_one_byte field_no_def
        len_ok_def unknown_out_def)
qed

lemma ascii_small: "\<not> digit7 c \<Longrightarrow> (of_char c :: nat) < 128"
  by (cases c) (auto simp: of_char_def horner_sum_simps of_bool_def)

lemma utf8_ascii: "list_all (\<lambda>c. \<not> digit7 c) s \<Longrightarrow> utf8_ok s"
  by (induction s) (simp_all add: ascii_small)

lemma text_ok_std: "length s < 2147483648 \<Longrightarrow> list_all (\<lambda>c. \<not> digit7 c) s \<Longrightarrow> text_ok std_wire s"
  by (simp add: text_ok_def std_readers len_ok_def utf8_ascii)

lemma length_enc_small: "n < 128 \<Longrightarrow> length (enc_varint n) = 1"
  by (subst enc_varint.simps) simp

lemmas std_sizes = std_readers std_string_body_def std_int32_body_def std_int64_body_def
  length_enc_small PairStrStr_ByteSize_def MsgHeader_ByteSize_def MsgResult_ByteSize_def
  MsgCmd_ByteSize_def add_pair_def PairStrStr_SharedCtor_def MakeMsgHdr_def MsgHeader_SharedCtor_def

lemma pair_length_std:
  assumes "PairStrStr_valid std_wire x"
  shows "length (PairStrStr_Serialize std_wire x) = PairStrStr_ByteSize std_wire x"
  using std.PairStrStr.size_exact [OF assms] by simp

lemma pairs_ok_std:
  assumes "list_all (\<lambda>kv. text_ok std_wire (fst kv) \<and> text_ok std_wire (snd kv) \<and>
    len_ok (PairStrStr_ByteSize std_wire (add_pair kv))) kvs"
  shows "pairs_ok std_wire kvs"
  using assms by (simp add: pairs_ok_def list_all_iff pair_length_std add_pair_valid)

lemma result_length_std:
  assumes "text_ok std_wire rc" and "text_ok std_wire msg" and "pairs_ok std_wire kvs"
  shows "length (MsgResult_Serialize std_wire (result_with rc msg kvs))
    = MsgResult_ByteSize std_wire (result_with rc msg kvs)"
  using std.MsgResult.size_exact [OF result_with_valid [OF header_ok_std assms]] by simp

lemma cmd_length_std:
  assumes "text_ok std_wire cmd" and "pairs_ok std_wire kvs"
  shows "length (MsgCmd_Serialize std_wire (command_message cmd kvs))
    = MsgCmd_ByteSize std_wire (command_message cmd kvs)"
  using std.MsgCmd.size_exact [OF command_message_valid [OF header_ok_std assms]] by simp

text \<open>The reply \<open>OK\<close>, \<open>pong\<close> with one pair.\<close>

lemma sample_texts:
  "text_ok std_wire ''OK''" "text_ok std_wire ''pong''" "text_ok std_wire ''login''"
  "text_ok std_wire ''password''" "text_ok std_wire ''qdecoder''" "text_ok std_wire ''get_stat''"
  "text_ok std_wire ''1''" "text_ok std_wire ''ok''"
  by (rule text_ok_std; simp)+

lemma sample_pairs: "pairs_ok std_wire [(''1'', ''get_stat'')]"
    "pairs_ok std_wire [(''password'', ''qdecoder'')]"
  by (rule pairs_ok_std; simp add: sample_texts std_sizes len_ok_def)+

lemma sample_reply_length:
  "length (MsgResult_Serialize std_wire (result_with ''OK'' ''pong'' [(''1'', ''get_stat'')])) = 27"
  by (subst result_length_std)
    (simp_all add: sample_texts sample_pairs, simp add: result_with_def std_sizes MsgType_Result_def)

lemma sample_login_length:
  "length (MsgCmd_Serialize std_wire (command_message ''login'' [(''password'', ''qdecoder'')])) = 33"
  "length (MsgCmd_Serialize std_wire (command_message ''get_stat'' [(''1'', ''get_stat'')])) = 29"
  by (subst cmd_length_std, simp_all add: sample_texts sample_pairs,
      simp add: command_message_eq std_sizes MsgType_Command_def)+

text \<open>A connected client, its packets, and a server that accepts or refuses the login.\<close>

definition sample_client :: admclient where
  "sample_client = \<lparr>m_sock = 3, m_pwd = ''qdecoder'', m_err = replicate 512 CHR 0x55,
     so_sndtimeo = 5, so_rcvtimeo = 5, cl_closed = []\<rparr>"

definition sample_login :: bytes where
  "sample_login = MsgCmd_Serialize std_wire (command_message CMD_LOGIN [(''password'', m_pwd sample_client)])"

definition sample_cmd :: bytes where
  "sample_cmd = MsgCmd_Serialize std_wire (command_message ''get_stat'' [(''1'', ''get_stat'')])"

definition sample_answer :: MsgResult where
  "sample_answer = result_with ''ok'' ''pong'' []"

definition sample_refusal :: MsgResult where
  "sample_refusal = result_with ''error'' ''given a invalid password'' []"

definition sample_script :: "bytes \<Rightarrow> recv_event list" where
  "sample_script F = [RErr EINTR, RData (take 3 (packet F)), RData (drop 3 (packet F)), REof]"

definition sample_conn :: sockst where
  "sample_conn = sample_sock (sample_script (MsgResult_Serialize std_wire sample_answer))"

definition sample_refused :: sockst where
  "sample_refused = sample_sock (sample_script (MsgResult_Serialize std_wire sample_refusal))"

lemma packet_parts [simp]: "drop 3 (packet F) \<noteq> []" "take 3 (packet F) \<noteq> []"
  using length_packet [of F] by (auto simp del: length_packet)

lemma sample_script_proper: "proper (sample_script F)" "avail (sample_script F) = packet F"
  by (simp_all add: sample_script_def proper_def int_range_def EINTR_def)

lemma sample_arrives:
  "F \<noteq> [] \<Longrightarrow> length F \<le> 1024 \<Longrightarrow> arrives sample_env (CMsgRW sample_env) (sample_sock (sample_script F)) F []"
  by (simp add: arrives_def sample_env_ok CMsgRW_ok sample_sock_def sample_script_proper MAX_ADM_PKG_def
      one_past_def LEN_ADM_PKG_def)

lemma sample_login_facts:
  "text_ok std_wire CMD_LOGIN" "pairs_ok std_wire [(''password'', m_pwd sample_client)]"
  "sample_login = MsgCmd_Serialize std_wire (command_message CMD_LOGIN [(''password'', m_pwd sample_client)])"
  "len_ok (length sample_login)"
  using sample_login_length(1)
  by (simp_all add: CMD_LOGIN_def sample_texts sample_pairs sample_client_def sample_login_def len_ok_def)

lemma sample_cmd_facts:
  "text_ok std_wire ''get_stat''" "pairs_ok std_wire [(''1'', ''get_stat'')]"
  "sample_cmd = MsgCmd_Serialize std_wire (command_message ''get_stat'' [(''1'', ''get_stat'')])"
  "len_ok (length sample_cmd)"
  by (simp_all add: sample_texts sample_pairs sample_cmd_def sample_login_length(2) len_ok_def)

lemma sample_connected: "IsConnected sample_client"
  by (simp add: IsConnected_def sample_client_def)

lemma sample_lengths: "length sample_login = 33" "length sample_cmd = 29"
  using sample_login_length
  by (simp_all add: sample_login_def sample_cmd_def CMD_LOGIN_def sample_client_def)

lemma sample_conn_out:
  "lets_packet (length sample_login) (s_out sample_conn) [SAccept 2000, SAccept 2000]"
  "lets_packet (length sample_cmd) [SAccept 2000, SAccept 2000] []"
  by (simp_all add: sample_lengths sample_lets sample_conn_def)
    (simp add: lets_packet_def lets_through_Cons)

lemma sample_refused_out:
  "lets_packet (length sample_login) (s_out sample_refused) [SAccept 2000, SAccept 2000]"
  by (simp add: sample_lengths sample_lets sample_refused_def)

lemma sample_answer_facts:
  "MsgResult_valid std_wire sample_answer"
  "mr_msg_header sample_answer = Some (MakeMsgHdr MsgType_Result)"
  "strcasecmp_eq (mr_rc sample_answer) RC_OK"
  by (simp_all add: sample_answer_def result_with_valid header_ok_std sample_texts pairs_ok_def)
    (simp_all add: result_with_def strcasecmp_eq_def RC_OK_def cstr_def c_tolower_def char_of_def bit_Suc_0_iff)

lemma sample_refusal_texts: "text_ok std_wire ''error''" "text_ok std_wire ''given a invalid password''"
  by (rule text_ok_std; simp)+

lemma sample_refusal_facts:
  "MsgResult_valid std_wire sample_refusal"
  "mr_msg_header sample_refusal = Some (MakeMsgHdr MsgType_Result)"
  "\<not> strcasecmp_eq (mr_rc sample_refusal) RC_OK"
  by (simp_all add: sample_refusal_def result_with_valid header_ok_std sample_refusal_texts pairs_ok_def)
    (simp_all add: result_with_def strcasecmp_eq_def RC_OK_def cstr_def c_tolower_def)

lemma sample_answer_lengths:
  "length (MsgResult_Serialize std_wire sample_answer) = 12"
  "length (MsgResult_Serialize std_wire sample_refusal) = 35"
  unfolding sample_answer_def sample_refusal_def
  by (subst result_length_std, simp_all add: sample_texts sample_refusal_texts pairs_ok_def,
      simp add: result_with_def std_sizes MsgType_Result_def)+

lemma sample_conn_in:
  "arrives sample_env (CMsgRW sample_env) sample_conn (MsgResult_Serialize std_wire sample_answer) []"
  unfolding sample_conn_def using sample_answer_lengths(1) by (intro sample_arrives) auto

lemma sample_refused_in:
  "arrives sample_env (CMsgRW sample_env) sample_refused (MsgResult_Serialize std_wire sample_refusal) []"
  unfolding sample_refused_def using sample_answer_lengths(2) by (intro sample_arrives) auto

lemma sample_conn_proper: "proper (s_in sample_conn)"
  by (simp add: sample_conn_def sample_sock_def sample_script_proper)

lemma sample_cmd_valid: "MsgCmd_valid std_wire (command_message ''get_stat'' [(''1'', ''get_stat'')])"
  by (rule command_message_valid [OF header_ok_std sample_cmd_facts(1,2)])

definition sample_metrics :: MsgMetrics where
  "sample_metrics = \<lparr>mm_msg_header = Some (MakeMsgHdr MsgType_Metrics), mm_trans_commit_total = 0,
     mm_trans_begin_proc = [\<lparr>pid_key = 7, pid_val = 0, pid_unknown = []\<rparr>], mm_unknown = []\<rparr>"

lemma sample_metrics_valid: "MsgMetrics_valid std_wire sample_metrics"
proof -
  have v: "PairIntDbl_valid std_wire \<lparr>pid_key = 7, pid_val = 0, pid_unknown = []\<rparr>"
    by (simp add: PairIntDbl_valid_def dbl_ok_def)
  have "len_ok (length (PairIntDbl_Serialize std_wire \<lparr>pid_key = 7, pid_val = 0, pid_unknown = []\<rparr>))"
    using std.PairIntDbl.size_exact [OF v]
    by (simp add: PairIntDbl_ByteSize_def std_sizes len_ok_def)
  with v show ?thesis
    using header_ok_std
    by (simp add: MsgMetrics_valid_def sample_metrics_def MsgHeader_valid_def dbl_ok_def header_ok_def)
qed

definition sample_val :: MsgVal where
  "sample_val = \<lparr>mv_msg_val = StrVal ''OK'', mv_unknown = []\<rparr>"

lemma sample_val_valid: "MsgVal_valid std_wire sample_val"
  using sample_texts(1) by (simp add: MsgVal_valid_def sample_val_def text_ok_def)

text \<open>A session of \<open>qdcadm\<close> in which the login is accepted and the command is not.\<close>

definition sample_net :: netsys where
  "sample_net = \<lparr>sys_inet_addr = (\<lambda>_. 16777343), sys_socket = (3, 0), sys_connect = (\<lambda>_ _. (0, 0)),
     sys_sndtimeo = 0, sys_rcvtimeo = 0\<rparr>"

definition sample_session :: session where
  "sample_session = \<lparr>ses_net = sample_net, ses_err = replicate 512 CHR 0x55,
     ses_sock = sample_sock [RData (packet (MsgResult_Serialize std_wire sample_answer)), RErr EINTR,
       RData (packet (MsgResult_Serialize std_wire sample_refusal)), REof],
     ses_now = \<lparr>tm_year = 124, tm_mon = 0, tm_mday = 2, tm_hour = 3, tm_min = 4, tm_sec = 5\<rparr>\<rparr>"

lemma sample_password: "pairs_ok std_wire [(''password'', ''qdecoder'')]"
  by (rule sample_pairs(2))

lemma sample_pwd: "m_pwd sample_client = ''qdecoder''"
  by (simp add: sample_client_def)

lemma sample_session_connects:
  "0 \<le> GetSock (CAdmClient (c_strerror sample_env) (ses_net sample_session) (ses_err sample_session)
     ''127.0.0.1'' 9876 ''qdecoder'')"
  by (simp add: GetSock_def CAdmClient_def sample_session_def sample_net_def INADDR_NONE_def Let_def)

lemma sample_not_metrics: "\<not> strcasecmp_eq ''get_stat'' CMD_GET_METRICS"
  by (simp add: strcasecmp_eq_def CMD_GET_METRICS_def cstr_def)

lemma sample_session_out:
  "lets_packet (length sample_login) (s_out (ses_sock sample_session)) [SAccept 2000, SAccept 2000]"
  "lets_packet (length sample_cmd) [SAccept 2000, SAccept 2000] []"
  using sample_conn_out(2) by (simp_all add: sample_lengths sample_lets sample_session_def)

lemma sample_session_in:
  "arrives sample_env (CMsgRW sample_env) (ses_sock sample_session)
     (MsgResult_Serialize std_wire sample_answer) (packet (MsgResult_Serialize std_wire sample_refusal) @ [])"
proof -
  have "MsgResult_Serialize std_wire sample_answer \<noteq> []" using sample_answer_lengths(1) by auto
  then show ?thesis
    using sample_answer_lengths
    by (simp add: arrives_def sample_env_ok CMsgRW_ok sample_session_def sample_sock_def proper_def
        int_range_def EINTR_def MAX_ADM_PKG_def one_past_def LEN_ADM_PKG_def)
qed

lemma sample_refusal_message: "cstr (mr_msg sample_refusal) = ''given a invalid password''"
  by (simp add: sample_refusal_def result_with_def cstr_def)

text \<open>A session whose address is refused, so that a run returns at once.\<close>

definition unreachable_session :: session where
  "unreachable_session = sample_session\<lparr>ses_net := sample_net\<lparr>sys_inet_addr := (\<lambda>_. -1)\<rparr>\<rparr>"

lemma unreachable_returns:
  "\<exists>r. ExecuteCommand C W fmt unreachable_session ip port pwd timeoutS cmd params = Ret r"
  by (simp add: ExecuteCommand_def ExecuteCommand_body_def unreachable_session_def CAdmClient_def INADDR_NONE_def GetSock_def
      set_m_err_def sample_session_def Let_def)

lemma sample_digits: "nat_dec 1 = ''1''" "nat_dec 2 = ''2''" "nat_dec 5 = ''5''"
  by (simp_all add: nat_dec.simps digit_char_def char_of_def bit_Suc_0_iff)

lemma sample_perf:
  "perf_settings (cstr ''get_perf'') (collect_params 4 (map cstr [''5'', ''2'']) [])
     = Inr (2, 300, ''get_perf will run 2 times, each time will wait 5 seconds ...'' @ nl)"
proof -
  have p: "collect_params 4 (map cstr [''5'', ''2'']) [] = [(''1'', ''5''), (''2'', ''2'')]"
    using sample_digits by (simp add: cstr_def)
  have a: "c_atoi ''5'' = 5" "c_atoi ''2'' = 2"
    by (rule c_atoi_value; simp add: decimal_value_def cstr_def is_space_def is_digit_def)+
  have l: "strLower (cstr ''get_perf'') = CMD_GET_PERF"
    by (simp add: strLower_def c_tolower_def cstr_def CMD_GET_PERF_def)
  show ?thesis
    unfolding p using a l sample_digits
    by (simp add: perf_settings_def map_get_def Let_def int_dec_def CMD_GET_PERF_def)
qed

section \<open>A consumer and a command line\<close>

text \<open>
  A consumer of one partition whose state is the list of the messages to come; then it times out.
  The watermark query returns the code \<open>e\<close>.
\<close>

definition sample_tp :: tp where
  "sample_tp = \<lparr>tp_topic = ''node.db.binlog'', tp_partition = 0, tp_offset = -1001\<rparr>"

definition timed_out :: kmsg where
  "timed_out = \<lparr>k_err = ERR__TIMED_OUT, k_key = None, k_payload = [], k_errstr = ''Local: Timed out''\<rparr>"

definition sample_consumer :: "int \<Rightarrow> kmsg list consumer" where
  "sample_consumer e = \<lparr>kc_set_group = (\<lambda>_. (0, [])), kc_create = (\<lambda>_ _. Some []), kc_subscribe = (\<lambda>_ k. (0, k)),
     kc_assignment = (\<lambda>_ k. ((0, [sample_tp]), k)),
     kc_watermark = (\<lambda>_ _ k. ((e, 2), k)),
     kc_position = (\<lambda>ts k. ((0, map (tp_offset_update (\<lambda>_. 2)) ts), k)),
     kc_consume = (\<lambda>k. case k of [] \<Rightarrow> (timed_out, []) | m # ms \<Rightarrow> (m, ms)),
     kc_commit = (\<lambda>k. (0, k)), kc_name = (\<lambda>_. ''consumer''), kc_err2str = (\<lambda>_. ''error''), kc_vararg = (\<lambda>i. i)\<rparr>"

definition sample_kreader :: "kmsg list kreader" where
  "sample_kreader = \<lparr>m_consumer = [\<lparr>k_err = 0, k_key = Some ''t1'', k_payload = ''one'', k_errstr = []\<rparr>,
     \<lparr>k_err = 0, k_key = Some ''t2'', k_payload = ''two'', k_errstr = []\<rparr>], m_logOffset = [], m_readOffSet = []\<rparr>"

definition sample_kreader_after :: "kmsg list kreader" where
  "sample_kreader_after = \<lparr>m_consumer = [], m_logOffset = [sample_tp\<lparr>tp_offset := 2\<rparr>],
     m_readOffSet = [sample_tp]\<rparr>"

definition sample_kreader_end :: "kmsg list kreader" where
  "sample_kreader_end = \<lparr>m_consumer = [], m_logOffset = [sample_tp\<lparr>tp_offset := 2\<rparr>],
     m_readOffSet = [sample_tp\<lparr>tp_offset := 2\<rparr>]\<rparr>"

definition sample_late :: "kmsg list" where
  "sample_late = [timed_out, \<lparr>k_err = 0, k_key = Some ''t1'', k_payload = ''one'', k_errstr = []\<rparr>]"

lemma sample_late_timed_out [simp]: "k_err timed_out = -185"
  by (simp add: timed_out_def kafka_codes)

text \<open>What the reader prints when it has got the watermark of the sample partition.\<close>

definition sample_said :: bytes where
  "sample_said = ''kafka: get watermark offset OK: node.db.binlog, 0:  2''"

lemma sample_fill:
  "fillOffset (sample_consumer 0) \<lparr>m_consumer = k, m_logOffset = [], m_readOffSet = rs\<rparr> =
     (0, sample_said, \<lparr>m_consumer = k, m_logOffset = [sample_tp\<lparr>tp_offset := 2\<rparr>], m_readOffSet = [sample_tp]\<rparr>)"
  by (simp add: fillOffset_def sample_consumer_def sample_said_def kafka_codes sample_tp_def pad_left_def
      int_dec_def nat_dec.simps digit_char_def char_of_def bit_Suc_0_iff cstr_def)

lemma sample_calls:
  "kc_consume (sample_consumer e) [] = (timed_out, [])"
  "kc_consume (sample_consumer e) (m # ms) = (m, ms)"
  "kc_position (sample_consumer e) ts k = ((ERR_NO_ERROR, map (tp_offset_update (\<lambda>_. 2)) ts), k)"
  by (simp_all add: sample_consumer_def kafka_codes)

lemma sample_read:
  "Read (sample_consumer 0) [''t2''] sample_kreader
     = Some (Ret (ERR_NO_ERROR, Some ''two''), sample_said, sample_kreader_after)"
  by (simp add: Read_def fill_if_empty_def sample_fill sample_kreader_def sample_kreader_after_def
      Read_loop.simps Read_pass_def sample_calls kafka_codes)

lemma sample_read_end:
  "Read (sample_consumer 0) [''none''] sample_kreader
     = Some (Ret (ERR__TIMED_OUT, None), sample_said, sample_kreader_end)"
  by (simp add: Read_def fill_if_empty_def sample_fill sample_kreader_def sample_kreader_end_def
      Read_loop.simps Read_pass_def sample_calls kafka_codes sample_tp_def)

lemma sample_args:
  obtains topic raw where "main_args [''binlogdumpK'', ''-n'', ''node'', ''-sdb'', ''-t'', ''a,,b''] = Go (topic, raw)"
    "tableName topic = [''a'', ''b'']" "nodeName topic = ''node''" "schemaName topic = ''db''"
    "suffix topic = ''.binlog''"
proof -
  have "main_args [''binlogdumpK'', ''-n'', ''node'', ''-sdb'', ''-t'', ''a,,b''] =
    Go (default_topic\<lparr>nodeName := ''node'', schemaName := ''db'', tableName := [''a'', ''b''],
      topicName := ''node.db.binlog''\<rparr>, False)"
    by (simp add: main_args_def GetInputArg_def optstring_def input_arg_def strndup_def cstr_def
        MAX_FILE_NAME_LEN_def StrSplit_comma default_topic_def)
  then show thesis by (rule that) (simp_all add: default_topic_def)
qed

end
