(* ===== verification/ReaderMachine.thy ===== *)
theory ReaderMachine
  imports MsgTransport
begin

text \<open>
  The life of a \<open>CMsgRW\<close> object as a state machine: after the constructor its public methods are
  called in any order and on any socket, whatever the kernel answers.  The states that can be
  reached this way keep the invariant of the class.
\<close>

section \<open>Sockets whose numbers are numbers of the kernel\<close>

definition sock_ok :: "sockst \<Rightarrow> bool" where
  "sock_ok st \<longleftrightarrow> proper (s_in st) \<and> (\<forall>e. SErr e \<in> set (s_out st) \<longrightarrow> int_range e) \<and> int_range (s_errno st)"

lemma recv_sock_ok: "recv want st = Some (r, d, st') \<Longrightarrow> sock_ok st \<Longrightarrow> sock_ok st'"
  by (auto simp: recv.simps sock_ok_def proper_def split: list.split_asm recv_event.split_asm if_split_asm)

lemma send_sock_ok: "send bs st = Some (r, st') \<Longrightarrow> sock_ok st \<Longrightarrow> sock_ok st'"
  by (auto simp: send.simps sock_ok_def split: list.split_asm send_event.split_asm)

text \<open>
  A property of the socket that every answer of the kernel keeps, and a property of the error
  buffer that stays true when \<open>GetSysErrorInfo\<close> writes into it.
\<close>

definition kernel_keeps :: "(sockst \<Rightarrow> bool) \<Rightarrow> bool" where
  "kernel_keeps Q \<longleftrightarrow>
     (\<forall>want st r d st'. recv want st = Some (r, d, st') \<longrightarrow> Q st \<longrightarrow> Q st') \<and>
     (\<forall>bs st r st'. send bs st = Some (r, st') \<longrightarrow> Q st \<longrightarrow> Q st')"

definition err_stable :: "(int \<Rightarrow> bytes) \<Rightarrow> (sockst \<Rightarrow> bool) \<Rightarrow> (bytes \<Rightarrow> bool) \<Rightarrow> bool" where
  "err_stable strerr Q P \<longleftrightarrow>
     (\<forall>err st. P err \<longrightarrow> Q st \<longrightarrow> P (overwrite err (GetSysErrorInfo strerr (s_errno st))))"

lemma kernel_keepsD:
  "kernel_keeps Q \<Longrightarrow> recv want st = Some (r, d, st') \<Longrightarrow> Q st \<Longrightarrow> Q st'"
  "kernel_keeps Q \<Longrightarrow> send bs st = Some (r, st') \<Longrightarrow> Q st \<Longrightarrow> Q st'"
  by (auto simp: kernel_keeps_def)

lemma err_stableD: "err_stable strerr Q P \<Longrightarrow> P err \<Longrightarrow> Q st \<Longrightarrow> P (overwrite err (GetSysErrorInfo strerr (s_errno st)))"
  by (auto simp: err_stable_def)

lemma kernel_keeps_sock_ok: "kernel_keeps sock_ok"
  unfolding kernel_keeps_def by (auto intro: recv_sock_ok send_sock_ok)

lemma kernel_keeps_closed: "kernel_keeps (\<lambda>st. s_closed st = X)"
  by (auto simp: kernel_keeps_def recv.simps send.simps
      split: list.split_asm recv_event.split_asm send_event.split_asm)

lemma SocketRead_loop_keeps:
  "SocketRead_loop strerr len got err st = Some (r, got', err', st') \<Longrightarrow> kernel_keeps Q \<Longrightarrow> Q st \<Longrightarrow>
   err_stable strerr Q P \<Longrightarrow> P err \<Longrightarrow> Q st' \<and> P err'"
proof (induction strerr len got err st rule: SocketRead_loop.induct)
  case (1 strerr len got err st)
  show ?case
  proof (cases "recv (nat (len - int (length got))) st")
    case None
    then show ?thesis using "1.prems" by (auto simp: SocketRead_loop.simps [of strerr len got err st] split: if_split_asm)
  next
    case (Some p)
    obtain n d st1 where p: "recv (nat (len - int (length got))) st = Some (n, d, st1)" using Some by (cases p) auto
    note ok1 = kernel_keepsD(1) [OF "1.prems"(2) p "1.prems"(3)]
    note e1 = err_stableD [OF "1.prems"(4,5) ok1]
    show ?thesis
      using "1.prems" "1.IH" [OF _ p refl] ok1 e1
      by (auto simp: SocketRead_loop.simps [of strerr len got err st] p split: if_split_asm)
  qed
qed

lemma SocketRead_keeps:
  "SocketRead strerr len err st = Some (r, got, err', st') \<Longrightarrow> kernel_keeps Q \<Longrightarrow> Q st \<Longrightarrow>
   err_stable strerr Q P \<Longrightarrow> P err \<Longrightarrow> Q st' \<and> P err'"
  unfolding SocketRead_def by (rule SocketRead_loop_keeps)

lemma SocketWrite_loop_keeps:
  "SocketWrite_loop strerr p len n err st = Some (r, err', st') \<Longrightarrow> kernel_keeps Q \<Longrightarrow> Q st \<Longrightarrow>
   err_stable strerr Q P \<Longrightarrow> P err \<Longrightarrow> Q st' \<and> P err'"
proof (induction strerr p len n err st rule: SocketWrite_loop.induct)
  case (1 strerr p len n err st)
  show ?case
  proof (cases "send (take (nat (len - int n)) (drop n p)) st")
    case None
    then show ?thesis using "1.prems" by (auto simp: SocketWrite_loop.simps [of strerr p len n err st] split: if_split_asm)
  next
    case (Some q)
    obtain k st1 where q: "send (take (nat (len - int n)) (drop n p)) st = Some (k, st1)" using Some by (cases q) auto
    note ok1 = kernel_keepsD(2) [OF "1.prems"(2) q "1.prems"(3)]
    note e1 = err_stableD [OF "1.prems"(4,5) ok1]
    show ?thesis
      using "1.prems" "1.IH" [OF _ q refl] ok1 e1
      by (auto simp: SocketWrite_loop.simps [of strerr p len n err st] q split: if_split_asm)
  qed
qed

lemma SendPacket_keeps:
  assumes "SendPacket strerr p len err st = Some (r, err', st')" and "kernel_keeps Q" and "Q st"
    and "err_stable strerr Q P" and "P err"
  shows "Q st' \<and> P err'"
  using assms SocketWrite_loop_keeps [where strerr = strerr and Q = Q and P = P]
  by (auto simp: SendPacket_def SocketWrite_def split: option.split_asm prod.split_asm if_split_asm)

section \<open>Calls that stay on the open descriptor\<close>

lemma SocketRead_closed_same: "SocketRead strerr len err st = Some (r, got, err', st') \<Longrightarrow> s_closed st' = s_closed st"
  using SocketRead_keeps [OF _ kernel_keeps_closed [of "s_closed st"], where P = "\<lambda>_. True"]
  by (simp add: err_stable_def)

lemma SendPacket_closed_same: "SendPacket strerr p len err st = Some (r, err', st') \<Longrightarrow> s_closed st' = s_closed st"
  using SendPacket_keeps [OF _ kernel_keeps_closed [of "s_closed st"], where P = "\<lambda>_. True"]
  by (auto simp: err_stable_def)

lemma MsgRW_SendPacket_closed:
  "MsgRW_SendPacket C p len rw st = Ret (r, rw', st') \<Longrightarrow> s_closed st' = s_closed st"
  by (cases "SendPacket (c_strerror C) p len (m_errbuf rw) st")
    (auto simp: MsgRW_SendPacket_def dest: SendPacket_closed_same)

lemma read_payload_closed:
  "read_payload C len rw st = Ret (r, rw', st') \<Longrightarrow> s_closed st' = s_closed st"
  by (cases "SocketRead (c_strerror C) len (m_errbuf rw) st")
    (auto simp: read_payload_def Let_def dest: SocketRead_closed_same split: if_split_asm)

lemma MsgRW_ReadPacket_closed:
  assumes "MsgRW_ReadPacket C rw st = Ret (r, rw', st')"
  shows "s_closed st' = s_closed st"
proof -
  obtain k hdr err st1 where sr: "SocketRead (c_strerror C) 4 (m_errbuf (Clear False rw)) st = Some (k, hdr, err, st1)"
    using assms by (cases "SocketRead (c_strerror C) 4 (m_errbuf (Clear False rw)) st") (auto simp: MsgRW_ReadPacket_def)
  have "st' = st1 \<or> (\<exists>len rw1. read_payload C len rw1 st1 = Ret (r, rw', st'))"
    using assms by (auto simp: MsgRW_ReadPacket_def sr Let_def split: if_split_asm)
  then show ?thesis using SocketRead_closed_same [OF sr] read_payload_closed by auto
qed

section \<open>The invariant\<close>

text \<open>
  The error buffer holds a NUL, so that \<open>GetErrMsg\<close> hands out a C string; this needs error texts
  of the C library that leave room for \<open>strncpy\<close> to pad.
\<close>

definition texts_short :: "cenv \<Rightarrow> bool" where
  "texts_short C \<longleftrightarrow> (\<forall>e. length (cstr (c_strerror C e)) < 299)"

definition err_ok :: "bytes \<Rightarrow> bool" where
  "err_ok err \<longleftrightarrow> length err = 514 \<and> CHR 0x00 \<in> set err"

text \<open>
  What a run of heap calls leaves, when it holds one buffer at most: a second \<open>New\<close> loses a
  buffer, a second \<open>Delete\<close> frees one twice, and both are no result.
\<close>

fun heap_run :: "heap_call list \<Rightarrow> nat option \<Rightarrow> nat option option" where
  "heap_run [] live = Some live"
| "heap_run (New n # cs) None = heap_run cs (Some n)"
| "heap_run (New n # cs) (Some m) = None"
| "heap_run (Delete n # cs) None = None"
| "heap_run (Delete n # cs) (Some m) = (if n = m then heap_run cs None else None)"

lemma heap_run_append:
  "heap_run (cs @ ds) live = (case heap_run cs live of None \<Rightarrow> None | Some l \<Rightarrow> heap_run ds l)"
  by (induction cs live rule: heap_run.induct) auto

text \<open>The buffer the calls have left is the one \<open>m_msgbuf\<close> points to.\<close>

definition heap_ok :: "msgrw \<Rightarrow> bool" where
  "heap_ok rw \<longleftrightarrow> heap_run (m_heap_calls rw) None = Some (map_option length (m_heap rw))"

lemma heap_ok_frame:
  "m_heap_calls rw' = m_heap_calls rw \<Longrightarrow> map_option length (m_heap rw') = map_option length (m_heap rw) \<Longrightarrow>
   heap_ok rw' \<longleftrightarrow> heap_ok rw"
  by (simp add: heap_ok_def)

lemma heap_ok_simps [simp]:
  "heap_ok (set_err s rw) \<longleftrightarrow> heap_ok rw" "heap_ok (rw\<lparr>m_errbuf := e\<rparr>) \<longleftrightarrow> heap_ok rw"
  "heap_ok (rw\<lparr>m_lenmsg := n\<rparr>) \<longleftrightarrow> heap_ok rw"
  by (simp_all add: heap_ok_def set_err_def)

lemma heap_ok_set_msgbuf: "length mem = length (m_msgbuf rw) \<Longrightarrow> heap_ok (set_msgbuf mem rw) \<longleftrightarrow> heap_ok rw"
  by (auto simp: heap_ok_def set_msgbuf_def m_msgbuf_def split: option.splits)

lemma heap_ok_Clear: "heap_ok rw \<Longrightarrow> heap_ok (Clear b rw)"
  by (auto simp: heap_ok_def Clear_def Let_def heap_run_append delete_heap_def split: option.splits)

lemma heap_ok_grow: "heap_ok rw \<Longrightarrow> rw_ok rw \<Longrightarrow> env_ok C \<Longrightarrow> heap_ok (grow C len rw)"
  by (auto simp: heap_ok_def grow_def heap_run_append delete_heap_def rw_ok_def env_ok_def split: option.splits)

lemma heap_ok_destroy: "heap_ok rw \<Longrightarrow> rw_ok rw \<Longrightarrow> heap_run (m_heap_calls (CMsgRW_destroy rw)) None = Some None"
  by (auto simp: heap_ok_def CMsgRW_destroy_def heap_run_append delete_heap_def rw_ok_def split: option.splits)

definition rw_inv :: "msgrw \<times> sockst \<Rightarrow> bool" where
  "rw_inv s \<longleftrightarrow> rw_ok (fst s) \<and> err_ok (m_errbuf (fst s)) \<and> sock_ok (snd s) \<and> heap_ok (fst s)"

lemma rw_invD:
  "rw_inv (rw, st) \<Longrightarrow> rw_ok rw \<and> err_ok (m_errbuf rw) \<and> sock_ok st \<and> proper (s_in st) \<and> heap_ok rw"
  by (simp add: rw_inv_def sock_ok_def)

lemma err_stable_ok: "texts_short C \<Longrightarrow> err_stable (c_strerror C) sock_ok err_ok"
proof -
  assume s: "texts_short C"
  have "CHR 0x00 \<in> set (GetSysErrorInfo (c_strerror C) e)" for e
    using s by (simp add: texts_short_def GetSysErrorInfo_def strncpy_bytes_def SYS_ERRMSG_MAX_SIZE_def Let_def
        not_le less_imp_le)
  then show ?thesis
    by (auto simp: err_stable_def err_ok_def sock_ok_def length_overwrite_errinfo) (auto simp: overwrite_def)
qed

lemma err_ok_snprintf: "err_ok err \<Longrightarrow> err_ok (snprintf_at err LEN_ERR_MSG s)"
  by (simp add: err_ok_def length_snprintf LEN_ERR_MSG_def) (simp add: snprintf_at_def overwrite_def)

lemma set_err_inv: "rw_inv (rw, st) \<Longrightarrow> rw_inv (set_err s rw, st)"
  by (auto simp: rw_inv_def set_err_ok) (simp add: set_err_def err_ok_snprintf)

lemma Clear_inv: "rw_inv (rw, st) \<Longrightarrow> rw_inv (Clear b rw, st)"
  by (auto simp: rw_inv_def Clear_ok heap_ok_Clear) (auto simp: Clear_def err_ok_def Let_def set_update_memI)

lemma CMsgRW_inv: "env_ok C \<Longrightarrow> sock_ok st \<Longrightarrow> rw_inv (CMsgRW C, st)"
  by (auto simp: rw_inv_def CMsgRW_ok) (auto simp: CMsgRW_def err_ok_def env_ok_def heap_ok_def set_update_memI)

lemma heap_ok_read_payload:
  "read_payload C len rw st = Ret (r, rw', st') \<Longrightarrow> heap_ok rw \<Longrightarrow> heap_ok rw'"
  by (cases "SocketRead (c_strerror C) len (m_errbuf rw) st")
    (auto simp: read_payload_def Let_def heap_ok_set_msgbuf length_overwrite split: if_split_asm)

lemma heap_ok_ReadPacket:
  assumes "MsgRW_ReadPacket C rw st = Ret (r, rw', st')" and "heap_ok rw" and "rw_ok rw" and "env_ok C" and "sock_ok st"
  shows "heap_ok rw'"
proof -
  obtain k hdr err st1 where sr: "SocketRead (c_strerror C) 4 (m_errbuf (Clear False rw)) st = Some (k, hdr, err, st1)"
    using assms(1) by (cases "SocketRead (c_strerror C) 4 (m_errbuf (Clear False rw)) st")
      (auto simp: MsgRW_ReadPacket_def)
  define rw1 where "rw1 = (Clear False rw)\<lparr>m_errbuf := err\<rparr>"
  have "length err = 514"
    using SocketRead_results(4) [OF sr] assms(5) Clear_ok [OF assms(3), of False]
    by (auto simp: sock_ok_def rw_ok_def length_overwrite_errinfo)
  then have ok: "rw_ok rw1" "heap_ok rw1"
    using errbuf_ok [OF Clear_ok [OF assms(3)]] heap_ok_Clear [OF assms(2)] by (simp_all add: rw1_def)
  have "rw' = rw1 \<or> (\<exists>s. rw' = set_err s rw1) \<or> (\<exists>len. read_payload C len (grow C len rw1) st1 = Ret (r, rw', st'))"
    using assms(1) by (auto simp: MsgRW_ReadPacket_def sr Let_def rw1_def [symmetric] split: if_split_asm)
  then show ?thesis
    using ok heap_ok_read_payload [OF _ heap_ok_grow [OF ok(2,1) assms(4)]] by auto
qed

lemma MsgRW_ReadPacket_inv:
  assumes "MsgRW_ReadPacket C rw st = Ret (r, rw', st')" and "rw_inv (rw, st)" and "env_ok C" and "texts_short C"
  shows "rw_inv (rw', st')"
proof -
  note i = rw_invD [OF assms(2)]
  note stable = err_stable_ok [OF assms(4)]
  have e0: "err_ok (m_errbuf (Clear False rw))" using Clear_inv [OF assms(2)] by (simp add: rw_inv_def)
  have grow: "m_errbuf (grow C len rw1) = m_errbuf rw1" for len rw1 by (simp add: grow_def)
  have keep: "sock_ok st1 \<and> err_ok err" if "SocketRead (c_strerror C) n e0 st0 = Some (k, got, err, st1)"
    "sock_ok st0" "err_ok e0" for n e0 st0 k got err st1
    using SocketRead_keeps [OF that(1) kernel_keeps_sock_ok that(2) stable that(3)] .
  have payload: "sock_ok st2 \<and> err_ok (m_errbuf rw2)"
    if p: "read_payload C len rw1 st1 = Ret (r2, rw2, st2)" "sock_ok st1" "err_ok (m_errbuf rw1)" for len rw1 st1 r2 rw2 st2
  proof -
    obtain k got err st3 where sr: "SocketRead (c_strerror C) len (m_errbuf rw1) st1 = Some (k, got, err, st3)"
      using p(1) by (cases "SocketRead (c_strerror C) len (m_errbuf rw1) st1") (auto simp: read_payload_def)
    then show ?thesis
      using p(1) keep [OF sr p(2,3)]
      by (auto simp: read_payload_def Let_def set_err_def err_ok_snprintf split: if_split_asm)
  qed
  obtain k hdr err st1 where sr: "SocketRead (c_strerror C) 4 (m_errbuf (Clear False rw)) st = Some (k, hdr, err, st1)"
    using assms(1) by (cases "SocketRead (c_strerror C) 4 (m_errbuf (Clear False rw)) st")
      (auto simp: MsgRW_ReadPacket_def)
  have "sock_ok st' \<and> err_ok (m_errbuf rw')"
    using assms(1) keep [OF sr _ e0] i sr payload grow
    by (auto simp: MsgRW_ReadPacket_def Let_def set_err_def err_ok_snprintf split: if_split_asm)
  moreover have "rw_ok rw'" using ReadPacket_ok [OF assms(1)] i assms(3) by blast
  moreover have "heap_ok rw'" using heap_ok_ReadPacket [OF assms(1)] i assms(3) by blast
  ultimately show ?thesis by (simp add: rw_inv_def)
qed

lemma MsgRW_SendPacket_inv:
  assumes "MsgRW_SendPacket C pkg len rw st = Ret (r, rw', st')" and "rw_inv (rw, st)" and "texts_short C"
  shows "rw_inv (rw', st')"
proof -
  note i = rw_invD [OF assms(2)]
  obtain err where sp: "SendPacket (c_strerror C) pkg len (m_errbuf rw) st = Some (r, err, st')"
    and rw': "rw' = rw\<lparr>m_errbuf := err\<rparr>"
    using assms(1) by (cases "SendPacket (c_strerror C) pkg len (m_errbuf rw) st") (auto simp: MsgRW_SendPacket_def)
  have "sock_ok st' \<and> err_ok err"
    using SendPacket_keeps [OF sp kernel_keeps_sock_ok _ err_stable_ok [OF assms(3)]] i by blast
  then show ?thesis using i errbuf_ok by (auto simp: rw_inv_def rw' err_ok_def)
qed

section \<open>The methods as steps\<close>

text \<open>
  \<open>SendPacket\<close> takes a length within what its pointer points to; the other methods pass lengths
  of strings of their own.
\<close>

inductive rw_step :: "cenv \<Rightarrow> wirelib \<Rightarrow> msgrw \<times> sockst \<Rightarrow> msgrw \<times> sockst \<Rightarrow> bool" for C W where
  clear: "rw_step C W (rw, st) (Clear b rw, st)"
| read_packet: "MsgRW_ReadPacket C rw st = Ret (r, rw', st') \<Longrightarrow> rw_step C W (rw, st) (rw', st')"
| send_packet: "len \<le> int (length pkg) \<Longrightarrow> MsgRW_SendPacket C pkg len rw st = Ret (r, rw', st') \<Longrightarrow>
    rw_step C W (rw, st) (rw', st')"
| parse_header: "ParseMsgHeader W h rw = (r, h', rw') \<Longrightarrow> rw_step C W (rw, st) (rw', st)"
| parse_command: "ParseCommand W c rw = (r, c', rw') \<Longrightarrow> rw_step C W (rw, st) (rw', st)"
| parse_result: "ParseResult W m rw = (r, m', rw') \<Longrightarrow> rw_step C W (rw, st) (rw', st)"
| read_command: "ReadCommand C W c rw st = Ret (r, c', rw', st') \<Longrightarrow> rw_step C W (rw, st) (rw', st')"
| read_result: "ReadResult C W m rw st = Ret (r, m', rw', st') \<Longrightarrow> rw_step C W (rw, st) (rw', st')"
| reply: "ReplyResult C W rc msg rw st = Ret (r, rw', st') \<Longrightarrow> rw_step C W (rw, st) (rw', st')"
| reply_apd: "ReplyResult_apd C W rc msg kvs rw st = Ret (r, rw', st') \<Longrightarrow> rw_step C W (rw, st) (rw', st')"
| reply_err: "ReplyErr C W msg rw st = Ret (r, rw', st') \<Longrightarrow> rw_step C W (rw, st) (rw', st')"
| reply_ok: "ReplyOK C W msg rw st = Ret (r, rw', st') \<Longrightarrow> rw_step C W (rw, st) (rw', st')"
| exec: "ExecCmdResult C W c m rw st = Ret (r, m', rw', st') \<Longrightarrow> rw_step C W (rw, st) (rw', st')"

inductive rw_reach :: "cenv \<Rightarrow> wirelib \<Rightarrow> msgrw \<times> sockst \<Rightarrow> bool" for C W where
  start: "sock_ok st \<Longrightarrow> rw_reach C W (CMsgRW C, st)"
| step: "rw_reach C W s \<Longrightarrow> rw_step C W s s' \<Longrightarrow> rw_reach C W s'"

lemma parse_inv:
  "ParseMsgHeader W h rw = (r, h', rw') \<Longrightarrow> rw_inv (rw, st) \<Longrightarrow> rw_inv (rw', st)"
  "ParseCommand W c rw = (r, c', rw') \<Longrightarrow> rw_inv (rw, st) \<Longrightarrow> rw_inv (rw', st)"
  "ParseResult W m rw = (r, m', rw') \<Longrightarrow> rw_inv (rw, st) \<Longrightarrow> rw_inv (rw', st)"
  by (auto simp: ParseMsgHeader_def ParseCommand_def ParseResult_def set_err_inv split: if_split_asm option.split_asm)

text \<open>What a read of a message adds to the read of its packet is at most an error text.\<close>

lemma ReadCommand_packet:
  assumes "ReadCommand C W c rw st = Ret (r, c', rw', st')"
  shows "\<exists>n rw1. MsgRW_ReadPacket C rw st = Ret (n, rw1, st') \<and> (rw' = rw1 \<or> (\<exists>s. rw' = set_err s rw1))"
  using assms by (cases "MsgRW_ReadPacket C rw st")
    (auto simp: ReadCommand_def split: if_split_asm option.split_asm)

lemma ReadResult_packet:
  assumes "ReadResult C W m rw st = Ret (r, m', rw', st')"
  shows "\<exists>n rw1. MsgRW_ReadPacket C rw st = Ret (n, rw1, st') \<and> (rw' = rw1 \<or> (\<exists>s. rw' = set_err s rw1))"
  using assms by (cases "MsgRW_ReadPacket C rw st")
    (auto simp: ReadResult_def split: if_split_asm option.split_asm)

lemma pack_and_send_packet:
  assumes "pack_and_send C W m rw st = Ret (r, rw', st')"
  shows "(\<exists>s. rw' = set_err s rw) \<and> st' = st \<or> (\<exists>pkg len n. MsgRW_SendPacket C pkg len rw st = Ret (n, rw', st'))"
proof (cases "SerializeToString W (MsgResult_ByteSize W) (MsgResult_SerializeToArray W) m")
  case None
  then show ?thesis using assms by (auto simp: pack_and_send_def)
next
  case (Some pkg)
  then show ?thesis
    using assms by (cases "MsgRW_SendPacket C pkg (int_of_size (length pkg)) rw st")
      (auto simp: pack_and_send_def split: if_split_asm)
qed

lemma read_message_inv:
  assumes "MsgRW_ReadPacket C rw st = Ret (n, rw1, st')" and "rw' = rw1 \<or> (\<exists>s. rw' = set_err s rw1)"
    and "rw_inv (rw, st)" and "env_ok C" and "texts_short C"
  shows "rw_inv (rw', st')"
  using MsgRW_ReadPacket_inv [OF assms(1,3-5)] assms(2) set_err_inv by blast

lemma pack_and_send_inv:
  assumes "pack_and_send C W m rw st = Ret (r, rw', st')" and "rw_inv (rw, st)" and "texts_short C"
  shows "rw_inv (rw', st')"
  using pack_and_send_packet [OF assms(1)] set_err_inv [OF assms(2)] MsgRW_SendPacket_inv [OF _ assms(2,3)] by blast

lemma ExecCmdResult_inv:
  assumes "ExecCmdResult C W c m rw st = Ret (r, m', rw', st')" and "rw_inv (rw, st)" and "env_ok C" and "texts_short C"
  shows "rw_inv (rw', st')"
proof (cases "SerializeToString W (MsgCmd_ByteSize W) (MsgCmd_SerializeToArray W) c")
  case None
  then show ?thesis using assms(1) set_err_inv [OF assms(2)] by (auto simp: ExecCmdResult_def)
next
  case (Some pkg)
  then obtain n rw1 st1 where s: "MsgRW_SendPacket C pkg (int_of_size (length pkg)) rw st = Ret (n, rw1, st1)"
    using assms(1) by (cases "MsgRW_SendPacket C pkg (int_of_size (length pkg)) rw st") (auto simp: ExecCmdResult_def)
  note i1 = MsgRW_SendPacket_inv [OF s assms(2,4)]
  show ?thesis
  proof (cases "n \<le> 0")
    case True
    then show ?thesis using assms(1) Some s i1 by (simp add: ExecCmdResult_def)
  next
    case False
    then have "ReadResult C W m rw1 st1 = Ret (r, m', rw', st')"
      using assms(1) Some s by (simp add: ExecCmdResult_def)
    from ReadResult_packet [OF this] read_message_inv [OF _ _ i1 assms(3,4)] show ?thesis by blast
  qed
qed

lemma read_command_inv:
  "ReadCommand C W c rw st = Ret (r, c', rw', st') \<Longrightarrow> rw_inv (rw, st) \<Longrightarrow> env_ok C \<Longrightarrow> texts_short C \<Longrightarrow>
   rw_inv (rw', st')"
  using ReadCommand_packet read_message_inv by blast

lemma read_result_inv:
  "ReadResult C W m rw st = Ret (r, m', rw', st') \<Longrightarrow> rw_inv (rw, st) \<Longrightarrow> env_ok C \<Longrightarrow> texts_short C \<Longrightarrow>
   rw_inv (rw', st')"
  using ReadResult_packet read_message_inv by blast

lemmas rw_invs = Clear_inv MsgRW_ReadPacket_inv MsgRW_SendPacket_inv parse_inv read_command_inv read_result_inv
  pack_and_send_inv ExecCmdResult_inv

lemma rw_step_inv:
  "rw_step C W s s' \<Longrightarrow> rw_inv s \<Longrightarrow> env_ok C \<Longrightarrow> texts_short C \<Longrightarrow> rw_inv s'"
  by (induction rule: rw_step.induct)
    (auto simp: ReplyResult_def ReplyResult_apd_def ReplyErr_def ReplyOK_def Let_def elim: rw_invs)

theorem rw_reach_inv: "rw_reach C W s \<Longrightarrow> env_ok C \<Longrightarrow> texts_short C \<Longrightarrow> rw_inv s"
  by (induction rule: rw_reach.induct) (auto intro: CMsgRW_inv rw_step_inv)

section \<open>What the invariant says of the buffers\<close>

lemma rw_ok_sizes:
  "rw_ok rw \<Longrightarrow> length (m_msgbuf rw) \<le> 1048578 \<and> m_lenmsg rw < length (m_msgbuf rw) \<and>
   (0 < m_lenmsg rw \<longrightarrow> m_msgbuf rw ! m_lenmsg rw = CHR 0x00)"
  by (auto simp: rw_ok_def m_msgbuf_def split: option.splits)

text \<open>A write outside the buffer needs a buffer that an earlier message has made larger.\<close>

lemma ReadPacket_overflow_heap:
  assumes "MsgRW_ReadPacket C rw st = Overflow" and "rw_ok rw" and "env_ok C" and "proper (s_in st)"
  shows "m_heap rw \<noteq> None \<and> 1026 < m_lenbuf rw"
proof -
  obtain len where "one_past (Clear False rw) len" using ReadPacket_overflowD [OF assms] by blast
  then have "1024 < m_lenbuf rw" by (auto simp: one_past_def LEN_ADM_PKG_def)
  then show ?thesis using assms(2) by (auto simp: rw_ok_def split: option.splits)
qed

end
