(* ===== verification/Session.thy ===== *)
theory Session
  imports Qdcadm ReaderMachine
begin

text \<open>
  The two ends of a connection together: what \<open>qdcadm\<close> leaves of its descriptor, and a session in
  which the client meets a server that is built of the methods of \<open>CMsgRW\<close>.
\<close>

section \<open>The descriptor of the client\<close>

lemma ReadResult_closed:
  "ReadResult C W m rw st = Ret (r, m', rw', st') \<Longrightarrow> s_closed st' = s_closed st"
  by (metis ReadResult_packet MsgRW_ReadPacket_closed)

lemma ExecCmdResult_closed:
  assumes "ExecCmdResult C W c m rw st = Ret (r, m', rw', st')"
  shows "s_closed st' = s_closed st"
proof (cases "SerializeToString W (MsgCmd_ByteSize W) (MsgCmd_SerializeToArray W) c")
  case None
  then show ?thesis using assms by (simp add: ExecCmdResult_def)
next
  case (Some pkg)
  then obtain n rw1 st1 where s: "MsgRW_SendPacket C pkg (int_of_size (length pkg)) rw st = Ret (n, rw1, st1)"
    using assms by (cases "MsgRW_SendPacket C pkg (int_of_size (length pkg)) rw st") (auto simp: ExecCmdResult_def)
  have "st' = st1 \<or> ReadResult C W m rw1 st1 = Ret (r, m', rw', st')"
    using assms Some s by (auto simp: ExecCmdResult_def split: if_split_asm)
  then show ?thesis using MsgRW_SendPacket_closed [OF s] ReadResult_closed by auto
qed

text \<open>What the calls leave of the client: its descriptor and what it has closed.\<close>

definition same_conn :: "admclient \<times> sockst \<Rightarrow> admclient \<times> sockst \<Rightarrow> bool" where
  "same_conn s s' \<longleftrightarrow> m_sock (fst s') = m_sock (fst s) \<and> cl_closed (fst s') = cl_closed (fst s) \<and>
     s_closed (snd s') = s_closed (snd s)"

lemma same_connI: "s_closed st' = s_closed st \<Longrightarrow> same_conn (cl, st) (cl, st')"
  "s_closed st' = s_closed st \<Longrightarrow> same_conn (cl, st) (set_m_err s cl, st')"
  by (simp_all add: same_conn_def set_m_err_def)

lemma same_conn_trans: "same_conn a b \<Longrightarrow> same_conn b c \<Longrightarrow> same_conn a c"
  by (simp add: same_conn_def)

lemma Login_same_conn:
  assumes "Login C W cl st = Ret (rc, cl', st')"
  shows "same_conn (cl, st) (cl', st')"
proof (cases "IsConnected cl")
  case False
  then show ?thesis using assms by (auto simp: Login_def same_connI)
next
  case True
  define m where "m = command_message CMD_LOGIN [(''password'', m_pwd cl)]"
  obtain r0 res rw st0 where ex: "ExecCmdResult C W m MsgResult_SharedCtor (CMsgRW C) st = Ret (r0, res, rw, st0)"
    using assms True by (cases "ExecCmdResult C W m MsgResult_SharedCtor (CMsgRW C) st") (auto simp: Login_def m_def)
  have "st' = st0 \<and> (cl' = cl \<or> (\<exists>s. cl' = set_m_err s cl))"
    using assms True ex by (auto simp: Login_def m_def [symmetric] split: if_split_asm option.split_asm)
  then show ?thesis using ExecCmdResult_closed [OF ex] same_connI by auto
qed

lemma SendCommand_same_conn:
  assumes "SendCommand C W cmd params cl st = Ret (rc, cl', st')"
  shows "same_conn (cl, st) (cl', st')"
proof -
  obtain r0 cl1 st1 where lg: "Login C W cl st = Ret (r0, cl1, st1)"
    using assms by (cases "Login C W cl st") (auto simp: SendCommand_def)
  note same = Login_same_conn [OF lg]
  show ?thesis
  proof (cases "r0 \<noteq> 0 \<or> SerializeToString W (MsgCmd_ByteSize W) (MsgCmd_SerializeToArray W) (command_message cmd params) = None")
    case True
    then have "st' = st1 \<and> (cl' = cl1 \<or> (\<exists>s. cl' = set_m_err s cl1))"
      using assms lg by (auto simp: SendCommand_def split: if_split_asm)
    then have "same_conn (cl1, st1) (cl', st')" using same_connI by auto
    then show ?thesis using same same_conn_trans by blast
  next
    case False
    then obtain pkg where p: "SerializeToString W (MsgCmd_ByteSize W) (MsgCmd_SerializeToArray W)
        (command_message cmd params) = Some pkg" "r0 = 0" by auto
    then obtain n rw st2 where s: "MsgRW_SendPacket C pkg (int_of_size (length pkg)) (CMsgRW C) st1 = Ret (n, rw, st2)"
      using assms lg by (cases "MsgRW_SendPacket C pkg (int_of_size (length pkg)) (CMsgRW C) st1")
        (auto simp: SendCommand_def)
    have "st' = st2 \<and> cl' = cl1" using assms lg p s by (auto simp: SendCommand_def split: if_split_asm)
    then have "same_conn (cl1, st1) (cl', st')" using MsgRW_SendPacket_closed [OF s] same_connI by auto
    then show ?thesis using same same_conn_trans by blast
  qed
qed

lemma SetTimeout_same_conn: "same_conn (cl, st) (snd (SetTimeout N s cl), st)"
  by (simp add: same_conn_def SetTimeout_def)

lemma body_same_conn:
  assumes "ExecuteCommand_body C W fmt S timeoutS cmd params ses = Ret (r, out, ses', st')"
  shows "same_conn (ses, ses_sock S) (ses', st')"
proof (cases "GetSock ses < 0")
  case True
  then show ?thesis using assms by (auto simp: ExecuteCommand_body_def same_connI)
next
  case False
  define ses1 where "ses1 = (if 0 < timeoutS then snd (SetTimeout (ses_net S) timeoutS ses) else ses)"
  have s1: "same_conn (ses, ses_sock S) (ses1, ses_sock S)"
    using SetTimeout_same_conn by (simp add: ses1_def same_connI)
  obtain rc ses2 st1 where sc: "SendCommand C W cmd params ses1 (ses_sock S) = Ret (rc, ses2, st1)"
    using assms False by (cases "SendCommand C W cmd params ses1 (ses_sock S)")
      (auto simp: ExecuteCommand_body_def ses1_def [symmetric])
  note s2 = same_conn_trans [OF s1 SendCommand_same_conn [OF sc]]
  show ?thesis
  proof (cases "rc = 0")
    case False
    then show ?thesis using assms \<open>\<not> GetSock ses < 0\<close> sc s2
      by (auto simp: ExecuteCommand_body_def ses1_def [symmetric])
  next
    case True
    obtain n rw st2 where rp: "MsgRW_ReadPacket C (CMsgRW C) st1 = Ret (n, rw, st2)"
      using assms \<open>\<not> GetSock ses < 0\<close> sc True by (cases "MsgRW_ReadPacket C (CMsgRW C) st1")
        (auto simp: ExecuteCommand_body_def ses1_def [symmetric])
    have "ses' = ses2 \<and> st' = st2"
    proof (cases "n \<le> 0")
      case True
      then show ?thesis using assms \<open>\<not> GetSock ses < 0\<close> sc \<open>rc = 0\<close> rp
        by (simp add: ExecuteCommand_body_def ses1_def [symmetric])
    next
      case False
      then show ?thesis using assms \<open>\<not> GetSock ses < 0\<close> sc \<open>rc = 0\<close> rp
        by (cases "handle_packet W fmt (ses_now S) cmd rw")
          (simp add: ExecuteCommand_body_def ses1_def [symmetric])
    qed
    then show ?thesis
      using same_conn_trans [OF s2 same_connI(1) [OF MsgRW_ReadPacket_closed [OF rp]]] by simp
  qed
qed

text \<open>From the constructor to the destructor: nothing was opened, or it is closed exactly once.\<close>

lemma CAdmClient_closes:
  "cl_closed (CAdmClient strerr N eb host port pwd) @ CAdmClient_destroy (CAdmClient strerr N eb host port pwd)
     = (if sys_inet_addr N (cstr host) = INADDR_NONE \<or> fst (sys_socket N) < 0 then []
        else CloseSocket (fst (sys_socket N)))"
  by (auto simp: CAdmClient_def CAdmClient_destroy_def set_m_err_def Let_def split: prod.splits)

lemma destroy_same_conn: "same_conn (cl, st) (cl', st') \<Longrightarrow>
    cl_closed cl' = cl_closed cl \<and> CAdmClient_destroy cl' = CAdmClient_destroy cl \<and> s_closed st' = s_closed st"
  by (simp add: same_conn_def CAdmClient_destroy_def)

lemma ExecuteCommand_closes:
  assumes "ExecuteCommand C W fmt S ip port pwd timeoutS cmd params = Ret (r, out, st')"
  shows "s_closed st' = s_closed (ses_sock S) @
    (if sys_inet_addr (ses_net S) (cstr ip) = INADDR_NONE \<or> fst (sys_socket (ses_net S)) < 0 then []
     else CloseSocket (fst (sys_socket (ses_net S))))"
proof -
  define ses where "ses = CAdmClient (c_strerror C) (ses_net S) (ses_err S) ip port pwd"
  obtain ses' st1 where b: "ExecuteCommand_body C W fmt S timeoutS cmd params ses = Ret (r, out, ses', st1)"
    and st': "st' = close_client ses' st1"
    using assms by (cases "ExecuteCommand_body C W fmt S timeoutS cmd params ses")
      (auto simp: ExecuteCommand_def ses_def [symmetric])
  have "s_closed st' = s_closed (ses_sock S) @ cl_closed ses @ CAdmClient_destroy ses"
    using destroy_same_conn [OF body_same_conn [OF b]] by (simp add: st' close_client_def)
  then show ?thesis by (simp only: ses_def CAdmClient_closes)
qed

section \<open>A session of both sides\<close>

lemma ReadCommand_lenbuf:
  assumes rc: "ReadCommand C W c rw st = Ret (r, c', rw', st')" and a: "arrives C rw st F rest"
  shows "m_lenbuf rw' = (if 1024 < length F \<and> m_lenbuf rw < length F then length F + 2 else m_lenbuf rw)"
proof -
  obtain n rw1 where r: "MsgRW_ReadPacket C rw st = Ret (n, rw1, st')"
    and e: "rw' = rw1 \<or> (\<exists>s. rw' = set_err s rw1)"
    using ReadCommand_packet [OF rc] by blast
  have "m_lenbuf rw1 = (if 1024 < length F \<and> m_lenbuf rw < length F then length F + 2 else m_lenbuf rw)"
    using a ReadPacket_received [where C = C and rw = rw and st = st and payload = F and rest = rest] r
    by (auto simp: arrives_def)
  then show ?thesis using e by (auto simp: set_err_def)
qed

lemma new_arrives:
  "env_ok C \<Longrightarrow> proper (s_in st) \<Longrightarrow> avail (s_in st) = packet F @ rest \<Longrightarrow> F \<noteq> [] \<Longrightarrow>
   int (length F) \<le> MAX_ADM_PKG \<Longrightarrow> arrives C (CMsgRW C) st F rest"
  by (auto simp: arrives_def CMsgRW_ok) (simp add: one_past_def CMsgRW_def LEN_ADM_PKG_def)

text \<open>After a first packet \<open>F\<close> a new reader takes any packet but one two bytes longer.\<close>

definition second_fits :: "bytes \<Rightarrow> bytes \<Rightarrow> bool" where
  "second_fits F G \<longleftrightarrow> 1024 < length F \<longrightarrow> length G \<noteq> length F + 2"

context wire_format
begin

lemma reads_command:
  assumes h: "header_ok W" and c: "text_ok W cmd" "pairs_ok W kvs"
    and a: "arrives C rw st (MsgCmd_Serialize W (command_message cmd kvs)) rest"
  shows "\<exists>rw' st'. ReadCommand C W c0 rw st = Ret (0, Some (command_message cmd kvs), rw', st') \<and>
    rw_ok rw' \<and> proper (s_in st') \<and> avail (s_in st') = rest \<and> same_out st st'"
  using ReadCommand_sent [OF command_message_valid [OF h c] _ a, of "MakeMsgHdr MsgType_Command" c0]
  by (auto simp: command_message_eq)

lemma replies:
  assumes h: "header_ok W" and c: "text_ok W rc" "text_ok W msg" "pairs_ok W kvs"
    and len: "int (length (MsgResult_Serialize W (result_with rc msg kvs))) \<le> MAX_ADM_PKG"
    and out: "lets_packet (length (MsgResult_Serialize W (result_with rc msg kvs))) (s_out st) evs"
  shows "\<exists>st'. pack_and_send C W (result_with rc msg kvs) rw st = Ret (0, rw, st') \<and>
    sends st (packet (MsgResult_Serialize W (result_with rc msg kvs))) st' \<and> s_out st' = evs"
  by (rule pack_and_send_sends [OF result_with_valid [OF h c] _ out]) (use len in \<open>simp add: len_ok_def MAX_ADM_PKG_def\<close>)

lemma server_serves:
  assumes h: "header_ok W" and l: "text_ok W CMD_LOGIN" "pairs_ok W [(''password'', pwd)]"
    and c: "text_ok W cmd" "pairs_ok W params"
    and F: "F = MsgCmd_Serialize W (command_message CMD_LOGIN [(''password'', pwd)])" "int (length F) \<le> MAX_ADM_PKG"
    and G: "G = MsgCmd_Serialize W (command_message cmd params)" "int (length G) \<le> MAX_ADM_PKG" "second_fits F G"
    and r: "text_ok W RC_OK" "text_ok W hello" "text_ok W rc" "text_ok W msg" "pairs_ok W kvs"
    and R1: "R1 = MsgResult_Serialize W (result_with RC_OK hello [])" "int (length R1) \<le> MAX_ADM_PKG"
    and R2: "R2 = MsgResult_Serialize W (result_with rc msg kvs)" "int (length R2) \<le> MAX_ADM_PKG"
    and env: "env_ok C" and srv: "proper (s_in srv)" "avail (s_in srv) = packet F @ packet G @ rest"
    and out: "lets_packet (length R1) (s_out srv) evs1" "lets_packet (length R2) evs1 evs2"
  shows "\<exists>rw1 s1 s2 rw2 s3 s4.
    ReadCommand C W c0 (CMsgRW C) srv = Ret (0, Some (command_message CMD_LOGIN [(''password'', pwd)]), rw1, s1) \<and>
    ReplyOK C W hello rw1 s1 = Ret (0, rw1, s2) \<and>
    ReadCommand C W c1 rw1 s2 = Ret (0, Some (command_message cmd params), rw2, s3) \<and>
    ReplyResult_apd C W rc msg kvs rw2 s3 = Ret (0, rw2, s4) \<and>
    sent_more srv (packet R1 @ packet R2) s4 \<and> avail (s_in s4) = rest"
proof -
  have ne: "F \<noteq> []" "G \<noteq> []" using packed_nonempty(1) F(1) G(1) by auto
  have a1: "arrives C (CMsgRW C) srv F (packet G @ rest)" by (rule new_arrives [OF env srv ne(1) F(2)])
  obtain rw1 s1 where r1: "ReadCommand C W c0 (CMsgRW C) srv
      = Ret (0, Some (command_message CMD_LOGIN [(''password'', pwd)]), rw1, s1)"
    and o1: "rw_ok rw1" "proper (s_in s1)" "avail (s_in s1) = packet G @ rest" "same_out srv s1"
    using reads_command [OF h l a1 [unfolded F(1)], of c0] F(1) by blast
  have p0: "pairs_ok W []" by (simp add: pairs_ok_def)
  obtain s2 where w1: "pack_and_send C W (result_with RC_OK hello []) rw1 s1 = Ret (0, rw1, s2)"
    and o2: "sends s1 (packet R1) s2" "s_out s2 = evs1"
    using replies [OF h r(1,2) p0 R1(2) [unfolded R1(1)], of s1 evs1 C rw1] out(1) o1(4)
    unfolding R1(1) same_out_def by auto
  have "m_lenbuf rw1 = (if 1024 < length F then length F + 2 else 0)"
    using ReadCommand_lenbuf [OF r1 a1] by (simp add: CMsgRW_def)
  then have "\<not> one_past rw1 (int (length G))"
    using G(3) ne(2) by (auto simp: one_past_def second_fits_def LEN_ADM_PKG_def)
  then have a2: "arrives C rw1 s2 G rest"
    using env o1 o2 ne G(2) by (simp add: arrives_def sends_def)
  obtain rw2 s3 where r2: "ReadCommand C W c1 rw1 s2 = Ret (0, Some (command_message cmd params), rw2, s3)"
    and o3: "avail (s_in s3) = rest" "same_out s2 s3"
    using reads_command [OF h c a2 [unfolded G(1)], of c1] G(1) by blast
  obtain s4 where w2: "pack_and_send C W (result_with rc msg kvs) rw2 s3 = Ret (0, rw2, s4)"
    and o4: "sends s3 (packet R2) s4"
    using replies [OF h r(3-5) R2(2) [unfolded R2(1)], of s3 evs2 C rw2] out(2) o2(2) o3(2)
    unfolding R2(1) same_out_def by auto
  have "sent_more srv (packet R1 @ packet R2) s4"
    using o1(4) o2(1) o3(2) o4 by (simp add: sent_more_def sends_def same_out_def)
  moreover have "avail (s_in s4) = rest" using o3(1) o4 by (simp add: sends_def)
  ultimately show ?thesis
    using r1 w1 r2 w2 by (auto simp: ReplyOK_def ReplyResult_eq ReplyResult_apd_eq)
qed

end

lemma perf_settings_other: "strLower cmd \<noteq> CMD_GET_PERF \<Longrightarrow> perf_settings cmd params = Inr (1, 5, [])"
  by (simp add: perf_settings_def)

lemma main_runs_once:
  assumes "4 \<le> length argv" and "split_colon (cstr (argv ! 1)) = Some (ip, port)"
    and "strLower (cstr (argv ! 3)) \<noteq> CMD_GET_PERF"
    and "ExecuteCommand C W fmt (Ses 0) ip (c_atoi port) (cstr (argv ! 2)) 5 (cstr (argv ! 3))
      (collect_params 4 (map cstr (drop 4 argv)) []) = Ret (r, out, st')"
  shows "qdcadm_main C W fmt stamp Ses argv = Ret (0, out, [(r, out, st')])"
  using assms by (simp add: qdcadm_main_def perf_settings_other Let_def)

lemma main_runs:
  assumes "qdcadm_main C W fmt stamp Ses argv = Ret (rc, txt, rs)" and "i < length rs"
  shows "\<exists>ip port timeoutS params k. split_colon (cstr (argv ! 1)) = Some (ip, port) \<and>
    run_loop (\<lambda>i. ExecuteCommand C W fmt (Ses i) ip (c_atoi port) (cstr (argv ! 2)) timeoutS (cstr (argv ! 3))
      params) 0 k = Ret rs"
proof -
  have l: "\<not> length argv < 4" using assms by (auto simp: qdcadm_main_def)
  obtain ip port where sc: "split_colon (cstr (argv ! 1)) = Some (ip, port)"
    using assms l by (cases "split_colon (cstr (argv ! 1))") (auto simp: qdcadm_main_def)
  define params where "params = collect_params 4 (map cstr (drop 4 argv)) []"
  obtain n timeoutS t where ps: "perf_settings (cstr (argv ! 3)) params = Inr (n, timeoutS, t)"
    using assms l sc by (cases "perf_settings (cstr (argv ! 3)) params") (auto simp: qdcadm_main_def params_def)
  define run where "run = (\<lambda>i. ExecuteCommand C W fmt (Ses i) ip (c_atoi port) (cstr (argv ! 2)) timeoutS
    (cstr (argv ! 3)) params)"
  have "run_loop run 0 (nat n) = Ret rs"
    using assms(1) l sc ps [unfolded params_def]
    by (cases "run_loop run 0 (nat n)") (simp_all add: qdcadm_main_def run_def params_def)
  with sc show ?thesis unfolding run_def by blast
qed

end
