(* ===== verification/SessionSamples.thy ===== *)
theory SessionSamples
  imports Samples Session
begin

text \<open>
  A session of both sides for the witnesses: the client is started with a command line, the server
  accepts the login and answers the command with one pair.
\<close>

definition qd_argv :: "bytes list" where
  "qd_argv = [''qdcadm'', ''127.0.0.1:9876'', ''qdecoder'', ''get_stat'', ''get_stat'']"

definition qd_hello :: bytes where
  "qd_hello = MsgResult_Serialize std_wire (result_with RC_OK ''pong'' [])"

definition qd_reply :: bytes where
  "qd_reply = MsgResult_Serialize std_wire (result_with ''OK'' ''pong'' [(''1'', ''get_stat'')])"

definition sample_both :: session where
  "sample_both = sample_session\<lparr>ses_sock :=
     sample_sock [RData (packet qd_hello), RErr EINTR, RData (packet qd_reply), REof]\<rparr>"

definition sample_server :: sockst where
  "sample_server = sample_sock [RData (packet sample_login), RErr EINTR, RData (packet sample_cmd)]"

lemma sample_session_lengths: "length qd_hello = 12" "length qd_reply = 27"
  unfolding qd_hello_def qd_reply_def
  by (subst result_length_std, simp_all add: sample_texts pairs_ok_def RC_OK_def sample_reply_length,
      simp add: result_with_def std_sizes MsgType_Result_def)

lemma sample_lets_more: "0 < n \<Longrightarrow> n \<le> 2000 \<Longrightarrow> lets_packet n [SAccept 2000, SAccept 2000] []"
  by (simp add: lets_packet_def lets_through_Cons)

lemma qd_argv_parts:
  "4 \<le> length qd_argv" "split_colon (cstr (qd_argv ! 1)) = Some (''127.0.0.1'', ''9876'')"
  "cstr (qd_argv ! 2) = ''qdecoder''" "cstr (qd_argv ! 3) = ''get_stat''"
  "collect_params 4 (map cstr (drop 4 qd_argv)) [] = [(''1'', ''get_stat'')]"
  "strLower ''get_stat'' \<noteq> CMD_GET_PERF"
  using sample_digits
  by (simp_all add: qd_argv_def cstr_def strLower_def c_tolower_def CMD_GET_PERF_def)

lemma sample_both_connects:
  "0 \<le> GetSock (CAdmClient (c_strerror sample_env) (ses_net sample_both) (ses_err sample_both) ''127.0.0.1'' port pwd)"
  by (simp add: GetSock_def CAdmClient_def sample_both_def sample_session_def sample_net_def INADDR_NONE_def Let_def)

lemma sample_both_streams:
  "proper (s_in (ses_sock sample_both))"
  "avail (s_in (ses_sock sample_both)) = packet qd_hello @ packet qd_reply @ []"
  "proper (s_in sample_server)" "avail (s_in sample_server) = packet sample_login @ packet sample_cmd @ []"
  by (simp_all add: sample_both_def sample_server_def sample_sock_def proper_def int_range_def EINTR_def)

lemma sample_both_out:
  "lets_packet (length sample_login) (s_out (ses_sock sample_both)) [SAccept 2000, SAccept 2000]"
  "lets_packet (length qd_hello) (s_out sample_server) [SAccept 2000, SAccept 2000]"
  by (simp_all add: sample_both_def sample_server_def sample_lets sample_lengths sample_session_lengths)

text \<open>A server that does not accept the connection.\<close>

definition refused_session :: session where
  "refused_session = sample_session\<lparr>ses_net := sample_net\<lparr>sys_connect := (\<lambda>_ _. (-1, 111))\<rparr>\<rparr>"

lemma refused_net: "ses_net refused_session = sample_net\<lparr>sys_connect := (\<lambda>_ _. (-1, 111))\<rparr>"
  "sys_inet_addr sample_net a = 16777343" "sys_socket (sample_net\<lparr>sys_connect := f\<rparr>) = (3, 0)"
  "s_closed (ses_sock refused_session) = []"
  by (simp_all add: refused_session_def sample_net_def sample_session_def sample_sock_def)

lemma refused_returns:
  "\<exists>out st'. ExecuteCommand C W fmt refused_session ip port pwd timeoutS cmd params = Ret (1, out, st')"
  by (simp add: ExecuteCommand_def ExecuteCommand_body_def refused_session_def CAdmClient_def INADDR_NONE_def GetSock_def
      set_m_err_def sample_session_def sample_net_def Let_def)

lemma refused_main:
  "\<exists>out st'. qdcadm_main C W fmt stamp (\<lambda>_. refused_session) qd_argv = Ret (0, out, [(1, out, st')])"
  using main_runs_once [OF qd_argv_parts(1,2), where C = C and W = W and fmt = fmt and stamp = stamp
      and Ses = "\<lambda>_. refused_session"] refused_returns qd_argv_parts(3-6) by metis

text \<open>A reader that has read a message and was cleared.\<close>

definition ping_sock :: sockst where
  "ping_sock = sample_sock (sample_script ''ping'')"

lemma ping_sock_ok: "sock_ok ping_sock"
  by (auto simp: sock_ok_def ping_sock_def sample_sock_def sample_script_proper sample_out_def int_range_def EINTR_def)

lemma sample_texts_short: "texts_short sample_env"
  by (simp add: texts_short_def sample_env_def cstr_def)

lemma ping_read:
  obtains rw' st' where "MsgRW_ReadPacket sample_env (CMsgRW sample_env) ping_sock = Ret (4, rw', st')"
    and "m_lenmsg rw' = 4"
proof -
  have pr: "proper (s_in ping_sock)" using ping_sock_ok by (simp add: sock_ok_def)
  show thesis
    using ReadPacket_received [OF CMsgRW_ok [OF sample_env_ok] sample_env_ok pr, of "''ping''" "[]"] that
    by (auto simp: ping_sock_def sample_sock_def sample_script_proper MAX_ADM_PKG_def one_past_def LEN_ADM_PKG_def holds_def)
qed

end
