(* ===== verification/Binlogdump.thy ===== *)
theory Binlogdump
  imports KafkaReader BinlogArgs EntryMsg
begin

text \<open>
  The rest of \<open>binlogdump/binlogdumpK.cpp\<close>: \<open>PrintSql\<close> with the statistics it keeps, the reading
  loop of \<open>main\<close> and its end.  \<open>TextFormat::PrintToString\<close> belongs to the protobuf runtime and is
  a parameter, and so is what a failing parse leaves in a message, since \<open>PrintSql\<close> goes on with it.
  The text the program writes to standard output and to standard error is part of the state, with
  what the Kafka reader itself prints.
\<close>

section \<open>PrintSql\<close>

definition newline :: bytes where "newline = [CHR 0x0A]"

record dumpenv =
  text_entry :: "Entry \<Rightarrow> bytes"
  text_begin :: "TransactionBegin \<Rightarrow> bytes"
  text_end :: "TransactionEnd \<Rightarrow> bytes"
  text_change :: "RowChange \<Rightarrow> bytes"
  half_entry :: "bytes \<Rightarrow> Entry"
  half_begin :: "bytes \<Rightarrow> TransactionBegin"
  half_end :: "bytes \<Rightarrow> TransactionEnd"
  half_change :: "bytes \<Rightarrow> RowChange"

record Statistics =
  TotalRows :: "64 word"
  InsertCnt :: "64 word"
  UpdateCnt :: "64 word"
  DeleteCnt :: "64 word"

definition gbStat :: Statistics where
  "gbStat = \<lparr>TotalRows = 0, InsertCnt = 0, UpdateCnt = 0, DeleteCnt = 0\<rparr>"

text \<open>The values of \<open>EntryType\<close> and \<open>EventType\<close> the program looks at.\<close>

definition TRANSACTIONBEGIN :: "32 word" where "TRANSACTIONBEGIN = 1"
definition ROWDATA :: "32 word" where "ROWDATA = 2"
definition TRANSACTIONEND :: "32 word" where "TRANSACTIONEND = 3"
definition EV_INSERT :: "32 word" where "EV_INSERT = 1"
definition EV_UPDATE :: "32 word" where "EV_UPDATE = 2"
definition EV_DELETE :: "32 word" where "EV_DELETE = 3"

lemmas dump_codes = TRANSACTIONBEGIN_def ROWDATA_def TRANSACTIONEND_def
  EV_INSERT_def EV_UPDATE_def EV_DELETE_def

text \<open>The getters: a member that is not set reads as 0.\<close>

definition entrytype :: "Entry \<Rightarrow> 32 word" where
  "entrytype e = (case en_entrytype e of None \<Rightarrow> 0 | Some v \<Rightarrow> v)"

definition eventtype :: "RowChange \<Rightarrow> 32 word" where
  "eventtype c = (case rc_eventtype c of None \<Rightarrow> 0 | Some v \<Rightarrow> v)"

text \<open>\<open>ParseFromString\<close> on a new message, its result ignored.\<close>

definition parse_or :: "(bytes \<Rightarrow> 'm option) \<Rightarrow> (bytes \<Rightarrow> 'm) \<Rightarrow> bytes \<Rightarrow> 'm" where
  "parse_or parse half data = (case parse data of None \<Rightarrow> half data | Some m \<Rightarrow> m)"

definition count_row :: "32 word \<Rightarrow> Statistics \<Rightarrow> Statistics" where
  "count_row ev st =
     (let st1 = st\<lparr>TotalRows := TotalRows st + 1\<rparr> in
      if ev = EV_INSERT then st1\<lparr>InsertCnt := InsertCnt st1 + 1\<rparr>
      else if ev = EV_UPDATE then st1\<lparr>UpdateCnt := UpdateCnt st1 + 1\<rparr>
      else if ev = EV_DELETE then st1\<lparr>DeleteCnt := DeleteCnt st1 + 1\<rparr>
      else st1)"

definition PrintSql :: "dumpenv \<Rightarrow> wirelib \<Rightarrow> bool \<Rightarrow> bytes option \<Rightarrow> int \<Rightarrow> Statistics
    \<Rightarrow> int \<times> bytes \<times> Statistics" where
  "PrintSql D W printRaw buf bufLen stat =
     (case buf of
        None \<Rightarrow> (-1, [], stat)
      | Some b \<Rightarrow>
          (if bufLen \<le> 0 then (-1, [], stat)
           else
             (let data = take (nat bufLen) b;
                  row0 = parse_or (parse_bytes (Entry_MergePartial W) Entry_Clear Entry_SharedCtor)
                           (half_entry D) data;
                  saved = (if printRaw then [] else en_storevalue row0);
                  row_entry = (if printRaw then row0 else row0\<lparr>en_storevalue := []\<rparr>);
                  out1 = newline @ ''-- binlog :'' @ cstr (text_entry D row_entry);
                  storevalue = (if printRaw then en_storevalue row_entry else saved);
                  head2 = ''-- storevalue:'' @ newline
              in
              if entrytype row_entry = TRANSACTIONEND then
                (let tran_end = parse_or (parse_bytes (TransactionEnd_MergePartial W)
                       TransactionEnd_Clear TransactionEnd_SharedCtor) (half_end D) storevalue
                 in (0, out1 @ head2 @ cstr (text_end D tran_end), stat))
              else if entrytype row_entry = TRANSACTIONBEGIN then
                (let tran_begin = parse_or (parse_bytes (TransactionBegin_MergePartial W)
                       TransactionBegin_Clear TransactionBegin_SharedCtor) (half_begin D) storevalue
                 in (0, out1 @ head2 @ cstr (text_begin D tran_begin), stat))
              else if entrytype row_entry = ROWDATA then
                (let row_change = parse_or (parse_bytes (RowChange_MergePartial W)
                       RowChange_Clear RowChange_SharedCtor) (half_change D) storevalue
                 in (0, out1 @ head2 @ cstr (text_change D row_change),
                     count_row (eventtype row_change) stat))
              else (0, out1, stat))))"

section \<open>The reading loop\<close>

record 'r dumpst =
  d_reader :: 'r
  d_stat :: Statistics
  d_out :: bytes
  d_err :: bytes

text \<open>
  The loop reads through the interface of \<open>CBinlogReader\<close>; \<open>main\<close> runs it on the Kafka reader.  One
  pass once \<open>bExit\<close> has been found false: go on, leave the loop, or never
  come back from \<open>Read\<close> (\<open>None\<close>); an access \<open>Read\<close> makes outside an object ends the program.
\<close>

datatype 'r dpass = Continue "'r dumpst" | Leave "'r dumpst outcome"

definition dump_pass :: "'r read_fn \<Rightarrow> dumpenv \<Rightarrow> wirelib \<Rightarrow> topic_info \<Rightarrow> bool \<Rightarrow> 'r dumpst
    \<Rightarrow> 'r dpass option" where
  "dump_pass read D W topic printRaw st =
     (case read (tableName topic) (d_reader st) of
        None \<Rightarrow> None
      | Some (Ret (ret, msg), said, rd) \<Rightarrow>
          (let st1 = st\<lparr>d_reader := rd, d_out := d_out st @ said\<rparr> in
           if ret \<noteq> 0 then
             (if ERR__TIMED_OUT \<noteq> ret then
                Some (Leave (Ret (st1\<lparr>d_err := d_err st1 @ ''read kafka err: '' @ int_dec ret @ newline\<rparr>)))
              else if waitMode topic then Some (Continue st1)
              else Some (Leave (Ret st1)))
           else
             (case PrintSql D W printRaw msg (case msg of None \<Rightarrow> 0 | Some b \<Rightarrow> int (length b))
                     (d_stat st1) of (_, txt, stat) \<Rightarrow>
                Some (Continue (st1\<lparr>d_stat := stat, d_out := d_out st1 @ txt\<rparr>))))
      | Some (Block, said, rd) \<Rightarrow> Some (Leave Block)
      | Some (Overflow, said, rd) \<Rightarrow> Some (Leave Overflow)
      | Some (Abort, said, rd) \<Rightarrow> Some (Leave Abort))"

text \<open>
  The signal handler, on the value of \<open>bExit\<close>, and what \<open>bExit\<close> is when the loop tests it for the
  \<open>i\<close>-th time, when \<open>signals j\<close> are the signals handled between the tests \<open>j - 1\<close> and \<open>j\<close>.
\<close>

definition SIGINT :: int where "SIGINT = 2"

definition sig_handler :: "int \<Rightarrow> bool \<Rightarrow> bool" where
  "sig_handler sig bExit = (if sig = SIGINT then True else bExit)"

definition bExit_at :: "(nat \<Rightarrow> int list) \<Rightarrow> nat \<Rightarrow> bool" where
  "bExit_at signals i = fold sig_handler (concat (map signals [0..<Suc i])) False"

lemma fold_sig_handler: "fold sig_handler sigs b \<longleftrightarrow> b \<or> SIGINT \<in> set sigs"
  by (induction sigs arbitrary: b) (auto simp: sig_handler_def)

lemma bExit_at_iff: "bExit_at signals i \<longleftrightarrow> (\<exists>j \<le> i. SIGINT \<in> set (signals j))"
  by (auto simp: bExit_at_def fold_sig_handler less_Suc_eq_le simp del: upt_Suc)

text \<open>
  \<open>sigint i\<close> says whether \<open>bExit\<close> is set when the loop tests it for the \<open>i\<close>-th time; signals come
  at any moment, so the loop is defined for every such function.
\<close>

partial_function (option) dump_loop :: "'r read_fn \<Rightarrow> dumpenv \<Rightarrow> wirelib \<Rightarrow> topic_info \<Rightarrow> bool
    \<Rightarrow> (nat \<Rightarrow> bool) \<Rightarrow> nat \<Rightarrow> 'r dumpst \<Rightarrow> 'r dumpst outcome option" where
  "dump_loop read D W topic printRaw sigint i st =
     (if sigint i then Some (Ret st)
      else (case dump_pass read D W topic printRaw st of
              None \<Rightarrow> None
            | Some (Continue st') \<Rightarrow> dump_loop read D W topic printRaw sigint (Suc i) st'
            | Some (Leave res) \<Rightarrow> Some res))"

section \<open>The whole program\<close>

definition stat_text :: "Statistics \<Rightarrow> bytes" where
  "stat_text s =
     ''=========== Statistics ==========='' @ newline @
     ''total rows  : '' @ int_dec (sint (TotalRows s)) @ newline @
     ''insert rows : '' @ int_dec (sint (InsertCnt s)) @ newline @
     ''update rows : '' @ int_dec (sint (UpdateCnt s)) @ newline @
     ''delete rows : '' @ int_dec (sint (DeleteCnt s)) @ newline"

definition dump_finish :: "'r commit_fn \<Rightarrow> topic_info \<Rightarrow> 'r dumpst \<Rightarrow> (int \<times> bytes \<times> bytes) outcome" where
  "dump_finish commit_offset topic st =
     obind (if commit topic then
              obind (commit_offset (d_reader st)) (\<lambda>(ret, rd). Ret
                (if ret \<noteq> 0 then
                   st\<lparr>d_reader := rd,
                      d_err := d_err st @ ''commit offset error : '' @ int_dec ret @ newline\<rparr>
                 else st\<lparr>d_reader := rd\<rparr>))
            else Ret st)
       (\<lambda>st1. Ret (0, d_out st1 @ stat_text (d_stat st1), d_err st1))"

definition dump_usage :: "bytes \<Rightarrow> bytes" where
  "dump_usage szProgramName =
     ''Usage: '' @ cstr szProgramName @ ''  [-b bootStrapServer ] <-n nodeName > <-s schemaName> [-t tableName] '' @
     ''[-m waitMode] [-g consumerGroup [-C Commit]]'' @ newline @
     ''-b             : bootstrap-server, the default is '' @ [CHR 0x22] @
     ''qmatrix-1:9092,qmatrix-2:9092,qmatrix-3:9092'' @ [CHR 0x22] @ newline @
     ''-n             : the nodeName of reading, must be set'' @ newline @
     ''-s             : the schemaName of reading, must be set'' @ newline @
     ''-t             : the tableName of reading, if no set, will be print all table'' @ newline @
     ''-m             : wait mode'' @ newline @
     ''                0: Exit after obtaining the current all data'' @ newline @
     ''                1: Keep reading data until manual termination'' @
     [CHR 0xEF, CHR 0xBC, CHR 0x88] @ ''Ctrl + c'' @ [CHR 0xEF, CHR 0xBC, CHR 0x89] @ newline @
     ''-g             : consume group, default is binlogdumpK'' @ newline @
     ''-C             : it is 1 to commit offset, other not commit'' @ newline @
     ''-r             : print raw storevalue'' @ newline @
     ''-x             : topic name suffix, default is .binlog, topic_name=nodeName.schemaName.suffix'' @ newline @
     ''-h             : print this help message.'' @ newline"

text \<open>
  The result is the exit code and the texts on standard output and standard error (without what
  \<open>getopt\<close> itself says about a bad option).
\<close>

definition binlogdumpK_main :: "'k consumer \<Rightarrow> dumpenv \<Rightarrow> wirelib \<Rightarrow> (nat \<Rightarrow> bool) \<Rightarrow> bytes list
    \<Rightarrow> (int \<times> bytes \<times> bytes) outcome option" where
  "binlogdumpK_main K D W sigint argv =
     (case main_args argv of
        Exit c \<Rightarrow>
          Some (Ret (c, [],
            (case GetInputArg argv (default_topic, False) of
               Exit _ \<Rightarrow> []
             | Go _ \<Rightarrow> ''nodeName and schemaName must be set '' @ newline) @ dump_usage (hd argv)))
      | Go (topic, printRaw) \<Rightarrow>
          (case CBinlogKafkaReader K (cstr (bootstrap topic)) (cstr (topicName topic)) (groupIdNum topic) of
             Block \<Rightarrow> Some Block
           | Overflow \<Rightarrow> Some Overflow
           | Abort \<Rightarrow> Some Abort
           | Ret (said, ob) \<Rightarrow>
               (case dump_loop (object_Read K) D W topic printRaw sigint 0
                       \<lparr>d_reader = ob, d_stat = gbStat, d_out = said, d_err = PintfArg topic\<rparr> of
                  None \<Rightarrow> None
                | Some res \<Rightarrow> Some (obind res (dump_finish (object_CommitOffset K) topic)))))"

text \<open>Without a consumer the program calls through the null pointer at its first \<open>Read\<close>.\<close>

lemma failed_init_is_null:
  assumes "main_args argv = Go (topic, printRaw)" and "fst (kc_set_group K (groupIdNum topic)) \<noteq> CONF_OK"
    and "\<not> sigint 0"
  shows "binlogdumpK_main K D W sigint argv = Some Overflow"
  using assms
  by (auto simp: binlogdumpK_main_def CBinlogKafkaReader_def Init_def object_Read_def object_fillOffset_def
      dump_loop.simps dump_pass_def split: prod.split)

end
