(* ===== verification/DumpRuns.thy ===== *)
theory DumpRuns
  imports Binlogdump
begin

text \<open>
  The runs of \<open>binlogdumpK\<close>: the passes of its loop as a step relation, what the program should print
  for a list of payloads (\<open>print_all\<close>), and which payloads a topic delivers through a filter.
\<close>

section \<open>The loop as a step relation\<close>

inductive dump_steps :: "'r read_fn \<Rightarrow> dumpenv \<Rightarrow> wirelib \<Rightarrow> topic_info \<Rightarrow> bool \<Rightarrow> (nat \<Rightarrow> bool)
    \<Rightarrow> nat \<Rightarrow> 'r dumpst \<Rightarrow> nat \<Rightarrow> 'r dumpst \<Rightarrow> bool"
  for read D W topic printRaw sigint where
  stay: "dump_steps read D W topic printRaw sigint i st i st"
| pass: "\<not> sigint i \<Longrightarrow> dump_pass read D W topic printRaw st = Some (Continue st1) \<Longrightarrow>
    dump_steps read D W topic printRaw sigint (Suc i) st1 j st2 \<Longrightarrow>
    dump_steps read D W topic printRaw sigint i st j st2"

lemma dump_loop_steps:
  "dump_steps read D W topic printRaw sigint i st j st' \<Longrightarrow>
   dump_loop read D W topic printRaw sigint i st = dump_loop read D W topic printRaw sigint j st'"
  by (induction rule: dump_steps.induct) (simp_all add: dump_loop.simps [of read D W topic printRaw sigint])

lemma dump_steps_tests: "dump_steps read D W topic printRaw sigint i st j st' \<Longrightarrow> i \<le> m \<Longrightarrow> m < j \<Longrightarrow> \<not> sigint m"
proof (induction arbitrary: m rule: dump_steps.induct)
  case (pass i st st1 j st2)
  then show ?case by (cases "m = i") simp_all
qed simp

definition dump_ends :: "'r read_fn \<Rightarrow> dumpenv \<Rightarrow> wirelib \<Rightarrow> topic_info \<Rightarrow> bool \<Rightarrow> (nat \<Rightarrow> bool)
    \<Rightarrow> nat \<Rightarrow> 'r dumpst \<Rightarrow> 'r dumpst outcome \<Rightarrow> bool" where
  "dump_ends read D W topic printRaw sigint j st res \<longleftrightarrow>
     (if sigint j then res = Ret st else dump_pass read D W topic printRaw st = Some (Leave res))"

lemma dump_loop_returns:
  assumes "dump_loop read D W topic printRaw sigint i st = Some res"
  shows "\<exists>j st'. dump_steps read D W topic printRaw sigint i st j st' \<and>
    dump_ends read D W topic printRaw sigint j st' res"
proof (rule dump_loop.raw_induct [OF _ assms])
  fix DL :: "'b read_fn \<Rightarrow> dumpenv \<Rightarrow> wirelib \<Rightarrow> topic_info \<Rightarrow> bool \<Rightarrow> (nat \<Rightarrow> bool) \<Rightarrow> nat
      \<Rightarrow> 'b dumpst \<Rightarrow> 'b dumpst outcome option"
    and read D W topic printRaw sigint i st res
  assume IH: "\<And>read D W topic printRaw sigint i st res. DL read D W topic printRaw sigint i st = Some res \<Longrightarrow>
      \<exists>j st'. dump_steps read D W topic printRaw sigint i st j st' \<and>
        dump_ends read D W topic printRaw sigint j st' res"
    and eq: "(if sigint i then Some (Ret st)
      else (case dump_pass read D W topic printRaw st of
              None \<Rightarrow> None
            | Some (Continue st') \<Rightarrow> DL read D W topic printRaw sigint (Suc i) st'
            | Some (Leave r) \<Rightarrow> Some r)) = Some res"
  show "\<exists>j st'. dump_steps read D W topic printRaw sigint i st j st' \<and>
      dump_ends read D W topic printRaw sigint j st' res"
  proof (cases "sigint i")
    case True
    with eq show ?thesis by (auto simp: dump_ends_def intro: dump_steps.stay)
  next
    case False
    then obtain p where p: "dump_pass read D W topic printRaw st = Some p"
      using eq by (auto split: option.split_asm)
    show ?thesis
    proof (cases p)
      case (Continue st1)
      with eq False p IH obtain j st' where "dump_steps read D W topic printRaw sigint (Suc i) st1 j st'"
        "dump_ends read D W topic printRaw sigint j st' res" by fastforce
      with False p Continue show ?thesis by (blast intro: dump_steps.pass)
    next
      case (Leave r)
      with eq False p show ?thesis by (auto simp: dump_ends_def intro: dump_steps.stay)
    qed
  qed
qed

lemma dump_loop_iff:
  "dump_loop read D W topic printRaw sigint i st = Some res \<longleftrightarrow>
   (\<exists>j st'. dump_steps read D W topic printRaw sigint i st j st' \<and>
     dump_ends read D W topic printRaw sigint j st' res)"
proof
  assume "\<exists>j st'. dump_steps read D W topic printRaw sigint i st j st' \<and>
     dump_ends read D W topic printRaw sigint j st' res"
  then obtain j st' where s: "dump_steps read D W topic printRaw sigint i st j st'"
    and e: "dump_ends read D W topic printRaw sigint j st' res" by blast
  show "dump_loop read D W topic printRaw sigint i st = Some res"
    unfolding dump_loop_steps [OF s] using e
    by (simp add: dump_loop.simps [of read D W topic printRaw sigint] dump_ends_def split: if_split_asm)
qed (rule dump_loop_returns)

section \<open>The object main works on\<close>

text \<open>
  \<open>main\<close> reads through the object, which has a consumer once \<open>Init\<close> has made one; then the loop is
  that over the reader inside.
\<close>

definition lift_dump :: "('r \<Rightarrow> 's) \<Rightarrow> 'r dumpst \<Rightarrow> 's dumpst" where
  "lift_dump f st = \<lparr>d_reader = f (d_reader st), d_stat = d_stat st, d_out = d_out st, d_err = d_err st\<rparr>"

definition reads_through :: "'s read_fn \<Rightarrow> ('r \<Rightarrow> 's) \<Rightarrow> 'r read_fn \<Rightarrow> bool" where
  "reads_through read' f read \<longleftrightarrow> (\<forall>keys rd. read' keys (f rd) =
     map_option (\<lambda>(res, said, rd1). (res, said, f rd1)) (read keys rd))"

lemma lift_dump_simps [simp]:
  "d_reader (lift_dump f st) = f (d_reader st)" "d_stat (lift_dump f st) = d_stat st"
  "d_out (lift_dump f st) = d_out st" "d_err (lift_dump f st) = d_err st"
  "(lift_dump f st)\<lparr>d_out := x\<rparr> = lift_dump f (st\<lparr>d_out := x\<rparr>)"
  "(lift_dump f st)\<lparr>d_err := x\<rparr> = lift_dump f (st\<lparr>d_err := x\<rparr>)"
  "(lift_dump f st)\<lparr>d_stat := s\<rparr> = lift_dump f (st\<lparr>d_stat := s\<rparr>)"
  "(lift_dump f st)\<lparr>d_reader := f rd\<rparr> = lift_dump f (st\<lparr>d_reader := rd\<rparr>)"
  by (simp_all add: lift_dump_def)

lemma dump_pass_lift:
  assumes "reads_through read' f read"
  shows "dump_pass read' D W topic printRaw (lift_dump f st) =
    map_option (\<lambda>p. case p of Continue st1 \<Rightarrow> Continue (lift_dump f st1)
      | Leave res \<Rightarrow> Leave (map_outcome (lift_dump f) res)) (dump_pass read D W topic printRaw st)"
proof -
  have r: "read' (tableName topic) (f (d_reader st)) =
      map_option (\<lambda>(res, said, rd1). (res, said, f rd1)) (read (tableName topic) (d_reader st))"
    using assms by (simp add: reads_through_def)
  show ?thesis
  proof (cases "read (tableName topic) (d_reader st)")
    case None
    then show ?thesis using r by (simp add: dump_pass_def)
  next
    case (Some y)
    then obtain res said rd where "read (tableName topic) (d_reader st) = Some (res, said, rd)" by (cases y) auto
    then show ?thesis using r
      by (cases res) (auto simp: dump_pass_def Let_def split: prod.split)
  qed
qed

lemma dump_steps_lift:
  assumes "reads_through read' f read"
  shows "dump_steps read D W topic printRaw sigint i st j st' \<Longrightarrow>
    dump_steps read' D W topic printRaw sigint i (lift_dump f st) j (lift_dump f st')"
  by (induction rule: dump_steps.induct) (auto intro: dump_steps.intros simp: dump_pass_lift [OF assms])

lemma dump_steps_unlift:
  assumes "reads_through read' f read"
  shows "dump_steps read' D W topic printRaw sigint i s j s' \<Longrightarrow> s = lift_dump f st \<Longrightarrow>
    \<exists>st'. s' = lift_dump f st' \<and> dump_steps read D W topic printRaw sigint i st j st'"
proof (induction arbitrary: st rule: dump_steps.induct)
  case (stay i s)
  then show ?case by (blast intro: dump_steps.stay)
next
  case (pass i s s1 j s2)
  obtain st1 where 1: "dump_pass read D W topic printRaw st = Some (Continue st1)" "s1 = lift_dump f st1"
    using pass.hyps(2) unfolding pass.prems dump_pass_lift [OF assms]
    by (cases "dump_pass read D W topic printRaw st"; cases "the (dump_pass read D W topic printRaw st)") auto
  show ?case using pass.IH [OF 1(2)] pass.hyps(1) 1(1) by (blast intro: dump_steps.pass)
qed

lemma dump_ends_lift:
  assumes "reads_through read' f read"
  shows "dump_ends read' D W topic printRaw sigint j (lift_dump f st) res' \<longleftrightarrow>
    (\<exists>res. res' = map_outcome (lift_dump f) res \<and> dump_ends read D W topic printRaw sigint j st res)"
  by (auto simp: dump_ends_def dump_pass_lift [OF assms] split: dpass.split_asm)

lemma dump_loop_lift:
  assumes "reads_through read' f read"
  shows "dump_loop read' D W topic printRaw sigint i (lift_dump f st) =
    map_option (map_outcome (lift_dump f)) (dump_loop read D W topic printRaw sigint i st)"
proof (cases "dump_loop read D W topic printRaw sigint i st")
  case (Some res)
  then obtain j st' where "dump_steps read D W topic printRaw sigint i st j st'"
    "dump_ends read D W topic printRaw sigint j st' res" unfolding dump_loop_iff by blast
  then have "dump_loop read' D W topic printRaw sigint i (lift_dump f st) = Some (map_outcome (lift_dump f) res)"
    unfolding dump_loop_iff using dump_steps_lift [OF assms] dump_ends_lift [OF assms] by blast
  with Some show ?thesis by simp
next
  case None
  have "dump_loop read' D W topic printRaw sigint i (lift_dump f st) \<noteq> Some res'" for res'
  proof
    assume "dump_loop read' D W topic printRaw sigint i (lift_dump f st) = Some res'"
    then obtain j s' where s: "dump_steps read' D W topic printRaw sigint i (lift_dump f st) j s'"
      and e: "dump_ends read' D W topic printRaw sigint j s' res'" unfolding dump_loop_iff by blast
    obtain st' where "s' = lift_dump f st'" "dump_steps read D W topic printRaw sigint i st j st'"
      using dump_steps_unlift [OF assms s refl] by blast
    moreover obtain res where "dump_ends read D W topic printRaw sigint j st' res"
      using e dump_ends_lift [OF assms] calculation(1) by blast
    ultimately have "dump_loop read D W topic printRaw sigint i st = Some res" unfolding dump_loop_iff by blast
    with None show False by simp
  qed
  then have "dump_loop read' D W topic printRaw sigint i (lift_dump f st) = None"
    using option.exhaust by metis
  with None show ?thesis by simp
qed

lemma object_reads_through: "reads_through (object_Read K) Some (Read K)"
  by (auto simp: reads_through_def object_Read_def split: option.split)

lemma dump_finish_object:
  "dump_finish (object_CommitOffset K) topic (lift_dump Some st) = dump_finish (\<lambda>rd. Ret (CommitOffset K rd)) topic st"
  by (simp add: dump_finish_def object_CommitOffset_def split: prod.split)

lemma main_reads:
  assumes "main_args argv = Go (topic, printRaw)"
    and "CBinlogKafkaReader K (cstr (bootstrap topic)) (cstr (topicName topic)) (groupIdNum topic) = Ret (said, Some rd)"
  shows "binlogdumpK_main K D W sigint argv =
    map_option (\<lambda>res. obind res (dump_finish (\<lambda>rd. Ret (CommitOffset K rd)) topic))
      (dump_loop (Read K) D W topic printRaw sigint 0
         \<lparr>d_reader = rd, d_stat = gbStat, d_out = said, d_err = PintfArg topic\<rparr>)"
proof -
  have "obind (map_outcome (lift_dump Some) res) (dump_finish (object_CommitOffset K) topic) =
      obind res (dump_finish (\<lambda>rd. Ret (CommitOffset K rd)) topic)" for res :: "'a kreader dumpst outcome"
    by (cases res) (simp_all add: dump_finish_object)
  then show ?thesis
    using assms dump_loop_lift [OF object_reads_through, of K D W topic printRaw sigint 0
        "\<lparr>d_reader = rd, d_stat = gbStat, d_out = said, d_err = PintfArg topic\<rparr>"]
    by (cases "dump_loop (Read K) D W topic printRaw sigint 0
         \<lparr>d_reader = rd, d_stat = gbStat, d_out = said, d_err = PintfArg topic\<rparr>")
      (simp_all add: binlogdumpK_main_def lift_dump_def)
qed

section \<open>What should be printed\<close>

text \<open>
  What calling \<open>Read\<close> again and again yields: for each call the text \<open>Read\<close> itself printed and the
  payload it delivered, if any.  \<open>print_all\<close> is the text on standard output and the statistics.
\<close>

type_synonym readings = "(bytes \<times> bytes option) list"

fun print_all :: "dumpenv \<Rightarrow> wirelib \<Rightarrow> bool \<Rightarrow> readings \<Rightarrow> Statistics \<Rightarrow> bytes \<times> Statistics" where
  "print_all D W printRaw [] stat = ([], stat)"
| "print_all D W printRaw ((said, None) # evs) stat =
     (case print_all D W printRaw evs stat of (txts, stat2) \<Rightarrow> (said @ txts, stat2))"
| "print_all D W printRaw ((said, Some p) # evs) stat =
     (case PrintSql D W printRaw (Some p) (int (length p)) stat of (_, txt, stat1) \<Rightarrow>
        (case print_all D W printRaw evs stat1 of (txts, stat2) \<Rightarrow> (said @ txt @ txts, stat2)))"

definition payloads :: "readings \<Rightarrow> bytes list" where
  "payloads evs = List.map_filter snd evs"

definition silently :: "bytes list \<Rightarrow> readings" where
  "silently ps = map (\<lambda>p. ([], Some p)) ps"

lemma silently_simps [simp]:
  "silently [] = []" "silently (p # ps) = ([], Some p) # silently ps" "payloads (silently ps) = ps"
  "payloads [] = []" "payloads ((said, None) # evs) = payloads evs"
  "payloads ((said, Some p) # evs) = p # payloads evs"
  by (simp_all add: silently_def payloads_def map_filter_simps) (induction ps; simp add: map_filter_simps)

lemma silently_append: "silently (ps @ qs) = silently ps @ silently qs"
  by (simp add: silently_def)

text \<open>
  What \<open>Read\<close> yields in a row without an error; in wait mode it may time out in between.
\<close>

inductive delivered :: "'r read_fn \<Rightarrow> topic_info \<Rightarrow> 'r \<Rightarrow> readings \<Rightarrow> 'r \<Rightarrow> bool"
  for read topic where
  none: "delivered read topic rd [] rd"
| message: "read (tableName topic) rd = Some (Ret (ERR_NO_ERROR, Some p), said, rd1) \<Longrightarrow>
    delivered read topic rd1 evs rd2 \<Longrightarrow> delivered read topic rd ((said, Some p) # evs) rd2"
| idle: "waitMode topic \<Longrightarrow> read (tableName topic) rd = Some (Ret (ERR__TIMED_OUT, m), said, rd1) \<Longrightarrow>
    delivered read topic rd1 evs rd2 \<Longrightarrow> delivered read topic rd ((said, None) # evs) rd2"

definition printed :: "dumpenv \<Rightarrow> wirelib \<Rightarrow> bool \<Rightarrow> readings \<Rightarrow> 'r \<Rightarrow> 'r dumpst \<Rightarrow> 'r dumpst" where
  "printed D W printRaw evs rd st =
     st\<lparr>d_reader := rd, d_stat := snd (print_all D W printRaw evs (d_stat st)),
        d_out := d_out st @ fst (print_all D W printRaw evs (d_stat st))\<rparr>"

lemma printed_Nil: "printed D W printRaw [] (d_reader st) st = st"
  by (simp add: printed_def)

lemma printed_Cons:
  "PrintSql D W printRaw (Some p) (int (length p)) (d_stat st) = (r, txt, stat1) \<Longrightarrow>
   printed D W printRaw ((said, Some p) # evs) rd st =
     printed D W printRaw evs rd (st\<lparr>d_reader := rd1, d_stat := stat1, d_out := d_out st @ said @ txt\<rparr>)"
  by (simp add: printed_def split: prod.split)

lemma printed_idle:
  "printed D W printRaw ((said, None) # evs) rd st =
     printed D W printRaw evs rd (st\<lparr>d_reader := rd1, d_out := d_out st @ said\<rparr>)"
  by (simp add: printed_def split: prod.split)

lemma delivered_append:
  "delivered read topic rd ps rd1 \<Longrightarrow> delivered read topic rd1 qs rd2 \<Longrightarrow> delivered read topic rd (ps @ qs) rd2"
  by (induction rule: delivered.induct) (auto intro: delivered.intros)

lemma print_all_append:
  "print_all D W printRaw (ps @ qs) stat =
     (case print_all D W printRaw ps stat of (a, s1) \<Rightarrow>
        (case print_all D W printRaw qs s1 of (b, s2) \<Rightarrow> (a @ b, s2)))"
  by (induction D W printRaw ps stat rule: print_all.induct) (simp_all split: prod.split)

lemma printed_append:
  "printed D W printRaw qs rd2 (printed D W printRaw ps rd1 st) = printed D W printRaw (ps @ qs) rd2 st"
  by (simp add: printed_def print_all_append split: prod.split)

text \<open>A pass that goes on has printed one message or waited, for every reader that keeps the interface.\<close>

context binlog_reader
begin

lemma dump_pass_Continue:
  assumes "dump_pass read D W topic printRaw st = Some (Continue st1)"
  shows "\<exists>ev. delivered read topic (d_reader st) [ev] (d_reader st1) \<and>
    st1 = printed D W printRaw [ev] (d_reader st1) st"
proof -
  obtain res said rd where rd_eq: "read (tableName topic) (d_reader st) = Some (res, said, rd)"
    using assms by (auto simp: dump_pass_def split: option.split_asm)
  obtain ret msg where res: "res = Ret (ret, msg)"
    using assms rd_eq by (cases res) (auto simp: dump_pass_def)
  show ?thesis
  proof (cases msg)
    case None
    then have "ret \<noteq> 0" using plain_code rd_eq res by blast
    then have wait: "ret = ERR__TIMED_OUT" "waitMode topic"
      "st1 = st\<lparr>d_reader := rd, d_out := d_out st @ said\<rparr>"
      using assms rd_eq res by (simp_all add: dump_pass_def Let_def split: if_split_asm)
    have "delivered read topic (d_reader st) [(said, None)] rd"
      by (rule delivered.idle [where read = read, OF wait(2) rd_eq [unfolded res wait(1)] delivered.none])
    with wait(3) show ?thesis by (intro exI [of _ "(said, None)"]) (simp add: printed_def)
  next
    case (Some p)
    have ret: "ret = ERR_NO_ERROR" using message_code rd_eq res Some by (simp add: ERR_NO_ERROR_def)
    obtain r out stat1 where ps: "PrintSql D W printRaw (Some p) (int (length p)) (d_stat st) = (r, out, stat1)"
      by (metis prod_cases3)
    have st1: "st1 = st\<lparr>d_reader := rd, d_stat := stat1, d_out := d_out st @ said @ out\<rparr>"
      using assms rd_eq res Some ret ps by (simp add: dump_pass_def Let_def ERR_NO_ERROR_def)
    have "delivered read topic (d_reader st) [(said, Some p)] rd"
      by (rule delivered.message [where read = read, OF rd_eq [unfolded res Some ret] delivered.none])
    with st1 ps show ?thesis by (intro exI [of _ "(said, Some p)"]) (simp add: printed_def)
  qed
qed

lemma dump_steps_print:
  "dump_steps read D W topic printRaw sigint i st j st' \<Longrightarrow>
   \<exists>ps. delivered read topic (d_reader st) ps (d_reader st') \<and>
     st' = printed D W printRaw ps (d_reader st') st \<and> j = i + length ps"
proof (induction rule: dump_steps.induct)
  case (stay i st)
  then show ?case by (intro exI [of _ "[]"]) (simp add: printed_Nil delivered.none)
next
  case (pass i st st1 j st2)
  obtain ev where 1: "delivered read topic (d_reader st) [ev] (d_reader st1)"
    "st1 = printed D W printRaw [ev] (d_reader st1) st" using dump_pass_Continue [OF pass.hyps(2)] by meson
  obtain qs where 2: "delivered read topic (d_reader st1) qs (d_reader st2)"
    "st2 = printed D W printRaw qs (d_reader st2) st1" "j = Suc i + length qs" using pass.IH by blast
  have "st2 = printed D W printRaw ([ev] @ qs) (d_reader st2) st"
    using 1(2) 2(2) printed_append by metis
  with delivered_append [OF 1(1) 2(1)] 2(3) show ?case by (intro exI [of _ "[ev] @ qs"]) simp
qed

end

text \<open>And every delivery is printed, as long as no signal comes.\<close>

lemma dump_loop_delivered:
  assumes "delivered read topic rd ps rd'" and "\<And>j. \<not> sigint j" and "d_reader st = rd"
  shows "\<exists>j. dump_loop read D W topic printRaw sigint i st =
    dump_loop read D W topic printRaw sigint j (printed D W printRaw ps rd' st)"
  using assms(1,3)
proof (induction arbitrary: i st rule: delivered.induct)
  case (none rd)
  then show ?case using printed_Nil by metis
next
  case (message rd p said rd1 evs rd2)
  obtain r out stat1 where ps: "PrintSql D W printRaw (Some p) (int (length p)) (d_stat st) = (r, out, stat1)"
    by (metis prod_cases3)
  define st1 where "st1 = st\<lparr>d_reader := rd1, d_stat := stat1, d_out := d_out st @ said @ out\<rparr>"
  have "dump_pass read D W topic printRaw st = Some (Continue st1)"
    using message.hyps(1) message.prems ps by (simp add: dump_pass_def st1_def Let_def ERR_NO_ERROR_def)
  then have "dump_loop read D W topic printRaw sigint i st = dump_loop read D W topic printRaw sigint (Suc i) st1"
    using assms(2) by (simp add: dump_loop.simps [of read D W topic printRaw sigint i])
  with message.IH [of st1 "Suc i"] printed_Cons [OF ps, of said evs rd2 rd1] show ?case
    by (simp add: st1_def)
next
  case (idle rd m said rd1 evs rd2)
  have "dump_pass read D W topic printRaw st
      = Some (Continue (st\<lparr>d_reader := rd1, d_out := d_out st @ said\<rparr>))"
    using idle.hyps(1,2) idle.prems by (simp add: dump_pass_def Let_def kafka_codes)
  then have "dump_loop read D W topic printRaw sigint i st
      = dump_loop read D W topic printRaw sigint (Suc i) (st\<lparr>d_reader := rd1, d_out := d_out st @ said\<rparr>)"
    using assms(2) by (simp add: dump_loop.simps [of read D W topic printRaw sigint i])
  with idle.IH [of "st\<lparr>d_reader := rd1, d_out := d_out st @ said\<rparr>" "Suc i"]
    printed_idle [of D W printRaw said evs rd2 st rd1] show ?case by simp
qed

text \<open>
  A reader whose next call prints \<open>said\<close> and then behaves as that of \<open>rd1\<close> leads to the run of
  \<open>rd1\<close> with \<open>said\<close> printed already.
\<close>

definition says_first :: "'r read_fn \<Rightarrow> bytes list \<Rightarrow> 'r \<Rightarrow> bytes \<Rightarrow> 'r \<Rightarrow> bool" where
  "says_first read keys rd said rd1 \<longleftrightarrow> read keys rd =
     (case read keys rd1 of None \<Rightarrow> None | Some (res, out, rd2) \<Rightarrow> Some (res, said @ out, rd2))"

lemma dump_loop_says_first:
  assumes "says_first read (tableName topic) (d_reader st) said rd1" and "\<not> sigint i"
  shows "dump_loop read D W topic printRaw sigint i st =
    dump_loop read D W topic printRaw sigint i (st\<lparr>d_reader := rd1, d_out := d_out st @ said\<rparr>)"
proof -
  have "dump_pass read D W topic printRaw st
      = dump_pass read D W topic printRaw (st\<lparr>d_reader := rd1, d_out := d_out st @ said\<rparr>)"
    using assms(1) by (auto simp: dump_pass_def says_first_def Let_def split: option.split outcome.split prod.split)
  with assms(2) show ?thesis by (simp add: dump_loop.simps [of read D W topic printRaw sigint i])
qed

section \<open>Topics\<close>

text \<open>The consumer hands out these messages one after the other.\<close>

fun hands_out :: "'k consumer \<Rightarrow> 'k \<Rightarrow> kmsg list \<Rightarrow> 'k \<Rightarrow> bool" where
  "hands_out K k [] k' \<longleftrightarrow> k' = k"
| "hands_out K k (m # ms) k' \<longleftrightarrow> fst (kc_consume K k) = m \<and> hands_out K (snd (kc_consume K k)) ms k'"

definition wanted :: "bytes list \<Rightarrow> kmsg \<Rightarrow> bool" where
  "wanted keys m \<longleftrightarrow> keys = [] \<or> (case k_key m of None \<Rightarrow> False | Some key \<Rightarrow> key \<in> set keys)"

lemma Read_again:
  "Read_pass K fk rd = Again [] rd1 \<Longrightarrow> m_logOffset rd \<noteq> [] \<Longrightarrow> m_logOffset rd1 \<noteq> [] \<Longrightarrow>
   Read K fk rd = Read K fk rd1"
  by (simp add: Read_def Read_loop.simps [of K fk _ rd])

lemma Read_filled:
  assumes "m_logOffset rd = []" and "fillOffset K rd = (r, said, rd1)" and "m_logOffset rd1 \<noteq> []"
  shows "says_first (Read K) fk rd said rd1"
  using assms Read_loop_before [of K fk said rd1] by (simp add: says_first_def Read_def fill_if_empty_def)

lemma delivered_same_Read:
  assumes "delivered (Read K) topic rd1 ps rdx" and "Read K (tableName topic) rd = Read K (tableName topic) rd1"
  shows "delivered (Read K) topic rd ps rdx \<or> ps = [] \<and> rdx = rd1"
  using assms by (cases rule: delivered.cases) (auto intro: delivered.intros)

lemma topic_delivered:
  assumes "hands_out K (m_consumer rd) msgs k'" and "m_logOffset rd \<noteq> []"
    and "\<forall>m \<in> set msgs. k_err m = ERR_NO_ERROR \<and> k_key m \<noteq> None"
  shows "\<exists>rdx. delivered (Read K) topic rd (silently (map k_payload (filter (wanted (tableName topic)) msgs))) rdx \<and>
    Read K (tableName topic) rdx = Read K (tableName topic) (rd\<lparr>m_consumer := k'\<rparr>)"
  using assms
proof (induction msgs arbitrary: rd)
  case Nil
  then show ?case by (auto intro: delivered.none)
next
  case (Cons m msgs)
  obtain key k1 where m: "kc_consume K (m_consumer rd) = (m, k1)" "k_err m = 0" "k_key m = Some key"
    "hands_out K k1 msgs k'"
    using Cons.prems by (auto simp: ERR_NO_ERROR_def prod_eq_iff)
  define rd1 where "rd1 = rd\<lparr>m_consumer := k1\<rparr>"
  have log: "m_logOffset rd1 \<noteq> []" using Cons.prems by (simp add: rd1_def)
  obtain rdx where IH: "delivered (Read K) topic rd1
        (silently (map k_payload (filter (wanted (tableName topic)) msgs))) rdx"
      "Read K (tableName topic) rdx = Read K (tableName topic) (rd\<lparr>m_consumer := k'\<rparr>)"
    using Cons.IH [of rd1] Cons.prems m(4) log by (auto simp: rd1_def)
  show ?case
  proof (cases "wanted (tableName topic) m")
    case True
    have "Read_pass K (tableName topic) rd = Stop (Ret (ERR_NO_ERROR, Some (k_payload m))) [] rd1"
      using m True Cons.prems(2) by (auto simp: Read_pass_def Let_def kafka_codes wanted_def rd1_def)
    then have "Read K (tableName topic) rd = Some (Ret (ERR_NO_ERROR, Some (k_payload m)), [], rd1)"
      using Cons.prems(2) by (simp add: Read_def Read_loop_stop)
    from delivered.message [OF this IH(1)] IH(2) True show ?thesis by auto
  next
    case False
    have "Read_pass K (tableName topic) rd = Again [] rd1"
      using m False Cons.prems(2) by (auto simp: Read_pass_def Let_def kafka_codes wanted_def rd1_def)
    then have R: "Read K (tableName topic) rd = Read K (tableName topic) rd1"
      by (rule Read_again [OF _ Cons.prems(2) log])
    show ?thesis
      using delivered_same_Read [OF IH(1) R] IH(2) R False delivered.none by fastforce
  qed
qed

text \<open>At the end of its data the topic makes \<open>Read\<close> report a time-out, and without wait mode the loop ends.\<close>

lemma Read_at_end:
  assumes "m_logOffset rd \<noteq> []" and "kc_consume K (m_consumer rd) = (t, k1)" and "k_err t = ERR__TIMED_OUT"
    and "kc_position K (m_readOffSet rd) k1 = ((ERR_NO_ERROR, rs), k2)"
    and "read_over K rs (m_logOffset rd) = Ret (True, [])"
  shows "Read K fk rd = Some (Ret (ERR__TIMED_OUT, None), [], rd\<lparr>m_consumer := k2, m_readOffSet := rs\<rparr>)"
proof -
  have "Read_pass K fk rd = Stop (Ret (ERR__TIMED_OUT, None)) [] (rd\<lparr>m_consumer := k2, m_readOffSet := rs\<rparr>)"
    using assms by (simp add: Read_pass_def Let_def)
  with assms(1) show ?thesis by (simp add: Read_def Read_loop_stop)
qed

text \<open>
  How the partitions get assigned, from a reader that has not found any: \<open>fillOffset\<close> may find none and
  \<open>consume\<close> time out any number of times; then \<open>fillOffset\<close> finds them, before or after the first
  message.  \<open>said\<close> is what this prints, the list holds that message, if any.
\<close>

inductive assigned :: "'k consumer \<Rightarrow> 'k kreader \<Rightarrow> bytes \<Rightarrow> kmsg list \<Rightarrow> 'k kreader \<Rightarrow> bool" for K where
  found: "m_logOffset rd = [] \<Longrightarrow> fillOffset K rd = (r, said, rd1) \<Longrightarrow> m_logOffset rd1 \<noteq> [] \<Longrightarrow>
    assigned K rd said [] rd1"
| idle: "m_logOffset rd = [] \<Longrightarrow> fillOffset K rd = (r, said, rd1) \<Longrightarrow> m_logOffset rd1 = [] \<Longrightarrow>
    kc_consume K (m_consumer rd1) = (t, k) \<Longrightarrow> k_err t = ERR__TIMED_OUT \<Longrightarrow>
    assigned K (rd1\<lparr>m_consumer := k\<rparr>) said2 ms rd2 \<Longrightarrow> assigned K rd (said @ said2) ms rd2"
| message: "m_logOffset rd = [] \<Longrightarrow> fillOffset K rd = (r, said, rd1) \<Longrightarrow> m_logOffset rd1 = [] \<Longrightarrow>
    kc_consume K (m_consumer rd1) = (m, k) \<Longrightarrow> k_err m = ERR_NO_ERROR \<Longrightarrow> k_key m \<noteq> None \<Longrightarrow>
    fillOffset K (rd1\<lparr>m_consumer := k\<rparr>) = (r2, said2, rd2) \<Longrightarrow> m_logOffset rd2 \<noteq> [] \<Longrightarrow>
    assigned K rd (said @ said2) [m] rd2"

lemma assigned_single: "assigned K rd said ms rd1 \<Longrightarrow> length ms \<le> 1"
  by (induction rule: assigned.induct) simp_all

lemma assigned_log: "assigned K rd said ms rd1 \<Longrightarrow> m_logOffset rd1 \<noteq> []"
  by (induction rule: assigned.induct)

lemma Read_unassigned:
  "m_logOffset rd = [] \<Longrightarrow> fillOffset K rd = (r, said, rd1) \<Longrightarrow> Read K fk rd = Read_loop K fk said rd1"
  by (simp add: Read_def fill_if_empty_def)

lemma Read_loop_idle:
  assumes "m_logOffset rd = []" and "kc_consume K (m_consumer rd) = (t, k)" and "k_err t = ERR__TIMED_OUT"
  shows "Read_loop K fk said rd = (case Read K fk (rd\<lparr>m_consumer := k\<rparr>) of None \<Rightarrow> None
     | Some (res, out, rd2) \<Rightarrow> Some (res, said @ out, rd2))"
proof -
  obtain r s rd1 where f: "fillOffset K (rd\<lparr>m_consumer := k\<rparr>) = (r, s, rd1)" by (metis prod_cases3)
  have "Read_loop K fk said rd = Read_loop K fk (said @ s) rd1"
    using assms f by (simp add: Read_loop.simps [of K fk said rd] Read_pass_def Let_def)
  also have "\<dots> = (case Read_loop K fk [] rd1 of None \<Rightarrow> None
     | Some (res, out, rd2) \<Rightarrow> Some (res, (said @ s) @ out, rd2))" by (rule Read_loop_before)
  finally show ?thesis
    using Read_unassigned [OF _ f, of fk] assms(1) Read_loop_before [of K fk s rd1]
    by (simp split: option.split prod.split)
qed

lemma assigned_Read:
  "assigned K rd said ms rd1 \<Longrightarrow>
   (case filter (wanted fk) ms of [] \<Rightarrow> says_first (Read K) fk rd said rd1
    | m # _ \<Rightarrow> Read K fk rd = Some (Ret (ERR_NO_ERROR, Some (k_payload m)), said, rd1))"
proof (induction rule: assigned.induct)
  case (found rd r said rd1)
  then show ?case by (simp add: Read_filled)
next
  case (idle rd r said rd1 t k said2 ms rd2)
  note R = Read_unassigned [OF idle.hyps(1,2), of fk] Read_loop_idle [OF idle.hyps(3-5), of fk said]
  show ?case
  proof (cases "filter (wanted fk) ms")
    case Nil
    then have "says_first (Read K) fk (rd1\<lparr>m_consumer := k\<rparr>) said2 rd2" using idle.IH by simp
    with R Nil show ?thesis by (simp add: says_first_def split: option.split)
  next
    case (Cons m l)
    then show ?thesis using R idle.IH by simp
  qed
next
  case (message rd r said rd1 m k r2 said2 rd2)
  obtain key where key: "k_key m = Some key" using message.hyps(6) by auto
  have f: "fill_if_empty K (rd1\<lparr>m_consumer := k\<rparr>) = (said2, rd2)"
    using message.hyps(3,7) by (simp add: fill_if_empty_def)
  have R: "Read K fk rd = Read_loop K fk said rd1" using message.hyps(1,2) by (rule Read_unassigned)
  show ?case
  proof (cases "wanted fk m")
    case True
    then have "Read_pass K fk rd1 = Stop (Ret (ERR_NO_ERROR, Some (k_payload m))) said2 rd2"
      using message.hyps(4,5) key f by (auto simp: Read_pass_def Let_def kafka_codes wanted_def)
    with R True show ?thesis by (simp add: Read_loop_stop)
  next
    case False
    then have "Read_pass K fk rd1 = Again said2 rd2"
      using message.hyps(4,5) key f by (auto simp: Read_pass_def Let_def kafka_codes wanted_def)
    then have "Read K fk rd = Read_loop K fk (said @ said2) rd2" using R by (simp add: Read_loop.simps [of K fk said rd1])
    also have "\<dots> = (case Read_loop K fk [] rd2 of None \<Rightarrow> None
      | Some (res, out, rd3) \<Rightarrow> Some (res, (said @ said2) @ out, rd3))" by (rule Read_loop_before)
    finally show ?thesis using False message.hyps(8) by (simp add: says_first_def Read_def)
  qed
qed

lemma assigned_dumped:
  assumes "assigned K (d_reader st) said ms rd1" and sig: "\<And>j. \<not> sigint j"
  shows "\<exists>j. dump_loop (Read K) D W topic printRaw sigint i st = dump_loop (Read K) D W topic printRaw sigint j
    (printed D W printRaw ((said, None) # silently (map k_payload (filter (wanted (tableName topic)) ms))) rd1 st)"
proof (cases "filter (wanted (tableName topic)) ms")
  case Nil
  then have "says_first (Read K) (tableName topic) (d_reader st) said rd1"
    using assigned_Read [OF assms(1), of "tableName topic"] by simp
  from dump_loop_says_first [OF this sig] Nil show ?thesis
    by (intro exI [of _ i]) (simp add: printed_def)
next
  case (Cons m l)
  have "l = []" using assigned_single [OF assms(1)] length_filter_le [of "wanted (tableName topic)" ms] Cons by (cases l) simp_all
  have "Read K (tableName topic) (d_reader st) = Some (Ret (ERR_NO_ERROR, Some (k_payload m)), said, rd1)"
    using assigned_Read [OF assms(1), of "tableName topic"] Cons by simp
  from delivered.message [where read = "Read K", OF this delivered.none]
  have d: "delivered (Read K) topic (d_reader st) [(said, Some (k_payload m))] rd1" .
  have "printed D W printRaw [(said, Some (k_payload m))] rd1 st
      = printed D W printRaw ((said, None) # silently [k_payload m]) rd1 st"
    by (simp add: printed_def split: prod.split)
  with dump_loop_delivered [where sigint = sigint and D = D and W = W and printRaw = printRaw and i = i, OF d sig refl]
    Cons \<open>l = []\<close> show ?thesis by simp
qed

lemma topic_reaches:
  assumes fill: "assigned K (d_reader st) said ms rd1"
    and msgs: "hands_out K (m_consumer rd1) msgs k" "\<forall>m \<in> set msgs. k_err m = ERR_NO_ERROR \<and> k_key m \<noteq> None"
    and sig: "\<And>j. \<not> sigint j"
  obtains j rdx where "Read K (tableName topic) rdx = Read K (tableName topic) (rd1\<lparr>m_consumer := k\<rparr>)"
    and "dump_loop (Read K) D W topic printRaw sigint i st = dump_loop (Read K) D W topic printRaw sigint j
      (printed D W printRaw ((said, None) # silently (map k_payload (filter (wanted (tableName topic)) (ms @ msgs)))) rdx st)"
proof -
  let ?qs = "(said, None) # silently (map k_payload (filter (wanted (tableName topic)) ms))"
  let ?ps = "silently (map k_payload (filter (wanted (tableName topic)) msgs))"
  define st1 where "st1 = printed D W printRaw ?qs rd1 st"
  obtain i1 where a: "dump_loop (Read K) D W topic printRaw sigint i st = dump_loop (Read K) D W topic printRaw sigint i1 st1"
    unfolding st1_def using assigned_dumped [where sigint = sigint, OF fill sig] by blast
  have rd1: "d_reader st1 = rd1" by (simp add: st1_def printed_def)
  obtain rdx where d: "delivered (Read K) topic rd1 ?ps rdx"
    and x: "Read K (tableName topic) rdx = Read K (tableName topic) (rd1\<lparr>m_consumer := k\<rparr>)"
    using topic_delivered [OF msgs(1) assigned_log [OF fill] msgs(2)] by metis
  obtain j where b: "dump_loop (Read K) D W topic printRaw sigint i1 st1
      = dump_loop (Read K) D W topic printRaw sigint j (printed D W printRaw ?ps rdx st1)"
    using dump_loop_delivered [where sigint = sigint, OF d sig rd1] by blast
  have "printed D W printRaw ?ps rdx st1 = printed D W printRaw (?qs @ ?ps) rdx st"
    unfolding st1_def by (rule printed_append)
  with a b show thesis by (intro that [OF x]) (simp add: silently_append)
qed

lemma topic_dumped:
  assumes fill: "assigned K (d_reader st) said ms rd1"
    and msgs: "hands_out K (m_consumer rd1) msgs k" "\<forall>m \<in> set msgs. k_err m = ERR_NO_ERROR \<and> k_key m \<noteq> None"
    and last: "Read K (tableName topic) (rd1\<lparr>m_consumer := k\<rparr>) = Some (Ret (ERR__TIMED_OUT, None), [], rd2)"
    and "\<not> waitMode topic" and sig: "\<And>j. \<not> sigint j"
  shows "dump_loop (Read K) D W topic printRaw sigint i st =
    Some (Ret (printed D W printRaw
      ((said, None) # silently (map k_payload (filter (wanted (tableName topic)) (ms @ msgs)))) rd2 st))"
proof -
  let ?ps = "(said, None) # silently (map k_payload (filter (wanted (tableName topic)) (ms @ msgs)))"
  obtain j rdx where x: "Read K (tableName topic) rdx = Read K (tableName topic) (rd1\<lparr>m_consumer := k\<rparr>)"
    and r: "dump_loop (Read K) D W topic printRaw sigint i st
      = dump_loop (Read K) D W topic printRaw sigint j (printed D W printRaw ?ps rdx st)"
    by (rule topic_reaches [where sigint = sigint, OF fill msgs sig])
  have "dump_pass (Read K) D W topic printRaw (printed D W printRaw ?ps rdx st)
      = Some (Leave (Ret (printed D W printRaw ?ps rd2 st)))"
    using x last assms(5) by (simp add: dump_pass_def printed_def kafka_codes)
  then show ?thesis
    using r sig by (simp add: dump_loop.simps [of "Read K" D W topic printRaw sigint j])
qed

text \<open>
  When the partitions appear between the two calls of \<open>assignment\<close>, the vector of positions stays empty,
  and the first time-out looks into it.
\<close>

lemma late_assignment_fill:
  assumes "m_logOffset rd = []" and "kc_assignment K (m_readOffSet rd) (m_consumer rd) = ((ERR_NO_ERROR, []), k1)"
    and "kc_assignment K [] k1 = ((ERR_NO_ERROR, ls), k2)" and "ls \<noteq> []" and "fillOffset K rd = (r, said, rd1)"
  shows "m_logOffset rd1 \<noteq> [] \<and> m_readOffSet rd1 = []"
proof -
  obtain r2 s2 ls2 k3 where f: "fill_watermarks K ls k2 = (r2, s2, ls2, k3)" by (metis prod_cases4)
  have "length ls2 = length ls" using fill_watermarks_parts [OF f] by blast
  then show ?thesis using assms f by (auto simp: fillOffset_def Let_def)
qed

lemma Read_empty_positions:
  assumes "m_logOffset rd \<noteq> []" and "m_readOffSet rd = []"
    and "kc_consume K (m_consumer rd) = (t, k1)" and "k_err t = ERR__TIMED_OUT"
    and "kc_position K [] k1 = ((ERR_NO_ERROR, []), k2)"
  shows "Read K fk rd = Some (Overflow, [], rd\<lparr>m_consumer := k2\<rparr>)"
proof -
  obtain l ls where "m_logOffset rd = l # ls" using assms(1) by (cases "m_logOffset rd") auto
  then have "Read_pass K fk rd = Stop Overflow [] (rd\<lparr>m_consumer := k2\<rparr>)"
    using assms(2-5) by (simp add: Read_pass_def Let_def)
  then show ?thesis using assms(1) by (simp add: Read_def Read_loop_stop)
qed

lemma program_overflows:
  assumes args: "main_args argv = Go (topic, printRaw)"
    and init: "Init K (cstr (bootstrap topic)) (cstr (topicName topic)) (groupIdNum topic) = Ret (rc, hello, Some rd)"
    and fill: "assigned K rd said ms rd1" "m_readOffSet rd1 = []"
    and msgs: "hands_out K (m_consumer rd1) msgs k" "\<forall>m \<in> set msgs. k_err m = ERR_NO_ERROR \<and> k_key m \<noteq> None"
    and last: "kc_consume K k = (t, k1)" "k_err t = ERR__TIMED_OUT" "kc_position K [] k1 = ((ERR_NO_ERROR, []), k2)"
    and sig: "\<And>i. \<not> sigint i"
  shows "binlogdumpK_main K D W sigint argv = Some Overflow"
proof -
  define st where "st = \<lparr>d_reader = rd, d_stat = gbStat, d_out = hello, d_err = PintfArg topic\<rparr>"
  let ?ps = "(said, None) # silently (map k_payload (filter (wanted (tableName topic)) (ms @ msgs)))"
  have start: "assigned K (d_reader st) said ms rd1" using fill(1) by (simp add: st_def)
  obtain j rdx where x: "Read K (tableName topic) rdx = Read K (tableName topic) (rd1\<lparr>m_consumer := k\<rparr>)"
    and r: "dump_loop (Read K) D W topic printRaw sigint 0 st
      = dump_loop (Read K) D W topic printRaw sigint j (printed D W printRaw ?ps rdx st)"
    by (rule topic_reaches [where sigint = sigint, OF start msgs sig])
  have "Read K (tableName topic) (rd1\<lparr>m_consumer := k\<rparr>) = Some (Overflow, [], rd1\<lparr>m_consumer := k2\<rparr>)"
    using Read_empty_positions [of "rd1\<lparr>m_consumer := k\<rparr>"] assigned_log [OF fill(1)] fill(2) last by simp
  then have "dump_loop (Read K) D W topic printRaw sigint 0 st = Some Overflow"
    using r x sig by (simp add: dump_loop.simps [of "Read K" D W topic printRaw sigint j] dump_pass_def printed_def)
  moreover have "CBinlogKafkaReader K (cstr (bootstrap topic)) (cstr (topicName topic)) (groupIdNum topic) = Ret (hello, Some rd)"
    using init by (simp add: CBinlogKafkaReader_def)
  note m = main_reads [OF args this, of D W sigint]
  ultimately show ?thesis unfolding m st_def by simp
qed

lemma program_dumped:
  assumes args: "main_args argv = Go (topic, printRaw)" "\<not> waitMode topic"
    and init: "Init K (cstr (bootstrap topic)) (cstr (topicName topic)) (groupIdNum topic) = Ret (rc, hello, Some rd)"
    and fill: "assigned K rd said ms rd1"
    and msgs: "hands_out K (m_consumer rd1) msgs k" "\<forall>m \<in> set msgs. k_err m = ERR_NO_ERROR \<and> k_key m \<noteq> None"
    and last: "kc_consume K k = (t, k1)" "k_err t = ERR__TIMED_OUT"
      "kc_position K (m_readOffSet rd1) k1 = ((ERR_NO_ERROR, rs), k2)"
      "read_over K rs (m_logOffset rd1) = Ret (True, [])"
    and sig: "\<And>i. \<not> sigint i"
  shows "binlogdumpK_main K D W sigint argv = Some (Ret (0,
    hello @ said @
      (case print_all D W printRaw (silently (map k_payload (filter (wanted (tableName topic)) (ms @ msgs)))) gbStat of
         (txt, stat) \<Rightarrow> txt @ stat_text stat),
    PintfArg topic @
      (let code = fst (kc_commit K k2) in
       if commit topic \<and> code \<noteq> 0 then ''commit offset error : '' @ int_dec code @ newline else [])))"
proof -
  define st where "st = \<lparr>d_reader = rd, d_stat = gbStat, d_out = hello, d_err = PintfArg topic\<rparr>"
  have start: "assigned K (d_reader st) said ms rd1" using fill by (simp add: st_def)
  have "Read K (tableName topic) (rd1\<lparr>m_consumer := k\<rparr>)
      = Some (Ret (ERR__TIMED_OUT, None), [], rd1\<lparr>m_consumer := k2, m_readOffSet := rs\<rparr>)"
    using Read_at_end [of "rd1\<lparr>m_consumer := k\<rparr>"] assigned_log [OF fill] last by simp
  from topic_dumped [where sigint = sigint, OF start msgs this args(2) sig]
  have "dump_loop (Read K) D W topic printRaw sigint 0 st = Some (Ret (printed D W printRaw
      ((said, None) # silently (map k_payload (filter (wanted (tableName topic)) (ms @ msgs))))
      (rd1\<lparr>m_consumer := k2, m_readOffSet := rs\<rparr>) st))" .
  then show ?thesis
    using args init
    by (simp add: main_reads CBinlogKafkaReader_def st_def printed_def dump_finish_def CommitOffset_def Let_def split: prod.split)
qed

section \<open>The statistics\<close>

text \<open>The event type a payload is counted under: that of its row change, when it holds one.\<close>

definition row_event :: "dumpenv \<Rightarrow> wirelib \<Rightarrow> bytes \<Rightarrow> 32 word option" where
  "row_event D W p =
     (let e = parse_or (parse_bytes (Entry_MergePartial W) Entry_Clear Entry_SharedCtor) (half_entry D) p in
      if p \<noteq> [] \<and> entrytype e = ROWDATA then
        Some (eventtype (parse_or (parse_bytes (RowChange_MergePartial W) RowChange_Clear RowChange_SharedCtor)
          (half_change D) (en_storevalue e)))
      else None)"

lemma PrintSql_stat:
  "snd (snd (PrintSql D W printRaw (Some p) (int (length p)) stat)) =
     (case row_event D W p of None \<Rightarrow> stat | Some ev \<Rightarrow> count_row ev stat)"
  by (simp add: PrintSql_def row_event_def Let_def dump_codes entrytype_def)

lemma print_all_stat:
  "snd (print_all D W printRaw evs stat) = fold count_row (List.map_filter (row_event D W) (payloads evs)) stat"
proof (induction D W printRaw evs stat rule: print_all.induct)
  case (2 D W printRaw said evs stat)
  then show ?case by (cases "print_all D W printRaw evs stat") simp
next
  case (3 D W printRaw said p evs stat)
  obtain r out stat1 where ps: "PrintSql D W printRaw (Some p) (int (length p)) stat = (r, out, stat1)"
    by (metis prod_cases3)
  then show ?case
    using PrintSql_stat [of D W printRaw p stat] 3 [OF ps [symmetric] refl]
    by (cases "print_all D W printRaw evs stat1") (simp add: map_filter_simps split: option.splits)
qed (simp add: map_filter_simps)

lemma fold_count_row:
  "fold count_row evs stat =
     \<lparr>TotalRows = TotalRows stat + word_of_nat (length evs),
       InsertCnt = InsertCnt stat + word_of_nat (count_list evs EV_INSERT),
       UpdateCnt = UpdateCnt stat + word_of_nat (count_list evs EV_UPDATE),
       DeleteCnt = DeleteCnt stat + word_of_nat (count_list evs EV_DELETE)\<rparr>"
  by (induction evs arbitrary: stat) (simp_all add: count_row_def Let_def dump_codes)

section \<open>Entries\<close>

lemma parse_or_Some: "parse x = Some m \<Longrightarrow> parse_or parse half x = m"
  by (simp add: parse_or_def)

lemma parse_entry_messages:
  assumes "wire_format W"
  shows "Entry_valid W e \<Longrightarrow> parse_bytes (Entry_MergePartial W) Entry_Clear e0 (Entry_Serialize W e) = Some e"
    and "RowChange_valid W c \<Longrightarrow>
      parse_bytes (RowChange_MergePartial W) RowChange_Clear c0 (RowChange_Serialize W c) = Some c"
    and "TransactionBegin_valid W b \<Longrightarrow>
      parse_bytes (TransactionBegin_MergePartial W) TransactionBegin_Clear b0 (TransactionBegin_Serialize W b) = Some b"
    and "TransactionEnd_valid W t \<Longrightarrow>
      parse_bytes (TransactionEnd_MergePartial W) TransactionEnd_Clear t0 (TransactionEnd_Serialize W t) = Some t"
  by (rule message_codec.roundtrip [OF wire_format.Entry_codec [OF assms]]
      message_codec.roundtrip [OF wire_format.RowChange_codec [OF assms]]
      message_codec.roundtrip [OF wire_format.TransactionBegin_codec [OF assms]]
      message_codec.roundtrip [OF wire_format.TransactionEnd_codec [OF assms]]; assumption)+

lemma Entry_Serialize_nonempty:
  assumes "wire_format W" and "en_entrytype e = Some v"
  shows "Entry_Serialize W e \<noteq> []"
  using field_first [OF wire_format.enum_codec [OF assms(1)], of 2 v] assms(2)
  by (simp add: Entry_Serialize_def field_no_def)

definition shown_entry :: "dumpenv \<Rightarrow> bool \<Rightarrow> Entry \<Rightarrow> bytes \<Rightarrow> bytes" where
  "shown_entry D printRaw e body =
     newline @ ''-- binlog :'' @ cstr (text_entry D (if printRaw then e else e\<lparr>en_storevalue := []\<rparr>)) @
     ''-- storevalue:'' @ newline @ cstr body"

section \<open>How the loop ends\<close>

text \<open>The last call of \<open>Read\<close>, when no signal ends the loop, adds what it printed itself.\<close>

lemma dump_pass_Leave:
  assumes "dump_pass read D W topic printRaw st = Some (Leave (Ret st'))"
  shows "d_stat st' = d_stat st \<and>
    (\<exists>ret m said rd. read (tableName topic) (d_reader st) = Some (Ret (ret, m), said, rd) \<and> ret \<noteq> 0 \<and>
      d_out st' = d_out st @ said \<and>
      (if ret = ERR__TIMED_OUT then \<not> waitMode topic \<and> d_err st' = d_err st
       else d_err st' = d_err st @ ''read kafka err: '' @ int_dec ret @ newline))"
proof -
  obtain ret m said rd where r: "read (tableName topic) (d_reader st) = Some (Ret (ret, m), said, rd)"
    using assms by (auto simp: dump_pass_def split: option.split_asm outcome.split_asm)
  then have "ret \<noteq> 0" and "d_stat st' = d_stat st \<and> d_out st' = d_out st @ said \<and>
      (if ret = ERR__TIMED_OUT then \<not> waitMode topic \<and> d_err st' = d_err st
       else d_err st' = d_err st @ ''read kafka err: '' @ int_dec ret @ newline)"
    using assms by (auto simp: dump_pass_def Let_def split: prod.split_asm if_split_asm)
  with r show ?thesis by blast
qed

definition last_words :: "'r read_fn \<Rightarrow> bytes list \<Rightarrow> 'r \<Rightarrow> bytes \<Rightarrow> bool" where
  "last_words read keys rd out \<longleftrightarrow> out = [] \<or>
     (\<exists>ret m rd'. read keys rd = Some (Ret (ret, m), out, rd') \<and> ret \<noteq> 0)"

lemma dump_ends_keep:
  "dump_ends read D W topic printRaw sigint j st (Ret st') \<Longrightarrow> d_stat st' = d_stat st \<and>
   (\<exists>out. last_words read (tableName topic) (d_reader st) out \<and> d_out st' = d_out st @ out)"
  using dump_pass_Leave [of read D W topic printRaw st st']
  by (auto simp: dump_ends_def last_words_def split: if_split_asm)

lemma length_row_events: "length (List.map_filter (row_event D W) ps) \<le> length ps"
  by (simp add: map_filter_def)

lemma count_list_three:
  "a \<noteq> b \<Longrightarrow> a \<noteq> c \<Longrightarrow> b \<noteq> c \<Longrightarrow> count_list xs a + count_list xs b + count_list xs c \<le> length xs"
  by (induction xs) auto

lemma counts_within_total:
  assumes "length evs < 2 ^ 64"
  shows "unat (word_of_nat (count_list evs EV_INSERT) :: 64 word) + unat (word_of_nat (count_list evs EV_UPDATE) :: 64 word)
      + unat (word_of_nat (count_list evs EV_DELETE) :: 64 word) \<le> unat (word_of_nat (length evs) :: 64 word)"
proof -
  have u: "unat (word_of_nat n :: 64 word) = n" if "n < 2 ^ 64" for n
    using that by (simp add: unat_of_nat take_bit_nat_eq_self)
  have le: "count_list evs x < 2 ^ 64" for x
    using assms count_le_length [of evs x] by simp
  show ?thesis
    using count_list_three [of EV_INSERT EV_UPDATE EV_DELETE evs]
    unfolding u [OF le] u [OF assms] by (simp add: dump_codes)
qed

end
