(* ===== verification/DumpSamples.thy ===== *)
theory DumpSamples
  imports Samples DumpRuns
begin

text \<open>
  Concrete values for the properties of \<open>binlogdumpK\<close>: a command line, a rendering of messages, a
  topic with three messages, an entry that holds a row change.
\<close>

definition sample_argv :: "bytes list" where
  "sample_argv = [''binlogdumpK'', ''-n'', ''node'', ''-sdb'', ''-t'', ''a,,b'']"

lemma sample_dump_args:
  obtains topic raw where "main_args sample_argv = Go (topic, raw)" "\<not> waitMode topic" "\<not> commit topic"
    "tableName topic = [''a'', ''b'']"
proof -
  have "main_args sample_argv =
    Go (default_topic\<lparr>nodeName := ''node'', schemaName := ''db'', tableName := [''a'', ''b''],
      topicName := ''node.db.binlog''\<rparr>, False)"
    by (simp add: sample_argv_def main_args_def GetInputArg_def optstring_def input_arg_def strndup_def cstr_def
        MAX_FILE_NAME_LEN_def StrSplit_comma default_topic_def)
  then show thesis by (rule that) (simp_all add: default_topic_def)
qed

definition sample_dumpenv :: dumpenv where
  "sample_dumpenv = \<lparr>text_entry = (\<lambda>e. ''entry''), text_begin = (\<lambda>b. ''begin''), text_end = (\<lambda>t. ''end''),
     text_change = (\<lambda>c. ''change''), half_entry = (\<lambda>_. Entry_SharedCtor),
     half_begin = (\<lambda>_. TransactionBegin_SharedCtor), half_end = (\<lambda>_. TransactionEnd_SharedCtor),
     half_change = (\<lambda>_. RowChange_SharedCtor)\<rparr>"

section \<open>A topic with three messages\<close>

definition sample_messages :: "kmsg list" where
  "sample_messages = [\<lparr>k_err = 0, k_key = Some ''a'', k_payload = ''one'', k_errstr = []\<rparr>,
     \<lparr>k_err = 0, k_key = Some ''c'', k_payload = ''two'', k_errstr = []\<rparr>,
     \<lparr>k_err = 0, k_key = Some ''b'', k_payload = ''three'', k_errstr = []\<rparr>]"

definition sample_topic :: "kmsg list consumer" where
  "sample_topic = (sample_consumer 0)\<lparr>kc_create := (\<lambda>_ _. Some sample_messages)\<rparr>"

definition sample_started :: "kmsg list kreader" where
  "sample_started = \<lparr>m_consumer = sample_messages, m_logOffset = [sample_tp\<lparr>tp_offset := 2\<rparr>],
     m_readOffSet = [sample_tp]\<rparr>"

text \<open>What the reader prints when it has connected.\<close>

definition sample_hello :: "bytes \<Rightarrow> bytes \<Rightarrow> bytes \<Rightarrow> bytes" where
  "sample_hello servers name grp = ''kafka: create consumer OK: consumer, for '' @ cstr name @ '','' @ cstr grp @
     '', url is '' @ cstr servers"

lemma sample_topic_facts:
  "Init sample_topic servers name grp = Ret (0, sample_hello servers name grp,
     Some \<lparr>m_consumer = sample_messages, m_logOffset = [], m_readOffSet = []\<rparr>)"
  "assigned sample_topic \<lparr>m_consumer = sample_messages, m_logOffset = [], m_readOffSet = []\<rparr> sample_said [] sample_started"
  "hands_out sample_topic (m_consumer sample_started) sample_messages []"
  "\<forall>m \<in> set sample_messages. k_err m = ERR_NO_ERROR \<and> k_key m \<noteq> None"
  "kc_consume sample_topic [] = (timed_out, [])"
  "k_err timed_out = ERR__TIMED_OUT"
  "kc_position sample_topic (m_readOffSet sample_started) [] = ((ERR_NO_ERROR, [sample_tp\<lparr>tp_offset := 2\<rparr>]), [])"
  "read_over sample_topic [sample_tp\<lparr>tp_offset := 2\<rparr>] (m_logOffset sample_started) = Ret (True, [])"
proof -
  have "fillOffset sample_topic \<lparr>m_consumer = sample_messages, m_logOffset = [], m_readOffSet = []\<rparr>
     = (0, sample_said, sample_started)"
    by (simp add: fillOffset_def sample_topic_def sample_started_def sample_consumer_def sample_said_def
        kafka_codes sample_tp_def pad_left_def int_dec_def nat_dec.simps digit_char_def char_of_def
        bit_Suc_0_iff cstr_def)
  from assigned.found [OF _ this]
  show "assigned sample_topic \<lparr>m_consumer = sample_messages, m_logOffset = [], m_readOffSet = []\<rparr> sample_said [] sample_started"
    by (simp add: sample_started_def)
qed (simp_all add: Init_def sample_topic_def sample_consumer_def sample_started_def sample_hello_def
      sample_messages_def kafka_codes CONF_OK_def sample_tp_def cstr_def)

text \<open>The reader of that topic and the whole loop over it.\<close>

definition sample_dump_start :: "kmsg list kreader dumpst" where
  "sample_dump_start = \<lparr>d_reader = \<lparr>m_consumer = sample_messages, m_logOffset = [], m_readOffSet = []\<rparr>,
     d_stat = gbStat, d_out = [], d_err = []\<rparr>"

lemma sample_topic_loop:
  "\<exists>rd'. dump_loop (Read sample_topic) sample_dumpenv std_wire (default_topic\<lparr>tableName := [''a'', ''b'']\<rparr>)
      False (\<lambda>_. False) 0 sample_dump_start
    = Some (Ret (printed sample_dumpenv std_wire False ((sample_said, None) # silently [''one'', ''three'']) rd'
        sample_dump_start))"
proof -
  let ?topic = "default_topic\<lparr>tableName := [''a'', ''b'']\<rparr>"
  have start: "assigned sample_topic (d_reader sample_dump_start) sample_said [] sample_started"
    by (simp add: sample_dump_start_def sample_topic_facts)
  obtain rd' where last: "Read sample_topic (tableName ?topic) (sample_started\<lparr>m_consumer := []\<rparr>)
      = Some (Ret (ERR__TIMED_OUT, None), [], rd')"
    using Read_at_end [of "sample_started\<lparr>m_consumer := []\<rparr>" sample_topic timed_out "[]"] sample_topic_facts assigned_log [OF start]
    by auto
  have ps: "map k_payload (filter (wanted (tableName ?topic)) sample_messages) = [''one'', ''three'']"
    by (simp add: sample_messages_def wanted_def)
  have wait: "\<not> waitMode ?topic" by (simp add: default_topic_def)
  show ?thesis
    using topic_dumped [where sigint = "\<lambda>_. False" and D = sample_dumpenv and W = std_wire and printRaw = False
        and i = 0, OF start sample_topic_facts(3,4) last wait] ps
    by auto
qed

section \<open>An entry with a row change\<close>

definition sample_change :: RowChange where
  "sample_change = RowChange_SharedCtor\<lparr>rc_eventtype := Some EV_UPDATE\<rparr>"

definition sample_entry :: Entry where
  "sample_entry = Entry_SharedCtor\<lparr>en_entrytype := Some ROWDATA,
     en_storevalue := RowChange_Serialize std_wire sample_change\<rparr>"

lemma sample_change_valid: "RowChange_valid std_wire sample_change"
  by (simp add: RowChange_valid_def sample_change_def RowChange_SharedCtor_def std_wire_def len_ok_def)

lemma sample_change_bytes: "RowChange_Serialize std_wire sample_change = [CHR 0x10, CHR 0x02]"
  by (simp add: RowChange_Serialize_def sample_change_def RowChange_SharedCtor_def std_writers std_tag_def
      std_int32_body_def EV_UPDATE_def enc_varint.simps [of 16] enc_varint.simps [of 2] char_of_def bit_Suc_0_iff)

lemma sample_entry_valid: "Entry_valid std_wire sample_entry"
  by (simp add: Entry_valid_def sample_entry_def Entry_SharedCtor_def sample_change_bytes len_ok_def)

text \<open>The reader says something, delivers that entry, waits, and delivers bytes that are no entry.\<close>

definition sample_readings :: readings where
  "sample_readings = [(sample_said, Some (Entry_Serialize std_wire sample_entry)), ([], None), ([], Some ''x'')]"

section \<open>A topic that reports the end of a partition\<close>

definition sample_eof :: "kmsg list kreader" where
  "sample_eof = \<lparr>m_consumer = [\<lparr>k_err = -191, k_key = None, k_payload = [], k_errstr = []\<rparr>],
     m_logOffset = [sample_tp], m_readOffSet = [sample_tp]\<rparr>"

definition sample_eof_after :: "kmsg list kreader" where
  "sample_eof_after = \<lparr>m_consumer = [], m_logOffset = [sample_tp], m_readOffSet = [sample_tp]\<rparr>"

lemma sample_eof_loop:
  "dump_loop (Read (sample_consumer 0)) sample_dumpenv std_wire (default_topic\<lparr>waitMode := True\<rparr>) False (\<lambda>_. False) 0
      \<lparr>d_reader = sample_eof, d_stat = gbStat, d_out = [], d_err = []\<rparr>
    = Some (Ret \<lparr>d_reader = sample_eof_after, d_stat = gbStat, d_out = [],
        d_err = ''read kafka err: -191'' @ newline\<rparr>)"
proof -
  have "Read (sample_consumer 0) [] sample_eof = Some (Ret (ERR__PARTITION_EOF, None), [], sample_eof_after)"
    by (simp add: Read_def Read_loop.simps Read_pass_def sample_eof_def sample_eof_after_def sample_consumer_def
        kafka_codes Let_def)
  then show ?thesis
    by (simp add: dump_loop.simps dump_pass_def default_topic_def kafka_codes int_dec_def nat_dec.simps digit_char_def
        char_of_def bit_Suc_0_iff)
qed

section \<open>A topic whose words look like options\<close>

definition dashed_topic :: topic_info where
  "dashed_topic = \<lparr>waitMode = True, groupIdNum = ''-C'', commit = True, topicName = ''-n.--.binlog'',
     nodeName = ''-n'', schemaName = ''--'', tableName = [''-t1'', ''t 2''], bootstrap = ''kafka:9092'',
     suffix = ''.binlog''\<rparr>"

lemma dashed_topic_ok: "renderable dashed_topic"
  by (simp add: renderable_def dashed_topic_def topic_ok_def name_fits_def MAX_FILE_NAME_LEN_def default_topic_def)

end
