(* ===== verification/KafkaLog.thy ===== *)
theory KafkaLog
  imports DumpRuns
begin

text \<open>
  The topic as a log.  What librdkafka documents of a consumer, as far as the reader relies on it:
  every partition is a list of messages handed out one after the other and once each, in any
  interleaving of the partitions.  Over such a consumer the reader and the program have an abstract
  meaning: what has been consumed is a prefix of every partition.
\<close>

section \<open>Consumers of a log\<close>

text \<open>
  \<open>lg_msgs\<close>: the messages of a partition with their offsets, from where the consumer starts, all that
  are ever written; offsets grow but need not be dense (compaction, markers of transactions).
  \<open>lg_high\<close>: the high watermark when the program starts; \<open>lg_pos\<close>: how many messages of a partition have
  been consumed; \<open>lg_asg\<close>: the partitions assigned to the consumer.  Two fields tell of the past of a
  consumer: \<open>lg_stable\<close>, that up to now partitions have been assigned once at most, none has been taken
  away and no position has been reset; \<open>lg_known\<close>, that every query for a watermark has succeeded.
\<close>

record 'k topic_log =
  lg_msgs :: "int \<Rightarrow> (int \<times> kmsg) list"
  lg_high :: "int \<Rightarrow> int"
  lg_pos :: "'k \<Rightarrow> int \<Rightarrow> nat"
  lg_asg :: "'k \<Rightarrow> int list"
  lg_stable :: "'k \<Rightarrow> bool"
  lg_known :: "'k \<Rightarrow> bool"

text \<open>
  What any call may do: partitions are assigned by a thread of the library, so that they can appear in
  any call; once there they stay, as long as the consumer is stable.  A quiet call consumes nothing.
\<close>

definition log_step :: "'k topic_log \<Rightarrow> 'k \<Rightarrow> 'k \<Rightarrow> bool" where
  "log_step L k k' \<longleftrightarrow> (lg_stable L k' \<longrightarrow> lg_stable L k \<and> (lg_known L k' \<longrightarrow> lg_known L k) \<and>
     (lg_asg L k \<noteq> [] \<longrightarrow> lg_asg L k' = lg_asg L k))"

definition log_quiet :: "'k topic_log \<Rightarrow> 'k \<Rightarrow> 'k \<Rightarrow> bool" where
  "log_quiet L k k' \<longleftrightarrow> log_step L k k' \<and> (lg_stable L k' \<longrightarrow> lg_pos L k' = lg_pos L k)"

text \<open>
  The position of a partition is the offset behind the last message consumed; it is \<open>-1001\<close>,
  \<open>OFFSET_INVALID\<close>, when nothing has been consumed from it.
\<close>

definition log_offset :: "'k topic_log \<Rightarrow> 'k \<Rightarrow> int \<Rightarrow> int" where
  "log_offset L k i = (if lg_pos L k i = 0 then -1001 else fst (lg_msgs L i ! (lg_pos L k i - 1)) + 1)"

text \<open>The next message of some partition.\<close>

definition log_next :: "'k topic_log \<Rightarrow> 'k \<Rightarrow> kmsg \<Rightarrow> 'k \<Rightarrow> bool" where
  "log_next L k m k' \<longleftrightarrow> (\<exists>i. lg_pos L k i < length (lg_msgs L i) \<and> m = snd (lg_msgs L i ! lg_pos L k i) \<and>
     lg_pos L k' = (lg_pos L k)(i := Suc (lg_pos L k i)))"

text \<open>
  The laws, which say nothing of a consumer that is not stable any more: a new consumer has consumed
  nothing; \<open>assignment\<close> tells the partitions assigned before or after the call and leaves its argument
  alone when it fails; a query for a watermark may fail, and when it succeeds it sees at least what was
  there at the start; \<open>position\<close> keeps the partitions it is asked for; \<open>consume\<close> hands out the next
  message of some partition, or none.
\<close>

definition keeps_log :: "'k consumer \<Rightarrow> 'k topic_log \<Rightarrow> bool" where
  "keeps_log K L \<longleftrightarrow>
     (\<forall>i. sorted_wrt (<) (map fst (lg_msgs L i)) \<and> (\<forall>x \<in> set (lg_msgs L i). 0 \<le> fst x)) \<and>
     (\<forall>g t k. kc_create K g t = Some k \<longrightarrow> lg_stable L k \<longrightarrow> lg_pos L k = (\<lambda>_. 0)) \<and>
     (\<forall>ts k e k'. kc_subscribe K ts k = (e, k') \<longrightarrow> log_quiet L k k') \<and>
     (\<forall>ts k e ts' k'. kc_assignment K ts k = ((e, ts'), k') \<longrightarrow> log_quiet L k k' \<and>
        (if e = ERR_NO_ERROR then lg_stable L k' \<longrightarrow> map tp_partition ts' \<in> {lg_asg L k, lg_asg L k'} else ts' = ts)) \<and>
     (\<forall>t i k e high k'. kc_watermark K t i k = ((e, high), k') \<longrightarrow> log_quiet L k k' \<and>
        (lg_stable L k' \<and> lg_known L k' \<longrightarrow> e = ERR_NO_ERROR \<and> lg_high L i \<le> high)) \<and>
     (\<forall>ts k e ts' k'. kc_position K ts k = ((e, ts'), k') \<longrightarrow> log_quiet L k k' \<and>
        (e = ERR_NO_ERROR \<and> lg_stable L k' \<longrightarrow> map tp_partition ts' = map tp_partition ts \<and>
          (\<forall>t \<in> set ts'. tp_offset t = log_offset L k' (tp_partition t)))) \<and>
     (\<forall>k m k'. kc_consume K k = (m, k') \<longrightarrow>
        (if k_err m = ERR_NO_ERROR then log_step L k k' \<and> (lg_stable L k' \<longrightarrow> log_next L k m k')
         else log_quiet L k k'))"

lemma keeps_logD:
  assumes "keeps_log K L"
  shows "sorted_wrt (<) (map fst (lg_msgs L i)) \<and> (\<forall>x \<in> set (lg_msgs L i). 0 \<le> fst x)"
    and "kc_create K g t = Some k \<Longrightarrow> lg_stable L k \<Longrightarrow> lg_pos L k = (\<lambda>_. 0)"
    and "kc_subscribe K topics k = (e, k') \<Longrightarrow> log_quiet L k k'"
    and "kc_assignment K ts k = ((e, ts'), k') \<Longrightarrow> log_quiet L k k' \<and>
      (if e = ERR_NO_ERROR then lg_stable L k' \<longrightarrow> map tp_partition ts' \<in> {lg_asg L k, lg_asg L k'} else ts' = ts)"
    and "kc_watermark K tn p k = ((e, high), k') \<Longrightarrow> log_quiet L k k' \<and>
      (lg_stable L k' \<and> lg_known L k' \<longrightarrow> e = ERR_NO_ERROR \<and> lg_high L p \<le> high)"
    and "kc_position K ts k = ((e, ts'), k') \<Longrightarrow> log_quiet L k k' \<and>
      (e = ERR_NO_ERROR \<and> lg_stable L k' \<longrightarrow> map tp_partition ts' = map tp_partition ts \<and>
        (\<forall>t \<in> set ts'. tp_offset t = log_offset L k' (tp_partition t)))"
    and "kc_consume K k = (m, k') \<Longrightarrow>
      (if k_err m = ERR_NO_ERROR then log_step L k k' \<and> (lg_stable L k' \<longrightarrow> log_next L k m k')
       else log_quiet L k k')"
proof -
  note laws = assms [unfolded keeps_log_def]
  note l1 = conjunct2 [OF laws] note l2 = conjunct2 [OF l1]
  show "sorted_wrt (<) (map fst (lg_msgs L i)) \<and> (\<forall>x \<in> set (lg_msgs L i). 0 \<le> fst x)"
    by (rule conjunct1 [OF laws, THEN spec])
  show "kc_create K g t = Some k \<Longrightarrow> lg_stable L k \<Longrightarrow> lg_pos L k = (\<lambda>_. 0)"
    by (rule conjunct1 [OF l1, THEN spec, THEN spec, THEN spec, THEN mp, THEN mp])
  show "kc_subscribe K topics k = (e, k') \<Longrightarrow> log_quiet L k k'"
    by (rule conjunct1 [OF l2, THEN spec, THEN spec, THEN spec, THEN spec, THEN mp])
qed (rule conjunct1 [OF conjunct2 [OF conjunct2 [OF conjunct2 [OF assms [unfolded keeps_log_def]]]], THEN spec, THEN spec, THEN spec, THEN spec, THEN spec, THEN mp]
    conjunct1 [OF conjunct2 [OF conjunct2 [OF conjunct2 [OF conjunct2 [OF assms [unfolded keeps_log_def]]]]], THEN spec, THEN spec, THEN spec, THEN spec, THEN spec, THEN spec, THEN mp]
    conjunct1 [OF conjunct2 [OF conjunct2 [OF conjunct2 [OF conjunct2 [OF conjunct2 [OF assms [unfolded keeps_log_def]]]]]], THEN spec, THEN spec, THEN spec, THEN spec, THEN spec, THEN mp]
    conjunct2 [OF conjunct2 [OF conjunct2 [OF conjunct2 [OF conjunct2 [OF conjunct2 [OF assms [unfolded keeps_log_def]]]]]], THEN spec, THEN spec, THEN spec, THEN mp];
    assumption)+

lemma log_quiet_refl [simp]: "log_quiet L k k"
  by (simp add: log_quiet_def log_step_def)

lemma log_quiet_trans: "log_quiet L a b \<Longrightarrow> log_quiet L b c \<Longrightarrow> log_quiet L a c"
  unfolding log_quiet_def log_step_def by auto

section \<open>What has been consumed\<close>

text \<open>A trace of messages with their partitions, from one vector of positions to another.\<close>

fun consumed :: "'k topic_log \<Rightarrow> (int \<Rightarrow> nat) \<Rightarrow> (int \<times> kmsg) list \<Rightarrow> (int \<Rightarrow> nat) \<Rightarrow> bool" where
  "consumed L p [] p' \<longleftrightarrow> p' = p"
| "consumed L p ((i, m) # tr) p' \<longleftrightarrow>
     p i < length (lg_msgs L i) \<and> m = snd (lg_msgs L i ! p i) \<and> consumed L (p(i := Suc (p i))) tr p'"

lemma consumed_append: "consumed L p tr q \<Longrightarrow> consumed L q tr' r \<Longrightarrow> consumed L p (tr @ tr') r"
  by (induction L p tr q rule: consumed.induct) auto

text \<open>Of every partition the trace holds the next messages, in order, each once.\<close>

lemma consumed_partition:
  "consumed L p tr q \<Longrightarrow> p i \<le> q i \<and> q i \<le> max (p i) (length (lg_msgs L i)) \<and>
   map snd (filter (\<lambda>x. fst x = i) tr) = map snd (take (q i - p i) (drop (p i) (lg_msgs L i)))"
proof (induction L p tr q rule: consumed.induct)
  case (2 L p j m tr q)
  define p1 where "p1 = p(j := Suc (p j))"
  have step: "p j < length (lg_msgs L j)" "m = snd (lg_msgs L j ! p j)" and c: "consumed L p1 tr q"
    using "2.prems" by (simp_all add: p1_def)
  have IH: "p1 i \<le> q i" "q i \<le> max (p1 i) (length (lg_msgs L i))"
    "map snd (filter (\<lambda>x. fst x = i) tr) = map snd (take (q i - p1 i) (drop (p1 i) (lg_msgs L i)))"
    using "2.IH" c unfolding p1_def by blast+
  show ?case
  proof (cases "j = i")
    case True
    have d: "drop (p i) (lg_msgs L i) = (lg_msgs L i ! p i) # drop (Suc (p i)) (lg_msgs L i)"
      using step True by (auto simp: Cons_nth_drop_Suc)
    have "q i - p i = Suc (q i - Suc (p i))" using IH(1) True by (simp add: p1_def)
    then show ?thesis using IH True step by (auto simp: d p1_def)
  next
    case False
    then show ?thesis using IH by (simp add: p1_def)
  qed
qed simp

definition log_trace :: "'k topic_log \<Rightarrow> bytes list \<Rightarrow> 'k \<Rightarrow> bytes list \<Rightarrow> 'k \<Rightarrow> bool" where
  "log_trace L keys k ps k' \<longleftrightarrow> (lg_stable L k' \<longrightarrow> lg_stable L k \<and>
     (\<exists>tr. consumed L (lg_pos L k) tr (lg_pos L k') \<and> ps = map k_payload (filter (wanted keys) (map snd tr))))"

lemma log_trace_quiet: "log_quiet L k k' \<Longrightarrow> log_trace L keys k [] k'"
  unfolding log_trace_def log_quiet_def log_step_def by (intro impI conjI exI [of _ "[]"]) auto

lemma log_trace_next:
  assumes "log_step L k k'" and "lg_stable L k' \<longrightarrow> log_next L k m k'"
  shows "log_trace L keys k (if wanted keys m then [k_payload m] else []) k'"
  unfolding log_trace_def
proof
  assume s: "lg_stable L k'"
  then obtain i where "lg_pos L k i < length (lg_msgs L i)" "m = snd (lg_msgs L i ! lg_pos L k i)"
    "lg_pos L k' = (lg_pos L k)(i := Suc (lg_pos L k i))" using assms(2) by (auto simp: log_next_def)
  with s assms(1) show "lg_stable L k \<and> (\<exists>tr. consumed L (lg_pos L k) tr (lg_pos L k') \<and>
      (if wanted keys m then [k_payload m] else []) = map k_payload (filter (wanted keys) (map snd tr)))"
    by (intro conjI exI [of _ "[(i, m)]"]) (simp_all add: log_step_def)
qed

lemma log_trace_trans: "log_trace L keys k ps k' \<Longrightarrow> log_trace L keys k' qs k'' \<Longrightarrow> log_trace L keys k (ps @ qs) k''"
  unfolding log_trace_def using consumed_append by fastforce

lemma log_trace_quiet_before: "log_quiet L k k' \<Longrightarrow> log_trace L keys k' qs k'' \<Longrightarrow> log_trace L keys k qs k''"
  using log_trace_trans [OF log_trace_quiet] by fastforce

lemma log_trace_quiet_after: "log_trace L keys k ps k' \<Longrightarrow> log_quiet L k' k'' \<Longrightarrow> log_trace L keys k ps k''"
  using log_trace_trans [OF _ log_trace_quiet] by fastforce

section \<open>The reader over a log\<close>

text \<open>
  The two vectors name the partitions assigned.  When the partitions appear between the two calls of
  \<open>assignment\<close> in \<open>fillOffset\<close>, the first vector is empty.
\<close>

definition log_inv :: "'k topic_log \<Rightarrow> 'k kreader \<Rightarrow> bool" where
  "log_inv L rd \<longleftrightarrow> m_logOffset rd \<noteq> [] \<and> lg_stable L (m_consumer rd) \<longrightarrow>
     map tp_partition (m_logOffset rd) = lg_asg L (m_consumer rd) \<and>
     map tp_partition (m_readOffSet rd) \<in> {[], lg_asg L (m_consumer rd)} \<and>
     (lg_known L (m_consumer rd) \<longrightarrow> (\<forall>t \<in> set (m_logOffset rd). lg_high L (tp_partition t) \<le> tp_offset t))"

lemma log_inv_step:
  assumes "log_inv L rd" and "log_step L (m_consumer rd) k"
  shows "log_inv L (rd\<lparr>m_consumer := k\<rparr>)"
proof -
  have "lg_asg L k = lg_asg L (m_consumer rd)" if "m_logOffset rd \<noteq> []" "lg_stable L k"
  proof -
    have "map tp_partition (m_logOffset rd) = lg_asg L (m_consumer rd)"
      using that assms by (simp add: log_inv_def log_step_def)
    then have "lg_asg L (m_consumer rd) \<noteq> []" using that(1) by auto
    then show ?thesis using that(2) assms(2) by (simp add: log_step_def)
  qed
  then show ?thesis using assms by (auto simp: log_inv_def log_step_def)
qed

lemma fill_watermarks_log:
  "fill_watermarks K ts k = (r, said, ts', k') \<Longrightarrow> keeps_log K L \<Longrightarrow>
   log_quiet L k k' \<and> map tp_partition ts' = map tp_partition ts \<and>
   (lg_stable L k' \<and> lg_known L k' \<longrightarrow> (\<forall>t \<in> set ts'. lg_high L (tp_partition t) \<le> tp_offset t))"
proof (induction K ts k arbitrary: r said ts' k' rule: fill_watermarks.induct)
  case (2 K t ts k)
  obtain e high k1 where w: "kc_watermark K (tp_topic t) (tp_partition t) k = ((e, high), k1)"
    by (metis prod.collapse)
  note wl = keeps_logD(5) [OF "2.prems"(2) w]
  show ?case
  proof (cases "e = ERR_NO_ERROR")
    case False
    then show ?thesis using "2.prems"(1) w wl by auto
  next
    case True
    obtain r2 s2 ts2 k2 where f: "fill_watermarks K ts k1 = (r2, s2, ts2, k2)" by (metis prod_cases4)
    have eq: "ts' = t\<lparr>tp_offset := high\<rparr> # ts2" "k' = k2" using "2.prems"(1) w True f by simp_all
    have IH: "log_quiet L k1 k2 \<and> map tp_partition ts2 = map tp_partition ts \<and>
        (lg_stable L k2 \<and> lg_known L k2 \<longrightarrow> (\<forall>t \<in> set ts2. lg_high L (tp_partition t) \<le> tp_offset t))"
      using "2.IH" [OF w [symmetric] refl _ f "2.prems"(2)] True by simp
    moreover have "lg_stable L k1 \<and> lg_known L k1" if "lg_stable L k2 \<and> lg_known L k2"
      using that IH by (simp add: log_quiet_def log_step_def)
    moreover have "log_quiet L k k2" by (rule log_quiet_trans [OF conjunct1 [OF wl] conjunct1 [OF IH]])
    ultimately show ?thesis using wl unfolding eq by auto
  qed
qed simp

lemma fillOffset_log:
  assumes "fillOffset K rd = (r, said, rd')" and "keeps_log K L" and "log_inv L rd"
  shows "log_inv L rd' \<and> log_quiet L (m_consumer rd) (m_consumer rd')"
proof (cases "m_logOffset rd = []")
  case False
  then show ?thesis using assms by (simp add: fillOffset_def)
next
  case True
  obtain e1 rs k1 where a1: "kc_assignment K (m_readOffSet rd) (m_consumer rd) = ((e1, rs), k1)"
    by (metis prod.collapse)
  note l1 = keeps_logD(4) [OF assms(2) a1]
  show ?thesis
  proof (cases "e1 = ERR_NO_ERROR")
    case False
    then show ?thesis using assms(1) True a1 l1 by (auto simp: fillOffset_def Let_def log_inv_def)
  next
    case e1: True
    obtain e2 ls k2 where a2: "kc_assignment K [] k1 = ((e2, ls), k2)" by (metis prod.collapse)
    note l2 = keeps_logD(4) [OF assms(2) a2]
    show ?thesis
    proof (cases "e2 = ERR_NO_ERROR")
      case False
      then have "rd' = rd\<lparr>m_consumer := k2, m_logOffset := [], m_readOffSet := rs\<rparr>"
        using assms(1) True a1 a2 e1 l2 by (cases rd) (auto simp: fillOffset_def Let_def)
      moreover have "log_quiet L (m_consumer rd) k2" by (rule log_quiet_trans [OF conjunct1 [OF l1] conjunct1 [OF l2]])
      ultimately show ?thesis by (simp add: log_inv_def)
    next
      case e2: True
      obtain r2 s2 ls2 k3 where f: "fill_watermarks K ls k2 = (r2, s2, ls2, k3)" by (metis prod_cases4)
      note fl = fill_watermarks_log [OF f assms(2)]
      have rd': "rd' = \<lparr>m_consumer = k3, m_logOffset = ls2, m_readOffSet = rs\<rparr>"
        using assms(1) True a1 a2 e1 e2 f by (cases rd) (auto simp: fillOffset_def Let_def)
      have q: "log_quiet L (m_consumer rd) k3"
        by (rule log_quiet_trans [OF log_quiet_trans [OF conjunct1 [OF l1] conjunct1 [OF l2]] conjunct1 [OF fl]])
      have "map tp_partition ls2 = lg_asg L k3 \<and> map tp_partition rs \<in> {[], lg_asg L k3}"
        if "ls2 \<noteq> []" "lg_stable L k3"
      proof -
        have s: "lg_stable L k1" "lg_stable L k2" "lg_asg L k1 \<noteq> [] \<longrightarrow> lg_asg L k2 = lg_asg L k1"
          "lg_asg L k2 \<noteq> [] \<longrightarrow> lg_asg L k3 = lg_asg L k2"
          "lg_asg L (m_consumer rd) \<noteq> [] \<longrightarrow> lg_asg L k1 = lg_asg L (m_consumer rd)"
          using that(2) l1 l2 fl by (simp_all add: log_quiet_def log_step_def)
        have "map tp_partition ls2 \<in> {lg_asg L k1, lg_asg L k2}" "map tp_partition rs \<in> {lg_asg L (m_consumer rd), lg_asg L k1}"
          using l1 l2 fl e1 e2 s(1,2) by simp_all
        moreover have "map tp_partition ls2 \<noteq> []" using that(1) by simp
        ultimately show ?thesis using s(3-5) by auto
      qed
      then show ?thesis using q fl by (auto simp: rd' log_inv_def)
    qed
  qed
qed

lemma fill_if_empty_log:
  assumes "fill_if_empty K rd = (said, rd')" and "keeps_log K L" and "log_inv L rd"
  shows "log_inv L rd' \<and> log_quiet L (m_consumer rd) (m_consumer rd')"
proof (cases "m_logOffset rd = []")
  case True
  then obtain r where "fillOffset K rd = (r, said, rd')" using assms(1) by (cases "fillOffset K rd") (auto simp: fill_if_empty_def)
  from fillOffset_log [OF this assms(2,3)] show ?thesis .
qed (use assms in \<open>simp add: fill_if_empty_def\<close>)

text \<open>One call of \<open>consume\<close>, as the step of the reader that keeps the rest.\<close>

lemma consume_log:
  assumes "kc_consume K (m_consumer rd) = (m, k)" and "keeps_log K L" and "log_inv L rd"
  shows "log_inv L (rd\<lparr>m_consumer := k\<rparr>) \<and>
    (if k_err m = ERR_NO_ERROR
     then log_trace L keys (m_consumer rd) (if wanted keys m then [k_payload m] else []) k
     else log_quiet L (m_consumer rd) k)"
proof -
  note c = keeps_logD(7) [OF assms(2,1)]
  have "log_step L (m_consumer rd) k" using c by (auto simp: log_quiet_def split: if_split_asm)
  from log_inv_step [OF assms(3) this] c log_trace_next [where L = L and k = "m_consumer rd" and k' = k and m = m and keys = keys]
  show ?thesis by (simp split: if_split_asm)
qed

text \<open>
  When \<open>Read\<close> says that everything has been read: every assigned partition from which something has been
  consumed has been read up to the watermark of the start, if the queries for it succeeded.
\<close>

definition caught_up :: "'k topic_log \<Rightarrow> 'k \<Rightarrow> bool" where
  "caught_up L k \<longleftrightarrow> lg_asg L k \<noteq> [] \<and> (lg_known L k \<longrightarrow>
     (\<forall>i \<in> set (lg_asg L k). lg_pos L k i = 0 \<or>
        (\<forall>n < length (lg_msgs L i). fst (lg_msgs L i ! n) < lg_high L i \<longrightarrow> n < lg_pos L k i)))"

lemma position_reaches:
  assumes "keeps_log K L" and "lg_pos L k i \<noteq> 0" and "h \<le> log_offset L k i"
    and "n < length (lg_msgs L i)" and "fst (lg_msgs L i ! n) < h"
  shows "n < lg_pos L k i"
proof (rule ccontr)
  assume "\<not> n < lg_pos L k i"
  then have "lg_pos L k i - 1 < n" using assms(2) by simp
  then have "fst (lg_msgs L i ! (lg_pos L k i - 1)) < fst (lg_msgs L i ! n)"
    using keeps_logD(1) [OF assms(1), of i] assms(4) by (simp add: sorted_wrt_iff_nth_less)
  then show False using assms(2,3,5) by (simp add: log_offset_def)
qed

lemma caught_upI:
  assumes k: "keeps_log K L" and inv: "log_inv L rd" and ne: "m_logOffset rd \<noteq> []"
    and st: "lg_stable L (m_consumer rd)"
    and ro: "read_over K rs (m_logOffset rd) = Ret (True, said)"
    and rs: "map tp_partition rs = lg_asg L (m_consumer rd)"
    and off: "\<forall>t \<in> set rs. tp_offset t = log_offset L (m_consumer rd) (tp_partition t)"
  shows "caught_up L (m_consumer rd)"
  unfolding caught_up_def
proof (intro conjI impI ballI)
  have ls: "map tp_partition (m_logOffset rd) = lg_asg L (m_consumer rd)"
    using inv ne st by (simp add: log_inv_def)
  then show "lg_asg L (m_consumer rd) \<noteq> []" using ne by (metis map_is_Nil_conv)
  fix p assume known: "lg_known L (m_consumer rd)" and p: "p \<in> set (lg_asg L (m_consumer rd))"
  have len: "length rs = length (m_logOffset rd)" using ls rs by (metis length_map)
  have all: "\<forall>i < length (m_logOffset rd). tp_offset (rs ! i) \<le> -1001 \<or> tp_offset (m_logOffset rd ! i) \<le> tp_offset (rs ! i)"
    using read_over_iff [of "m_logOffset rd" rs K] ro len by auto
  obtain j where j: "j < length rs" "tp_partition (rs ! j) = p"
    using p rs by (metis in_set_conv_nth length_map nth_map)
  have q: "tp_partition (m_logOffset rd ! j) = p" using j ls rs len by (metis nth_map)
  have o: "tp_offset (rs ! j) = log_offset L (m_consumer rd) p" using off j nth_mem by blast
  have "\<forall>t \<in> set (m_logOffset rd). lg_high L (tp_partition t) \<le> tp_offset t"
    using inv ne st known by (simp add: log_inv_def)
  then have h: "lg_high L p \<le> tp_offset (m_logOffset rd ! j)" using q j(1) len nth_mem by metis
  show "lg_pos L (m_consumer rd) p = 0 \<or>
      (\<forall>n < length (lg_msgs L p). fst (lg_msgs L p ! n) < lg_high L p \<longrightarrow> n < lg_pos L (m_consumer rd) p)"
  proof (cases "lg_pos L (m_consumer rd) p = 0")
    case False
    have "n < lg_pos L (m_consumer rd) p" if n: "n < length (lg_msgs L p)" "fst (lg_msgs L p ! n) < lg_high L p" for n
    proof (cases "lg_pos L (m_consumer rd) p \<le> length (lg_msgs L p)")
      case True
      then have "0 \<le> fst (lg_msgs L p ! (lg_pos L (m_consumer rd) p - 1))"
        using keeps_logD(1) [OF k, of p] False by simp
      then have "lg_high L p \<le> log_offset L (m_consumer rd) p"
        using all j(1) len o h False by (auto simp: log_offset_def)
      from position_reaches [OF k False this n] show ?thesis .
    qed (use n in simp)
    then show ?thesis by blast
  qed simp
qed

text \<open>One call of \<open>position\<close>, which replaces the vector of positions.\<close>

lemma position_log:
  assumes "kc_position K (m_readOffSet rd) k1 = ((e, rs), k2)" and "keeps_log K L"
    and "log_inv L (rd\<lparr>m_consumer := k1\<rparr>)" and "e = ERR_NO_ERROR"
  shows "log_inv L (rd\<lparr>m_consumer := k2, m_readOffSet := rs\<rparr>) \<and> log_quiet L k1 k2 \<and>
    (lg_stable L k2 \<longrightarrow> (\<forall>t \<in> set rs. tp_offset t = log_offset L k2 (tp_partition t)))"
proof -
  note ql = keeps_logD(6) [OF assms(2,1)]
  then have "log_inv L (rd\<lparr>m_consumer := k2\<rparr>)"
    using log_inv_step [OF assms(3), of k2] by (simp add: log_quiet_def)
  then show ?thesis using ql assms(4) by (auto simp: log_inv_def)
qed

section \<open>The passes of Read over a log\<close>

lemma pass_again_log:
  assumes p: "Read_pass K keys rd = Again new rd'" and k: "keeps_log K L" and inv: "log_inv L rd"
  shows "log_inv L rd' \<and> log_trace L keys (m_consumer rd) [] (m_consumer rd')"
proof -
  obtain m k1 where c: "kc_consume K (m_consumer rd) = (m, k1)" by fastforce
  define rd1 where "rd1 = rd\<lparr>m_consumer := k1\<rparr>"
  note cl = consume_log [OF c k inv, of keys, folded rd1_def]
  have k1: "m_consumer rd1 = k1" by (simp add: rd1_def)
  consider (late) "k_err m = ERR__TIMED_OUT" | (msg) "k_err m = ERR_NO_ERROR"
    using p c by (auto simp: Read_pass_def Let_def split: if_split_asm)
  then show ?thesis
  proof cases
    case late
    then have quiet: "log_quiet L (m_consumer rd) k1" using cl by (simp add: kafka_codes)
    show ?thesis
    proof (cases "m_logOffset rd = []")
      case True
      then obtain r where f: "fillOffset K rd1 = (r, new, rd')"
        using p c late by (cases "fillOffset K rd1") (simp add: Read_pass_def rd1_def)
      note fl = fillOffset_log [OF f k conjunct1 [OF cl], unfolded k1]
      from log_trace_quiet [OF log_quiet_trans [OF quiet conjunct2 [OF fl]]] fl show ?thesis by simp
    next
      case False
      obtain e rs k2 where q: "kc_position K (m_readOffSet rd) k1 = ((e, rs), k2)" by (metis prod.collapse)
      have rd': "rd' = rd\<lparr>m_consumer := k2, m_readOffSet := rs\<rparr>" and e: "e = ERR_NO_ERROR"
        using p c late False q
        by (auto simp: Read_pass_def Let_def split: if_split_asm outcome.split_asm prod.split_asm bool.split_asm)
      note ql = position_log [OF q k conjunct1 [OF cl, unfolded rd1_def] e]
      have "log_quiet L k1 k2" using ql by blast
      from log_trace_quiet [OF log_quiet_trans [OF quiet this]] ql show ?thesis by (simp add: rd')
    qed
  next
    case msg
    obtain said rd2 where f: "fill_if_empty K rd1 = (said, rd2)" by fastforce
    note fl = fill_if_empty_log [OF f k conjunct1 [OF cl]]
    have "rd' = rd2 \<and> \<not> wanted keys m"
      using p c msg f by (auto simp: Read_pass_def Let_def rd1_def kafka_codes wanted_def
          split: if_split_asm option.split_asm)
    then show ?thesis
      using cl fl msg(1) k1 log_trace_quiet_after [of L keys "m_consumer rd" "[]" k1 "m_consumer rd2"] by simp
  qed
qed

lemma pass_message_log:
  assumes p: "Read_pass K keys rd = Stop (Ret (ERR_NO_ERROR, Some b)) new rd'"
    and k: "keeps_log K L" and inv: "log_inv L rd"
  shows "log_inv L rd' \<and> log_trace L keys (m_consumer rd) [b] (m_consumer rd')"
proof -
  obtain m k1 where c: "kc_consume K (m_consumer rd) = (m, k1)" by fastforce
  define rd1 where "rd1 = rd\<lparr>m_consumer := k1\<rparr>"
  note cl = consume_log [OF c k inv, of keys, folded rd1_def]
  obtain said rd2 where f: "fill_if_empty K rd1 = (said, rd2)" by fastforce
  have m: "k_err m = ERR_NO_ERROR" "wanted keys m" "b = k_payload m"
    using Read_pass_message [OF p] c by (auto simp: wanted_def)
  then have "rd' = rd2"
    using p c f by (auto simp: Read_pass_def Let_def rd1_def kafka_codes split: if_split_asm option.split_asm)
  then show ?thesis
    using cl fill_if_empty_log [OF f k conjunct1 [OF cl]] m
      log_trace_quiet_after [of L keys "m_consumer rd" "[b]" k1 "m_consumer rd2"] by (simp add: rd1_def)
qed

lemma pass_timeout_log:
  assumes p: "Read_pass K keys rd = Stop (Ret (ERR__TIMED_OUT, b)) new rd'"
    and k: "keeps_log K L" and inv: "log_inv L rd"
  shows "log_inv L rd' \<and> log_trace L keys (m_consumer rd) [] (m_consumer rd') \<and>
    (lg_stable L (m_consumer rd') \<longrightarrow> caught_up L (m_consumer rd'))"
proof -
  obtain m k1 where c: "kc_consume K (m_consumer rd) = (m, k1)" by fastforce
  note cl = consume_log [OF c k inv, of keys]
  have late: "k_err m = ERR__TIMED_OUT" and ne: "m_logOffset rd \<noteq> []"
    using p c by (auto simp: Read_pass_def Let_def kafka_codes split: if_split_asm option.split_asm prod.split_asm)
  obtain e rs k2 where q: "kc_position K (m_readOffSet rd) k1 = ((e, rs), k2)" by (metis prod.collapse)
  have e: "e = ERR_NO_ERROR" and ro: "read_over K rs (m_logOffset rd) = Ret (True, new)"
    and rd': "rd' = rd\<lparr>m_consumer := k2, m_readOffSet := rs\<rparr>"
    using p c late ne q
    by (auto simp: Read_pass_def Let_def kafka_codes split: if_split_asm outcome.split_asm prod.split_asm bool.split_asm)
  note ql = position_log [OF q k conjunct1 [OF cl] e]
  have inv': "log_inv L rd'" using ql by (simp add: rd')
  have "log_quiet L (m_consumer rd) k1" "log_quiet L k1 k2" using cl late ql by (simp_all add: kafka_codes)
  from log_quiet_trans [OF this] have quiet: "log_quiet L (m_consumer rd) (m_consumer rd')" by (simp add: rd')
  have "caught_up L (m_consumer rd')" if st: "lg_stable L (m_consumer rd')"
  proof (rule caught_upI [OF k inv' _ st])
    show "m_logOffset rd' \<noteq> []" "read_over K rs (m_logOffset rd') = Ret (True, new)"
      using ne ro by (simp_all add: rd')
    have "rs \<noteq> []" using ro ne by (cases "m_logOffset rd") auto
    then show "map tp_partition rs = lg_asg L (m_consumer rd')"
      using inv' ne st by (simp add: rd' log_inv_def)
    show "\<forall>t \<in> set rs. tp_offset t = log_offset L (m_consumer rd') (tp_partition t)"
      using ql st by (simp add: rd')
  qed
  with inv' log_trace_quiet [OF quiet] show ?thesis by blast
qed

lemma goes_on_log:
  "goes_on K keys said rd said' rd' \<Longrightarrow> keeps_log K L \<Longrightarrow> log_inv L rd \<Longrightarrow>
   log_inv L rd' \<and> log_trace L keys (m_consumer rd) [] (m_consumer rd')"
proof (induction rule: goes_on.induct)
  case (here said rd)
  then show ?case by (simp add: log_trace_quiet)
next
  case (pass rd new rd1 said said2 rd2)
  note a = pass_again_log [OF pass.hyps(1) pass.prems]
  with pass log_trace_trans [of L keys "m_consumer rd" "[]" "m_consumer rd1" "[]" "m_consumer rd2"]
  show ?case by auto
qed

lemma Read_log:
  assumes r: "Read K keys rd = Some (Ret (rc, b), said, rd')" and k: "keeps_log K L" and inv: "log_inv L rd"
  shows "rc = ERR_NO_ERROR \<Longrightarrow> b = Some p \<Longrightarrow>
      log_inv L rd' \<and> log_trace L keys (m_consumer rd) [p] (m_consumer rd')"
    and "rc = ERR__TIMED_OUT \<Longrightarrow> log_inv L rd' \<and> log_trace L keys (m_consumer rd) [] (m_consumer rd') \<and>
      (lg_stable L (m_consumer rd') \<longrightarrow> caught_up L (m_consumer rd'))"
proof -
  obtain s0 rd0 where f: "fill_if_empty K rd = (s0, rd0)" by fastforce
  note fl = fill_if_empty_log [OF f k inv]
  obtain s1 rd1 new where g: "goes_on K keys s0 rd0 s1 rd1"
    and p: "Read_pass K keys rd1 = Stop (Ret (rc, b)) new rd'"
    using r f by (auto simp: Read_def Read_loop_iff)
  note gl = goes_on_log [OF g k conjunct1 [OF fl]]
  have t: "log_trace L keys (m_consumer rd) ps (m_consumer rd')"
    if "log_trace L keys (m_consumer rd1) ps (m_consumer rd')" for ps
    using log_trace_quiet_before [OF conjunct2 [OF fl]]
      log_trace_trans [of L keys "m_consumer rd0" "[]" "m_consumer rd1" ps "m_consumer rd'"] that gl by simp
  show "rc = ERR_NO_ERROR \<Longrightarrow> b = Some p \<Longrightarrow>
      log_inv L rd' \<and> log_trace L keys (m_consumer rd) [p] (m_consumer rd')"
    using pass_message_log [OF _ k] p gl t by blast
  show "rc = ERR__TIMED_OUT \<Longrightarrow> log_inv L rd' \<and> log_trace L keys (m_consumer rd) [] (m_consumer rd') \<and>
      (lg_stable L (m_consumer rd') \<longrightarrow> caught_up L (m_consumer rd'))"
    using pass_timeout_log [OF _ k] p gl t by blast
qed

section \<open>The program over a log\<close>

lemma delivered_log:
  "delivered (Read K) topic rd evs rd' \<Longrightarrow> keeps_log K L \<Longrightarrow> log_inv L rd \<Longrightarrow>
   log_inv L rd' \<and> log_trace L (tableName topic) (m_consumer rd) (payloads evs) (m_consumer rd')"
proof (induction rule: delivered.induct)
  case (none rd)
  then show ?case by (simp add: log_trace_quiet)
next
  case (message rd p said rd1 evs rd2)
  note r = Read_log(1) [OF message.hyps(1) message.prems refl refl]
  with message log_trace_trans [of L "tableName topic" "m_consumer rd" "[p]" "m_consumer rd1"] show ?case by auto
next
  case (idle rd m said rd1 evs rd2)
  note r = Read_log(2) [OF idle.hyps(2) idle.prems refl]
  with idle log_trace_trans [of L "tableName topic" "m_consumer rd" "[]" "m_consumer rd1"] show ?case by auto
qed

lemma log_trace_start:
  assumes "log_trace L keys k ps k'" and "lg_stable L k \<longrightarrow> lg_pos L k = (\<lambda>_. 0)" and "lg_stable L k'"
  shows "\<exists>tr. ps = map k_payload (filter (wanted keys) (map snd tr)) \<and>
    (\<forall>i. map snd (filter (\<lambda>x. fst x = i) tr) = map snd (take (lg_pos L k' i) (lg_msgs L i)))"
proof -
  obtain tr where c: "consumed L (\<lambda>_. 0) tr (lg_pos L k')" and ps: "ps = map k_payload (filter (wanted keys) (map snd tr))"
    using assms by (auto simp: log_trace_def)
  have "map snd (filter (\<lambda>x. fst x = i) tr) = map snd (take (lg_pos L k' i) (lg_msgs L i))" for i
    using consumed_partition [OF c, of i] by simp
  with ps show ?thesis by blast
qed

lemma constructor_log:
  assumes "CBinlogKafkaReader K servers name grp = Ret (hello, Some rd)" and "keeps_log K L"
  shows "log_inv L rd \<and> (lg_stable L (m_consumer rd) \<longrightarrow> lg_pos L (m_consumer rd) = (\<lambda>_. 0))"
proof -
  obtain c k where r: "kc_create K (global_conf servers grp) topic_conf = Some c" "kc_subscribe K [name] c = (0, k)"
    and rd: "rd = \<lparr>m_consumer = k, m_logOffset = [], m_readOffSet = []\<rparr>"
    using assms(1) by (auto simp: CBinlogKafkaReader_def Init_def split: prod.split_asm if_split_asm option.split_asm)
  show ?thesis
    using keeps_logD(2) [OF assms(2) r(1)] keeps_logD(3) [OF assms(2) r(2)]
    by (simp add: rd log_inv_def log_quiet_def log_step_def)
qed

text \<open>A loop that no signal ends and that reports no error has ended on a time-out of \<open>Read\<close>.\<close>

lemma loop_ends_quietly:
  assumes "dump_loop (Read K) D W topic printRaw sigint i st = Some (Ret st')" and sig: "\<And>j. \<not> sigint j"
    and err: "length (d_err st') \<le> length (d_err st)"
  shows "\<exists>evs rd1 said rd2. delivered (Read K) topic (d_reader st) evs rd1 \<and>
    Read K (tableName topic) rd1 = Some (Ret (ERR__TIMED_OUT, None), said, rd2) \<and>
    d_out st' = d_out st @ fst (print_all D W printRaw evs (d_stat st)) @ said \<and>
    d_stat st' = snd (print_all D W printRaw evs (d_stat st))"
proof -
  obtain j st1 where s: "dump_steps (Read K) D W topic printRaw sigint i st j st1"
    and e: "dump_ends (Read K) D W topic printRaw sigint j st1 (Ret st')"
    using assms(1) unfolding dump_loop_iff by blast
  obtain evs where d: "delivered (Read K) topic (d_reader st) evs (d_reader st1)"
    and st1: "st1 = printed D W printRaw evs (d_reader st1) st"
    using kafka.dump_steps_print [OF s] by blast
  have p: "d_out st1 = d_out st @ fst (print_all D W printRaw evs (d_stat st))"
    "d_stat st1 = snd (print_all D W printRaw evs (d_stat st))" "d_err st1 = d_err st"
    by (subst st1, simp add: printed_def)+
  have "dump_pass (Read K) D W topic printRaw st1 = Some (Leave (Ret st'))" using e sig by (simp add: dump_ends_def)
  from dump_pass_Leave [OF this] obtain ret m said rd2
    where r: "Read K (tableName topic) (d_reader st1) = Some (Ret (ret, m), said, rd2)"
      and o: "d_out st' = d_out st1 @ said" "d_stat st' = d_stat st1"
      and ret: "ret = ERR__TIMED_OUT \<or> d_err st' = d_err st1 @ ''read kafka err: '' @ int_dec ret @ newline"
    by (auto split: if_split_asm)
  have ret: "ret = ERR__TIMED_OUT" using ret err p(3) by auto
  have "m = None" using Read_stops [OF r [unfolded ret]] Read_pass_timeout by blast
  then show ?thesis using d r [unfolded ret] o p by auto
qed

lemma dump_finish_parts:
  assumes "dump_finish (\<lambda>rd. Ret (commit_offset rd)) topic st = Ret (rc, out, err)"
  shows "rc = 0 \<and> out = d_out st @ stat_text (d_stat st) \<and> length (d_err st) \<le> length err"
  using assms by (auto simp: dump_finish_def split: prod.split_asm if_split_asm)

lemma whole_topic_printed:
  assumes args: "main_args argv = Go (topic, printRaw)"
    and init: "CBinlogKafkaReader K (cstr (bootstrap topic)) (cstr (topicName topic)) (groupIdNum topic) = Ret (hello, Some rd)"
    and run: "binlogdumpK_main K D W sigint argv = Some (Ret (rc, out, PintfArg topic))"
    and sig: "\<And>j. \<not> sigint j" and k: "keeps_log K L"
  shows "\<exists>evs rd1 said rd2. delivered (Read K) topic rd evs rd1 \<and>
    Read K (tableName topic) rd1 = Some (Ret (ERR__TIMED_OUT, None), said, rd2) \<and>
    (lg_stable L (m_consumer rd2) \<longrightarrow> caught_up L (m_consumer rd2) \<and>
       (\<exists>tr. payloads evs = map k_payload (filter (wanted (tableName topic)) (map snd tr)) \<and>
          (\<forall>i. map snd (filter (\<lambda>x. fst x = i) tr) = map snd (take (lg_pos L (m_consumer rd2) i) (lg_msgs L i))))) \<and>
    rc = 0 \<and>
    out = hello @ fst (print_all D W printRaw evs gbStat) @ said @ stat_text (snd (print_all D W printRaw evs gbStat))"
proof -
  define st where "st = \<lparr>d_reader = rd, d_stat = gbStat, d_out = hello, d_err = PintfArg topic\<rparr>"
  note m = main_reads [OF args init, of D W sigint, folded st_def]
  obtain st' where l: "dump_loop (Read K) D W topic printRaw sigint 0 st = Some (Ret st')"
    and f: "dump_finish (\<lambda>rd. Ret (CommitOffset K rd)) topic st' = Ret (rc, out, PintfArg topic)"
  proof (cases "dump_loop (Read K) D W topic printRaw sigint 0 st")
    case None
    then show thesis using run m by simp
  next
    case (Some res)
    then show thesis using run m that by (cases res) auto
  qed
  have fin: "rc = 0" "out = d_out st' @ stat_text (d_stat st')" "length (d_err st') \<le> length (PintfArg topic)"
    using dump_finish_parts [OF f] by simp_all
  obtain evs rd1 said rd2 where q: "delivered (Read K) topic rd evs rd1"
    "Read K (tableName topic) rd1 = Some (Ret (ERR__TIMED_OUT, None), said, rd2)"
    "d_out st' = hello @ fst (print_all D W printRaw evs gbStat) @ said"
    "d_stat st' = snd (print_all D W printRaw evs gbStat)"
    using loop_ends_quietly [OF l sig] fin(3) by (auto simp: st_def)
  note start = constructor_log [OF init k]
  note dl = delivered_log [OF q(1) k conjunct1 [OF start]]
  note rl = Read_log(2) [OF q(2) k conjunct1 [OF dl] refl]
  have "log_trace L (tableName topic) (m_consumer rd) (payloads evs) (m_consumer rd2)"
    using log_trace_trans [of L "tableName topic" "m_consumer rd" "payloads evs" "m_consumer rd1" "[]"] dl rl by auto
  from log_trace_start [OF this conjunct2 [OF start]] rl
  have "lg_stable L (m_consumer rd2) \<longrightarrow> caught_up L (m_consumer rd2) \<and>
       (\<exists>tr. payloads evs = map k_payload (filter (wanted (tableName topic)) (map snd tr)) \<and>
          (\<forall>i. map snd (filter (\<lambda>x. fst x = i) tr) = map snd (take (lg_pos L (m_consumer rd2) i) (lg_msgs L i))))"
    by blast
  moreover have "out = hello @ fst (print_all D W printRaw evs gbStat) @ said @
      stat_text (snd (print_all D W printRaw evs gbStat))" using fin(2) q(3,4) by simp
  ultimately show ?thesis using q(1,2) fin(1) by blast
qed

text \<open>
  A partition nothing has been consumed from counts as read: a first time-out before the first
  message ends the reading, however high the watermarks are.
\<close>

lemma assigned_quiet:
  "assigned K rd said ms rd1 \<Longrightarrow> keeps_log K L \<Longrightarrow> log_inv L rd \<Longrightarrow>
   log_inv L rd1 \<and> (ms = [] \<longrightarrow> log_quiet L (m_consumer rd) (m_consumer rd1))"
proof (induction rule: assigned.induct)
  case (found rd r said rd1)
  from fillOffset_log [OF found.hyps(2) found.prems] show ?case by simp
next
  case (idle rd r said rd1 t k said2 ms rd2)
  note f = fillOffset_log [OF idle.hyps(2) idle.prems]
  note c = consume_log [OF idle.hyps(4) idle.prems(1) conjunct1 [OF f], of "[]"]
  then have "log_quiet L (m_consumer rd1) k" using idle.hyps(5) by (simp add: kafka_codes)
  then have "log_quiet L (m_consumer rd) k" by (rule log_quiet_trans [OF conjunct2 [OF f]])
  with idle.IH [OF idle.prems(1) conjunct1 [OF c]] log_quiet_trans [OF this] show ?case by simp
next
  case (message rd r said rd1 m k r2 said2 rd2)
  note f = fillOffset_log [OF message.hyps(2) message.prems]
  note c = consume_log [OF message.hyps(4) message.prems(1) conjunct1 [OF f], of "[]"]
  from fillOffset_log [OF message.hyps(7) message.prems(1) conjunct1 [OF c]] show ?case by simp
qed

lemma early_timeout:
  assumes k: "keeps_log K L" and inv: "log_inv L rd" and ne: "m_logOffset rd \<noteq> []" "m_readOffSet rd \<noteq> []"
    and c: "kc_consume K (m_consumer rd) = (m, k1)" "k_err m = ERR__TIMED_OUT"
    and q: "kc_position K (m_readOffSet rd) k1 = ((ERR_NO_ERROR, rs), k2)"
    and st: "lg_stable L k2"
    and pos: "lg_stable L (m_consumer rd) \<longrightarrow> lg_pos L (m_consumer rd) = (\<lambda>_. 0)"
  shows "read_over K rs (m_logOffset rd) = Ret (True, [])"
proof -
  note cl = consume_log [OF c(1) k inv, of "[]"]
  note ql = position_log [OF q k conjunct1 [OF cl] refl]
  have "log_quiet L (m_consumer rd) k1" "log_quiet L k1 k2" using cl c(2) ql by (simp_all add: kafka_codes)
  from log_quiet_trans [OF this] have "lg_stable L (m_consumer rd)" "lg_pos L k2 = lg_pos L (m_consumer rd)"
    using st by (simp_all add: log_quiet_def log_step_def)
  then have "log_offset L k2 i = -1001" for i using pos by (simp add: log_offset_def)
  then have off: "\<forall>t \<in> set rs. tp_offset t = -1001" using ql st by simp
  have ls: "map tp_partition (m_logOffset rd) = lg_asg L k2" "map tp_partition rs \<in> {[], lg_asg L k2}"
    using ql ne(1) st by (simp_all add: log_inv_def)
  have "map tp_partition rs = map tp_partition (m_readOffSet rd)" using keeps_logD(6) [OF k q] st by simp
  then have "length rs = length (m_readOffSet rd)" by (metis length_map)
  then have "map tp_partition rs \<noteq> []" using ne(2) by auto
  with ls have "map tp_partition rs = map tp_partition (m_logOffset rd)" by simp
  then have len: "length rs = length (m_logOffset rd)" by (metis length_map)
  have "\<forall>i < length (m_logOffset rd). tp_offset (rs ! i) \<le> -1001" using off len by simp
  with read_over_iff [of "m_logOffset rd" rs K] len read_over_silent show ?thesis by fastforce
qed

end
