(* ===== verification/LogSamples.thy ===== *)
theory LogSamples
  imports DumpSamples KafkaLog
begin

text \<open>
  Consumers that keep the laws of a log.  The first has one partition with the three sample messages
  at the offsets 0, 2 and 5.  Its state counts what has happened: a first call of \<open>consume\<close> times out
  before the partition is assigned, which happens together with the first message.
\<close>

definition sample_position :: "nat \<Rightarrow> int \<Rightarrow> int" where
  "sample_position k i = (if i = 0 \<and> 2 \<le> k then [1, 3, 6] ! min 2 (k - 2) else -1001)"

definition log_consumer :: "nat consumer" where
  "log_consumer = \<lparr>kc_set_group = (\<lambda>_. (0, [])), kc_create = (\<lambda>_ _. Some 0), kc_subscribe = (\<lambda>_ k. (0, k)),
     kc_assignment = (\<lambda>_ k. ((0, if k < 2 then [] else [sample_tp]), k)),
     kc_watermark = (\<lambda>_ _ k. ((0, 6), k)),
     kc_position = (\<lambda>ts k. ((0, map (\<lambda>t. t\<lparr>tp_offset := sample_position k (tp_partition t)\<rparr>) ts), k)),
     kc_consume = (\<lambda>k. if k = 0 then (timed_out, 1)
       else if k < 4 then (sample_messages ! (k - 1), Suc k) else (timed_out, k)),
     kc_commit = (\<lambda>k. (0, k)), kc_name = (\<lambda>_. ''consumer''), kc_err2str = (\<lambda>_. ''error''), kc_vararg = (\<lambda>i. i)\<rparr>"

definition sample_log :: "nat topic_log" where
  "sample_log = \<lparr>lg_msgs = (\<lambda>i. if i = 0 then zip [0, 2, 5] sample_messages else []), lg_high = (\<lambda>_. 6),
     lg_pos = (\<lambda>k i. if i = 0 then min 3 (k - 1) else 0), lg_asg = (\<lambda>k. if k < 2 then [] else [0]),
     lg_stable = (\<lambda>_. True), lg_known = (\<lambda>_. True)\<rparr>"

lemma sample_messages_ok: "k < 3 \<Longrightarrow> k_err (sample_messages ! k) = 0"
  by (cases k; cases "k - 1"; simp add: sample_messages_def nth_Cons split: nat.split)

lemma sample_length: "length sample_messages = 3"
  by (simp add: sample_messages_def)

lemma log_consumer_consumes:
  assumes "kc_consume log_consumer k = (m, k')"
  shows "if k_err m = ERR_NO_ERROR
    then log_step sample_log k k' \<and> (lg_stable sample_log k' \<longrightarrow> log_next sample_log k m k')
    else log_quiet sample_log k k'"
proof (cases "k = 0 \<or> 4 \<le> k")
  case True
  then show ?thesis using assms
    by (auto simp: log_consumer_def sample_log_def log_quiet_def log_step_def kafka_codes)
next
  case False
  have m: "m = sample_messages ! (k - 1)" "k' = Suc k" using assms False by (simp_all add: log_consumer_def)
  have "log_next sample_log k m k'"
    unfolding log_next_def using False m sample_length
    by (intro exI [of _ 0]) (auto simp: sample_log_def)
  moreover have "k_err m = ERR_NO_ERROR" using False m sample_messages_ok [of "k - 1"] by (auto simp: kafka_codes)
  moreover have "log_step sample_log k k'" using m by (simp add: log_step_def sample_log_def)
  ultimately show ?thesis by simp
qed

lemma log_consumer_positions:
  "sample_position k i = log_offset sample_log k i"
proof -
  consider "k < 2" | "k = 2" | "k = 3" | "4 \<le> k" by linarith
  then show ?thesis
  proof cases
    case 4
    then have "min 3 (k - Suc 0) = 3" "min 2 (k - 2) = 2" by simp_all
    with 4 show ?thesis by (simp add: sample_position_def log_offset_def sample_log_def sample_messages_def)
  qed (simp_all add: sample_position_def log_offset_def sample_log_def sample_messages_def)
qed

lemma sample_log_sorted:
  "\<forall>i. sorted_wrt (<) (map fst (lg_msgs sample_log i)) \<and> (\<forall>x \<in> set (lg_msgs sample_log i). 0 \<le> fst x)"
proof
  fix i
  show "sorted_wrt (<) (map fst (lg_msgs sample_log i)) \<and> (\<forall>x \<in> set (lg_msgs sample_log i). 0 \<le> fst x)"
    by (cases "i = 0") (simp_all add: sample_log_def sample_messages_def)
qed

lemma log_consumer_keeps: "keeps_log log_consumer sample_log"
  unfolding keeps_log_def
proof (intro conjI)
  show "\<forall>k m k'. kc_consume log_consumer k = (m, k') \<longrightarrow>
      (if k_err m = ERR_NO_ERROR
       then log_step sample_log k k' \<and> (lg_stable sample_log k' \<longrightarrow> log_next sample_log k m k')
       else log_quiet sample_log k k')"
    using log_consumer_consumes by blast
  show "\<forall>ts k e ts' k'. kc_position log_consumer ts k = ((e, ts'), k') \<longrightarrow> log_quiet sample_log k k' \<and>
      (e = ERR_NO_ERROR \<and> lg_stable sample_log k' \<longrightarrow> map tp_partition ts' = map tp_partition ts \<and>
        (\<forall>t \<in> set ts'. tp_offset t = log_offset sample_log k' (tp_partition t)))"
  proof (intro allI impI)
    fix ts k e ts' k' assume "kc_position log_consumer ts k = ((e, ts'), k')"
    then have k: "k' = k" and ts': "ts' = map (\<lambda>t. t\<lparr>tp_offset := sample_position k (tp_partition t)\<rparr>) ts"
      by (auto simp: log_consumer_def)
    then show "log_quiet sample_log k k' \<and>
      (e = ERR_NO_ERROR \<and> lg_stable sample_log k' \<longrightarrow> map tp_partition ts' = map tp_partition ts \<and>
        (\<forall>t \<in> set ts'. tp_offset t = log_offset sample_log k' (tp_partition t)))"
      using log_consumer_positions [of k] unfolding k ts' by (simp add: comp_def)
  qed
  show "\<forall>g t k. kc_create log_consumer g t = Some k \<longrightarrow> lg_stable sample_log k \<longrightarrow> lg_pos sample_log k = (\<lambda>_. 0)"
    by (auto simp: log_consumer_def sample_log_def fun_eq_iff)
qed (use sample_log_sorted in \<open>simp_all add: log_consumer_def sample_log_def kafka_codes sample_tp_def\<close>)

definition log_started :: "nat kreader" where
  "log_started = \<lparr>m_consumer = 2, m_logOffset = [sample_tp\<lparr>tp_offset := 6\<rparr>], m_readOffSet = [sample_tp]\<rparr>"

definition log_said :: bytes where
  "log_said = ''kafka: get watermark offset OK: node.db.binlog, 0:  6''"

lemma log_fill:
  "fillOffset log_consumer \<lparr>m_consumer = 2, m_logOffset = [], m_readOffSet = []\<rparr> = (0, log_said, log_started)"
  by (simp add: fillOffset_def log_started_def log_consumer_def log_said_def
      kafka_codes sample_tp_def pad_left_def int_dec_def nat_dec.simps digit_char_def char_of_def
      bit_Suc_0_iff cstr_def)

lemma log_no_fill:
  "k < 2 \<Longrightarrow> fillOffset log_consumer \<lparr>m_consumer = k, m_logOffset = [], m_readOffSet = []\<rparr> =
    (0, [], \<lparr>m_consumer = k, m_logOffset = [], m_readOffSet = []\<rparr>)"
  by (simp add: fillOffset_def log_consumer_def kafka_codes)

lemma log_assigned:
  "assigned log_consumer \<lparr>m_consumer = 0, m_logOffset = [], m_readOffSet = []\<rparr> log_said [hd sample_messages] log_started"
proof -
  have "assigned log_consumer \<lparr>m_consumer = 1, m_logOffset = [], m_readOffSet = []\<rparr> ([] @ log_said)
      [hd sample_messages] log_started"
  proof (rule assigned.message)
    show "kc_consume log_consumer (m_consumer \<lparr>m_consumer = 1, m_logOffset = [], m_readOffSet = []\<rparr>) = (hd sample_messages, 2)"
      by (simp add: log_consumer_def sample_messages_def)
    show "fillOffset log_consumer (\<lparr>m_consumer = 1, m_logOffset = [], m_readOffSet = []\<rparr>\<lparr>m_consumer := 2\<rparr>) = (0, log_said, log_started)"
      using log_fill by simp
  qed (simp_all add: log_no_fill sample_messages_def kafka_codes log_started_def)
  note later = this
  have "assigned log_consumer \<lparr>m_consumer = 0, m_logOffset = [], m_readOffSet = []\<rparr> ([] @ [] @ log_said)
      [hd sample_messages] log_started"
  proof (rule assigned.idle)
    show "fillOffset log_consumer \<lparr>m_consumer = 0, m_logOffset = [], m_readOffSet = []\<rparr> =
        (0, [], \<lparr>m_consumer = 0, m_logOffset = [], m_readOffSet = []\<rparr>)"
      by (simp add: log_no_fill)
    show "kc_consume log_consumer (m_consumer \<lparr>m_consumer = 0, m_logOffset = [], m_readOffSet = []\<rparr>) = (timed_out, 1)"
      by (simp add: log_consumer_def)
  qed (use later in \<open>simp_all add: kafka_codes\<close>)
  then show ?thesis by simp
qed

lemma log_facts:
  "Init log_consumer servers name grp = Ret (0, sample_hello servers name grp,
     Some \<lparr>m_consumer = 0, m_logOffset = [], m_readOffSet = []\<rparr>)"
  "assigned log_consumer \<lparr>m_consumer = 0, m_logOffset = [], m_readOffSet = []\<rparr> log_said [hd sample_messages] log_started"
  "hands_out log_consumer (m_consumer log_started) (tl sample_messages) 4"
  "\<forall>m \<in> set (tl sample_messages). k_err m = ERR_NO_ERROR \<and> k_key m \<noteq> None"
  "kc_consume log_consumer 4 = (timed_out, 4)"
  "k_err timed_out = ERR__TIMED_OUT"
  "kc_position log_consumer (m_readOffSet log_started) 4 = ((ERR_NO_ERROR, [sample_tp\<lparr>tp_offset := 6\<rparr>]), 4)"
  "read_over log_consumer [sample_tp\<lparr>tp_offset := 6\<rparr>] (m_logOffset log_started) = Ret (True, [])"
proof -
  show "hands_out log_consumer (m_consumer log_started) (tl sample_messages) 4"
    by (simp add: log_started_def log_consumer_def sample_messages_def)
qed (use log_assigned in \<open>simp_all add: sample_position_def Init_def log_consumer_def log_started_def sample_hello_def
      sample_messages_def kafka_codes CONF_OK_def sample_tp_def cstr_def\<close>)

lemma log_run:
  obtains topic raw out where "main_args sample_argv = Go (topic, raw)" "tableName topic = [''a'', ''b'']"
    and "binlogdumpK_main log_consumer sample_dumpenv std_wire (\<lambda>_. False) sample_argv
      = Some (Ret (0, out, PintfArg topic))"
proof -
  obtain topic raw where a: "main_args sample_argv = Go (topic, raw)" "\<not> waitMode topic" "\<not> commit topic"
    "tableName topic = [''a'', ''b'']"
    by (rule sample_dump_args)
  from program_dumped [OF a(1,2) log_facts, where D = sample_dumpenv and W = std_wire and sigint = "\<lambda>_. False"] a
  show thesis by (auto intro: that)
qed

text \<open>The same topic, assigned at once, which does not answer in time.\<close>

definition late_consumer :: "nat consumer" where
  "late_consumer = log_consumer\<lparr>kc_assignment := (\<lambda>_ k. ((0, [sample_tp]), k)),
     kc_position := (\<lambda>ts k. ((0, map (tp_offset_update (\<lambda>_. -1001)) ts), k)),
     kc_consume := (\<lambda>k. (timed_out, k))\<rparr>"

definition late_log :: "nat topic_log" where
  "late_log = sample_log\<lparr>lg_pos := (\<lambda>_ _. 0), lg_asg := (\<lambda>_. [0])\<rparr>"

lemma late_consumer_keeps: "keeps_log late_consumer late_log"
  unfolding keeps_log_def
proof (intro conjI)
  show "\<forall>i. sorted_wrt (<) (map fst (lg_msgs late_log i)) \<and> (\<forall>x \<in> set (lg_msgs late_log i). 0 \<le> fst x)"
    using sample_log_sorted by (simp add: late_log_def)
qed (auto simp: late_consumer_def log_consumer_def late_log_def sample_log_def log_offset_def kafka_codes sample_tp_def
      log_quiet_def log_step_def)

definition late_started :: "nat kreader" where
  "late_started = log_started\<lparr>m_consumer := 0\<rparr>"

lemma late_fill:
  "fillOffset late_consumer \<lparr>m_consumer = 0, m_logOffset = [], m_readOffSet = []\<rparr> = (0, log_said, late_started)"
  by (simp add: fillOffset_def late_started_def log_started_def late_consumer_def log_consumer_def log_said_def
      kafka_codes sample_tp_def pad_left_def int_dec_def nat_dec.simps digit_char_def char_of_def
      bit_Suc_0_iff cstr_def)

lemma late_facts:
  "Init late_consumer servers name grp = Ret (0, sample_hello servers name grp,
     Some \<lparr>m_consumer = 0, m_logOffset = [], m_readOffSet = []\<rparr>)"
  "assigned late_consumer \<lparr>m_consumer = 0, m_logOffset = [], m_readOffSet = []\<rparr> log_said [] late_started"
  "m_readOffSet late_started \<noteq> []"
  "kc_consume late_consumer (m_consumer late_started) = (timed_out, 0)"
  "k_err timed_out = ERR__TIMED_OUT"
  "kc_position late_consumer (m_readOffSet late_started) 0 = ((ERR_NO_ERROR, [sample_tp\<lparr>tp_offset := -1001\<rparr>]), 0)"
  "lg_stable late_log 0"
proof -
  show "assigned late_consumer \<lparr>m_consumer = 0, m_logOffset = [], m_readOffSet = []\<rparr> log_said [] late_started"
    by (rule assigned.found [OF _ late_fill]) (simp_all add: late_started_def log_started_def)
qed (simp_all add: Init_def late_consumer_def log_consumer_def late_started_def log_started_def sample_hello_def
      kafka_codes CONF_OK_def sample_tp_def cstr_def late_log_def sample_log_def)

text \<open>A topic whose partition appears between the two calls of \<open>assignment\<close>, and which hands out nothing.\<close>

definition race_consumer :: "nat consumer" where
  "race_consumer = late_consumer\<lparr>kc_assignment := (\<lambda>_ k. ((0, if k = 0 then [] else [sample_tp]), 1))\<rparr>"

lemma race_facts:
  "Init race_consumer servers name grp = Ret (0, sample_hello servers name grp,
     Some \<lparr>m_consumer = 0, m_logOffset = [], m_readOffSet = []\<rparr>)"
  "kc_assignment race_consumer [] 0 = ((ERR_NO_ERROR, []), 1)"
  "kc_assignment race_consumer [] 1 = ((ERR_NO_ERROR, [sample_tp]), 1)"
  "fillOffset race_consumer \<lparr>m_consumer = 0, m_logOffset = [], m_readOffSet = []\<rparr>
     = (0, log_said, \<lparr>m_consumer = 1, m_logOffset = [sample_tp\<lparr>tp_offset := 6\<rparr>], m_readOffSet = []\<rparr>)"
  "kc_consume race_consumer 1 = (timed_out, 1)"
  "k_err timed_out = ERR__TIMED_OUT"
  "kc_position race_consumer [] 1 = ((ERR_NO_ERROR, []), 1)"
proof -
  show "fillOffset race_consumer \<lparr>m_consumer = 0, m_logOffset = [], m_readOffSet = []\<rparr>
     = (0, log_said, \<lparr>m_consumer = 1, m_logOffset = [sample_tp\<lparr>tp_offset := 6\<rparr>], m_readOffSet = []\<rparr>)"
    by (simp add: fillOffset_def race_consumer_def late_consumer_def log_consumer_def log_said_def
      kafka_codes sample_tp_def pad_left_def int_dec_def nat_dec.simps digit_char_def char_of_def
      bit_Suc_0_iff cstr_def)
qed (simp_all add: Init_def race_consumer_def late_consumer_def log_consumer_def sample_hello_def
      kafka_codes CONF_OK_def sample_tp_def cstr_def)

end
