(* ===== verification/DumpSignals.thy ===== *)
theory DumpSignals
  imports DumpRuns
begin

text \<open>
  When \<open>binlogdumpK\<close> ends after an interrupt, and when it does not: \<open>bExit\<close> is tested between calls
  of \<open>Read\<close> only, and there are topics on which \<open>Read\<close> does not return.
\<close>

section \<open>Topics Read does not return from\<close>

text \<open>From the states \<open>S\<close> on, the consumer hands out messages of other tables and nothing else.\<close>

definition floods :: "'k consumer \<Rightarrow> 'k set \<Rightarrow> bytes list \<Rightarrow> bool" where
  "floods K S keys \<longleftrightarrow> keys \<noteq> [] \<and>
     (\<forall>k \<in> S. \<exists>m k' key. kc_consume K k = (m, k') \<and> k' \<in> S \<and>
        k_err m = ERR_NO_ERROR \<and> k_key m = Some key \<and> key \<notin> set keys)"

text \<open>
  From the states \<open>S\<close> on, nothing more comes, and some partition that has been begun has not been
  read up to its watermark.
\<close>

definition stalls :: "'k consumer \<Rightarrow> 'k set \<Rightarrow> tp list \<Rightarrow> bool" where
  "stalls K S ls \<longleftrightarrow>
     (\<forall>k \<in> S. \<exists>m k'. kc_consume K k = (m, k') \<and> k_err m = ERR__TIMED_OUT \<and>
        (\<forall>ps. length ps = length ls \<longrightarrow> (\<exists>rs k''. kc_position K ps k' = ((ERR_NO_ERROR, rs), k'') \<and> k'' \<in> S \<and>
           length rs = length ls \<and>
           (\<exists>i < length ls. -1001 < tp_offset (rs ! i) \<and> tp_offset (rs ! i) < tp_offset (ls ! i)))))"

lemma flooded_pass:
  assumes "floods K S keys" and "m_consumer rd \<in> S" and "m_logOffset rd \<noteq> []"
  shows "\<exists>new rd'. Read_pass K keys rd = Again new rd' \<and> m_consumer rd' \<in> S \<and> m_logOffset rd' \<noteq> []"
proof -
  obtain m k key where "kc_consume K (m_consumer rd) = (m, k)" "k \<in> S" "k_err m = ERR_NO_ERROR"
    "k_key m = Some key" "key \<notin> set keys" "keys \<noteq> []"
    using assms(1,2) unfolding floods_def by meson
  then show ?thesis using assms(3) by (simp add: Read_pass_def Let_def kafka_codes)
qed

lemma stalled_pass:
  assumes "stalls K S ls" and "m_consumer rd \<in> S" and "m_logOffset rd = ls" and "length (m_readOffSet rd) = length ls"
  shows "\<exists>new rd'. Read_pass K keys rd = Again new rd' \<and> m_consumer rd' \<in> S \<and> m_logOffset rd' = ls \<and>
    length (m_readOffSet rd') = length ls"
proof -
  obtain m k where c: "kc_consume K (m_consumer rd) = (m, k)" "k_err m = ERR__TIMED_OUT"
    and pos: "\<forall>ps. length ps = length ls \<longrightarrow> (\<exists>rs k''. kc_position K ps k = ((ERR_NO_ERROR, rs), k'') \<and> k'' \<in> S \<and>
      length rs = length ls \<and>
      (\<exists>i < length ls. -1001 < tp_offset (rs ! i) \<and> tp_offset (rs ! i) < tp_offset (ls ! i)))"
    using bspec [OF assms(1) [unfolded stalls_def] assms(2)] by (elim exE conjE) (rule that)
  obtain rs k' i where p: "kc_position K (m_readOffSet rd) k = ((ERR_NO_ERROR, rs), k')" "k' \<in> S" "length rs = length ls"
    and i: "i < length ls" "-1001 < tp_offset (rs ! i)" "tp_offset (rs ! i) < tp_offset (ls ! i)"
    using pos [rule_format, OF assms(4)] by (elim exE conjE) (rule that)
  have no: "(\<forall>i < length ls. tp_offset (rs ! i) \<le> -1001 \<or> tp_offset (ls ! i) \<le> tp_offset (rs ! i)) = False"
    using i by force
  obtain said where "read_over K rs ls = Ret (False, said)"
    using read_over_iff [of ls rs K] p(3) unfolding no by auto
  moreover have "ls \<noteq> []" using i(1) by auto
  ultimately show ?thesis using assms(3) c p by (simp add: Read_pass_def Let_def)
qed

lemma Read_for_ever:
  assumes "m_consumer rd \<in> S" and "m_logOffset rd \<noteq> []"
    and "floods K S keys \<or> stalls K S (m_logOffset rd) \<and> length (m_readOffSet rd) = length (m_logOffset rd)"
  shows "Read K keys rd = None"
proof -
  have "Read_loop K keys [] rd = None"
  proof (cases "floods K S keys")
    case True
    show ?thesis
      by (rule Read_loop_for_ever [where Inv = "\<lambda>rd. m_consumer rd \<in> S \<and> m_logOffset rd \<noteq> []"])
        (use assms(1,2) flooded_pass [OF True] in blast)+
  next
    case False
    then have s: "stalls K S (m_logOffset rd)" "length (m_readOffSet rd) = length (m_logOffset rd)"
      using assms(3) by simp_all
    show ?thesis
      by (rule Read_loop_for_ever [where Inv = "\<lambda>rd'. m_consumer rd' \<in> S \<and> m_logOffset rd' = m_logOffset rd \<and>
            length (m_readOffSet rd') = length (m_logOffset rd)"])
        (use assms(1) s stalled_pass [OF s(1)] in blast)+
  qed
  then show ?thesis using assms(2) by (simp add: Read_def)
qed

section \<open>The program on such a topic\<close>

lemma dump_loop_stuck:
  assumes "dump_steps read D W topic printRaw sigint i st j st'" and "\<not> sigint j"
    and "read (tableName topic) (d_reader st') = None"
  shows "dump_loop read D W topic printRaw sigint i st = None"
  unfolding dump_loop_steps [OF assms(1)] using assms(2,3) by (simp add: dump_loop.simps dump_pass_def)

section \<open>An interrupt between two calls of Read\<close>

lemma dump_pass_None:
  "dump_pass read D W topic printRaw st = None \<Longrightarrow> read (tableName topic) (d_reader st) = None"
  by (auto simp: dump_pass_def Let_def split: option.split_asm prod.split_asm outcome.split_asm if_split_asm)

lemma dump_loop_interrupted:
  assumes "\<And>rd. read (tableName topic) rd \<noteq> None" and "sigint n" and "i \<le> n"
  shows "dump_loop read D W topic printRaw sigint i st \<noteq> None"
  using assms(3)
proof (induction "n - i" arbitrary: i st)
  case 0
  then show ?case using assms(2) by (simp add: dump_loop.simps)
next
  case (Suc d)
  then have i: "d = n - Suc i" "Suc i \<le> n" by simp_all
  obtain p where "dump_pass read D W topic printRaw st = Some p"
    using dump_pass_None assms(1) by blast
  then show ?case
    using Suc.hyps(1) [OF i] by (cases p) (auto simp: dump_loop.simps [of read D W topic printRaw sigint i])
qed

section \<open>How the wait mode ends\<close>

text \<open>
  What the loop leaves behind when \<open>Read\<close>, called on \<open>rd1\<close> in the state \<open>st\<close>, reports an error.
\<close>

definition failed_read :: "'r read_fn \<Rightarrow> topic_info \<Rightarrow> 'r \<Rightarrow> 'r dumpst \<Rightarrow> 'r dumpst \<Rightarrow> bool" where
  "failed_read read topic rd1 st st' \<longleftrightarrow>
     (\<exists>ret said rd2. read (tableName topic) rd1 = Some (Ret (ret, None), said, rd2) \<and>
        ret \<noteq> ERR_NO_ERROR \<and> ret \<noteq> ERR__TIMED_OUT \<and>
        st' = st\<lparr>d_reader := rd2, d_out := d_out st @ said,
                 d_err := d_err st @ ''read kafka err: '' @ int_dec ret @ newline\<rparr>)"

lemma dump_pass_fails:
  assumes "dump_pass (Read K) D W topic printRaw st = Some (Leave (Ret st'))" and "waitMode topic"
  shows "failed_read (Read K) topic (d_reader st) st st'"
proof -
  obtain ret m said rd2 where r: "Read K (tableName topic) (d_reader st) = Some (Ret (ret, m), said, rd2)"
    using assms(1) by (auto simp: dump_pass_def split: option.split_asm outcome.split_asm)
  then have ret: "ret \<noteq> 0" "ret \<noteq> ERR__TIMED_OUT"
      "st' = st\<lparr>d_reader := rd2, d_out := d_out st @ said, d_err := d_err st @ ''read kafka err: '' @ int_dec ret @ newline\<rparr>"
    using assms by (auto simp: dump_pass_def Let_def split: prod.split_asm if_split_asm)
  have "m = None" using kafka.code_zero_iff [OF r] ret(1) by simp
  then show ?thesis using r ret by (auto simp: failed_read_def ERR_NO_ERROR_def)
qed

lemma wait_mode_left:
  assumes "waitMode topic" and "dump_loop (Read K) D W topic printRaw (bExit_at signals) i st = Some (Ret st')"
  shows "\<exists>evs rd1. delivered (Read K) topic (d_reader st) evs rd1 \<and>
    (evs \<noteq> [] \<longrightarrow> (\<forall>n < i + length evs. SIGINT \<notin> set (signals n))) \<and>
    ((\<exists>n \<le> i + length evs. SIGINT \<in> set (signals n)) \<and> st' = printed D W printRaw evs rd1 st \<or>
     (\<forall>n \<le> i + length evs. SIGINT \<notin> set (signals n)) \<and>
       failed_read (Read K) topic rd1 (printed D W printRaw evs rd1 st) st')"
proof -
  obtain j st1 where s: "dump_steps (Read K) D W topic printRaw (bExit_at signals) i st j st1"
    and e: "dump_ends (Read K) D W topic printRaw (bExit_at signals) j st1 (Ret st')"
    using assms(2) unfolding dump_loop_iff by blast
  obtain evs where d: "delivered (Read K) topic (d_reader st) evs (d_reader st1)"
    and st1: "st1 = printed D W printRaw evs (d_reader st1) st" and j: "j = i + length evs"
    using kafka.dump_steps_print [OF s] by blast
  have before: "\<forall>n < i + length evs. SIGINT \<notin> set (signals n)" if "evs \<noteq> []"
  proof -
    have "0 < length evs" using that by simp
    then have "i \<le> j - 1" "j - 1 < j" using j by linarith+
    from dump_steps_tests [OF s this] show ?thesis unfolding bExit_at_iff j by auto
  qed
  show ?thesis
  proof (cases "bExit_at signals j")
    case True
    then have "st' = printed D W printRaw evs (d_reader st1) st" using e st1 by (simp add: dump_ends_def)
    moreover have "\<exists>n \<le> i + length evs. SIGINT \<in> set (signals n)" using True by (simp add: bExit_at_iff j)
    ultimately show ?thesis using d before by blast
  next
    case False
    then have "dump_pass (Read K) D W topic printRaw st1 = Some (Leave (Ret st'))"
      using e by (simp add: dump_ends_def)
    from dump_pass_fails [OF this assms(1)]
    have "failed_read (Read K) topic (d_reader st1) (printed D W printRaw evs (d_reader st1) st) st'"
      using st1 by simp
    moreover have "\<forall>n \<le> i + length evs. SIGINT \<notin> set (signals n)" using False by (simp add: bExit_at_iff j)
    ultimately show ?thesis using d before by blast
  qed
qed

end
