(* ===== verification/SignalSamples.thy ===== *)
theory SignalSamples
  imports DumpSamples DumpSignals
begin

text \<open>A topic that stops after its first message, before its watermark.\<close>

definition stopped_topic :: "kmsg list consumer" where
  "stopped_topic = sample_topic\<lparr>kc_create := (\<lambda>_ _. Some [hd sample_messages]),
     kc_position := (\<lambda>ts k. ((0, map (tp_offset_update (\<lambda>_. 1)) ts), k))\<rparr>"

definition stopped_start :: "kmsg list kreader" where
  "stopped_start = \<lparr>m_consumer = [hd sample_messages], m_logOffset = [], m_readOffSet = []\<rparr>"

definition stopped_later :: "kmsg list kreader" where
  "stopped_later = \<lparr>m_consumer = [], m_logOffset = [sample_tp\<lparr>tp_offset := 2\<rparr>], m_readOffSet = [sample_tp]\<rparr>"

lemma stopped_begins:
  "CBinlogKafkaReader stopped_topic servers name grp = Ret (sample_hello servers name grp, Some stopped_start)"
  by (simp add: CBinlogKafkaReader_def Init_def stopped_topic_def sample_topic_def sample_consumer_def
      stopped_start_def sample_hello_def CONF_OK_def cstr_def)

lemma stopped_fill:
  "fillOffset stopped_topic stopped_start = (0, sample_said, stopped_later\<lparr>m_consumer := [hd sample_messages]\<rparr>)"
  by (simp add: fillOffset_def stopped_topic_def sample_topic_def stopped_start_def stopped_later_def sample_consumer_def
      sample_said_def kafka_codes sample_tp_def pad_left_def int_dec_def nat_dec.simps digit_char_def char_of_def
      bit_Suc_0_iff cstr_def)

lemma stopped_calls:
  "kc_consume stopped_topic [] = (timed_out, [])"
  "kc_consume stopped_topic [hd sample_messages] = (hd sample_messages, [])"
  "kc_position stopped_topic ts k = ((ERR_NO_ERROR, map (tp_offset_update (\<lambda>_. 1)) ts), k)"
  by (simp_all add: stopped_topic_def sample_topic_def sample_consumer_def kafka_codes)

lemma stopped_first:
  "Read stopped_topic [''a'', ''b''] stopped_start = Some (Ret (ERR_NO_ERROR, Some ''one''), sample_said, stopped_later)"
proof -
  have "Read_pass stopped_topic [''a'', ''b''] (stopped_later\<lparr>m_consumer := [hd sample_messages]\<rparr>)
      = Stop (Ret (ERR_NO_ERROR, Some ''one'')) [] stopped_later"
    by (simp add: Read_pass_def stopped_later_def stopped_calls sample_messages_def kafka_codes Let_def
        stopped_calls(2) [unfolded sample_messages_def, simplified])
  then show ?thesis
    using stopped_fill by (simp add: Read_def fill_if_empty_def stopped_start_def Read_loop.simps)
qed

lemma stopped_stalls: "stalls stopped_topic {[]} (m_logOffset stopped_later)"
  by (simp add: stalls_def stopped_calls kafka_codes stopped_later_def sample_tp_def)

text \<open>A topic whose every message reports the end of a partition, so that every call of \<open>Read\<close> returns.\<close>

definition broken_topic :: "kmsg list consumer" where
  "broken_topic = sample_topic\<lparr>kc_consume := (\<lambda>k. (\<lparr>k_err = -191, k_key = None, k_payload = [], k_errstr = []\<rparr>, k))\<rparr>"

definition broken_start :: "kmsg list kreader dumpst" where
  "broken_start = \<lparr>d_reader = sample_started, d_stat = gbStat, d_out = [], d_err = []\<rparr>"

lemma broken_returns: "Read broken_topic keys rd \<noteq> None"
  by (simp add: Read_def Read_loop.simps Read_pass_def broken_topic_def kafka_codes split: prod.split)

end
