(* ===== verification/HexDump.thy ===== *)
theory HexDump
  imports O2kPrelude
begin

text \<open>
  The debugging aid of \<open>qdcadm/CAdmMsg.cpp\<close>: \<open>dumpbin\<close>, which \<open>ReadPacket\<close> and \<open>SendPacket\<close> call when
  \<open>SHANG_DEBUG\<close> is defined.  The bytes can be read back from what it prints.
\<close>

section \<open>dumpbin\<close>

definition hex_digit :: "nat \<Rightarrow> char" where
  "hex_digit d = (if d < 10 then char_of (48 + d) else char_of (87 + d))"

text \<open>\<open>%02x\<close> of an \<open>unsigned char\<close>\<close>

definition hex02 :: "char \<Rightarrow> bytes" where
  "hex02 c = (let n = (of_char c :: nat) in [hex_digit (n div 16), hex_digit (n mod 16)])"

fun dump_bytes :: "nat \<Rightarrow> bytes \<Rightarrow> bytes" where
  "dump_bytes i [] = []"
| "dump_bytes i (c # cs) =
     hex02 c @ '' '' @ (if (i + 1) mod 8 = 0 then ''  '' else []) @
     (if (i + 1) mod 16 = 0 then [CHR 0x0A] else []) @ dump_bytes (i + 1) cs"

definition dumpbin :: "bytes \<Rightarrow> int \<Rightarrow> bytes \<Rightarrow> bytes" where
  "dumpbin data len label =
     ''===== '' @ cstr label @ '': dump '' @ int_dec len @ '' ====='' @ [CHR 0x0A] @
     dump_bytes 0 (take (nat len) data) @ [CHR 0x0A]"

section \<open>Reading a dump\<close>

definition hex_val :: "char \<Rightarrow> nat" where
  "hex_val c = (let n = (of_char c :: nat) in if n < 58 then n - 48 else n - 87)"

fun undump :: "bytes \<Rightarrow> bytes" where
  "undump (a # b # cs) = char_of (16 * hex_val a + hex_val b) # undump cs"
| "undump cs = []"

definition not_blank :: "char \<Rightarrow> bool" where
  "not_blank c \<longleftrightarrow> c \<noteq> CHR '' '' \<and> c \<noteq> CHR 0x0A"

lemma of_hex_digit: "d < 16 \<Longrightarrow> (of_char (hex_digit d) :: nat) = (if d < 10 then 48 + d else 87 + d)"
  by (simp add: hex_digit_def)

lemma hex_digit_facts: "d < 16 \<Longrightarrow> hex_val (hex_digit d) = d \<and> not_blank (hex_digit d)"
proof -
  assume d: "d < 16"
  note v = of_hex_digit [OF d]
  have "hex_digit d \<noteq> CHR '' ''" "hex_digit d \<noteq> CHR 0x0A"
    using v by (auto dest!: arg_cong [where f = "of_char :: char \<Rightarrow> nat"] split: if_split_asm)
  then show ?thesis using v by (simp add: hex_val_def Let_def not_blank_def)
qed

lemma of_char_less: "(of_char c :: nat) < 256"
  using of_char_mod_256 [of c] by (metis mod_less_divisor zero_less_numeral)

lemma undump_bytes: "undump (filter not_blank (dump_bytes i cs)) = cs"
proof (induction i cs rule: dump_bytes.induct)
  case (2 i c cs)
  define n where "n = (of_char c :: nat)"
  have n: "n div 16 < 16" "n mod 16 < 16" using of_char_less [of c] by (simp_all add: n_def less_mult_imp_div_less)
  have "16 * (n div 16) + n mod 16 = n" by simp
  then show ?case
    using "2.IH" hex_digit_facts [OF n(1)] hex_digit_facts [OF n(2)]
    by (simp add: hex02_def n_def [symmetric] not_blank_def [of "CHR '' ''"] not_blank_def [of "CHR 0x0A"])
      (simp add: n_def)
qed simp

text \<open>Two dumps with the same head are dumps of the same bytes.\<close>

lemma dumpbin_inj:
  "dumpbin data len label = dumpbin data' len label \<Longrightarrow> take (nat len) data = take (nat len) data'"
  unfolding dumpbin_def by simp (metis undump_bytes)

end
