(* ===== verification/ReadTrace.thy ===== *)
theory ReadTrace
  imports KafkaReader
begin

text \<open>
  What one call of \<open>Read\<close> takes from the consumer: every message \<open>consume\<close> handed out meanwhile, in
  order, and which of them it passed over.
\<close>

section \<open>The calls a reader makes\<close>

text \<open>
  A sequence of calls of the consumer takes it from one state to another; the list holds what
  \<open>consume\<close> has handed out in between.
\<close>

inductive handed_out :: "'k consumer \<Rightarrow> 'k \<Rightarrow> kmsg list \<Rightarrow> 'k \<Rightarrow> bool" for K where
  none: "handed_out K k [] k"
| consume: "kc_consume K k = (m, k1) \<Longrightarrow> handed_out K k1 ms k2 \<Longrightarrow> handed_out K k (m # ms) k2"
| assignment: "kc_assignment K ts k = (r, k1) \<Longrightarrow> handed_out K k1 ms k2 \<Longrightarrow> handed_out K k ms k2"
| watermark: "kc_watermark K t i k = (r, k1) \<Longrightarrow> handed_out K k1 ms k2 \<Longrightarrow> handed_out K k ms k2"
| position: "kc_position K ts k = (r, k1) \<Longrightarrow> handed_out K k1 ms k2 \<Longrightarrow> handed_out K k ms k2"

lemma handed_out_append: "handed_out K k ms k1 \<Longrightarrow> handed_out K k1 ns k2 \<Longrightarrow> handed_out K k (ms @ ns) k2"
  by (induction rule: handed_out.induct) (auto intro: handed_out.intros)

lemma fill_watermarks_hands: "fill_watermarks K ts k = (r, said, ts', k') \<Longrightarrow> handed_out K k [] k'"
  by (induction K ts k arbitrary: r said ts' k' rule: fill_watermarks.induct)
    (auto split: prod.split_asm if_split_asm intro: handed_out.intros)

text \<open>The calls that hand out nothing, as steps of their own and one after the other.\<close>

lemma quiet_calls:
  "kc_assignment K ts k = (r, k1) \<Longrightarrow> handed_out K k [] k1"
  "kc_position K ts k = (p, k1) \<Longrightarrow> handed_out K k [] k1"
  by (auto intro: handed_out.intros)

lemma quiet_trans: "handed_out K k [] k1 \<Longrightarrow> handed_out K k1 [] k2 \<Longrightarrow> handed_out K k [] k2"
  using handed_out_append [of K k "[]" k1 "[]" k2] by simp

lemma fillOffset_hands: "fillOffset K rd = (r, said, rd') \<Longrightarrow> handed_out K (m_consumer rd) [] (m_consumer rd')"
  by (auto simp: fillOffset_def Let_def handed_out.none split: prod.split_asm if_split_asm
      dest!: fill_watermarks_hands quiet_calls(1) intro: quiet_trans)

lemma fill_if_empty_hands: "fill_if_empty K rd = (said, rd') \<Longrightarrow> handed_out K (m_consumer rd) [] (m_consumer rd')"
  by (cases "fillOffset K rd")
    (auto simp: fill_if_empty_def split: if_split_asm intro: handed_out.none dest: fillOffset_hands)

section \<open>What a pass makes of a message\<close>

text \<open>A time-out, or a message whose key is none of the filter keys.\<close>

definition passed_over :: "bytes list \<Rightarrow> kmsg \<Rightarrow> bool" where
  "passed_over filterKeys m \<longleftrightarrow> k_err m = ERR__TIMED_OUT \<or>
     k_err m = ERR_NO_ERROR \<and> (\<exists>key. k_key m = Some key \<and> filterKeys \<noteq> [] \<and> key \<notin> set filterKeys)"

text \<open>Which messages a call of \<open>Read\<close> can end with, for each result.\<close>

definition ends_with :: "bytes list \<Rightarrow> kmsg \<Rightarrow> int \<Rightarrow> bytes option \<Rightarrow> bool" where
  "ends_with filterKeys m rc msg \<longleftrightarrow>
     (case msg of
        Some bs \<Rightarrow> rc = ERR_NO_ERROR \<and> k_err m = ERR_NO_ERROR \<and> bs = k_payload m \<and>
          (\<exists>key. k_key m = Some key \<and> (filterKeys = [] \<or> key \<in> set filterKeys))
      | None \<Rightarrow>
          (if k_err m = ERR__TIMED_OUT then rc = ERR__TIMED_OUT \<or> rc = ERR__FAIL
           else if k_err m = ERR_NO_ERROR then k_key m = None \<and> rc = ERR__FAIL
           else if k_err m = ERR__PARTITION_EOF then rc = ERR__PARTITION_EOF
           else if k_err m = ERR__UNKNOWN_TOPIC \<or> k_err m = ERR__UNKNOWN_PARTITION then rc = ERR__UNKNOWN_PARTITION
           else rc = ERR__FAIL))"

lemma pass_again_hands:
  assumes "Read_pass K fk rd = Again new rd'"
  shows "\<exists>m. handed_out K (m_consumer rd) [m] (m_consumer rd') \<and> passed_over fk m"
proof -
  obtain m k where c: "kc_consume K (m_consumer rd) = (m, k)" by fastforce
  have "handed_out K k [] (m_consumer rd') \<and> passed_over fk m"
    using assms c
    by (auto simp: Read_pass_def Let_def passed_over_def split: if_split_asm option.split_asm prod.split_asm
        outcome.split_asm bool.split_asm intro: handed_out.none
        dest!: fillOffset_hands fill_if_empty_hands quiet_calls(2))
  with handed_out.consume [OF c] show ?thesis by blast
qed

lemma pass_stop_hands:
  assumes "Read_pass K fk rd = Stop (Ret (rc, msg)) new rd'"
  shows "\<exists>m. handed_out K (m_consumer rd) [m] (m_consumer rd') \<and> ends_with fk m rc msg"
proof -
  obtain m k where c: "kc_consume K (m_consumer rd) = (m, k)" by fastforce
  have "handed_out K k [] (m_consumer rd') \<and> ends_with fk m rc msg"
    using assms c
    by (auto simp: Read_pass_def Let_def ends_with_def kafka_codes split: if_split_asm option.split_asm prod.split_asm
        outcome.split_asm bool.split_asm intro: handed_out.none
        dest!: fill_if_empty_hands quiet_calls(2))
  with handed_out.consume [OF c] show ?thesis by blast
qed

lemma goes_on_hands:
  "goes_on K fk said rd said' rd' \<Longrightarrow>
   \<exists>ms. handed_out K (m_consumer rd) ms (m_consumer rd') \<and> (\<forall>m \<in> set ms. passed_over fk m)"
proof (induction rule: goes_on.induct)
  case (here said rd)
  then show ?case by (intro exI [of _ "[]"]) (simp add: handed_out.none)
next
  case (pass rd new rd1 said said2 rd2)
  obtain m where "handed_out K (m_consumer rd) [m] (m_consumer rd1)" "passed_over fk m"
    using pass_again_hands [OF pass.hyps(1)] by blast
  moreover obtain ms where "handed_out K (m_consumer rd1) ms (m_consumer rd2)" "\<forall>m \<in> set ms. passed_over fk m"
    using pass.IH by blast
  ultimately show ?case using handed_out_append [of K "m_consumer rd" "[m]" "m_consumer rd1" ms]
    by (intro exI [of _ "m # ms"]) auto
qed

lemma Read_hands:
  assumes "Read K fk rd = Some (Ret (rc, msg), said, rd')"
  shows "\<exists>skipped m. handed_out K (m_consumer rd) (skipped @ [m]) (m_consumer rd') \<and>
    (\<forall>x \<in> set skipped. passed_over fk x) \<and> ends_with fk m rc msg"
proof -
  obtain s0 rd0 where f: "fill_if_empty K rd = (s0, rd0)" by fastforce
  obtain s1 rd1 new where g: "goes_on K fk s0 rd0 s1 rd1" and p: "Read_pass K fk rd1 = Stop (Ret (rc, msg)) new rd'"
    using assms f by (auto simp: Read_def Read_loop_iff)
  obtain ms where ms: "handed_out K (m_consumer rd0) ms (m_consumer rd1)" "\<forall>m \<in> set ms. passed_over fk m"
    using goes_on_hands [OF g] by blast
  obtain m where m: "handed_out K (m_consumer rd1) [m] (m_consumer rd')" "ends_with fk m rc msg"
    using pass_stop_hands [OF p] by blast
  have "handed_out K (m_consumer rd) ([] @ ms @ [m]) (m_consumer rd')"
    by (rule handed_out_append [OF fill_if_empty_hands [OF f] handed_out_append [OF ms(1) m(1)]])
  with ms(2) m(2) show ?thesis by (intro exI [of _ ms] exI [of _ m]) simp
qed

end
