(* ===== verification/ParseLoop.thy ===== *)
theory ParseLoop
  imports EntryMsg AdminMsg
begin

text \<open>
  The loop of \<open>MergePartialFromCodedStream\<close> as the generated code has it, a \<open>for (;;)\<close> without any bound:
  it may run for ever, and then it has no result (the outer \<open>None\<close>).  The inner option is the result of
  the method, as in \<open>merge_loop\<close>.
\<close>

partial_function (option) for_ever :: "wirelib \<Rightarrow> (32 word \<Rightarrow> 'm \<Rightarrow> bytes \<Rightarrow> 'm fstep) \<Rightarrow> (bytes \<Rightarrow> 'm \<Rightarrow> 'm)
    \<Rightarrow> 'm \<Rightarrow> bytes \<Rightarrow> ('m \<times> bytes) option option" where
  "for_ever W sw unk m bs =
     (case ReadTag W bs of ((tag, ok), s) \<Rightarrow>
       (case (if ok then sw tag m s else Unusual) of
          Field r \<Rightarrow>
            (case r of
               None \<Rightarrow> Some None
             | Some (m', s') \<Rightarrow> for_ever W sw unk m' s')
        | Unusual \<Rightarrow>
            (if tag = 0 then Some (Some (m, bs))
             else (case SkipField W tag s of
                     None \<Rightarrow> Some None
                   | Some (raw, s') \<Rightarrow> for_ever W sw unk (unk raw m) s'))))"

text \<open>Every pass but the last consumes a byte, so the loop ends, and the bounded loop has its result.\<close>

lemma for_ever_ends:
  assumes "wire_format W" and "sw_ok sw"
  shows "length bs < k \<Longrightarrow> for_ever W sw unk m bs = Some (merge_loop W sw unk k m bs)"
proof (induction k arbitrary: m bs)
  case (Suc k)
  obtain tag ok s where t: "ReadTag W bs = ((tag, ok), s)" by (metis prod.collapse)
  have shorter: "length s < length bs" if "tag \<noteq> 0"
    using wire_format.tag_shrinks [OF assms(1) t that] .
  show ?case
  proof (cases "if ok then sw tag m s else Unusual")
    case Unusual
    show ?thesis
    proof (cases "tag = 0 \<or> SkipField W tag s = None")
      case False
      then obtain raw s' where sk: "tag \<noteq> 0" "SkipField W tag s = Some (raw, s')" by auto
      then have "length s' < k" using wire_format.skip_shrinks [OF assms(1) sk(2)] shorter Suc.prems by simp
      then show ?thesis using Suc.IH t Unusual sk by (simp add: for_ever.simps [of W sw unk m bs])
    qed (use t Unusual in \<open>auto simp: for_ever.simps [of W sw unk m bs]\<close>)
  next
    case (Field r)
    show ?thesis
    proof (cases r)
      case None
      then show ?thesis using t Field by (simp add: for_ever.simps [of W sw unk m bs])
    next
      case (Some x)
      obtain m' s' where x: "r = Some (m', s')" using Some by (cases x) auto
      have "sw tag m s = Field (Some (m', s'))" using Field x by (simp split: if_split_asm)
      then have "tag \<noteq> 0" "length s' \<le> length s" using assms(2) by (auto simp: sw_ok_def)
      then have "length s' < k" using shorter Suc.prems by simp
      then show ?thesis using Suc.IH t Field x by (simp add: for_ever.simps [of W sw unk m bs])
    qed
  qed
qed simp

lemma for_ever_merge:
  "wire_format W \<Longrightarrow> sw_ok sw \<Longrightarrow> for_ever W sw unk m bs = Some (merge_all W sw unk m bs)"
  unfolding merge_all_def by (rule for_ever_ends) simp_all

end
