(* ===== verification/UtMisc.thy ===== *)
theory UtMisc
  imports O2kPrelude
begin

text \<open>
  The scope guards of \<open>binlogdump/utmisc.h\<close>.  A closure is a function on the state it captures by
  reference; memory and files are the sets of what is allocated or open, and releasing something
  that is not in its set is an access outside an object.
\<close>

section \<open>MyDefer and MyDeferMulti\<close>

text \<open>A scope with a \<open>MyDefer\<close>: whatever way the body is left, the closure runs behind it.\<close>

definition MyDefer :: "('s \<Rightarrow> 's) \<Rightarrow> ('s \<Rightarrow> 'a \<times> 's) \<Rightarrow> 's \<Rightarrow> 'a \<times> 's" where
  "MyDefer func body s = (case body s of (r, s1) \<Rightarrow> (r, func s1))"

record 's defermulti =
  m_funcs :: "('s \<Rightarrow> 's) list"

definition MyDeferMulti :: "'s defermulti" where
  "MyDeferMulti = \<lparr>m_funcs = []\<rparr>"

definition multi_defer :: "('s \<Rightarrow> 's) \<Rightarrow> 's defermulti \<Rightarrow> 's defermulti" where
  "multi_defer f d = d\<lparr>m_funcs := m_funcs d @ [f]\<rparr>"

text \<open>The destructor walks the vector from its end.\<close>

fun run_funcs :: "('s \<Rightarrow> 's) list \<Rightarrow> 's \<Rightarrow> 's" where
  "run_funcs [] s = s"
| "run_funcs (f # fs) s = run_funcs fs (f s)"

definition multi_destroy :: "'s defermulti \<Rightarrow> 's \<Rightarrow> 's \<times> 's defermulti" where
  "multi_destroy d s = (run_funcs (rev (m_funcs d)) s, d\<lparr>m_funcs := []\<rparr>)"

section \<open>DeferFree and DeferFclose\<close>

definition release :: "'p \<Rightarrow> 'p set \<Rightarrow> 'p set outcome" where
  "release p live = (if p \<in> live then Ret (live - {p}) else Overflow)"

definition DeferFree_destroy :: "'p option \<Rightarrow> 'p set \<Rightarrow> 'p set outcome" where
  "DeferFree_destroy ptr live = (case ptr of None \<Rightarrow> Ret live | Some p \<Rightarrow> release p live)"

definition DeferFclose_destroy :: "'p option \<Rightarrow> 'p set \<Rightarrow> 'p set outcome" where
  "DeferFclose_destroy fp opened = (case fp of None \<Rightarrow> Ret opened | Some p \<Rightarrow> release p opened)"

section \<open>HostEndian\<close>

text \<open>The argument is the memory of an \<open>int\<close> that holds 1.\<close>

definition isLittleEndian :: "bytes \<Rightarrow> bool" where
  "isLittleEndian mem \<longleftrightarrow> (of_char (mem ! 0) :: nat) = 1"

definition isBigEndian :: "bytes \<Rightarrow> bool" where
  "isBigEndian mem \<longleftrightarrow> (of_char (mem ! 0) :: nat) = 0"

definition GetEndianName :: "bytes \<Rightarrow> bytes" where
  "GetEndianName mem = (if isLittleEndian mem then ''Little Endian'' else ''Big Endian'')"

section \<open>Order of the closures\<close>

lemma run_funcs_append: "run_funcs (fs @ gs) s = run_funcs gs (run_funcs fs s)"
  by (induction fs arbitrary: s) simp_all

lemma m_funcs_fold: "m_funcs (fold multi_defer fs d) = m_funcs d @ fs"
  by (induction fs arbitrary: d) (simp_all add: multi_defer_def)

text \<open>What was deferred last runs first, as with nested scopes of \<open>MyDefer\<close>.\<close>

lemma multi_destroy_nests:
  "fst (multi_destroy (fold multi_defer fs MyDeferMulti) s)
     = snd (fold MyDefer (rev fs) (\<lambda>s. ((), s)) s)"
proof -
  have "snd (fold MyDefer gs body s) = run_funcs gs (snd (body s))" for gs and body :: "'a \<Rightarrow> unit \<times> 'a"
    by (induction gs arbitrary: body) (simp_all add: MyDefer_def split: prod.split)
  then show ?thesis by (simp add: multi_destroy_def m_funcs_fold MyDeferMulti_def)
qed

text \<open>The network's byte order is the big-endian one.\<close>

lemma htonl_order: "isBigEndian (htonl_bytes 1)" "GetEndianName (htonl_bytes 1) = ''Big Endian''"
  by (simp_all add: isBigEndian_def GetEndianName_def isLittleEndian_def htonl_bytes_def Let_def)

end
