(* ===== verification/AdminText.thy ===== *)
theory AdminText
  imports MsgRW
begin

text \<open>
  The strings of a message that was parsed: the generated parsers check every string they read, so
  whatever bytes come from the network, an accepted message holds only strings that are empty or
  were verified.  No property of the runtime is needed for that.
\<close>

section \<open>An invariant of the parse loop\<close>

lemma merge_loop_preserves:
  assumes sw: "\<And>t m s m' s'. sw t m s = Field (Some (m', s')) \<Longrightarrow> P m \<Longrightarrow> P m'"
    and unk: "\<And>raw m. P m \<Longrightarrow> P (unk raw m)"
  shows "merge_loop W sw unk k m bs = Some (m', left) \<Longrightarrow> P m \<Longrightarrow> P m'"
proof (induction k arbitrary: m bs)
  case (Suc k)
  obtain t ok s where rt: "ReadTag W bs = ((t, ok), s)" by (metis prod.collapse)
  show ?case
  proof (cases "if ok then sw t m s else Unusual")
    case Unusual
    then show ?thesis
      using Suc rt unk by (auto split: if_split_asm option.split_asm prod.split_asm)
  next
    case (Field r)
    then obtain m1 s1 where f: "sw t m s = Field (Some (m1, s1))"
      and l: "merge_loop W sw unk k m1 s1 = Some (m', left)"
      using Suc.prems(1) rt by (auto split: if_split_asm option.split_asm prod.split_asm)
    show ?thesis by (rule Suc.IH [OF l sw [OF f Suc.prems(2)]])
  qed
qed simp

lemma parse_preserves:
  assumes "\<And>t m s m' s'. sw t m s = Field (Some (m', s')) \<Longrightarrow> P m \<Longrightarrow> P m'"
    and "\<And>raw m. P m \<Longrightarrow> P (unk raw m)" and "P (clear m0)"
    and "parse_bytes (merge_all W sw unk) clear m0 bs = Some m"
  shows "P m"
proof -
  obtain left where l: "merge_loop W sw unk (Suc (length bs)) (clear m0) bs = Some (m, left)"
    using assms(4) by (simp add: parse_bytes_def merge_all_def del: merge_loop.simps
        split: option.split_asm prod.split_asm if_split_asm)
  show ?thesis
    by (rule merge_loop_preserves [where sw = sw and unk = unk and P = P, OF _ _ l assms(3)])
      (fact assms(1), fact assms(2))
qed

section \<open>Verified strings\<close>

definition string_checked :: "wirelib \<Rightarrow> bytes \<Rightarrow> bool" where
  "string_checked W s \<longleftrightarrow> s = [] \<or> VerifyUtf8String W s"

definition pair_checked :: "wirelib \<Rightarrow> PairStrStr \<Rightarrow> bool" where
  "pair_checked W p \<longleftrightarrow> string_checked W (pss_key p) \<and> string_checked W (pss_val p)"

definition result_checked :: "wirelib \<Rightarrow> MsgResult \<Rightarrow> bool" where
  "result_checked W m \<longleftrightarrow> string_checked W (mr_rc m) \<and> string_checked W (mr_msg m) \<and>
     list_all (pair_checked W) (mr_rt_pairs m)"

definition command_checked :: "wirelib \<Rightarrow> MsgCmd \<Rightarrow> bool" where
  "command_checked W m \<longleftrightarrow> string_checked W (mc_cmd m) \<and> list_all (pair_checked W) (mc_params m)"

lemma pair_switch_checked:
  "PairStrStr_switch W t m s = Field (Some (m', s')) \<Longrightarrow> pair_checked W m \<Longrightarrow> pair_checked W m'"
  by (auto simp: PairStrStr_switch_def pair_checked_def string_checked_def
      split: if_split_asm option.split_asm)

lemma read_pair_checked:
  assumes "read_message W (PairStrStr_MergePartial W) PairStrStr_SharedCtor s = Some (p, s')"
  shows "pair_checked W p"
proof -
  obtain body left where l: "merge_loop W (PairStrStr_switch W) PairStrStr_add_unknown
      (Suc (length body)) PairStrStr_SharedCtor body = Some (p, left)"
    using assms by (simp add: read_message_def PairStrStr_MergePartial_def merge_all_def
        del: merge_loop.simps split: option.split_asm prod.split_asm if_split_asm)
  show ?thesis
    by (rule merge_loop_preserves [where sw = "PairStrStr_switch W" and unk = PairStrStr_add_unknown
            and P = "pair_checked W", OF _ _ l])
      (fact pair_switch_checked,
       simp_all add: pair_checked_def string_checked_def PairStrStr_SharedCtor_def
         PairStrStr_add_unknown_def)
qed

lemma result_switch_checked:
  "MsgResult_switch W t m s = Field (Some (m', s')) \<Longrightarrow> result_checked W m \<Longrightarrow> result_checked W m'"
  by (auto simp: MsgResult_switch_def result_checked_def string_checked_def
      split: if_split_asm option.split_asm dest: read_pair_checked)

lemma command_switch_checked:
  "MsgCmd_switch W t m s = Field (Some (m', s')) \<Longrightarrow> command_checked W m \<Longrightarrow> command_checked W m'"
  by (auto simp: MsgCmd_switch_def command_checked_def string_checked_def
      split: if_split_asm option.split_asm dest: read_pair_checked)

lemma parse_result_checked:
  "parse_bytes (MsgResult_MergePartial W) MsgResult_Clear m0 bs = Some m \<Longrightarrow> result_checked W m"
  unfolding MsgResult_MergePartial_def
  by (rule parse_preserves [where P = "result_checked W" and sw = "MsgResult_switch W", OF result_switch_checked])
    (simp_all add: result_checked_def string_checked_def MsgResult_add_unknown_def MsgResult_Clear_def)

lemma parse_command_checked:
  "parse_bytes (MsgCmd_MergePartial W) MsgCmd_Clear m0 bs = Some m \<Longrightarrow> command_checked W m"
  unfolding MsgCmd_MergePartial_def
  by (rule parse_preserves [where P = "command_checked W" and sw = "MsgCmd_switch W", OF command_switch_checked])
    (simp_all add: command_checked_def string_checked_def MsgCmd_add_unknown_def MsgCmd_Clear_def)

lemma parse_either_Some:
  "parse_either merge clear m0 rw = Some m \<Longrightarrow> \<exists>bs. parse_bytes merge clear m0 bs = Some m"
  by (auto simp: parse_either_def split: option.split_asm)

lemma ReadResult_Some:
  assumes "ReadResult C W m0 rw st = Ret (0, Some m, rw', st')"
  shows "\<exists>bs. parse_bytes (MsgResult_MergePartial W) MsgResult_Clear (MsgResult_Clear m0) bs = Some m"
  using assms parse_either_Some
  by (cases "MsgRW_ReadPacket C rw st")
    (auto simp: ReadResult_def split: if_split_asm option.split_asm prod.split_asm)

lemma ReadCommand_Some:
  assumes "ReadCommand C W m0 rw st = Ret (0, Some m, rw', st')"
  shows "\<exists>bs. parse_bytes (MsgCmd_MergePartial W) MsgCmd_Clear (MsgCmd_Clear m0) bs = Some m"
  using assms parse_either_Some
  by (cases "MsgRW_ReadPacket C rw st")
    (auto simp: ReadCommand_def split: if_split_asm option.split_asm prod.split_asm)

end
