(* ===== verification/PackageHead.thy ===== *)
theory PackageHead
  imports WireFormat
begin

text \<open>
  The first classes of \<open>binlogdump/BinlogPackage.pb.cc\<close>, the packages of the binlog service:
  the frame \<open>Packet\<close> and what opens a connection, modelled as the binlog entries are.  The enums
  \<open>PacketType\<close> and \<open>Compression\<close> are 32-bit words; a \<open>oneof\<close> with one alternative is an option.
\<close>

section \<open>Packet\<close>

text \<open>
  The frame: its type says what the body holds.
\<close>

record Packet =
  pk_magic_number :: "32 word option"
  pk_version :: "32 word option"
  pk_type :: "32 word"
  pk_compression :: "32 word option"
  pk_body :: "bytes"
  pk_unknown :: bytes

definition Packet_SharedCtor :: Packet where
  "Packet_SharedCtor = \<lparr>pk_magic_number = None, pk_version = None, pk_type = 0, pk_compression = None, pk_body = [], pk_unknown = []\<rparr>"

definition Packet_Clear :: "Packet \<Rightarrow> Packet" where
  "Packet_Clear m = m\<lparr>pk_magic_number := None, pk_version := None, pk_type := 0, pk_compression := None, pk_body := [], pk_unknown := []\<rparr>"

definition Packet_switch :: "wirelib \<Rightarrow> 32 word \<Rightarrow> Packet \<Rightarrow> bytes \<Rightarrow> Packet fstep" where
  "Packet_switch W tag m s =
     (if GetTagFieldNumber tag = 1 then
       (if uint8 tag = 8 then
          Field (case ReadInt32 W s of
            None \<Rightarrow> None
          | Some (v, s') \<Rightarrow> Some (m\<lparr>pk_magic_number := Some v\<rparr>, s'))
        else Unusual)
      else if GetTagFieldNumber tag = 2 then
       (if uint8 tag = 16 then
          Field (case ReadInt32 W s of
            None \<Rightarrow> None
          | Some (v, s') \<Rightarrow> Some (m\<lparr>pk_version := Some v\<rparr>, s'))
        else Unusual)
      else if GetTagFieldNumber tag = 3 then
       (if uint8 tag = 24 then
          Field (case ReadEnum W s of
            None \<Rightarrow> None
          | Some (v, s') \<Rightarrow> Some (m\<lparr>pk_type := v\<rparr>, s'))
        else Unusual)
      else if GetTagFieldNumber tag = 4 then
       (if uint8 tag = 32 then
          Field (case ReadEnum W s of
            None \<Rightarrow> None
          | Some (v, s') \<Rightarrow> Some (m\<lparr>pk_compression := Some v\<rparr>, s'))
        else Unusual)
      else if GetTagFieldNumber tag = 5 then
       (if uint8 tag = 42 then
          Field (case ReadBytes W s of
            None \<Rightarrow> None
          | Some (v, s') \<Rightarrow> Some (m\<lparr>pk_body := v\<rparr>, s'))
        else Unusual)
      else Unusual)"

definition Packet_add_unknown :: "bytes \<Rightarrow> Packet \<Rightarrow> Packet" where
  "Packet_add_unknown raw m = m\<lparr>pk_unknown := pk_unknown m @ raw\<rparr>"

definition Packet_MergePartial :: "wirelib \<Rightarrow> Packet \<Rightarrow> bytes \<Rightarrow> (Packet \<times> bytes) option" where
  "Packet_MergePartial W = merge_all W (Packet_switch W) Packet_add_unknown"

definition Packet_ByteSize :: "wirelib \<Rightarrow> Packet \<Rightarrow> nat" where
  "Packet_ByteSize W m =
     length (unknown_out W (pk_unknown m))
     + (if pk_body m \<noteq> [] then 1 + BytesSize W (pk_body m) else 0)
     + (if pk_type m \<noteq> 0 then 1 + EnumSize W (pk_type m) else 0)
     + (case pk_magic_number m of None \<Rightarrow> 0 | Some v \<Rightarrow> 1 + Int32Size W v)
     + (case pk_version m of None \<Rightarrow> 0 | Some v \<Rightarrow> 1 + Int32Size W v)
     + (case pk_compression m of None \<Rightarrow> 0 | Some v \<Rightarrow> 1 + EnumSize W v)"

definition Packet_Serialize :: "wirelib \<Rightarrow> Packet \<Rightarrow> bytes" where
  "Packet_Serialize W m =
     (case pk_magic_number m of None \<Rightarrow> [] | Some v \<Rightarrow> WriteInt32 W 1 v)
     @ (case pk_version m of None \<Rightarrow> [] | Some v \<Rightarrow> WriteInt32 W 2 v)
     @ (if pk_type m \<noteq> 0 then WriteEnum W 3 (pk_type m) else [])
     @ (case pk_compression m of None \<Rightarrow> [] | Some v \<Rightarrow> WriteEnum W 4 v)
     @ (if pk_body m \<noteq> [] then WriteBytes W 5 (pk_body m) else [])
     @ unknown_out W (pk_unknown m)"

definition Packet_SerializeToArray :: "wirelib \<Rightarrow> Packet \<Rightarrow> bytes \<Rightarrow> bytes" where
  "Packet_SerializeToArray W m target =
     (let target1 = (case pk_magic_number m of None \<Rightarrow> target | Some v \<Rightarrow> WriteInt32ToArray W 1 v target);
          target2 = (case pk_version m of None \<Rightarrow> target1 | Some v \<Rightarrow> WriteInt32ToArray W 2 v target1);
          target3 = (if pk_type m \<noteq> 0 then WriteEnumToArray W 3 (pk_type m) target2 else target2);
          target4 = (case pk_compression m of None \<Rightarrow> target3 | Some v \<Rightarrow> WriteEnumToArray W 4 v target3);
          target5 = (if pk_body m \<noteq> [] then WriteBytesToArray W 5 (pk_body m) target4 else target4)
      in target5 @ unknown_out W (pk_unknown m))"

definition Packet_MergeFrom :: "Packet \<Rightarrow> Packet \<Rightarrow> Packet" where
  "Packet_MergeFrom this from =
     (let this0 = this\<lparr>pk_unknown := pk_unknown this @ pk_unknown from\<rparr>;
          this1 = (if pk_body from \<noteq> [] then this0\<lparr>pk_body := pk_body from\<rparr> else this0);
          this2 = (if pk_type from \<noteq> 0 then this1\<lparr>pk_type := pk_type from\<rparr> else this1);
          this3 = (case pk_magic_number from of None \<Rightarrow> this2 | Some v \<Rightarrow> this2\<lparr>pk_magic_number := Some v\<rparr>);
          this4 = (case pk_version from of None \<Rightarrow> this3 | Some v \<Rightarrow> this3\<lparr>pk_version := Some v\<rparr>);
          this5 = (case pk_compression from of None \<Rightarrow> this4 | Some v \<Rightarrow> this4\<lparr>pk_compression := Some v\<rparr>)
      in this5)"

definition Packet_CopyFrom :: "bool \<Rightarrow> Packet \<Rightarrow> Packet \<Rightarrow> Packet" where
  "Packet_CopyFrom same_object this from =
     (if same_object then this else Packet_MergeFrom (Packet_Clear this) from)"

definition Packet_InternalSwap :: "Packet \<Rightarrow> Packet \<Rightarrow> Packet \<times> Packet" where
  "Packet_InternalSwap this other =
     (this\<lparr>pk_magic_number := pk_magic_number other, pk_version := pk_version other, pk_type := pk_type other, pk_compression := pk_compression other, pk_body := pk_body other, pk_unknown := pk_unknown other\<rparr>,
      other\<lparr>pk_magic_number := pk_magic_number this, pk_version := pk_version this, pk_type := pk_type this, pk_compression := pk_compression this, pk_body := pk_body this, pk_unknown := pk_unknown this\<rparr>)"

definition Packet_valid :: "wirelib \<Rightarrow> Packet \<Rightarrow> bool" where
  "Packet_valid W m \<longleftrightarrow>
     len_ok (length (pk_body m)) \<and>
     pk_unknown m = []"

lemma Packet_steps:
  "(if c then t\<lparr>pk_body := w5\<rparr> else t) = t\<lparr>pk_body := (if c then w5 else pk_body t)\<rparr>"
  "(if c then t\<lparr>pk_type := w3\<rparr> else t) = t\<lparr>pk_type := (if c then w3 else pk_type t)\<rparr>"
  "(case y1 of None \<Rightarrow> t | Some v \<Rightarrow> t\<lparr>pk_magic_number := Some v\<rparr>) =
    t\<lparr>pk_magic_number := (case y1 of None \<Rightarrow> pk_magic_number t | Some v \<Rightarrow> Some v)\<rparr>"
  "(case y2 of None \<Rightarrow> t | Some v \<Rightarrow> t\<lparr>pk_version := Some v\<rparr>) =
    t\<lparr>pk_version := (case y2 of None \<Rightarrow> pk_version t | Some v \<Rightarrow> Some v)\<rparr>"
  "(case y4 of None \<Rightarrow> t | Some v \<Rightarrow> t\<lparr>pk_compression := Some v\<rparr>) =
    t\<lparr>pk_compression := (case y4 of None \<Rightarrow> pk_compression t | Some v \<Rightarrow> Some v)\<rparr>"
  by (simp_all split: option.split)

lemma Packet_MergeFrom_eq:
  "Packet_MergeFrom this from = this\<lparr>
      pk_unknown := pk_unknown this @ pk_unknown from,
      pk_body := (if pk_body from \<noteq> [] then pk_body from else pk_body this),
      pk_type := (if pk_type from \<noteq> 0 then pk_type from else pk_type this),
      pk_magic_number := (case pk_magic_number from of None \<Rightarrow> pk_magic_number this | Some v \<Rightarrow> Some v),
      pk_version := (case pk_version from of None \<Rightarrow> pk_version this | Some v \<Rightarrow> Some v),
      pk_compression := (case pk_compression from of None \<Rightarrow> pk_compression this | Some v \<Rightarrow> Some v)\<rparr>"
  by (simp add: Packet_MergeFrom_def Let_def Packet_steps cong: if_cong option.case_cong split del: if_split)

lemma Packet_swap: "Packet_InternalSwap a b = (b, a)"
  by (simp add: Packet_InternalSwap_def)

lemma Packet_Clear_eq: "Packet_Clear m = Packet_SharedCtor"
  by (simp add: Packet_Clear_def Packet_SharedCtor_def)

lemma Packet_merge_ctor: "Packet_valid W m \<Longrightarrow> Packet_MergeFrom Packet_SharedCtor m = m"
  by (cases m) (simp_all add: Packet_MergeFrom_eq Packet_SharedCtor_def Packet_valid_def option_self
       cong: if_cong option.case_cong)

context wire_format
begin

lemma Packet_sw_ok: "sw_ok (Packet_switch W)"
  by (rule sw_okI, unfold Packet_switch_def)
    (rule fstep_ok_intros reader_shrinks read_message_shrinks | assumption | simp)+

lemma Packet_chunk:
  assumes "Packet_valid W m"
  shows "chunk W (Packet_switch W) Packet_add_unknown (Packet_Serialize W m)
    (\<lambda>m0. Packet_MergeFrom m0 m)"
proof -
  have c_magic_number: "chunk W (Packet_switch W) Packet_add_unknown
      (WriteInt32 W 1 v) (\<lambda>m0. m0\<lparr>pk_magic_number := Some v\<rparr>)" if "pk_magic_number m = Some v" for v
    by (rule chunk_field [OF int32_codec Packet_sw_ok])
      (use assms that in \<open>simp_all add: Packet_switch_def Packet_valid_def field_no_def\<close>)
  have c_version: "chunk W (Packet_switch W) Packet_add_unknown
      (WriteInt32 W 2 v) (\<lambda>m0. m0\<lparr>pk_version := Some v\<rparr>)" if "pk_version m = Some v" for v
    by (rule chunk_field [OF int32_codec Packet_sw_ok])
      (use assms that in \<open>simp_all add: Packet_switch_def Packet_valid_def field_no_def\<close>)
  have c_type: "chunk W (Packet_switch W) Packet_add_unknown
      (WriteEnum W 3 (pk_type m)) (\<lambda>m0. m0\<lparr>pk_type := pk_type m\<rparr>)"
    by (rule chunk_field [OF enum_codec Packet_sw_ok])
      (use assms in \<open>simp_all add: Packet_switch_def Packet_valid_def field_no_def\<close>)
  have c_compression: "chunk W (Packet_switch W) Packet_add_unknown
      (WriteEnum W 4 v) (\<lambda>m0. m0\<lparr>pk_compression := Some v\<rparr>)" if "pk_compression m = Some v" for v
    by (rule chunk_field [OF enum_codec Packet_sw_ok])
      (use assms that in \<open>simp_all add: Packet_switch_def Packet_valid_def field_no_def\<close>)
  have c_body: "chunk W (Packet_switch W) Packet_add_unknown
      (WriteBytes W 5 (pk_body m)) (\<lambda>m0. m0\<lparr>pk_body := pk_body m\<rparr>)"
    by (rule chunk_field [OF bytes_codec Packet_sw_ok])
      (use assms in \<open>simp_all add: Packet_switch_def Packet_valid_def field_no_def\<close>)
  have unk: "pk_unknown m = []" using assms by (simp add: Packet_valid_def)
  show ?thesis
    unfolding Packet_Serialize_def unk unknown_out_Nil
    by (rule chunk_cong, (rule c_magic_number c_version c_type c_compression c_body chunk_intros | assumption)+)
      (simp add: Packet_MergeFrom_eq Packet_steps unk   cong: if_cong option.case_cong split del: if_split)
qed

lemma Packet_size: "Packet_valid W m \<Longrightarrow> Packet_ByteSize W m = length (Packet_Serialize W m)"
  by (simp add: Packet_ByteSize_def Packet_Serialize_def Packet_valid_def field_lengths field_no_def
      length_if length_option add_ac split del: if_split cong: if_cong option.case_cong)

lemma Packet_array: "Packet_SerializeToArray W m t = t @ Packet_Serialize W m"
  by (simp add: Packet_SerializeToArray_def Packet_Serialize_def Let_def to_array_laws 
      if_append option_append cong: if_cong option.case_cong split del: if_split)

lemma Packet_codec: "message_codec (Packet_MergePartial W) (Packet_Serialize W) (Packet_SerializeToArray W)
    (Packet_ByteSize W) Packet_MergeFrom Packet_Clear (Packet_valid W)"
  unfolding Packet_MergePartial_def
  by (rule codecI [OF Packet_sw_ok Packet_chunk Packet_size Packet_array])
    (simp_all add: Packet_Clear_eq Packet_merge_ctor)

end

sublocale wire_format \<subseteq> Packet: message_codec "Packet_MergePartial W" "Packet_Serialize W"
  "Packet_SerializeToArray W" "Packet_ByteSize W" Packet_MergeFrom Packet_Clear "Packet_valid W"
  by (rule Packet_codec)

section \<open>HeartBeat\<close>

text \<open>
  A sign of life.
\<close>

record HeartBeat =
  hb_send_timestamp :: "64 word"
  hb_start_timestamp :: "64 word"
  hb_unknown :: bytes

definition HeartBeat_SharedCtor :: HeartBeat where
  "HeartBeat_SharedCtor = \<lparr>hb_send_timestamp = 0, hb_start_timestamp = 0, hb_unknown = []\<rparr>"

definition HeartBeat_Clear :: "HeartBeat \<Rightarrow> HeartBeat" where
  "HeartBeat_Clear m = m\<lparr>hb_send_timestamp := 0, hb_start_timestamp := 0, hb_unknown := []\<rparr>"

definition HeartBeat_switch :: "wirelib \<Rightarrow> 32 word \<Rightarrow> HeartBeat \<Rightarrow> bytes \<Rightarrow> HeartBeat fstep" where
  "HeartBeat_switch W tag m s =
     (if GetTagFieldNumber tag = 1 then
       (if uint8 tag = 8 then
          Field (case ReadInt64 W s of
            None \<Rightarrow> None
          | Some (v, s') \<Rightarrow> Some (m\<lparr>hb_send_timestamp := v\<rparr>, s'))
        else Unusual)
      else if GetTagFieldNumber tag = 2 then
       (if uint8 tag = 16 then
          Field (case ReadInt64 W s of
            None \<Rightarrow> None
          | Some (v, s') \<Rightarrow> Some (m\<lparr>hb_start_timestamp := v\<rparr>, s'))
        else Unusual)
      else Unusual)"

definition HeartBeat_add_unknown :: "bytes \<Rightarrow> HeartBeat \<Rightarrow> HeartBeat" where
  "HeartBeat_add_unknown raw m = m\<lparr>hb_unknown := hb_unknown m @ raw\<rparr>"

definition HeartBeat_MergePartial :: "wirelib \<Rightarrow> HeartBeat \<Rightarrow> bytes \<Rightarrow> (HeartBeat \<times> bytes) option" where
  "HeartBeat_MergePartial W = merge_all W (HeartBeat_switch W) HeartBeat_add_unknown"

definition HeartBeat_ByteSize :: "wirelib \<Rightarrow> HeartBeat \<Rightarrow> nat" where
  "HeartBeat_ByteSize W m =
     length (unknown_out W (hb_unknown m))
     + (if hb_send_timestamp m \<noteq> 0 then 1 + Int64Size W (hb_send_timestamp m) else 0)
     + (if hb_start_timestamp m \<noteq> 0 then 1 + Int64Size W (hb_start_timestamp m) else 0)"

definition HeartBeat_Serialize :: "wirelib \<Rightarrow> HeartBeat \<Rightarrow> bytes" where
  "HeartBeat_Serialize W m =
     (if hb_send_timestamp m \<noteq> 0 then WriteInt64 W 1 (hb_send_timestamp m) else [])
     @ (if hb_start_timestamp m \<noteq> 0 then WriteInt64 W 2 (hb_start_timestamp m) else [])
     @ unknown_out W (hb_unknown m)"

definition HeartBeat_SerializeToArray :: "wirelib \<Rightarrow> HeartBeat \<Rightarrow> bytes \<Rightarrow> bytes" where
  "HeartBeat_SerializeToArray W m target =
     (let target1 = (if hb_send_timestamp m \<noteq> 0 then WriteInt64ToArray W 1 (hb_send_timestamp m) target else target);
          target2 = (if hb_start_timestamp m \<noteq> 0 then WriteInt64ToArray W 2 (hb_start_timestamp m) target1 else target1)
      in target2 @ unknown_out W (hb_unknown m))"

definition HeartBeat_MergeFrom :: "HeartBeat \<Rightarrow> HeartBeat \<Rightarrow> HeartBeat" where
  "HeartBeat_MergeFrom this from =
     (let this0 = this\<lparr>hb_unknown := hb_unknown this @ hb_unknown from\<rparr>;
          this1 = (if hb_send_timestamp from \<noteq> 0 then this0\<lparr>hb_send_timestamp := hb_send_timestamp from\<rparr> else this0);
          this2 = (if hb_start_timestamp from \<noteq> 0 then this1\<lparr>hb_start_timestamp := hb_start_timestamp from\<rparr> else this1)
      in this2)"

definition HeartBeat_CopyFrom :: "bool \<Rightarrow> HeartBeat \<Rightarrow> HeartBeat \<Rightarrow> HeartBeat" where
  "HeartBeat_CopyFrom same_object this from =
     (if same_object then this else HeartBeat_MergeFrom (HeartBeat_Clear this) from)"

definition HeartBeat_InternalSwap :: "HeartBeat \<Rightarrow> HeartBeat \<Rightarrow> HeartBeat \<times> HeartBeat" where
  "HeartBeat_InternalSwap this other =
     (this\<lparr>hb_send_timestamp := hb_send_timestamp other, hb_start_timestamp := hb_start_timestamp other, hb_unknown := hb_unknown other\<rparr>,
      other\<lparr>hb_send_timestamp := hb_send_timestamp this, hb_start_timestamp := hb_start_timestamp this, hb_unknown := hb_unknown this\<rparr>)"

definition HeartBeat_valid :: "wirelib \<Rightarrow> HeartBeat \<Rightarrow> bool" where
  "HeartBeat_valid W m \<longleftrightarrow>
     hb_unknown m = []"

lemma HeartBeat_steps:
  "(if c then t\<lparr>hb_send_timestamp := w1\<rparr> else t) = t\<lparr>hb_send_timestamp := (if c then w1 else hb_send_timestamp t)\<rparr>"
  "(if c then t\<lparr>hb_start_timestamp := w2\<rparr> else t) = t\<lparr>hb_start_timestamp := (if c then w2 else hb_start_timestamp t)\<rparr>"
  by (simp_all split: option.split)

lemma HeartBeat_MergeFrom_eq:
  "HeartBeat_MergeFrom this from = this\<lparr>
      hb_unknown := hb_unknown this @ hb_unknown from,
      hb_send_timestamp := (if hb_send_timestamp from \<noteq> 0 then hb_send_timestamp from else hb_send_timestamp this),
      hb_start_timestamp := (if hb_start_timestamp from \<noteq> 0 then hb_start_timestamp from else hb_start_timestamp this)\<rparr>"
  by (simp add: HeartBeat_MergeFrom_def Let_def HeartBeat_steps cong: if_cong option.case_cong split del: if_split)

lemma HeartBeat_swap: "HeartBeat_InternalSwap a b = (b, a)"
  by (simp add: HeartBeat_InternalSwap_def)

lemma HeartBeat_Clear_eq: "HeartBeat_Clear m = HeartBeat_SharedCtor"
  by (simp add: HeartBeat_Clear_def HeartBeat_SharedCtor_def)

lemma HeartBeat_merge_ctor: "HeartBeat_valid W m \<Longrightarrow> HeartBeat_MergeFrom HeartBeat_SharedCtor m = m"
  by (cases m) (simp_all add: HeartBeat_MergeFrom_eq HeartBeat_SharedCtor_def HeartBeat_valid_def option_self
       cong: if_cong option.case_cong)

context wire_format
begin

lemma HeartBeat_sw_ok: "sw_ok (HeartBeat_switch W)"
  by (rule sw_okI, unfold HeartBeat_switch_def)
    (rule fstep_ok_intros reader_shrinks read_message_shrinks | assumption | simp)+

lemma HeartBeat_chunk:
  assumes "HeartBeat_valid W m"
  shows "chunk W (HeartBeat_switch W) HeartBeat_add_unknown (HeartBeat_Serialize W m)
    (\<lambda>m0. HeartBeat_MergeFrom m0 m)"
proof -
  have c_send_timestamp: "chunk W (HeartBeat_switch W) HeartBeat_add_unknown
      (WriteInt64 W 1 (hb_send_timestamp m)) (\<lambda>m0. m0\<lparr>hb_send_timestamp := hb_send_timestamp m\<rparr>)"
    by (rule chunk_field [OF int64_codec HeartBeat_sw_ok])
      (use assms in \<open>simp_all add: HeartBeat_switch_def HeartBeat_valid_def field_no_def\<close>)
  have c_start_timestamp: "chunk W (HeartBeat_switch W) HeartBeat_add_unknown
      (WriteInt64 W 2 (hb_start_timestamp m)) (\<lambda>m0. m0\<lparr>hb_start_timestamp := hb_start_timestamp m\<rparr>)"
    by (rule chunk_field [OF int64_codec HeartBeat_sw_ok])
      (use assms in \<open>simp_all add: HeartBeat_switch_def HeartBeat_valid_def field_no_def\<close>)
  have unk: "hb_unknown m = []" using assms by (simp add: HeartBeat_valid_def)
  show ?thesis
    unfolding HeartBeat_Serialize_def unk unknown_out_Nil
    by (rule chunk_cong, (rule c_send_timestamp c_start_timestamp chunk_intros | assumption)+)
      (simp add: HeartBeat_MergeFrom_eq HeartBeat_steps unk   cong: if_cong option.case_cong split del: if_split)
qed

lemma HeartBeat_size: "HeartBeat_valid W m \<Longrightarrow> HeartBeat_ByteSize W m = length (HeartBeat_Serialize W m)"
  by (simp add: HeartBeat_ByteSize_def HeartBeat_Serialize_def HeartBeat_valid_def field_lengths field_no_def)

lemma HeartBeat_array: "HeartBeat_SerializeToArray W m t = t @ HeartBeat_Serialize W m"
  by (simp add: HeartBeat_SerializeToArray_def HeartBeat_Serialize_def Let_def to_array_laws 
      if_append option_append cong: if_cong option.case_cong split del: if_split)

lemma HeartBeat_codec: "message_codec (HeartBeat_MergePartial W) (HeartBeat_Serialize W) (HeartBeat_SerializeToArray W)
    (HeartBeat_ByteSize W) HeartBeat_MergeFrom HeartBeat_Clear (HeartBeat_valid W)"
  unfolding HeartBeat_MergePartial_def
  by (rule codecI [OF HeartBeat_sw_ok HeartBeat_chunk HeartBeat_size HeartBeat_array])
    (simp_all add: HeartBeat_Clear_eq HeartBeat_merge_ctor)

end

sublocale wire_format \<subseteq> HeartBeat: message_codec "HeartBeat_MergePartial W" "HeartBeat_Serialize W"
  "HeartBeat_SerializeToArray W" "HeartBeat_ByteSize W" HeartBeat_MergeFrom HeartBeat_Clear "HeartBeat_valid W"
  by (rule HeartBeat_codec)

section \<open>Handshake\<close>

text \<open>
  What a server says first.
\<close>

record Handshake =
  hs_communication_encoding :: "bytes option"
  hs_seeds :: "bytes"
  hs_supported_compressions :: "32 word"
  hs_unknown :: bytes

definition Handshake_SharedCtor :: Handshake where
  "Handshake_SharedCtor = \<lparr>hs_communication_encoding = None, hs_seeds = [], hs_supported_compressions = 0, hs_unknown = []\<rparr>"

definition Handshake_Clear :: "Handshake \<Rightarrow> Handshake" where
  "Handshake_Clear m = m\<lparr>hs_communication_encoding := None, hs_seeds := [], hs_supported_compressions := 0, hs_unknown := []\<rparr>"

definition Handshake_switch :: "wirelib \<Rightarrow> 32 word \<Rightarrow> Handshake \<Rightarrow> bytes \<Rightarrow> Handshake fstep" where
  "Handshake_switch W tag m s =
     (if GetTagFieldNumber tag = 1 then
       (if uint8 tag = 10 then
          Field (case ReadString W s of
            None \<Rightarrow> None
          | Some (v, s') \<Rightarrow> (if VerifyUtf8String W v then Some (m\<lparr>hs_communication_encoding := Some v\<rparr>, s') else None))
        else Unusual)
      else if GetTagFieldNumber tag = 2 then
       (if uint8 tag = 18 then
          Field (case ReadBytes W s of
            None \<Rightarrow> None
          | Some (v, s') \<Rightarrow> Some (m\<lparr>hs_seeds := v\<rparr>, s'))
        else Unusual)
      else if GetTagFieldNumber tag = 3 then
       (if uint8 tag = 24 then
          Field (case ReadEnum W s of
            None \<Rightarrow> None
          | Some (v, s') \<Rightarrow> Some (m\<lparr>hs_supported_compressions := v\<rparr>, s'))
        else Unusual)
      else Unusual)"

definition Handshake_add_unknown :: "bytes \<Rightarrow> Handshake \<Rightarrow> Handshake" where
  "Handshake_add_unknown raw m = m\<lparr>hs_unknown := hs_unknown m @ raw\<rparr>"

definition Handshake_MergePartial :: "wirelib \<Rightarrow> Handshake \<Rightarrow> bytes \<Rightarrow> (Handshake \<times> bytes) option" where
  "Handshake_MergePartial W = merge_all W (Handshake_switch W) Handshake_add_unknown"

definition Handshake_ByteSize :: "wirelib \<Rightarrow> Handshake \<Rightarrow> nat" where
  "Handshake_ByteSize W m =
     length (unknown_out W (hs_unknown m))
     + (if hs_seeds m \<noteq> [] then 1 + BytesSize W (hs_seeds m) else 0)
     + (if hs_supported_compressions m \<noteq> 0 then 1 + EnumSize W (hs_supported_compressions m) else 0)
     + (case hs_communication_encoding m of None \<Rightarrow> 0 | Some v \<Rightarrow> 1 + StringSize W v)"

definition Handshake_Serialize :: "wirelib \<Rightarrow> Handshake \<Rightarrow> bytes" where
  "Handshake_Serialize W m =
     (case hs_communication_encoding m of None \<Rightarrow> [] | Some v \<Rightarrow> WriteString W 1 v)
     @ (if hs_seeds m \<noteq> [] then WriteBytes W 2 (hs_seeds m) else [])
     @ (if hs_supported_compressions m \<noteq> 0 then WriteEnum W 3 (hs_supported_compressions m) else [])
     @ unknown_out W (hs_unknown m)"

definition Handshake_SerializeToArray :: "wirelib \<Rightarrow> Handshake \<Rightarrow> bytes \<Rightarrow> bytes" where
  "Handshake_SerializeToArray W m target =
     (let target1 = (case hs_communication_encoding m of None \<Rightarrow> target | Some v \<Rightarrow> WriteStringToArray W 1 v target);
          target2 = (if hs_seeds m \<noteq> [] then WriteBytesToArray W 2 (hs_seeds m) target1 else target1);
          target3 = (if hs_supported_compressions m \<noteq> 0 then WriteEnumToArray W 3 (hs_supported_compressions m) target2 else target2)
      in target3 @ unknown_out W (hs_unknown m))"

definition Handshake_MergeFrom :: "Handshake \<Rightarrow> Handshake \<Rightarrow> Handshake" where
  "Handshake_MergeFrom this from =
     (let this0 = this\<lparr>hs_unknown := hs_unknown this @ hs_unknown from\<rparr>;
          this1 = (if hs_seeds from \<noteq> [] then this0\<lparr>hs_seeds := hs_seeds from\<rparr> else this0);
          this2 = (if hs_supported_compressions from \<noteq> 0 then this1\<lparr>hs_supported_compressions := hs_supported_compressions from\<rparr> else this1);
          this3 = (case hs_communication_encoding from of None \<Rightarrow> this2 | Some v \<Rightarrow> this2\<lparr>hs_communication_encoding := Some v\<rparr>)
      in this3)"

definition Handshake_CopyFrom :: "bool \<Rightarrow> Handshake \<Rightarrow> Handshake \<Rightarrow> Handshake" where
  "Handshake_CopyFrom same_object this from =
     (if same_object then this else Handshake_MergeFrom (Handshake_Clear this) from)"

definition Handshake_InternalSwap :: "Handshake \<Rightarrow> Handshake \<Rightarrow> Handshake \<times> Handshake" where
  "Handshake_InternalSwap this other =
     (this\<lparr>hs_communication_encoding := hs_communication_encoding other, hs_seeds := hs_seeds other, hs_supported_compressions := hs_supported_compressions other, hs_unknown := hs_unknown other\<rparr>,
      other\<lparr>hs_communication_encoding := hs_communication_encoding this, hs_seeds := hs_seeds this, hs_supported_compressions := hs_supported_compressions this, hs_unknown := hs_unknown this\<rparr>)"

definition Handshake_valid :: "wirelib \<Rightarrow> Handshake \<Rightarrow> bool" where
  "Handshake_valid W m \<longleftrightarrow>
     (case hs_communication_encoding m of None \<Rightarrow> True | Some v \<Rightarrow> len_ok (length v) \<and> VerifyUtf8String W v) \<and>
     len_ok (length (hs_seeds m)) \<and>
     hs_unknown m = []"

lemma Handshake_steps:
  "(if c then t\<lparr>hs_seeds := w2\<rparr> else t) = t\<lparr>hs_seeds := (if c then w2 else hs_seeds t)\<rparr>"
  "(if c then t\<lparr>hs_supported_compressions := w3\<rparr> else t) = t\<lparr>hs_supported_compressions := (if c then w3 else hs_supported_compressions t)\<rparr>"
  "(case y1 of None \<Rightarrow> t | Some v \<Rightarrow> t\<lparr>hs_communication_encoding := Some v\<rparr>) =
    t\<lparr>hs_communication_encoding := (case y1 of None \<Rightarrow> hs_communication_encoding t | Some v \<Rightarrow> Some v)\<rparr>"
  by (simp_all split: option.split)

lemma Handshake_MergeFrom_eq:
  "Handshake_MergeFrom this from = this\<lparr>
      hs_unknown := hs_unknown this @ hs_unknown from,
      hs_seeds := (if hs_seeds from \<noteq> [] then hs_seeds from else hs_seeds this),
      hs_supported_compressions := (if hs_supported_compressions from \<noteq> 0 then hs_supported_compressions from else hs_supported_compressions this),
      hs_communication_encoding := (case hs_communication_encoding from of None \<Rightarrow> hs_communication_encoding this | Some v \<Rightarrow> Some v)\<rparr>"
  by (simp add: Handshake_MergeFrom_def Let_def Handshake_steps cong: if_cong option.case_cong split del: if_split)

lemma Handshake_swap: "Handshake_InternalSwap a b = (b, a)"
  by (simp add: Handshake_InternalSwap_def)

lemma Handshake_Clear_eq: "Handshake_Clear m = Handshake_SharedCtor"
  by (simp add: Handshake_Clear_def Handshake_SharedCtor_def)

lemma Handshake_merge_ctor: "Handshake_valid W m \<Longrightarrow> Handshake_MergeFrom Handshake_SharedCtor m = m"
  by (cases m) (simp_all add: Handshake_MergeFrom_eq Handshake_SharedCtor_def Handshake_valid_def option_self
       cong: if_cong option.case_cong)

context wire_format
begin

lemma Handshake_sw_ok: "sw_ok (Handshake_switch W)"
  by (rule sw_okI, unfold Handshake_switch_def)
    (rule fstep_ok_intros reader_shrinks read_message_shrinks | assumption | simp)+

lemma Handshake_chunk:
  assumes "Handshake_valid W m"
  shows "chunk W (Handshake_switch W) Handshake_add_unknown (Handshake_Serialize W m)
    (\<lambda>m0. Handshake_MergeFrom m0 m)"
proof -
  have c_communication_encoding: "chunk W (Handshake_switch W) Handshake_add_unknown
      (WriteString W 1 v) (\<lambda>m0. m0\<lparr>hs_communication_encoding := Some v\<rparr>)" if "hs_communication_encoding m = Some v" for v
    by (rule chunk_field [OF string_codec Handshake_sw_ok])
      (use assms that in \<open>simp_all add: Handshake_switch_def Handshake_valid_def field_no_def\<close>)
  have c_seeds: "chunk W (Handshake_switch W) Handshake_add_unknown
      (WriteBytes W 2 (hs_seeds m)) (\<lambda>m0. m0\<lparr>hs_seeds := hs_seeds m\<rparr>)"
    by (rule chunk_field [OF bytes_codec Handshake_sw_ok])
      (use assms in \<open>simp_all add: Handshake_switch_def Handshake_valid_def field_no_def\<close>)
  have c_supported_compressions: "chunk W (Handshake_switch W) Handshake_add_unknown
      (WriteEnum W 3 (hs_supported_compressions m)) (\<lambda>m0. m0\<lparr>hs_supported_compressions := hs_supported_compressions m\<rparr>)"
    by (rule chunk_field [OF enum_codec Handshake_sw_ok])
      (use assms in \<open>simp_all add: Handshake_switch_def Handshake_valid_def field_no_def\<close>)
  have unk: "hs_unknown m = []" using assms by (simp add: Handshake_valid_def)
  show ?thesis
    unfolding Handshake_Serialize_def unk unknown_out_Nil
    by (rule chunk_cong, (rule c_communication_encoding c_seeds c_supported_compressions chunk_intros | assumption)+)
      (simp add: Handshake_MergeFrom_eq Handshake_steps unk   cong: if_cong option.case_cong split del: if_split)
qed

lemma Handshake_size: "Handshake_valid W m \<Longrightarrow> Handshake_ByteSize W m = length (Handshake_Serialize W m)"
  by (cases "hs_communication_encoding m"; simp add: Handshake_ByteSize_def Handshake_Serialize_def Handshake_valid_def field_lengths field_no_def
      length_if length_option add_ac split del: if_split cong: if_cong option.case_cong)

lemma Handshake_array: "Handshake_SerializeToArray W m t = t @ Handshake_Serialize W m"
  by (simp add: Handshake_SerializeToArray_def Handshake_Serialize_def Let_def to_array_laws 
      if_append option_append cong: if_cong option.case_cong split del: if_split)

lemma Handshake_codec: "message_codec (Handshake_MergePartial W) (Handshake_Serialize W) (Handshake_SerializeToArray W)
    (Handshake_ByteSize W) Handshake_MergeFrom Handshake_Clear (Handshake_valid W)"
  unfolding Handshake_MergePartial_def
  by (rule codecI [OF Handshake_sw_ok Handshake_chunk Handshake_size Handshake_array])
    (simp_all add: Handshake_Clear_eq Handshake_merge_ctor)

end

sublocale wire_format \<subseteq> Handshake: message_codec "Handshake_MergePartial W" "Handshake_Serialize W"
  "Handshake_SerializeToArray W" "Handshake_ByteSize W" Handshake_MergeFrom Handshake_Clear "Handshake_valid W"
  by (rule Handshake_codec)

section \<open>ClientAuth\<close>

text \<open>
  The login of a client.
\<close>

record ClientAuth =
  ca_username :: "bytes"
  ca_password :: "bytes"
  ca_net_read_timeout :: "32 word option"
  ca_net_write_timeout :: "32 word option"
  ca_destination :: "bytes"
  ca_client_id :: "bytes"
  ca_filter :: "bytes"
  ca_start_timestamp :: "64 word"
  ca_unknown :: bytes

definition ClientAuth_SharedCtor :: ClientAuth where
  "ClientAuth_SharedCtor = \<lparr>ca_username = [], ca_password = [], ca_net_read_timeout = None, ca_net_write_timeout = None, ca_destination = [], ca_client_id = [], ca_filter = [], ca_start_timestamp = 0, ca_unknown = []\<rparr>"

definition ClientAuth_Clear :: "ClientAuth \<Rightarrow> ClientAuth" where
  "ClientAuth_Clear m = m\<lparr>ca_username := [], ca_password := [], ca_net_read_timeout := None, ca_net_write_timeout := None, ca_destination := [], ca_client_id := [], ca_filter := [], ca_start_timestamp := 0, ca_unknown := []\<rparr>"

definition ClientAuth_switch :: "wirelib \<Rightarrow> 32 word \<Rightarrow> ClientAuth \<Rightarrow> bytes \<Rightarrow> ClientAuth fstep" where
  "ClientAuth_switch W tag m s =
     (if GetTagFieldNumber tag = 1 then
       (if uint8 tag = 10 then
          Field (case ReadString W s of
            None \<Rightarrow> None
          | Some (v, s') \<Rightarrow> (if VerifyUtf8String W v then Some (m\<lparr>ca_username := v\<rparr>, s') else None))
        else Unusual)
      else if GetTagFieldNumber tag = 2 then
       (if uint8 tag = 18 then
          Field (case ReadBytes W s of
            None \<Rightarrow> None
          | Some (v, s') \<Rightarrow> Some (m\<lparr>ca_password := v\<rparr>, s'))
        else Unusual)
      else if GetTagFieldNumber tag = 3 then
       (if uint8 tag = 24 then
          Field (case ReadInt32 W s of
            None \<Rightarrow> None
          | Some (v, s') \<Rightarrow> Some (m\<lparr>ca_net_read_timeout := Some v\<rparr>, s'))
        else Unusual)
      else if GetTagFieldNumber tag = 4 then
       (if uint8 tag = 32 then
          Field (case ReadInt32 W s of
            None \<Rightarrow> None
          | Some (v, s') \<Rightarrow> Some (m\<lparr>ca_net_write_timeout := Some v\<rparr>, s'))
        else Unusual)
      else if GetTagFieldNumber tag = 5 then
       (if uint8 tag = 42 then
          Field (case ReadString W s of
            None \<Rightarrow> None
          | Some (v, s') \<Rightarrow> (if VerifyUtf8String W v then Some (m\<lparr>ca_destination := v\<rparr>, s') else None))
        else Unusual)
      else if GetTagFieldNumber tag = 6 then
       (if uint8 tag = 50 then
          Field (case ReadString W s of
            None \<Rightarrow> None
          | Some (v, s') \<Rightarrow> (if VerifyUtf8String W v then Some (m\<lparr>ca_client_id := v\<rparr>, s') else None))
        else Unusual)
      else if GetTagFieldNumber tag = 7 then
       (if uint8 tag = 58 then
          Field (case ReadString W s of
            None \<Rightarrow> None
          | Some (v, s') \<Rightarrow> (if VerifyUtf8String W v then Some (m\<lparr>ca_filter := v\<rparr>, s') else None))
        else Unusual)
      else if GetTagFieldNumber tag = 8 then
       (if uint8 tag = 64 then
          Field (case ReadInt64 W s of
            None \<Rightarrow> None
          | Some (v, s') \<Rightarrow> Some (m\<lparr>ca_start_timestamp := v\<rparr>, s'))
        else Unusual)
      else Unusual)"

definition ClientAuth_add_unknown :: "bytes \<Rightarrow> ClientAuth \<Rightarrow> ClientAuth" where
  "ClientAuth_add_unknown raw m = m\<lparr>ca_unknown := ca_unknown m @ raw\<rparr>"

definition ClientAuth_MergePartial :: "wirelib \<Rightarrow> ClientAuth \<Rightarrow> bytes \<Rightarrow> (ClientAuth \<times> bytes) option" where
  "ClientAuth_MergePartial W = merge_all W (ClientAuth_switch W) ClientAuth_add_unknown"

definition ClientAuth_ByteSize :: "wirelib \<Rightarrow> ClientAuth \<Rightarrow> nat" where
  "ClientAuth_ByteSize W m =
     length (unknown_out W (ca_unknown m))
     + (if ca_username m \<noteq> [] then 1 + StringSize W (ca_username m) else 0)
     + (if ca_password m \<noteq> [] then 1 + BytesSize W (ca_password m) else 0)
     + (if ca_destination m \<noteq> [] then 1 + StringSize W (ca_destination m) else 0)
     + (if ca_client_id m \<noteq> [] then 1 + StringSize W (ca_client_id m) else 0)
     + (if ca_filter m \<noteq> [] then 1 + StringSize W (ca_filter m) else 0)
     + (if ca_start_timestamp m \<noteq> 0 then 1 + Int64Size W (ca_start_timestamp m) else 0)
     + (case ca_net_read_timeout m of None \<Rightarrow> 0 | Some v \<Rightarrow> 1 + Int32Size W v)
     + (case ca_net_write_timeout m of None \<Rightarrow> 0 | Some v \<Rightarrow> 1 + Int32Size W v)"

definition ClientAuth_Serialize :: "wirelib \<Rightarrow> ClientAuth \<Rightarrow> bytes" where
  "ClientAuth_Serialize W m =
     (if ca_username m \<noteq> [] then WriteString W 1 (ca_username m) else [])
     @ (if ca_password m \<noteq> [] then WriteBytes W 2 (ca_password m) else [])
     @ (case ca_net_read_timeout m of None \<Rightarrow> [] | Some v \<Rightarrow> WriteInt32 W 3 v)
     @ (case ca_net_write_timeout m of None \<Rightarrow> [] | Some v \<Rightarrow> WriteInt32 W 4 v)
     @ (if ca_destination m \<noteq> [] then WriteString W 5 (ca_destination m) else [])
     @ (if ca_client_id m \<noteq> [] then WriteString W 6 (ca_client_id m) else [])
     @ (if ca_filter m \<noteq> [] then WriteString W 7 (ca_filter m) else [])
     @ (if ca_start_timestamp m \<noteq> 0 then WriteInt64 W 8 (ca_start_timestamp m) else [])
     @ unknown_out W (ca_unknown m)"

definition ClientAuth_SerializeToArray :: "wirelib \<Rightarrow> ClientAuth \<Rightarrow> bytes \<Rightarrow> bytes" where
  "ClientAuth_SerializeToArray W m target =
     (let target1 = (if ca_username m \<noteq> [] then WriteStringToArray W 1 (ca_username m) target else target);
          target2 = (if ca_password m \<noteq> [] then WriteBytesToArray W 2 (ca_password m) target1 else target1);
          target3 = (case ca_net_read_timeout m of None \<Rightarrow> target2 | Some v \<Rightarrow> WriteInt32ToArray W 3 v target2);
          target4 = (case ca_net_write_timeout m of None \<Rightarrow> target3 | Some v \<Rightarrow> WriteInt32ToArray W 4 v target3);
          target5 = (if ca_destination m \<noteq> [] then WriteStringToArray W 5 (ca_destination m) target4 else target4);
          target6 = (if ca_client_id m \<noteq> [] then WriteStringToArray W 6 (ca_client_id m) target5 else target5);
          target7 = (if ca_filter m \<noteq> [] then WriteStringToArray W 7 (ca_filter m) target6 else target6);
          target8 = (if ca_start_timestamp m \<noteq> 0 then WriteInt64ToArray W 8 (ca_start_timestamp m) target7 else target7)
      in target8 @ unknown_out W (ca_unknown m))"

definition ClientAuth_MergeFrom :: "ClientAuth \<Rightarrow> ClientAuth \<Rightarrow> ClientAuth" where
  "ClientAuth_MergeFrom this from =
     (let this0 = this\<lparr>ca_unknown := ca_unknown this @ ca_unknown from\<rparr>;
          this1 = (if ca_username from \<noteq> [] then this0\<lparr>ca_username := ca_username from\<rparr> else this0);
          this2 = (if ca_password from \<noteq> [] then this1\<lparr>ca_password := ca_password from\<rparr> else this1);
          this3 = (if ca_destination from \<noteq> [] then this2\<lparr>ca_destination := ca_destination from\<rparr> else this2);
          this4 = (if ca_client_id from \<noteq> [] then this3\<lparr>ca_client_id := ca_client_id from\<rparr> else this3);
          this5 = (if ca_filter from \<noteq> [] then this4\<lparr>ca_filter := ca_filter from\<rparr> else this4);
          this6 = (if ca_start_timestamp from \<noteq> 0 then this5\<lparr>ca_start_timestamp := ca_start_timestamp from\<rparr> else this5);
          this7 = (case ca_net_read_timeout from of None \<Rightarrow> this6 | Some v \<Rightarrow> this6\<lparr>ca_net_read_timeout := Some v\<rparr>);
          this8 = (case ca_net_write_timeout from of None \<Rightarrow> this7 | Some v \<Rightarrow> this7\<lparr>ca_net_write_timeout := Some v\<rparr>)
      in this8)"

definition ClientAuth_CopyFrom :: "bool \<Rightarrow> ClientAuth \<Rightarrow> ClientAuth \<Rightarrow> ClientAuth" where
  "ClientAuth_CopyFrom same_object this from =
     (if same_object then this else ClientAuth_MergeFrom (ClientAuth_Clear this) from)"

definition ClientAuth_InternalSwap :: "ClientAuth \<Rightarrow> ClientAuth \<Rightarrow> ClientAuth \<times> ClientAuth" where
  "ClientAuth_InternalSwap this other =
     (this\<lparr>ca_username := ca_username other, ca_password := ca_password other, ca_net_read_timeout := ca_net_read_timeout other, ca_net_write_timeout := ca_net_write_timeout other, ca_destination := ca_destination other, ca_client_id := ca_client_id other, ca_filter := ca_filter other, ca_start_timestamp := ca_start_timestamp other, ca_unknown := ca_unknown other\<rparr>,
      other\<lparr>ca_username := ca_username this, ca_password := ca_password this, ca_net_read_timeout := ca_net_read_timeout this, ca_net_write_timeout := ca_net_write_timeout this, ca_destination := ca_destination this, ca_client_id := ca_client_id this, ca_filter := ca_filter this, ca_start_timestamp := ca_start_timestamp this, ca_unknown := ca_unknown this\<rparr>)"

definition ClientAuth_valid :: "wirelib \<Rightarrow> ClientAuth \<Rightarrow> bool" where
  "ClientAuth_valid W m \<longleftrightarrow>
     len_ok (length (ca_username m)) \<and> VerifyUtf8String W (ca_username m) \<and>
     len_ok (length (ca_password m)) \<and>
     len_ok (length (ca_destination m)) \<and> VerifyUtf8String W (ca_destination m) \<and>
     len_ok (length (ca_client_id m)) \<and> VerifyUtf8String W (ca_client_id m) \<and>
     len_ok (length (ca_filter m)) \<and> VerifyUtf8String W (ca_filter m) \<and>
     ca_unknown m = []"

lemma ClientAuth_steps:
  "(if c then t\<lparr>ca_username := w1\<rparr> else t) = t\<lparr>ca_username := (if c then w1 else ca_username t)\<rparr>"
  "(if c then t\<lparr>ca_password := w2\<rparr> else t) = t\<lparr>ca_password := (if c then w2 else ca_password t)\<rparr>"
  "(if c then t\<lparr>ca_destination := w5\<rparr> else t) = t\<lparr>ca_destination := (if c then w5 else ca_destination t)\<rparr>"
  "(if c then t\<lparr>ca_client_id := w6\<rparr> else t) = t\<lparr>ca_client_id := (if c then w6 else ca_client_id t)\<rparr>"
  "(if c then t\<lparr>ca_filter := w7\<rparr> else t) = t\<lparr>ca_filter := (if c then w7 else ca_filter t)\<rparr>"
  "(if c then t\<lparr>ca_start_timestamp := w8\<rparr> else t) = t\<lparr>ca_start_timestamp := (if c then w8 else ca_start_timestamp t)\<rparr>"
  "(case y3 of None \<Rightarrow> t | Some v \<Rightarrow> t\<lparr>ca_net_read_timeout := Some v\<rparr>) =
    t\<lparr>ca_net_read_timeout := (case y3 of None \<Rightarrow> ca_net_read_timeout t | Some v \<Rightarrow> Some v)\<rparr>"
  "(case y4 of None \<Rightarrow> t | Some v \<Rightarrow> t\<lparr>ca_net_write_timeout := Some v\<rparr>) =
    t\<lparr>ca_net_write_timeout := (case y4 of None \<Rightarrow> ca_net_write_timeout t | Some v \<Rightarrow> Some v)\<rparr>"
  by (simp_all split: option.split)

lemma ClientAuth_MergeFrom_eq:
  "ClientAuth_MergeFrom this from = this\<lparr>
      ca_unknown := ca_unknown this @ ca_unknown from,
      ca_username := (if ca_username from \<noteq> [] then ca_username from else ca_username this),
      ca_password := (if ca_password from \<noteq> [] then ca_password from else ca_password this),
      ca_destination := (if ca_destination from \<noteq> [] then ca_destination from else ca_destination this),
      ca_client_id := (if ca_client_id from \<noteq> [] then ca_client_id from else ca_client_id this),
      ca_filter := (if ca_filter from \<noteq> [] then ca_filter from else ca_filter this),
      ca_start_timestamp := (if ca_start_timestamp from \<noteq> 0 then ca_start_timestamp from else ca_start_timestamp this),
      ca_net_read_timeout := (case ca_net_read_timeout from of None \<Rightarrow> ca_net_read_timeout this | Some v \<Rightarrow> Some v),
      ca_net_write_timeout := (case ca_net_write_timeout from of None \<Rightarrow> ca_net_write_timeout this | Some v \<Rightarrow> Some v)\<rparr>"
  by (simp add: ClientAuth_MergeFrom_def Let_def ClientAuth_steps cong: if_cong option.case_cong split del: if_split)

lemma ClientAuth_swap: "ClientAuth_InternalSwap a b = (b, a)"
  by (simp add: ClientAuth_InternalSwap_def)

lemma ClientAuth_Clear_eq: "ClientAuth_Clear m = ClientAuth_SharedCtor"
  by (simp add: ClientAuth_Clear_def ClientAuth_SharedCtor_def)

lemma ClientAuth_merge_ctor: "ClientAuth_valid W m \<Longrightarrow> ClientAuth_MergeFrom ClientAuth_SharedCtor m = m"
  by (cases m) (simp_all add: ClientAuth_MergeFrom_eq ClientAuth_SharedCtor_def ClientAuth_valid_def option_self
       cong: if_cong option.case_cong)

context wire_format
begin

lemma ClientAuth_sw_ok: "sw_ok (ClientAuth_switch W)"
  by (rule sw_okI, unfold ClientAuth_switch_def)
    (rule fstep_ok_intros reader_shrinks read_message_shrinks | assumption | simp)+

lemma ClientAuth_chunk:
  assumes "ClientAuth_valid W m"
  shows "chunk W (ClientAuth_switch W) ClientAuth_add_unknown (ClientAuth_Serialize W m)
    (\<lambda>m0. ClientAuth_MergeFrom m0 m)"
proof -
  have c_username: "chunk W (ClientAuth_switch W) ClientAuth_add_unknown
      (WriteString W 1 (ca_username m)) (\<lambda>m0. m0\<lparr>ca_username := ca_username m\<rparr>)"
    by (rule chunk_field [OF string_codec ClientAuth_sw_ok])
      (use assms in \<open>simp_all add: ClientAuth_switch_def ClientAuth_valid_def field_no_def\<close>)
  have c_password: "chunk W (ClientAuth_switch W) ClientAuth_add_unknown
      (WriteBytes W 2 (ca_password m)) (\<lambda>m0. m0\<lparr>ca_password := ca_password m\<rparr>)"
    by (rule chunk_field [OF bytes_codec ClientAuth_sw_ok])
      (use assms in \<open>simp_all add: ClientAuth_switch_def ClientAuth_valid_def field_no_def\<close>)
  have c_net_read_timeout: "chunk W (ClientAuth_switch W) ClientAuth_add_unknown
      (WriteInt32 W 3 v) (\<lambda>m0. m0\<lparr>ca_net_read_timeout := Some v\<rparr>)" if "ca_net_read_timeout m = Some v" for v
    by (rule chunk_field [OF int32_codec ClientAuth_sw_ok])
      (use assms that in \<open>simp_all add: ClientAuth_switch_def ClientAuth_valid_def field_no_def\<close>)
  have c_net_write_timeout: "chunk W (ClientAuth_switch W) ClientAuth_add_unknown
      (WriteInt32 W 4 v) (\<lambda>m0. m0\<lparr>ca_net_write_timeout := Some v\<rparr>)" if "ca_net_write_timeout m = Some v" for v
    by (rule chunk_field [OF int32_codec ClientAuth_sw_ok])
      (use assms that in \<open>simp_all add: ClientAuth_switch_def ClientAuth_valid_def field_no_def\<close>)
  have c_destination: "chunk W (ClientAuth_switch W) ClientAuth_add_unknown
      (WriteString W 5 (ca_destination m)) (\<lambda>m0. m0\<lparr>ca_destination := ca_destination m\<rparr>)"
    by (rule chunk_field [OF string_codec ClientAuth_sw_ok])
      (use assms in \<open>simp_all add: ClientAuth_switch_def ClientAuth_valid_def field_no_def\<close>)
  have c_client_id: "chunk W (ClientAuth_switch W) ClientAuth_add_unknown
      (WriteString W 6 (ca_client_id m)) (\<lambda>m0. m0\<lparr>ca_client_id := ca_client_id m\<rparr>)"
    by (rule chunk_field [OF string_codec ClientAuth_sw_ok])
      (use assms in \<open>simp_all add: ClientAuth_switch_def ClientAuth_valid_def field_no_def\<close>)
  have c_filter: "chunk W (ClientAuth_switch W) ClientAuth_add_unknown
      (WriteString W 7 (ca_filter m)) (\<lambda>m0. m0\<lparr>ca_filter := ca_filter m\<rparr>)"
    by (rule chunk_field [OF string_codec ClientAuth_sw_ok])
      (use assms in \<open>simp_all add: ClientAuth_switch_def ClientAuth_valid_def field_no_def\<close>)
  have c_start_timestamp: "chunk W (ClientAuth_switch W) ClientAuth_add_unknown
      (WriteInt64 W 8 (ca_start_timestamp m)) (\<lambda>m0. m0\<lparr>ca_start_timestamp := ca_start_timestamp m\<rparr>)"
    by (rule chunk_field [OF int64_codec ClientAuth_sw_ok])
      (use assms in \<open>simp_all add: ClientAuth_switch_def ClientAuth_valid_def field_no_def\<close>)
  have unk: "ca_unknown m = []" using assms by (simp add: ClientAuth_valid_def)
  show ?thesis
    unfolding ClientAuth_Serialize_def unk unknown_out_Nil
    by (rule chunk_cong, (rule c_username c_password c_net_read_timeout c_net_write_timeout c_destination c_client_id c_filter c_start_timestamp chunk_intros | assumption)+)
      (simp add: ClientAuth_MergeFrom_eq ClientAuth_steps unk   cong: if_cong option.case_cong split del: if_split)
qed

lemma ClientAuth_size: "ClientAuth_valid W m \<Longrightarrow> ClientAuth_ByteSize W m = length (ClientAuth_Serialize W m)"
  by (simp add: ClientAuth_ByteSize_def ClientAuth_Serialize_def ClientAuth_valid_def field_lengths field_no_def
      length_if length_option add_ac split del: if_split cong: if_cong option.case_cong)

lemma ClientAuth_array: "ClientAuth_SerializeToArray W m t = t @ ClientAuth_Serialize W m"
  by (simp add: ClientAuth_SerializeToArray_def ClientAuth_Serialize_def Let_def to_array_laws 
      if_append option_append cong: if_cong option.case_cong split del: if_split)

lemma ClientAuth_codec: "message_codec (ClientAuth_MergePartial W) (ClientAuth_Serialize W) (ClientAuth_SerializeToArray W)
    (ClientAuth_ByteSize W) ClientAuth_MergeFrom ClientAuth_Clear (ClientAuth_valid W)"
  unfolding ClientAuth_MergePartial_def
  by (rule codecI [OF ClientAuth_sw_ok ClientAuth_chunk ClientAuth_size ClientAuth_array])
    (simp_all add: ClientAuth_Clear_eq ClientAuth_merge_ctor)

end

sublocale wire_format \<subseteq> ClientAuth: message_codec "ClientAuth_MergePartial W" "ClientAuth_Serialize W"
  "ClientAuth_SerializeToArray W" "ClientAuth_ByteSize W" ClientAuth_MergeFrom ClientAuth_Clear "ClientAuth_valid W"
  by (rule ClientAuth_codec)

section \<open>Ack\<close>

text \<open>
  The answer to it.
\<close>

record Ack =
  ak_error_code :: "32 word option"
  ak_error_message :: "bytes"
  ak_unknown :: bytes

definition Ack_SharedCtor :: Ack where
  "Ack_SharedCtor = \<lparr>ak_error_code = None, ak_error_message = [], ak_unknown = []\<rparr>"

definition Ack_Clear :: "Ack \<Rightarrow> Ack" where
  "Ack_Clear m = m\<lparr>ak_error_code := None, ak_error_message := [], ak_unknown := []\<rparr>"

definition Ack_switch :: "wirelib \<Rightarrow> 32 word \<Rightarrow> Ack \<Rightarrow> bytes \<Rightarrow> Ack fstep" where
  "Ack_switch W tag m s =
     (if GetTagFieldNumber tag = 1 then
       (if uint8 tag = 8 then
          Field (case ReadInt32 W s of
            None \<Rightarrow> None
          | Some (v, s') \<Rightarrow> Some (m\<lparr>ak_error_code := Some v\<rparr>, s'))
        else Unusual)
      else if GetTagFieldNumber tag = 2 then
       (if uint8 tag = 18 then
          Field (case ReadString W s of
            None \<Rightarrow> None
          | Some (v, s') \<Rightarrow> (if VerifyUtf8String W v then Some (m\<lparr>ak_error_message := v\<rparr>, s') else None))
        else Unusual)
      else Unusual)"

definition Ack_add_unknown :: "bytes \<Rightarrow> Ack \<Rightarrow> Ack" where
  "Ack_add_unknown raw m = m\<lparr>ak_unknown := ak_unknown m @ raw\<rparr>"

definition Ack_MergePartial :: "wirelib \<Rightarrow> Ack \<Rightarrow> bytes \<Rightarrow> (Ack \<times> bytes) option" where
  "Ack_MergePartial W = merge_all W (Ack_switch W) Ack_add_unknown"

definition Ack_ByteSize :: "wirelib \<Rightarrow> Ack \<Rightarrow> nat" where
  "Ack_ByteSize W m =
     length (unknown_out W (ak_unknown m))
     + (if ak_error_message m \<noteq> [] then 1 + StringSize W (ak_error_message m) else 0)
     + (case ak_error_code m of None \<Rightarrow> 0 | Some v \<Rightarrow> 1 + Int32Size W v)"

definition Ack_Serialize :: "wirelib \<Rightarrow> Ack \<Rightarrow> bytes" where
  "Ack_Serialize W m =
     (case ak_error_code m of None \<Rightarrow> [] | Some v \<Rightarrow> WriteInt32 W 1 v)
     @ (if ak_error_message m \<noteq> [] then WriteString W 2 (ak_error_message m) else [])
     @ unknown_out W (ak_unknown m)"

definition Ack_SerializeToArray :: "wirelib \<Rightarrow> Ack \<Rightarrow> bytes \<Rightarrow> bytes" where
  "Ack_SerializeToArray W m target =
     (let target1 = (case ak_error_code m of None \<Rightarrow> target | Some v \<Rightarrow> WriteInt32ToArray W 1 v target);
          target2 = (if ak_error_message m \<noteq> [] then WriteStringToArray W 2 (ak_error_message m) target1 else target1)
      in target2 @ unknown_out W (ak_unknown m))"

definition Ack_MergeFrom :: "Ack \<Rightarrow> Ack \<Rightarrow> Ack" where
  "Ack_MergeFrom this from =
     (let this0 = this\<lparr>ak_unknown := ak_unknown this @ ak_unknown from\<rparr>;
          this1 = (if ak_error_message from \<noteq> [] then this0\<lparr>ak_error_message := ak_error_message from\<rparr> else this0);
          this2 = (case ak_error_code from of None \<Rightarrow> this1 | Some v \<Rightarrow> this1\<lparr>ak_error_code := Some v\<rparr>)
      in this2)"

definition Ack_CopyFrom :: "bool \<Rightarrow> Ack \<Rightarrow> Ack \<Rightarrow> Ack" where
  "Ack_CopyFrom same_object this from =
     (if same_object then this else Ack_MergeFrom (Ack_Clear this) from)"

definition Ack_InternalSwap :: "Ack \<Rightarrow> Ack \<Rightarrow> Ack \<times> Ack" where
  "Ack_InternalSwap this other =
     (this\<lparr>ak_error_code := ak_error_code other, ak_error_message := ak_error_message other, ak_unknown := ak_unknown other\<rparr>,
      other\<lparr>ak_error_code := ak_error_code this, ak_error_message := ak_error_message this, ak_unknown := ak_unknown this\<rparr>)"

definition Ack_valid :: "wirelib \<Rightarrow> Ack \<Rightarrow> bool" where
  "Ack_valid W m \<longleftrightarrow>
     len_ok (length (ak_error_message m)) \<and> VerifyUtf8String W (ak_error_message m) \<and>
     ak_unknown m = []"

lemma Ack_steps:
  "(if c then t\<lparr>ak_error_message := w2\<rparr> else t) = t\<lparr>ak_error_message := (if c then w2 else ak_error_message t)\<rparr>"
  "(case y1 of None \<Rightarrow> t | Some v \<Rightarrow> t\<lparr>ak_error_code := Some v\<rparr>) =
    t\<lparr>ak_error_code := (case y1 of None \<Rightarrow> ak_error_code t | Some v \<Rightarrow> Some v)\<rparr>"
  by (simp_all split: option.split)

lemma Ack_MergeFrom_eq:
  "Ack_MergeFrom this from = this\<lparr>
      ak_unknown := ak_unknown this @ ak_unknown from,
      ak_error_message := (if ak_error_message from \<noteq> [] then ak_error_message from else ak_error_message this),
      ak_error_code := (case ak_error_code from of None \<Rightarrow> ak_error_code this | Some v \<Rightarrow> Some v)\<rparr>"
  by (simp add: Ack_MergeFrom_def Let_def Ack_steps cong: if_cong option.case_cong split del: if_split)

lemma Ack_swap: "Ack_InternalSwap a b = (b, a)"
  by (simp add: Ack_InternalSwap_def)

lemma Ack_Clear_eq: "Ack_Clear m = Ack_SharedCtor"
  by (simp add: Ack_Clear_def Ack_SharedCtor_def)

lemma Ack_merge_ctor: "Ack_valid W m \<Longrightarrow> Ack_MergeFrom Ack_SharedCtor m = m"
  by (cases m) (simp_all add: Ack_MergeFrom_eq Ack_SharedCtor_def Ack_valid_def option_self
       cong: if_cong option.case_cong)

context wire_format
begin

lemma Ack_sw_ok: "sw_ok (Ack_switch W)"
  by (rule sw_okI, unfold Ack_switch_def)
    (rule fstep_ok_intros reader_shrinks read_message_shrinks | assumption | simp)+

lemma Ack_chunk:
  assumes "Ack_valid W m"
  shows "chunk W (Ack_switch W) Ack_add_unknown (Ack_Serialize W m)
    (\<lambda>m0. Ack_MergeFrom m0 m)"
proof -
  have c_error_code: "chunk W (Ack_switch W) Ack_add_unknown
      (WriteInt32 W 1 v) (\<lambda>m0. m0\<lparr>ak_error_code := Some v\<rparr>)" if "ak_error_code m = Some v" for v
    by (rule chunk_field [OF int32_codec Ack_sw_ok])
      (use assms that in \<open>simp_all add: Ack_switch_def Ack_valid_def field_no_def\<close>)
  have c_error_message: "chunk W (Ack_switch W) Ack_add_unknown
      (WriteString W 2 (ak_error_message m)) (\<lambda>m0. m0\<lparr>ak_error_message := ak_error_message m\<rparr>)"
    by (rule chunk_field [OF string_codec Ack_sw_ok])
      (use assms in \<open>simp_all add: Ack_switch_def Ack_valid_def field_no_def\<close>)
  have unk: "ak_unknown m = []" using assms by (simp add: Ack_valid_def)
  show ?thesis
    unfolding Ack_Serialize_def unk unknown_out_Nil
    by (rule chunk_cong, (rule c_error_code c_error_message chunk_intros | assumption)+)
      (simp add: Ack_MergeFrom_eq Ack_steps unk   cong: if_cong option.case_cong split del: if_split)
qed

lemma Ack_size: "Ack_valid W m \<Longrightarrow> Ack_ByteSize W m = length (Ack_Serialize W m)"
  by (simp add: Ack_ByteSize_def Ack_Serialize_def Ack_valid_def field_lengths field_no_def
      length_if length_option add_ac split del: if_split cong: if_cong option.case_cong)

lemma Ack_array: "Ack_SerializeToArray W m t = t @ Ack_Serialize W m"
  by (simp add: Ack_SerializeToArray_def Ack_Serialize_def Let_def to_array_laws 
      if_append option_append cong: if_cong option.case_cong split del: if_split)

lemma Ack_codec: "message_codec (Ack_MergePartial W) (Ack_Serialize W) (Ack_SerializeToArray W)
    (Ack_ByteSize W) Ack_MergeFrom Ack_Clear (Ack_valid W)"
  unfolding Ack_MergePartial_def
  by (rule codecI [OF Ack_sw_ok Ack_chunk Ack_size Ack_array])
    (simp_all add: Ack_Clear_eq Ack_merge_ctor)

end

sublocale wire_format \<subseteq> Ack: message_codec "Ack_MergePartial W" "Ack_Serialize W"
  "Ack_SerializeToArray W" "Ack_ByteSize W" Ack_MergeFrom Ack_Clear "Ack_valid W"
  by (rule Ack_codec)

end
