(* ===== verification/PackageBody.thy ===== *)
theory PackageBody
  imports WireFormat
begin

text \<open>
  The remaining classes of \<open>binlogdump/BinlogPackage.pb.cc\<close>: subscriptions, requests, and the
  messages a server sends.
\<close>

section \<open>ClientAck\<close>

text \<open>
  A client has processed a batch.
\<close>

record ClientAck =
  ck_destination :: "bytes"
  ck_client_id :: "bytes"
  ck_batch_id :: "64 word"
  ck_unknown :: bytes

definition ClientAck_SharedCtor :: ClientAck where
  "ClientAck_SharedCtor = \<lparr>ck_destination = [], ck_client_id = [], ck_batch_id = 0, ck_unknown = []\<rparr>"

definition ClientAck_Clear :: "ClientAck \<Rightarrow> ClientAck" where
  "ClientAck_Clear m = m\<lparr>ck_destination := [], ck_client_id := [], ck_batch_id := 0, ck_unknown := []\<rparr>"

definition ClientAck_switch :: "wirelib \<Rightarrow> 32 word \<Rightarrow> ClientAck \<Rightarrow> bytes \<Rightarrow> ClientAck fstep" where
  "ClientAck_switch W tag m s =
     (if GetTagFieldNumber tag = 1 then
       (if uint8 tag = 10 then
          Field (case ReadString W s of
            None \<Rightarrow> None
          | Some (v, s') \<Rightarrow> (if VerifyUtf8String W v then Some (m\<lparr>ck_destination := v\<rparr>, s') else None))
        else Unusual)
      else if GetTagFieldNumber tag = 2 then
       (if uint8 tag = 18 then
          Field (case ReadString W s of
            None \<Rightarrow> None
          | Some (v, s') \<Rightarrow> (if VerifyUtf8String W v then Some (m\<lparr>ck_client_id := v\<rparr>, s') else None))
        else Unusual)
      else if GetTagFieldNumber tag = 3 then
       (if uint8 tag = 24 then
          Field (case ReadInt64 W s of
            None \<Rightarrow> None
          | Some (v, s') \<Rightarrow> Some (m\<lparr>ck_batch_id := v\<rparr>, s'))
        else Unusual)
      else Unusual)"

definition ClientAck_add_unknown :: "bytes \<Rightarrow> ClientAck \<Rightarrow> ClientAck" where
  "ClientAck_add_unknown raw m = m\<lparr>ck_unknown := ck_unknown m @ raw\<rparr>"

definition ClientAck_MergePartial :: "wirelib \<Rightarrow> ClientAck \<Rightarrow> bytes \<Rightarrow> (ClientAck \<times> bytes) option" where
  "ClientAck_MergePartial W = merge_all W (ClientAck_switch W) ClientAck_add_unknown"

definition ClientAck_ByteSize :: "wirelib \<Rightarrow> ClientAck \<Rightarrow> nat" where
  "ClientAck_ByteSize W m =
     length (unknown_out W (ck_unknown m))
     + (if ck_destination m \<noteq> [] then 1 + StringSize W (ck_destination m) else 0)
     + (if ck_client_id m \<noteq> [] then 1 + StringSize W (ck_client_id m) else 0)
     + (if ck_batch_id m \<noteq> 0 then 1 + Int64Size W (ck_batch_id m) else 0)"

definition ClientAck_Serialize :: "wirelib \<Rightarrow> ClientAck \<Rightarrow> bytes" where
  "ClientAck_Serialize W m =
     (if ck_destination m \<noteq> [] then WriteString W 1 (ck_destination m) else [])
     @ (if ck_client_id m \<noteq> [] then WriteString W 2 (ck_client_id m) else [])
     @ (if ck_batch_id m \<noteq> 0 then WriteInt64 W 3 (ck_batch_id m) else [])
     @ unknown_out W (ck_unknown m)"

definition ClientAck_SerializeToArray :: "wirelib \<Rightarrow> ClientAck \<Rightarrow> bytes \<Rightarrow> bytes" where
  "ClientAck_SerializeToArray W m target =
     (let target1 = (if ck_destination m \<noteq> [] then WriteStringToArray W 1 (ck_destination m) target else target);
          target2 = (if ck_client_id m \<noteq> [] then WriteStringToArray W 2 (ck_client_id m) target1 else target1);
          target3 = (if ck_batch_id m \<noteq> 0 then WriteInt64ToArray W 3 (ck_batch_id m) target2 else target2)
      in target3 @ unknown_out W (ck_unknown m))"

definition ClientAck_MergeFrom :: "ClientAck \<Rightarrow> ClientAck \<Rightarrow> ClientAck" where
  "ClientAck_MergeFrom this from =
     (let this0 = this\<lparr>ck_unknown := ck_unknown this @ ck_unknown from\<rparr>;
          this1 = (if ck_destination from \<noteq> [] then this0\<lparr>ck_destination := ck_destination from\<rparr> else this0);
          this2 = (if ck_client_id from \<noteq> [] then this1\<lparr>ck_client_id := ck_client_id from\<rparr> else this1);
          this3 = (if ck_batch_id from \<noteq> 0 then this2\<lparr>ck_batch_id := ck_batch_id from\<rparr> else this2)
      in this3)"

definition ClientAck_CopyFrom :: "bool \<Rightarrow> ClientAck \<Rightarrow> ClientAck \<Rightarrow> ClientAck" where
  "ClientAck_CopyFrom same_object this from =
     (if same_object then this else ClientAck_MergeFrom (ClientAck_Clear this) from)"

definition ClientAck_InternalSwap :: "ClientAck \<Rightarrow> ClientAck \<Rightarrow> ClientAck \<times> ClientAck" where
  "ClientAck_InternalSwap this other =
     (this\<lparr>ck_destination := ck_destination other, ck_client_id := ck_client_id other, ck_batch_id := ck_batch_id other, ck_unknown := ck_unknown other\<rparr>,
      other\<lparr>ck_destination := ck_destination this, ck_client_id := ck_client_id this, ck_batch_id := ck_batch_id this, ck_unknown := ck_unknown this\<rparr>)"

definition ClientAck_valid :: "wirelib \<Rightarrow> ClientAck \<Rightarrow> bool" where
  "ClientAck_valid W m \<longleftrightarrow>
     len_ok (length (ck_destination m)) \<and> VerifyUtf8String W (ck_destination m) \<and>
     len_ok (length (ck_client_id m)) \<and> VerifyUtf8String W (ck_client_id m) \<and>
     ck_unknown m = []"

lemma ClientAck_steps:
  "(if c then t\<lparr>ck_destination := w1\<rparr> else t) = t\<lparr>ck_destination := (if c then w1 else ck_destination t)\<rparr>"
  "(if c then t\<lparr>ck_client_id := w2\<rparr> else t) = t\<lparr>ck_client_id := (if c then w2 else ck_client_id t)\<rparr>"
  "(if c then t\<lparr>ck_batch_id := w3\<rparr> else t) = t\<lparr>ck_batch_id := (if c then w3 else ck_batch_id t)\<rparr>"
  by (simp_all split: option.split)

lemma ClientAck_MergeFrom_eq:
  "ClientAck_MergeFrom this from = this\<lparr>
      ck_unknown := ck_unknown this @ ck_unknown from,
      ck_destination := (if ck_destination from \<noteq> [] then ck_destination from else ck_destination this),
      ck_client_id := (if ck_client_id from \<noteq> [] then ck_client_id from else ck_client_id this),
      ck_batch_id := (if ck_batch_id from \<noteq> 0 then ck_batch_id from else ck_batch_id this)\<rparr>"
  by (simp add: ClientAck_MergeFrom_def Let_def ClientAck_steps cong: if_cong option.case_cong split del: if_split)

lemma ClientAck_swap: "ClientAck_InternalSwap a b = (b, a)"
  by (simp add: ClientAck_InternalSwap_def)

lemma ClientAck_Clear_eq: "ClientAck_Clear m = ClientAck_SharedCtor"
  by (simp add: ClientAck_Clear_def ClientAck_SharedCtor_def)

lemma ClientAck_merge_ctor: "ClientAck_valid W m \<Longrightarrow> ClientAck_MergeFrom ClientAck_SharedCtor m = m"
  by (cases m) (simp_all add: ClientAck_MergeFrom_eq ClientAck_SharedCtor_def ClientAck_valid_def option_self
       cong: if_cong option.case_cong)

context wire_format
begin

lemma ClientAck_sw_ok: "sw_ok (ClientAck_switch W)"
  by (rule sw_okI, unfold ClientAck_switch_def)
    (rule fstep_ok_intros reader_shrinks read_message_shrinks | assumption | simp)+

lemma ClientAck_chunk:
  assumes "ClientAck_valid W m"
  shows "chunk W (ClientAck_switch W) ClientAck_add_unknown (ClientAck_Serialize W m)
    (\<lambda>m0. ClientAck_MergeFrom m0 m)"
proof -
  have c_destination: "chunk W (ClientAck_switch W) ClientAck_add_unknown
      (WriteString W 1 (ck_destination m)) (\<lambda>m0. m0\<lparr>ck_destination := ck_destination m\<rparr>)"
    by (rule chunk_field [OF string_codec ClientAck_sw_ok])
      (use assms in \<open>simp_all add: ClientAck_switch_def ClientAck_valid_def field_no_def\<close>)
  have c_client_id: "chunk W (ClientAck_switch W) ClientAck_add_unknown
      (WriteString W 2 (ck_client_id m)) (\<lambda>m0. m0\<lparr>ck_client_id := ck_client_id m\<rparr>)"
    by (rule chunk_field [OF string_codec ClientAck_sw_ok])
      (use assms in \<open>simp_all add: ClientAck_switch_def ClientAck_valid_def field_no_def\<close>)
  have c_batch_id: "chunk W (ClientAck_switch W) ClientAck_add_unknown
      (WriteInt64 W 3 (ck_batch_id m)) (\<lambda>m0. m0\<lparr>ck_batch_id := ck_batch_id m\<rparr>)"
    by (rule chunk_field [OF int64_codec ClientAck_sw_ok])
      (use assms in \<open>simp_all add: ClientAck_switch_def ClientAck_valid_def field_no_def\<close>)
  have unk: "ck_unknown m = []" using assms by (simp add: ClientAck_valid_def)
  show ?thesis
    unfolding ClientAck_Serialize_def unk unknown_out_Nil
    by (rule chunk_cong, (rule c_destination c_client_id c_batch_id chunk_intros | assumption)+)
      (simp add: ClientAck_MergeFrom_eq ClientAck_steps unk   cong: if_cong option.case_cong split del: if_split)
qed

lemma ClientAck_size: "ClientAck_valid W m \<Longrightarrow> ClientAck_ByteSize W m = length (ClientAck_Serialize W m)"
  by (simp add: ClientAck_ByteSize_def ClientAck_Serialize_def ClientAck_valid_def field_lengths field_no_def)

lemma ClientAck_array: "ClientAck_SerializeToArray W m t = t @ ClientAck_Serialize W m"
  by (simp add: ClientAck_SerializeToArray_def ClientAck_Serialize_def Let_def to_array_laws 
      if_append option_append cong: if_cong option.case_cong split del: if_split)

lemma ClientAck_codec: "message_codec (ClientAck_MergePartial W) (ClientAck_Serialize W) (ClientAck_SerializeToArray W)
    (ClientAck_ByteSize W) ClientAck_MergeFrom ClientAck_Clear (ClientAck_valid W)"
  unfolding ClientAck_MergePartial_def
  by (rule codecI [OF ClientAck_sw_ok ClientAck_chunk ClientAck_size ClientAck_array])
    (simp_all add: ClientAck_Clear_eq ClientAck_merge_ctor)

end

sublocale wire_format \<subseteq> ClientAck: message_codec "ClientAck_MergePartial W" "ClientAck_Serialize W"
  "ClientAck_SerializeToArray W" "ClientAck_ByteSize W" ClientAck_MergeFrom ClientAck_Clear "ClientAck_valid W"
  by (rule ClientAck_codec)

section \<open>Sub\<close>

text \<open>
  A subscription.
\<close>

record Sub =
  sb_destination :: "bytes"
  sb_client_id :: "bytes"
  sb_filter :: "bytes"
  sb_unknown :: bytes

definition Sub_SharedCtor :: Sub where
  "Sub_SharedCtor = \<lparr>sb_destination = [], sb_client_id = [], sb_filter = [], sb_unknown = []\<rparr>"

definition Sub_Clear :: "Sub \<Rightarrow> Sub" where
  "Sub_Clear m = m\<lparr>sb_destination := [], sb_client_id := [], sb_filter := [], sb_unknown := []\<rparr>"

definition Sub_switch :: "wirelib \<Rightarrow> 32 word \<Rightarrow> Sub \<Rightarrow> bytes \<Rightarrow> Sub fstep" where
  "Sub_switch W tag m s =
     (if GetTagFieldNumber tag = 1 then
       (if uint8 tag = 10 then
          Field (case ReadString W s of
            None \<Rightarrow> None
          | Some (v, s') \<Rightarrow> (if VerifyUtf8String W v then Some (m\<lparr>sb_destination := v\<rparr>, s') else None))
        else Unusual)
      else if GetTagFieldNumber tag = 2 then
       (if uint8 tag = 18 then
          Field (case ReadString W s of
            None \<Rightarrow> None
          | Some (v, s') \<Rightarrow> (if VerifyUtf8String W v then Some (m\<lparr>sb_client_id := v\<rparr>, s') else None))
        else Unusual)
      else if GetTagFieldNumber tag = 7 then
       (if uint8 tag = 58 then
          Field (case ReadString W s of
            None \<Rightarrow> None
          | Some (v, s') \<Rightarrow> (if VerifyUtf8String W v then Some (m\<lparr>sb_filter := v\<rparr>, s') else None))
        else Unusual)
      else Unusual)"

definition Sub_add_unknown :: "bytes \<Rightarrow> Sub \<Rightarrow> Sub" where
  "Sub_add_unknown raw m = m\<lparr>sb_unknown := sb_unknown m @ raw\<rparr>"

definition Sub_MergePartial :: "wirelib \<Rightarrow> Sub \<Rightarrow> bytes \<Rightarrow> (Sub \<times> bytes) option" where
  "Sub_MergePartial W = merge_all W (Sub_switch W) Sub_add_unknown"

definition Sub_ByteSize :: "wirelib \<Rightarrow> Sub \<Rightarrow> nat" where
  "Sub_ByteSize W m =
     length (unknown_out W (sb_unknown m))
     + (if sb_destination m \<noteq> [] then 1 + StringSize W (sb_destination m) else 0)
     + (if sb_client_id m \<noteq> [] then 1 + StringSize W (sb_client_id m) else 0)
     + (if sb_filter m \<noteq> [] then 1 + StringSize W (sb_filter m) else 0)"

definition Sub_Serialize :: "wirelib \<Rightarrow> Sub \<Rightarrow> bytes" where
  "Sub_Serialize W m =
     (if sb_destination m \<noteq> [] then WriteString W 1 (sb_destination m) else [])
     @ (if sb_client_id m \<noteq> [] then WriteString W 2 (sb_client_id m) else [])
     @ (if sb_filter m \<noteq> [] then WriteString W 7 (sb_filter m) else [])
     @ unknown_out W (sb_unknown m)"

definition Sub_SerializeToArray :: "wirelib \<Rightarrow> Sub \<Rightarrow> bytes \<Rightarrow> bytes" where
  "Sub_SerializeToArray W m target =
     (let target1 = (if sb_destination m \<noteq> [] then WriteStringToArray W 1 (sb_destination m) target else target);
          target2 = (if sb_client_id m \<noteq> [] then WriteStringToArray W 2 (sb_client_id m) target1 else target1);
          target3 = (if sb_filter m \<noteq> [] then WriteStringToArray W 7 (sb_filter m) target2 else target2)
      in target3 @ unknown_out W (sb_unknown m))"

definition Sub_MergeFrom :: "Sub \<Rightarrow> Sub \<Rightarrow> Sub" where
  "Sub_MergeFrom this from =
     (let this0 = this\<lparr>sb_unknown := sb_unknown this @ sb_unknown from\<rparr>;
          this1 = (if sb_destination from \<noteq> [] then this0\<lparr>sb_destination := sb_destination from\<rparr> else this0);
          this2 = (if sb_client_id from \<noteq> [] then this1\<lparr>sb_client_id := sb_client_id from\<rparr> else this1);
          this3 = (if sb_filter from \<noteq> [] then this2\<lparr>sb_filter := sb_filter from\<rparr> else this2)
      in this3)"

definition Sub_CopyFrom :: "bool \<Rightarrow> Sub \<Rightarrow> Sub \<Rightarrow> Sub" where
  "Sub_CopyFrom same_object this from =
     (if same_object then this else Sub_MergeFrom (Sub_Clear this) from)"

definition Sub_InternalSwap :: "Sub \<Rightarrow> Sub \<Rightarrow> Sub \<times> Sub" where
  "Sub_InternalSwap this other =
     (this\<lparr>sb_destination := sb_destination other, sb_client_id := sb_client_id other, sb_filter := sb_filter other, sb_unknown := sb_unknown other\<rparr>,
      other\<lparr>sb_destination := sb_destination this, sb_client_id := sb_client_id this, sb_filter := sb_filter this, sb_unknown := sb_unknown this\<rparr>)"

definition Sub_valid :: "wirelib \<Rightarrow> Sub \<Rightarrow> bool" where
  "Sub_valid W m \<longleftrightarrow>
     len_ok (length (sb_destination m)) \<and> VerifyUtf8String W (sb_destination m) \<and>
     len_ok (length (sb_client_id m)) \<and> VerifyUtf8String W (sb_client_id m) \<and>
     len_ok (length (sb_filter m)) \<and> VerifyUtf8String W (sb_filter m) \<and>
     sb_unknown m = []"

lemma Sub_steps:
  "(if c then t\<lparr>sb_destination := w1\<rparr> else t) = t\<lparr>sb_destination := (if c then w1 else sb_destination t)\<rparr>"
  "(if c then t\<lparr>sb_client_id := w2\<rparr> else t) = t\<lparr>sb_client_id := (if c then w2 else sb_client_id t)\<rparr>"
  "(if c then t\<lparr>sb_filter := w7\<rparr> else t) = t\<lparr>sb_filter := (if c then w7 else sb_filter t)\<rparr>"
  by (simp_all split: option.split)

lemma Sub_MergeFrom_eq:
  "Sub_MergeFrom this from = this\<lparr>
      sb_unknown := sb_unknown this @ sb_unknown from,
      sb_destination := (if sb_destination from \<noteq> [] then sb_destination from else sb_destination this),
      sb_client_id := (if sb_client_id from \<noteq> [] then sb_client_id from else sb_client_id this),
      sb_filter := (if sb_filter from \<noteq> [] then sb_filter from else sb_filter this)\<rparr>"
  by (simp add: Sub_MergeFrom_def Let_def Sub_steps cong: if_cong option.case_cong split del: if_split)

lemma Sub_swap: "Sub_InternalSwap a b = (b, a)"
  by (simp add: Sub_InternalSwap_def)

lemma Sub_Clear_eq: "Sub_Clear m = Sub_SharedCtor"
  by (simp add: Sub_Clear_def Sub_SharedCtor_def)

lemma Sub_merge_ctor: "Sub_valid W m \<Longrightarrow> Sub_MergeFrom Sub_SharedCtor m = m"
  by (cases m) (simp_all add: Sub_MergeFrom_eq Sub_SharedCtor_def Sub_valid_def option_self
       cong: if_cong option.case_cong)

context wire_format
begin

lemma Sub_sw_ok: "sw_ok (Sub_switch W)"
  by (rule sw_okI, unfold Sub_switch_def)
    (rule fstep_ok_intros reader_shrinks read_message_shrinks | assumption | simp)+

lemma Sub_chunk:
  assumes "Sub_valid W m"
  shows "chunk W (Sub_switch W) Sub_add_unknown (Sub_Serialize W m)
    (\<lambda>m0. Sub_MergeFrom m0 m)"
proof -
  have c_destination: "chunk W (Sub_switch W) Sub_add_unknown
      (WriteString W 1 (sb_destination m)) (\<lambda>m0. m0\<lparr>sb_destination := sb_destination m\<rparr>)"
    by (rule chunk_field [OF string_codec Sub_sw_ok])
      (use assms in \<open>simp_all add: Sub_switch_def Sub_valid_def field_no_def\<close>)
  have c_client_id: "chunk W (Sub_switch W) Sub_add_unknown
      (WriteString W 2 (sb_client_id m)) (\<lambda>m0. m0\<lparr>sb_client_id := sb_client_id m\<rparr>)"
    by (rule chunk_field [OF string_codec Sub_sw_ok])
      (use assms in \<open>simp_all add: Sub_switch_def Sub_valid_def field_no_def\<close>)
  have c_filter: "chunk W (Sub_switch W) Sub_add_unknown
      (WriteString W 7 (sb_filter m)) (\<lambda>m0. m0\<lparr>sb_filter := sb_filter m\<rparr>)"
    by (rule chunk_field [OF string_codec Sub_sw_ok])
      (use assms in \<open>simp_all add: Sub_switch_def Sub_valid_def field_no_def\<close>)
  have unk: "sb_unknown m = []" using assms by (simp add: Sub_valid_def)
  show ?thesis
    unfolding Sub_Serialize_def unk unknown_out_Nil
    by (rule chunk_cong, (rule c_destination c_client_id c_filter chunk_intros | assumption)+)
      (simp add: Sub_MergeFrom_eq Sub_steps unk   cong: if_cong option.case_cong split del: if_split)
qed

lemma Sub_size: "Sub_valid W m \<Longrightarrow> Sub_ByteSize W m = length (Sub_Serialize W m)"
  by (simp add: Sub_ByteSize_def Sub_Serialize_def Sub_valid_def field_lengths field_no_def)

lemma Sub_array: "Sub_SerializeToArray W m t = t @ Sub_Serialize W m"
  by (simp add: Sub_SerializeToArray_def Sub_Serialize_def Let_def to_array_laws 
      if_append option_append cong: if_cong option.case_cong split del: if_split)

lemma Sub_codec: "message_codec (Sub_MergePartial W) (Sub_Serialize W) (Sub_SerializeToArray W)
    (Sub_ByteSize W) Sub_MergeFrom Sub_Clear (Sub_valid W)"
  unfolding Sub_MergePartial_def
  by (rule codecI [OF Sub_sw_ok Sub_chunk Sub_size Sub_array])
    (simp_all add: Sub_Clear_eq Sub_merge_ctor)

end

sublocale wire_format \<subseteq> Sub: message_codec "Sub_MergePartial W" "Sub_Serialize W"
  "Sub_SerializeToArray W" "Sub_ByteSize W" Sub_MergeFrom Sub_Clear "Sub_valid W"
  by (rule Sub_codec)

section \<open>Unsub\<close>

text \<open>
  Its end.
\<close>

record Unsub =
  us_destination :: "bytes"
  us_client_id :: "bytes"
  us_filter :: "bytes"
  us_unknown :: bytes

definition Unsub_SharedCtor :: Unsub where
  "Unsub_SharedCtor = \<lparr>us_destination = [], us_client_id = [], us_filter = [], us_unknown = []\<rparr>"

definition Unsub_Clear :: "Unsub \<Rightarrow> Unsub" where
  "Unsub_Clear m = m\<lparr>us_destination := [], us_client_id := [], us_filter := [], us_unknown := []\<rparr>"

definition Unsub_switch :: "wirelib \<Rightarrow> 32 word \<Rightarrow> Unsub \<Rightarrow> bytes \<Rightarrow> Unsub fstep" where
  "Unsub_switch W tag m s =
     (if GetTagFieldNumber tag = 1 then
       (if uint8 tag = 10 then
          Field (case ReadString W s of
            None \<Rightarrow> None
          | Some (v, s') \<Rightarrow> (if VerifyUtf8String W v then Some (m\<lparr>us_destination := v\<rparr>, s') else None))
        else Unusual)
      else if GetTagFieldNumber tag = 2 then
       (if uint8 tag = 18 then
          Field (case ReadString W s of
            None \<Rightarrow> None
          | Some (v, s') \<Rightarrow> (if VerifyUtf8String W v then Some (m\<lparr>us_client_id := v\<rparr>, s') else None))
        else Unusual)
      else if GetTagFieldNumber tag = 7 then
       (if uint8 tag = 58 then
          Field (case ReadString W s of
            None \<Rightarrow> None
          | Some (v, s') \<Rightarrow> (if VerifyUtf8String W v then Some (m\<lparr>us_filter := v\<rparr>, s') else None))
        else Unusual)
      else Unusual)"

definition Unsub_add_unknown :: "bytes \<Rightarrow> Unsub \<Rightarrow> Unsub" where
  "Unsub_add_unknown raw m = m\<lparr>us_unknown := us_unknown m @ raw\<rparr>"

definition Unsub_MergePartial :: "wirelib \<Rightarrow> Unsub \<Rightarrow> bytes \<Rightarrow> (Unsub \<times> bytes) option" where
  "Unsub_MergePartial W = merge_all W (Unsub_switch W) Unsub_add_unknown"

definition Unsub_ByteSize :: "wirelib \<Rightarrow> Unsub \<Rightarrow> nat" where
  "Unsub_ByteSize W m =
     length (unknown_out W (us_unknown m))
     + (if us_destination m \<noteq> [] then 1 + StringSize W (us_destination m) else 0)
     + (if us_client_id m \<noteq> [] then 1 + StringSize W (us_client_id m) else 0)
     + (if us_filter m \<noteq> [] then 1 + StringSize W (us_filter m) else 0)"

definition Unsub_Serialize :: "wirelib \<Rightarrow> Unsub \<Rightarrow> bytes" where
  "Unsub_Serialize W m =
     (if us_destination m \<noteq> [] then WriteString W 1 (us_destination m) else [])
     @ (if us_client_id m \<noteq> [] then WriteString W 2 (us_client_id m) else [])
     @ (if us_filter m \<noteq> [] then WriteString W 7 (us_filter m) else [])
     @ unknown_out W (us_unknown m)"

definition Unsub_SerializeToArray :: "wirelib \<Rightarrow> Unsub \<Rightarrow> bytes \<Rightarrow> bytes" where
  "Unsub_SerializeToArray W m target =
     (let target1 = (if us_destination m \<noteq> [] then WriteStringToArray W 1 (us_destination m) target else target);
          target2 = (if us_client_id m \<noteq> [] then WriteStringToArray W 2 (us_client_id m) target1 else target1);
          target3 = (if us_filter m \<noteq> [] then WriteStringToArray W 7 (us_filter m) target2 else target2)
      in target3 @ unknown_out W (us_unknown m))"

definition Unsub_MergeFrom :: "Unsub \<Rightarrow> Unsub \<Rightarrow> Unsub" where
  "Unsub_MergeFrom this from =
     (let this0 = this\<lparr>us_unknown := us_unknown this @ us_unknown from\<rparr>;
          this1 = (if us_destination from \<noteq> [] then this0\<lparr>us_destination := us_destination from\<rparr> else this0);
          this2 = (if us_client_id from \<noteq> [] then this1\<lparr>us_client_id := us_client_id from\<rparr> else this1);
          this3 = (if us_filter from \<noteq> [] then this2\<lparr>us_filter := us_filter from\<rparr> else this2)
      in this3)"

definition Unsub_CopyFrom :: "bool \<Rightarrow> Unsub \<Rightarrow> Unsub \<Rightarrow> Unsub" where
  "Unsub_CopyFrom same_object this from =
     (if same_object then this else Unsub_MergeFrom (Unsub_Clear this) from)"

definition Unsub_InternalSwap :: "Unsub \<Rightarrow> Unsub \<Rightarrow> Unsub \<times> Unsub" where
  "Unsub_InternalSwap this other =
     (this\<lparr>us_destination := us_destination other, us_client_id := us_client_id other, us_filter := us_filter other, us_unknown := us_unknown other\<rparr>,
      other\<lparr>us_destination := us_destination this, us_client_id := us_client_id this, us_filter := us_filter this, us_unknown := us_unknown this\<rparr>)"

definition Unsub_valid :: "wirelib \<Rightarrow> Unsub \<Rightarrow> bool" where
  "Unsub_valid W m \<longleftrightarrow>
     len_ok (length (us_destination m)) \<and> VerifyUtf8String W (us_destination m) \<and>
     len_ok (length (us_client_id m)) \<and> VerifyUtf8String W (us_client_id m) \<and>
     len_ok (length (us_filter m)) \<and> VerifyUtf8String W (us_filter m) \<and>
     us_unknown m = []"

lemma Unsub_steps:
  "(if c then t\<lparr>us_destination := w1\<rparr> else t) = t\<lparr>us_destination := (if c then w1 else us_destination t)\<rparr>"
  "(if c then t\<lparr>us_client_id := w2\<rparr> else t) = t\<lparr>us_client_id := (if c then w2 else us_client_id t)\<rparr>"
  "(if c then t\<lparr>us_filter := w7\<rparr> else t) = t\<lparr>us_filter := (if c then w7 else us_filter t)\<rparr>"
  by (simp_all split: option.split)

lemma Unsub_MergeFrom_eq:
  "Unsub_MergeFrom this from = this\<lparr>
      us_unknown := us_unknown this @ us_unknown from,
      us_destination := (if us_destination from \<noteq> [] then us_destination from else us_destination this),
      us_client_id := (if us_client_id from \<noteq> [] then us_client_id from else us_client_id this),
      us_filter := (if us_filter from \<noteq> [] then us_filter from else us_filter this)\<rparr>"
  by (simp add: Unsub_MergeFrom_def Let_def Unsub_steps cong: if_cong option.case_cong split del: if_split)

lemma Unsub_swap: "Unsub_InternalSwap a b = (b, a)"
  by (simp add: Unsub_InternalSwap_def)

lemma Unsub_Clear_eq: "Unsub_Clear m = Unsub_SharedCtor"
  by (simp add: Unsub_Clear_def Unsub_SharedCtor_def)

lemma Unsub_merge_ctor: "Unsub_valid W m \<Longrightarrow> Unsub_MergeFrom Unsub_SharedCtor m = m"
  by (cases m) (simp_all add: Unsub_MergeFrom_eq Unsub_SharedCtor_def Unsub_valid_def option_self
       cong: if_cong option.case_cong)

context wire_format
begin

lemma Unsub_sw_ok: "sw_ok (Unsub_switch W)"
  by (rule sw_okI, unfold Unsub_switch_def)
    (rule fstep_ok_intros reader_shrinks read_message_shrinks | assumption | simp)+

lemma Unsub_chunk:
  assumes "Unsub_valid W m"
  shows "chunk W (Unsub_switch W) Unsub_add_unknown (Unsub_Serialize W m)
    (\<lambda>m0. Unsub_MergeFrom m0 m)"
proof -
  have c_destination: "chunk W (Unsub_switch W) Unsub_add_unknown
      (WriteString W 1 (us_destination m)) (\<lambda>m0. m0\<lparr>us_destination := us_destination m\<rparr>)"
    by (rule chunk_field [OF string_codec Unsub_sw_ok])
      (use assms in \<open>simp_all add: Unsub_switch_def Unsub_valid_def field_no_def\<close>)
  have c_client_id: "chunk W (Unsub_switch W) Unsub_add_unknown
      (WriteString W 2 (us_client_id m)) (\<lambda>m0. m0\<lparr>us_client_id := us_client_id m\<rparr>)"
    by (rule chunk_field [OF string_codec Unsub_sw_ok])
      (use assms in \<open>simp_all add: Unsub_switch_def Unsub_valid_def field_no_def\<close>)
  have c_filter: "chunk W (Unsub_switch W) Unsub_add_unknown
      (WriteString W 7 (us_filter m)) (\<lambda>m0. m0\<lparr>us_filter := us_filter m\<rparr>)"
    by (rule chunk_field [OF string_codec Unsub_sw_ok])
      (use assms in \<open>simp_all add: Unsub_switch_def Unsub_valid_def field_no_def\<close>)
  have unk: "us_unknown m = []" using assms by (simp add: Unsub_valid_def)
  show ?thesis
    unfolding Unsub_Serialize_def unk unknown_out_Nil
    by (rule chunk_cong, (rule c_destination c_client_id c_filter chunk_intros | assumption)+)
      (simp add: Unsub_MergeFrom_eq Unsub_steps unk   cong: if_cong option.case_cong split del: if_split)
qed

lemma Unsub_size: "Unsub_valid W m \<Longrightarrow> Unsub_ByteSize W m = length (Unsub_Serialize W m)"
  by (simp add: Unsub_ByteSize_def Unsub_Serialize_def Unsub_valid_def field_lengths field_no_def)

lemma Unsub_array: "Unsub_SerializeToArray W m t = t @ Unsub_Serialize W m"
  by (simp add: Unsub_SerializeToArray_def Unsub_Serialize_def Let_def to_array_laws 
      if_append option_append cong: if_cong option.case_cong split del: if_split)

lemma Unsub_codec: "message_codec (Unsub_MergePartial W) (Unsub_Serialize W) (Unsub_SerializeToArray W)
    (Unsub_ByteSize W) Unsub_MergeFrom Unsub_Clear (Unsub_valid W)"
  unfolding Unsub_MergePartial_def
  by (rule codecI [OF Unsub_sw_ok Unsub_chunk Unsub_size Unsub_array])
    (simp_all add: Unsub_Clear_eq Unsub_merge_ctor)

end

sublocale wire_format \<subseteq> Unsub: message_codec "Unsub_MergePartial W" "Unsub_Serialize W"
  "Unsub_SerializeToArray W" "Unsub_ByteSize W" Unsub_MergeFrom Unsub_Clear "Unsub_valid W"
  by (rule Unsub_codec)

section \<open>Get\<close>

text \<open>
  A request for a batch.
\<close>

record Get =
  ge_destination :: "bytes"
  ge_client_id :: "bytes"
  ge_fetch_size :: "32 word"
  ge_timeout :: "64 word option"
  ge_unit :: "32 word option"
  ge_auto_ack :: "bool option"
  ge_unknown :: bytes

definition Get_SharedCtor :: Get where
  "Get_SharedCtor = \<lparr>ge_destination = [], ge_client_id = [], ge_fetch_size = 0, ge_timeout = None, ge_unit = None, ge_auto_ack = None, ge_unknown = []\<rparr>"

definition Get_Clear :: "Get \<Rightarrow> Get" where
  "Get_Clear m = m\<lparr>ge_destination := [], ge_client_id := [], ge_fetch_size := 0, ge_timeout := None, ge_unit := None, ge_auto_ack := None, ge_unknown := []\<rparr>"

definition Get_switch :: "wirelib \<Rightarrow> 32 word \<Rightarrow> Get \<Rightarrow> bytes \<Rightarrow> Get fstep" where
  "Get_switch W tag m s =
     (if GetTagFieldNumber tag = 1 then
       (if uint8 tag = 10 then
          Field (case ReadString W s of
            None \<Rightarrow> None
          | Some (v, s') \<Rightarrow> (if VerifyUtf8String W v then Some (m\<lparr>ge_destination := v\<rparr>, s') else None))
        else Unusual)
      else if GetTagFieldNumber tag = 2 then
       (if uint8 tag = 18 then
          Field (case ReadString W s of
            None \<Rightarrow> None
          | Some (v, s') \<Rightarrow> (if VerifyUtf8String W v then Some (m\<lparr>ge_client_id := v\<rparr>, s') else None))
        else Unusual)
      else if GetTagFieldNumber tag = 3 then
       (if uint8 tag = 24 then
          Field (case ReadInt32 W s of
            None \<Rightarrow> None
          | Some (v, s') \<Rightarrow> Some (m\<lparr>ge_fetch_size := v\<rparr>, s'))
        else Unusual)
      else if GetTagFieldNumber tag = 4 then
       (if uint8 tag = 32 then
          Field (case ReadInt64 W s of
            None \<Rightarrow> None
          | Some (v, s') \<Rightarrow> Some (m\<lparr>ge_timeout := Some v\<rparr>, s'))
        else Unusual)
      else if GetTagFieldNumber tag = 5 then
       (if uint8 tag = 40 then
          Field (case ReadInt32 W s of
            None \<Rightarrow> None
          | Some (v, s') \<Rightarrow> Some (m\<lparr>ge_unit := Some v\<rparr>, s'))
        else Unusual)
      else if GetTagFieldNumber tag = 6 then
       (if uint8 tag = 48 then
          Field (case ReadBool W s of
            None \<Rightarrow> None
          | Some (v, s') \<Rightarrow> Some (m\<lparr>ge_auto_ack := Some v\<rparr>, s'))
        else Unusual)
      else Unusual)"

definition Get_add_unknown :: "bytes \<Rightarrow> Get \<Rightarrow> Get" where
  "Get_add_unknown raw m = m\<lparr>ge_unknown := ge_unknown m @ raw\<rparr>"

definition Get_MergePartial :: "wirelib \<Rightarrow> Get \<Rightarrow> bytes \<Rightarrow> (Get \<times> bytes) option" where
  "Get_MergePartial W = merge_all W (Get_switch W) Get_add_unknown"

definition Get_ByteSize :: "wirelib \<Rightarrow> Get \<Rightarrow> nat" where
  "Get_ByteSize W m =
     length (unknown_out W (ge_unknown m))
     + (if ge_destination m \<noteq> [] then 1 + StringSize W (ge_destination m) else 0)
     + (if ge_client_id m \<noteq> [] then 1 + StringSize W (ge_client_id m) else 0)
     + (if ge_fetch_size m \<noteq> 0 then 1 + Int32Size W (ge_fetch_size m) else 0)
     + (case ge_timeout m of None \<Rightarrow> 0 | Some v \<Rightarrow> 1 + Int64Size W v)
     + (case ge_unit m of None \<Rightarrow> 0 | Some v \<Rightarrow> 1 + Int32Size W v)
     + (case ge_auto_ack m of None \<Rightarrow> 0 | Some v \<Rightarrow> 1 + 1)"

definition Get_Serialize :: "wirelib \<Rightarrow> Get \<Rightarrow> bytes" where
  "Get_Serialize W m =
     (if ge_destination m \<noteq> [] then WriteString W 1 (ge_destination m) else [])
     @ (if ge_client_id m \<noteq> [] then WriteString W 2 (ge_client_id m) else [])
     @ (if ge_fetch_size m \<noteq> 0 then WriteInt32 W 3 (ge_fetch_size m) else [])
     @ (case ge_timeout m of None \<Rightarrow> [] | Some v \<Rightarrow> WriteInt64 W 4 v)
     @ (case ge_unit m of None \<Rightarrow> [] | Some v \<Rightarrow> WriteInt32 W 5 v)
     @ (case ge_auto_ack m of None \<Rightarrow> [] | Some v \<Rightarrow> WriteBool W 6 v)
     @ unknown_out W (ge_unknown m)"

definition Get_SerializeToArray :: "wirelib \<Rightarrow> Get \<Rightarrow> bytes \<Rightarrow> bytes" where
  "Get_SerializeToArray W m target =
     (let target1 = (if ge_destination m \<noteq> [] then WriteStringToArray W 1 (ge_destination m) target else target);
          target2 = (if ge_client_id m \<noteq> [] then WriteStringToArray W 2 (ge_client_id m) target1 else target1);
          target3 = (if ge_fetch_size m \<noteq> 0 then WriteInt32ToArray W 3 (ge_fetch_size m) target2 else target2);
          target4 = (case ge_timeout m of None \<Rightarrow> target3 | Some v \<Rightarrow> WriteInt64ToArray W 4 v target3);
          target5 = (case ge_unit m of None \<Rightarrow> target4 | Some v \<Rightarrow> WriteInt32ToArray W 5 v target4);
          target6 = (case ge_auto_ack m of None \<Rightarrow> target5 | Some v \<Rightarrow> WriteBoolToArray W 6 v target5)
      in target6 @ unknown_out W (ge_unknown m))"

definition Get_MergeFrom :: "Get \<Rightarrow> Get \<Rightarrow> Get" where
  "Get_MergeFrom this from =
     (let this0 = this\<lparr>ge_unknown := ge_unknown this @ ge_unknown from\<rparr>;
          this1 = (if ge_destination from \<noteq> [] then this0\<lparr>ge_destination := ge_destination from\<rparr> else this0);
          this2 = (if ge_client_id from \<noteq> [] then this1\<lparr>ge_client_id := ge_client_id from\<rparr> else this1);
          this3 = (if ge_fetch_size from \<noteq> 0 then this2\<lparr>ge_fetch_size := ge_fetch_size from\<rparr> else this2);
          this4 = (case ge_timeout from of None \<Rightarrow> this3 | Some v \<Rightarrow> this3\<lparr>ge_timeout := Some v\<rparr>);
          this5 = (case ge_unit from of None \<Rightarrow> this4 | Some v \<Rightarrow> this4\<lparr>ge_unit := Some v\<rparr>);
          this6 = (case ge_auto_ack from of None \<Rightarrow> this5 | Some v \<Rightarrow> this5\<lparr>ge_auto_ack := Some v\<rparr>)
      in this6)"

definition Get_CopyFrom :: "bool \<Rightarrow> Get \<Rightarrow> Get \<Rightarrow> Get" where
  "Get_CopyFrom same_object this from =
     (if same_object then this else Get_MergeFrom (Get_Clear this) from)"

definition Get_InternalSwap :: "Get \<Rightarrow> Get \<Rightarrow> Get \<times> Get" where
  "Get_InternalSwap this other =
     (this\<lparr>ge_destination := ge_destination other, ge_client_id := ge_client_id other, ge_fetch_size := ge_fetch_size other, ge_timeout := ge_timeout other, ge_unit := ge_unit other, ge_auto_ack := ge_auto_ack other, ge_unknown := ge_unknown other\<rparr>,
      other\<lparr>ge_destination := ge_destination this, ge_client_id := ge_client_id this, ge_fetch_size := ge_fetch_size this, ge_timeout := ge_timeout this, ge_unit := ge_unit this, ge_auto_ack := ge_auto_ack this, ge_unknown := ge_unknown this\<rparr>)"

definition Get_valid :: "wirelib \<Rightarrow> Get \<Rightarrow> bool" where
  "Get_valid W m \<longleftrightarrow>
     len_ok (length (ge_destination m)) \<and> VerifyUtf8String W (ge_destination m) \<and>
     len_ok (length (ge_client_id m)) \<and> VerifyUtf8String W (ge_client_id m) \<and>
     ge_unknown m = []"

lemma Get_steps:
  "(if c then t\<lparr>ge_destination := w1\<rparr> else t) = t\<lparr>ge_destination := (if c then w1 else ge_destination t)\<rparr>"
  "(if c then t\<lparr>ge_client_id := w2\<rparr> else t) = t\<lparr>ge_client_id := (if c then w2 else ge_client_id t)\<rparr>"
  "(if c then t\<lparr>ge_fetch_size := w3\<rparr> else t) = t\<lparr>ge_fetch_size := (if c then w3 else ge_fetch_size t)\<rparr>"
  "(case y4 of None \<Rightarrow> t | Some v \<Rightarrow> t\<lparr>ge_timeout := Some v\<rparr>) =
    t\<lparr>ge_timeout := (case y4 of None \<Rightarrow> ge_timeout t | Some v \<Rightarrow> Some v)\<rparr>"
  "(case y5 of None \<Rightarrow> t | Some v \<Rightarrow> t\<lparr>ge_unit := Some v\<rparr>) =
    t\<lparr>ge_unit := (case y5 of None \<Rightarrow> ge_unit t | Some v \<Rightarrow> Some v)\<rparr>"
  "(case y6 of None \<Rightarrow> t | Some v \<Rightarrow> t\<lparr>ge_auto_ack := Some v\<rparr>) =
    t\<lparr>ge_auto_ack := (case y6 of None \<Rightarrow> ge_auto_ack t | Some v \<Rightarrow> Some v)\<rparr>"
  by (simp_all split: option.split)

lemma Get_MergeFrom_eq:
  "Get_MergeFrom this from = this\<lparr>
      ge_unknown := ge_unknown this @ ge_unknown from,
      ge_destination := (if ge_destination from \<noteq> [] then ge_destination from else ge_destination this),
      ge_client_id := (if ge_client_id from \<noteq> [] then ge_client_id from else ge_client_id this),
      ge_fetch_size := (if ge_fetch_size from \<noteq> 0 then ge_fetch_size from else ge_fetch_size this),
      ge_timeout := (case ge_timeout from of None \<Rightarrow> ge_timeout this | Some v \<Rightarrow> Some v),
      ge_unit := (case ge_unit from of None \<Rightarrow> ge_unit this | Some v \<Rightarrow> Some v),
      ge_auto_ack := (case ge_auto_ack from of None \<Rightarrow> ge_auto_ack this | Some v \<Rightarrow> Some v)\<rparr>"
  by (simp add: Get_MergeFrom_def Let_def Get_steps cong: if_cong option.case_cong split del: if_split)

lemma Get_swap: "Get_InternalSwap a b = (b, a)"
  by (simp add: Get_InternalSwap_def)

lemma Get_Clear_eq: "Get_Clear m = Get_SharedCtor"
  by (simp add: Get_Clear_def Get_SharedCtor_def)

lemma Get_merge_ctor: "Get_valid W m \<Longrightarrow> Get_MergeFrom Get_SharedCtor m = m"
  by (cases m) (simp_all add: Get_MergeFrom_eq Get_SharedCtor_def Get_valid_def option_self
       cong: if_cong option.case_cong)

context wire_format
begin

lemma Get_sw_ok: "sw_ok (Get_switch W)"
  by (rule sw_okI, unfold Get_switch_def)
    (rule fstep_ok_intros reader_shrinks read_message_shrinks | assumption | simp)+

lemma Get_chunk:
  assumes "Get_valid W m"
  shows "chunk W (Get_switch W) Get_add_unknown (Get_Serialize W m)
    (\<lambda>m0. Get_MergeFrom m0 m)"
proof -
  have c_destination: "chunk W (Get_switch W) Get_add_unknown
      (WriteString W 1 (ge_destination m)) (\<lambda>m0. m0\<lparr>ge_destination := ge_destination m\<rparr>)"
    by (rule chunk_field [OF string_codec Get_sw_ok])
      (use assms in \<open>simp_all add: Get_switch_def Get_valid_def field_no_def\<close>)
  have c_client_id: "chunk W (Get_switch W) Get_add_unknown
      (WriteString W 2 (ge_client_id m)) (\<lambda>m0. m0\<lparr>ge_client_id := ge_client_id m\<rparr>)"
    by (rule chunk_field [OF string_codec Get_sw_ok])
      (use assms in \<open>simp_all add: Get_switch_def Get_valid_def field_no_def\<close>)
  have c_fetch_size: "chunk W (Get_switch W) Get_add_unknown
      (WriteInt32 W 3 (ge_fetch_size m)) (\<lambda>m0. m0\<lparr>ge_fetch_size := ge_fetch_size m\<rparr>)"
    by (rule chunk_field [OF int32_codec Get_sw_ok])
      (use assms in \<open>simp_all add: Get_switch_def Get_valid_def field_no_def\<close>)
  have c_timeout: "chunk W (Get_switch W) Get_add_unknown
      (WriteInt64 W 4 v) (\<lambda>m0. m0\<lparr>ge_timeout := Some v\<rparr>)" if "ge_timeout m = Some v" for v
    by (rule chunk_field [OF int64_codec Get_sw_ok])
      (use assms that in \<open>simp_all add: Get_switch_def Get_valid_def field_no_def\<close>)
  have c_unit: "chunk W (Get_switch W) Get_add_unknown
      (WriteInt32 W 5 v) (\<lambda>m0. m0\<lparr>ge_unit := Some v\<rparr>)" if "ge_unit m = Some v" for v
    by (rule chunk_field [OF int32_codec Get_sw_ok])
      (use assms that in \<open>simp_all add: Get_switch_def Get_valid_def field_no_def\<close>)
  have c_auto_ack: "chunk W (Get_switch W) Get_add_unknown
      (WriteBool W 6 v) (\<lambda>m0. m0\<lparr>ge_auto_ack := Some v\<rparr>)" if "ge_auto_ack m = Some v" for v
    by (rule chunk_field [OF bool_codec Get_sw_ok])
      (use assms that in \<open>simp_all add: Get_switch_def Get_valid_def field_no_def\<close>)
  have unk: "ge_unknown m = []" using assms by (simp add: Get_valid_def)
  show ?thesis
    unfolding Get_Serialize_def unk unknown_out_Nil
    by (rule chunk_cong, (rule c_destination c_client_id c_fetch_size c_timeout c_unit c_auto_ack chunk_intros | assumption)+)
      (simp add: Get_MergeFrom_eq Get_steps unk   cong: if_cong option.case_cong split del: if_split)
qed

lemma Get_size: "Get_valid W m \<Longrightarrow> Get_ByteSize W m = length (Get_Serialize W m)"
  by (simp add: Get_ByteSize_def Get_Serialize_def Get_valid_def field_lengths field_no_def
      length_if length_option add_ac split del: if_split cong: if_cong option.case_cong)

lemma Get_array: "Get_SerializeToArray W m t = t @ Get_Serialize W m"
  by (simp add: Get_SerializeToArray_def Get_Serialize_def Let_def to_array_laws 
      if_append option_append cong: if_cong option.case_cong split del: if_split)

lemma Get_codec: "message_codec (Get_MergePartial W) (Get_Serialize W) (Get_SerializeToArray W)
    (Get_ByteSize W) Get_MergeFrom Get_Clear (Get_valid W)"
  unfolding Get_MergePartial_def
  by (rule codecI [OF Get_sw_ok Get_chunk Get_size Get_array])
    (simp_all add: Get_Clear_eq Get_merge_ctor)

end

sublocale wire_format \<subseteq> Get: message_codec "Get_MergePartial W" "Get_Serialize W"
  "Get_SerializeToArray W" "Get_ByteSize W" Get_MergeFrom Get_Clear "Get_valid W"
  by (rule Get_codec)

section \<open>Messages\<close>

text \<open>
  A batch: each of the messages is a serialized \<open>Entry\<close>.
\<close>

record Messages =
  ms_batch_id :: "64 word"
  ms_messages :: "bytes list"
  ms_unknown :: bytes

definition Messages_SharedCtor :: Messages where
  "Messages_SharedCtor = \<lparr>ms_batch_id = 0, ms_messages = [], ms_unknown = []\<rparr>"

definition Messages_Clear :: "Messages \<Rightarrow> Messages" where
  "Messages_Clear m = m\<lparr>ms_batch_id := 0, ms_messages := [], ms_unknown := []\<rparr>"

definition Messages_switch :: "wirelib \<Rightarrow> 32 word \<Rightarrow> Messages \<Rightarrow> bytes \<Rightarrow> Messages fstep" where
  "Messages_switch W tag m s =
     (if GetTagFieldNumber tag = 1 then
       (if uint8 tag = 8 then
          Field (case ReadInt64 W s of
            None \<Rightarrow> None
          | Some (v, s') \<Rightarrow> Some (m\<lparr>ms_batch_id := v\<rparr>, s'))
        else Unusual)
      else if GetTagFieldNumber tag = 2 then
       (if uint8 tag = 18 then
          Field (case ReadBytes W s of
            None \<Rightarrow> None
          | Some (x, s') \<Rightarrow> Some (m\<lparr>ms_messages := ms_messages m @ [x]\<rparr>, s'))
        else Unusual)
      else Unusual)"

definition Messages_add_unknown :: "bytes \<Rightarrow> Messages \<Rightarrow> Messages" where
  "Messages_add_unknown raw m = m\<lparr>ms_unknown := ms_unknown m @ raw\<rparr>"

definition Messages_MergePartial :: "wirelib \<Rightarrow> Messages \<Rightarrow> bytes \<Rightarrow> (Messages \<times> bytes) option" where
  "Messages_MergePartial W = merge_all W (Messages_switch W) Messages_add_unknown"

definition Messages_ByteSize :: "wirelib \<Rightarrow> Messages \<Rightarrow> nat" where
  "Messages_ByteSize W m =
     length (unknown_out W (ms_unknown m))
     + 1 * length (ms_messages m) + sum_list (map (BytesSize W) (ms_messages m))
     + (if ms_batch_id m \<noteq> 0 then 1 + Int64Size W (ms_batch_id m) else 0)"

definition Messages_Serialize :: "wirelib \<Rightarrow> Messages \<Rightarrow> bytes" where
  "Messages_Serialize W m =
     (if ms_batch_id m \<noteq> 0 then WriteInt64 W 1 (ms_batch_id m) else [])
     @ concat (map (WriteBytes W 2) (ms_messages m))
     @ unknown_out W (ms_unknown m)"

definition Messages_SerializeToArray :: "wirelib \<Rightarrow> Messages \<Rightarrow> bytes \<Rightarrow> bytes" where
  "Messages_SerializeToArray W m target =
     (let target1 = (if ms_batch_id m \<noteq> 0 then WriteInt64ToArray W 1 (ms_batch_id m) target else target);
          target2 = fold (WriteBytesToArray W 2) (ms_messages m) target1
      in target2 @ unknown_out W (ms_unknown m))"

definition Messages_MergeFrom :: "Messages \<Rightarrow> Messages \<Rightarrow> Messages" where
  "Messages_MergeFrom this from =
     (let this0 = this\<lparr>ms_unknown := ms_unknown this @ ms_unknown from\<rparr>;
          this1 = this0\<lparr>ms_messages := ms_messages this0 @ ms_messages from\<rparr>;
          this2 = (if ms_batch_id from \<noteq> 0 then this1\<lparr>ms_batch_id := ms_batch_id from\<rparr> else this1)
      in this2)"

definition Messages_CopyFrom :: "bool \<Rightarrow> Messages \<Rightarrow> Messages \<Rightarrow> Messages" where
  "Messages_CopyFrom same_object this from =
     (if same_object then this else Messages_MergeFrom (Messages_Clear this) from)"

definition Messages_InternalSwap :: "Messages \<Rightarrow> Messages \<Rightarrow> Messages \<times> Messages" where
  "Messages_InternalSwap this other =
     (this\<lparr>ms_batch_id := ms_batch_id other, ms_messages := ms_messages other, ms_unknown := ms_unknown other\<rparr>,
      other\<lparr>ms_batch_id := ms_batch_id this, ms_messages := ms_messages this, ms_unknown := ms_unknown this\<rparr>)"

definition Messages_valid :: "wirelib \<Rightarrow> Messages \<Rightarrow> bool" where
  "Messages_valid W m \<longleftrightarrow>
     list_all (\<lambda>x. len_ok (length x)) (ms_messages m) \<and>
     ms_unknown m = []"

lemma Messages_fold_messages:
  "fold (\<lambda>x m0. m0\<lparr>ms_messages := ms_messages m0 @ [x]\<rparr>) xs m0 =
    m0\<lparr>ms_messages := ms_messages m0 @ xs\<rparr>"
  by (induction xs arbitrary: m0) simp_all

lemma Messages_steps:
  "(if c then t\<lparr>ms_batch_id := w1\<rparr> else t) = t\<lparr>ms_batch_id := (if c then w1 else ms_batch_id t)\<rparr>"
  by (simp_all split: option.split)

lemma Messages_MergeFrom_eq:
  "Messages_MergeFrom this from = this\<lparr>
      ms_unknown := ms_unknown this @ ms_unknown from,
      ms_messages := ms_messages this @ ms_messages from,
      ms_batch_id := (if ms_batch_id from \<noteq> 0 then ms_batch_id from else ms_batch_id this)\<rparr>"
  by (simp add: Messages_MergeFrom_def Let_def Messages_steps cong: if_cong option.case_cong split del: if_split)

lemma Messages_swap: "Messages_InternalSwap a b = (b, a)"
  by (simp add: Messages_InternalSwap_def)

lemma Messages_Clear_eq: "Messages_Clear m = Messages_SharedCtor"
  by (simp add: Messages_Clear_def Messages_SharedCtor_def)

lemma Messages_merge_ctor: "Messages_valid W m \<Longrightarrow> Messages_MergeFrom Messages_SharedCtor m = m"
  by (cases m) (simp_all add: Messages_MergeFrom_eq Messages_SharedCtor_def Messages_valid_def option_self
       cong: if_cong option.case_cong)

context wire_format
begin

lemma Messages_sw_ok: "sw_ok (Messages_switch W)"
  by (rule sw_okI, unfold Messages_switch_def)
    (rule fstep_ok_intros reader_shrinks read_message_shrinks | assumption | simp)+

lemma Messages_chunk:
  assumes "Messages_valid W m"
  shows "chunk W (Messages_switch W) Messages_add_unknown (Messages_Serialize W m)
    (\<lambda>m0. Messages_MergeFrom m0 m)"
proof -
  have c_batch_id: "chunk W (Messages_switch W) Messages_add_unknown
      (WriteInt64 W 1 (ms_batch_id m)) (\<lambda>m0. m0\<lparr>ms_batch_id := ms_batch_id m\<rparr>)"
    by (rule chunk_field [OF int64_codec Messages_sw_ok])
      (use assms in \<open>simp_all add: Messages_switch_def Messages_valid_def field_no_def\<close>)
  have c_messages: "chunk W (Messages_switch W) Messages_add_unknown
      (WriteBytes W 2 x) (\<lambda>m0. m0\<lparr>ms_messages := ms_messages m0 @ [x]\<rparr>)" if "x \<in> set (ms_messages m)" for x
    by (rule chunk_field [OF bytes_codec Messages_sw_ok])
      (use assms that in \<open>simp_all add: Messages_switch_def Messages_valid_def field_no_def list_all_iff\<close>)
  have unk: "ms_unknown m = []" using assms by (simp add: Messages_valid_def)
  show ?thesis
    unfolding Messages_Serialize_def unk unknown_out_Nil
    by (rule chunk_cong, (rule c_batch_id c_messages chunk_intros | assumption)+)
      (simp add: Messages_MergeFrom_eq Messages_steps unk Messages_fold_messages  cong: if_cong option.case_cong split del: if_split)
qed

lemma Messages_size:
  assumes "Messages_valid W m"
  shows "Messages_ByteSize W m = length (Messages_Serialize W m)"
proof -
  have c_messages: "length (concat (map (WriteBytes W 2) (ms_messages m)))
    = length (ms_messages m) + sum_list (map (BytesSize W) (ms_messages m))"
    using assms
    by (intro length_concat_chunks) (simp_all add: Messages_valid_def list_all_iff field_no_def field_lengths)
  show ?thesis
    using assms c_messages
    by (simp add: Messages_ByteSize_def Messages_Serialize_def Messages_valid_def field_lengths field_no_def
        length_if length_option add_ac del: length_concat split del: if_split cong: if_cong option.case_cong)
qed

lemma Messages_array: "Messages_SerializeToArray W m t = t @ Messages_Serialize W m"
  by (simp add: Messages_SerializeToArray_def Messages_Serialize_def Let_def to_array_laws  fold_array
      if_append option_append cong: if_cong option.case_cong split del: if_split)

lemma Messages_codec: "message_codec (Messages_MergePartial W) (Messages_Serialize W) (Messages_SerializeToArray W)
    (Messages_ByteSize W) Messages_MergeFrom Messages_Clear (Messages_valid W)"
  unfolding Messages_MergePartial_def
  by (rule codecI [OF Messages_sw_ok Messages_chunk Messages_size Messages_array])
    (simp_all add: Messages_Clear_eq Messages_merge_ctor)

end

sublocale wire_format \<subseteq> Messages: message_codec "Messages_MergePartial W" "Messages_Serialize W"
  "Messages_SerializeToArray W" "Messages_ByteSize W" Messages_MergeFrom Messages_Clear "Messages_valid W"
  by (rule Messages_codec)

section \<open>Dump\<close>

text \<open>
  A request for everything from a position on.
\<close>

record Dump =
  du_journal :: "bytes"
  du_position :: "64 word"
  du_timestamp :: "64 word option"
  du_gtid :: "bytes"
  du_unknown :: bytes

definition Dump_SharedCtor :: Dump where
  "Dump_SharedCtor = \<lparr>du_journal = [], du_position = 0, du_timestamp = None, du_gtid = [], du_unknown = []\<rparr>"

definition Dump_Clear :: "Dump \<Rightarrow> Dump" where
  "Dump_Clear m = m\<lparr>du_journal := [], du_position := 0, du_timestamp := None, du_gtid := [], du_unknown := []\<rparr>"

definition Dump_switch :: "wirelib \<Rightarrow> 32 word \<Rightarrow> Dump \<Rightarrow> bytes \<Rightarrow> Dump fstep" where
  "Dump_switch W tag m s =
     (if GetTagFieldNumber tag = 1 then
       (if uint8 tag = 10 then
          Field (case ReadString W s of
            None \<Rightarrow> None
          | Some (v, s') \<Rightarrow> (if VerifyUtf8String W v then Some (m\<lparr>du_journal := v\<rparr>, s') else None))
        else Unusual)
      else if GetTagFieldNumber tag = 2 then
       (if uint8 tag = 16 then
          Field (case ReadInt64 W s of
            None \<Rightarrow> None
          | Some (v, s') \<Rightarrow> Some (m\<lparr>du_position := v\<rparr>, s'))
        else Unusual)
      else if GetTagFieldNumber tag = 3 then
       (if uint8 tag = 24 then
          Field (case ReadInt64 W s of
            None \<Rightarrow> None
          | Some (v, s') \<Rightarrow> Some (m\<lparr>du_timestamp := Some v\<rparr>, s'))
        else Unusual)
      else if GetTagFieldNumber tag = 4 then
       (if uint8 tag = 34 then
          Field (case ReadString W s of
            None \<Rightarrow> None
          | Some (v, s') \<Rightarrow> (if VerifyUtf8String W v then Some (m\<lparr>du_gtid := v\<rparr>, s') else None))
        else Unusual)
      else Unusual)"

definition Dump_add_unknown :: "bytes \<Rightarrow> Dump \<Rightarrow> Dump" where
  "Dump_add_unknown raw m = m\<lparr>du_unknown := du_unknown m @ raw\<rparr>"

definition Dump_MergePartial :: "wirelib \<Rightarrow> Dump \<Rightarrow> bytes \<Rightarrow> (Dump \<times> bytes) option" where
  "Dump_MergePartial W = merge_all W (Dump_switch W) Dump_add_unknown"

definition Dump_ByteSize :: "wirelib \<Rightarrow> Dump \<Rightarrow> nat" where
  "Dump_ByteSize W m =
     length (unknown_out W (du_unknown m))
     + (if du_journal m \<noteq> [] then 1 + StringSize W (du_journal m) else 0)
     + (if du_gtid m \<noteq> [] then 1 + StringSize W (du_gtid m) else 0)
     + (if du_position m \<noteq> 0 then 1 + Int64Size W (du_position m) else 0)
     + (case du_timestamp m of None \<Rightarrow> 0 | Some v \<Rightarrow> 1 + Int64Size W v)"

definition Dump_Serialize :: "wirelib \<Rightarrow> Dump \<Rightarrow> bytes" where
  "Dump_Serialize W m =
     (if du_journal m \<noteq> [] then WriteString W 1 (du_journal m) else [])
     @ (if du_position m \<noteq> 0 then WriteInt64 W 2 (du_position m) else [])
     @ (case du_timestamp m of None \<Rightarrow> [] | Some v \<Rightarrow> WriteInt64 W 3 v)
     @ (if du_gtid m \<noteq> [] then WriteString W 4 (du_gtid m) else [])
     @ unknown_out W (du_unknown m)"

definition Dump_SerializeToArray :: "wirelib \<Rightarrow> Dump \<Rightarrow> bytes \<Rightarrow> bytes" where
  "Dump_SerializeToArray W m target =
     (let target1 = (if du_journal m \<noteq> [] then WriteStringToArray W 1 (du_journal m) target else target);
          target2 = (if du_position m \<noteq> 0 then WriteInt64ToArray W 2 (du_position m) target1 else target1);
          target3 = (case du_timestamp m of None \<Rightarrow> target2 | Some v \<Rightarrow> WriteInt64ToArray W 3 v target2);
          target4 = (if du_gtid m \<noteq> [] then WriteStringToArray W 4 (du_gtid m) target3 else target3)
      in target4 @ unknown_out W (du_unknown m))"

definition Dump_MergeFrom :: "Dump \<Rightarrow> Dump \<Rightarrow> Dump" where
  "Dump_MergeFrom this from =
     (let this0 = this\<lparr>du_unknown := du_unknown this @ du_unknown from\<rparr>;
          this1 = (if du_journal from \<noteq> [] then this0\<lparr>du_journal := du_journal from\<rparr> else this0);
          this2 = (if du_gtid from \<noteq> [] then this1\<lparr>du_gtid := du_gtid from\<rparr> else this1);
          this3 = (if du_position from \<noteq> 0 then this2\<lparr>du_position := du_position from\<rparr> else this2);
          this4 = (case du_timestamp from of None \<Rightarrow> this3 | Some v \<Rightarrow> this3\<lparr>du_timestamp := Some v\<rparr>)
      in this4)"

definition Dump_CopyFrom :: "bool \<Rightarrow> Dump \<Rightarrow> Dump \<Rightarrow> Dump" where
  "Dump_CopyFrom same_object this from =
     (if same_object then this else Dump_MergeFrom (Dump_Clear this) from)"

definition Dump_InternalSwap :: "Dump \<Rightarrow> Dump \<Rightarrow> Dump \<times> Dump" where
  "Dump_InternalSwap this other =
     (this\<lparr>du_journal := du_journal other, du_position := du_position other, du_timestamp := du_timestamp other, du_gtid := du_gtid other, du_unknown := du_unknown other\<rparr>,
      other\<lparr>du_journal := du_journal this, du_position := du_position this, du_timestamp := du_timestamp this, du_gtid := du_gtid this, du_unknown := du_unknown this\<rparr>)"

definition Dump_valid :: "wirelib \<Rightarrow> Dump \<Rightarrow> bool" where
  "Dump_valid W m \<longleftrightarrow>
     len_ok (length (du_journal m)) \<and> VerifyUtf8String W (du_journal m) \<and>
     len_ok (length (du_gtid m)) \<and> VerifyUtf8String W (du_gtid m) \<and>
     du_unknown m = []"

lemma Dump_steps:
  "(if c then t\<lparr>du_journal := w1\<rparr> else t) = t\<lparr>du_journal := (if c then w1 else du_journal t)\<rparr>"
  "(if c then t\<lparr>du_gtid := w4\<rparr> else t) = t\<lparr>du_gtid := (if c then w4 else du_gtid t)\<rparr>"
  "(if c then t\<lparr>du_position := w2\<rparr> else t) = t\<lparr>du_position := (if c then w2 else du_position t)\<rparr>"
  "(case y3 of None \<Rightarrow> t | Some v \<Rightarrow> t\<lparr>du_timestamp := Some v\<rparr>) =
    t\<lparr>du_timestamp := (case y3 of None \<Rightarrow> du_timestamp t | Some v \<Rightarrow> Some v)\<rparr>"
  by (simp_all split: option.split)

lemma Dump_MergeFrom_eq:
  "Dump_MergeFrom this from = this\<lparr>
      du_unknown := du_unknown this @ du_unknown from,
      du_journal := (if du_journal from \<noteq> [] then du_journal from else du_journal this),
      du_gtid := (if du_gtid from \<noteq> [] then du_gtid from else du_gtid this),
      du_position := (if du_position from \<noteq> 0 then du_position from else du_position this),
      du_timestamp := (case du_timestamp from of None \<Rightarrow> du_timestamp this | Some v \<Rightarrow> Some v)\<rparr>"
  by (simp add: Dump_MergeFrom_def Let_def Dump_steps cong: if_cong option.case_cong split del: if_split)

lemma Dump_swap: "Dump_InternalSwap a b = (b, a)"
  by (simp add: Dump_InternalSwap_def)

lemma Dump_Clear_eq: "Dump_Clear m = Dump_SharedCtor"
  by (simp add: Dump_Clear_def Dump_SharedCtor_def)

lemma Dump_merge_ctor: "Dump_valid W m \<Longrightarrow> Dump_MergeFrom Dump_SharedCtor m = m"
  by (cases m) (simp_all add: Dump_MergeFrom_eq Dump_SharedCtor_def Dump_valid_def option_self
       cong: if_cong option.case_cong)

context wire_format
begin

lemma Dump_sw_ok: "sw_ok (Dump_switch W)"
  by (rule sw_okI, unfold Dump_switch_def)
    (rule fstep_ok_intros reader_shrinks read_message_shrinks | assumption | simp)+

lemma Dump_chunk:
  assumes "Dump_valid W m"
  shows "chunk W (Dump_switch W) Dump_add_unknown (Dump_Serialize W m)
    (\<lambda>m0. Dump_MergeFrom m0 m)"
proof -
  have c_journal: "chunk W (Dump_switch W) Dump_add_unknown
      (WriteString W 1 (du_journal m)) (\<lambda>m0. m0\<lparr>du_journal := du_journal m\<rparr>)"
    by (rule chunk_field [OF string_codec Dump_sw_ok])
      (use assms in \<open>simp_all add: Dump_switch_def Dump_valid_def field_no_def\<close>)
  have c_position: "chunk W (Dump_switch W) Dump_add_unknown
      (WriteInt64 W 2 (du_position m)) (\<lambda>m0. m0\<lparr>du_position := du_position m\<rparr>)"
    by (rule chunk_field [OF int64_codec Dump_sw_ok])
      (use assms in \<open>simp_all add: Dump_switch_def Dump_valid_def field_no_def\<close>)
  have c_timestamp: "chunk W (Dump_switch W) Dump_add_unknown
      (WriteInt64 W 3 v) (\<lambda>m0. m0\<lparr>du_timestamp := Some v\<rparr>)" if "du_timestamp m = Some v" for v
    by (rule chunk_field [OF int64_codec Dump_sw_ok])
      (use assms that in \<open>simp_all add: Dump_switch_def Dump_valid_def field_no_def\<close>)
  have c_gtid: "chunk W (Dump_switch W) Dump_add_unknown
      (WriteString W 4 (du_gtid m)) (\<lambda>m0. m0\<lparr>du_gtid := du_gtid m\<rparr>)"
    by (rule chunk_field [OF string_codec Dump_sw_ok])
      (use assms in \<open>simp_all add: Dump_switch_def Dump_valid_def field_no_def\<close>)
  have unk: "du_unknown m = []" using assms by (simp add: Dump_valid_def)
  show ?thesis
    unfolding Dump_Serialize_def unk unknown_out_Nil
    by (rule chunk_cong, (rule c_journal c_position c_timestamp c_gtid chunk_intros | assumption)+)
      (simp add: Dump_MergeFrom_eq Dump_steps unk   cong: if_cong option.case_cong split del: if_split)
qed

lemma Dump_size: "Dump_valid W m \<Longrightarrow> Dump_ByteSize W m = length (Dump_Serialize W m)"
  by (simp add: Dump_ByteSize_def Dump_Serialize_def Dump_valid_def field_lengths field_no_def
      length_if length_option add_ac split del: if_split cong: if_cong option.case_cong)

lemma Dump_array: "Dump_SerializeToArray W m t = t @ Dump_Serialize W m"
  by (simp add: Dump_SerializeToArray_def Dump_Serialize_def Let_def to_array_laws 
      if_append option_append cong: if_cong option.case_cong split del: if_split)

lemma Dump_codec: "message_codec (Dump_MergePartial W) (Dump_Serialize W) (Dump_SerializeToArray W)
    (Dump_ByteSize W) Dump_MergeFrom Dump_Clear (Dump_valid W)"
  unfolding Dump_MergePartial_def
  by (rule codecI [OF Dump_sw_ok Dump_chunk Dump_size Dump_array])
    (simp_all add: Dump_Clear_eq Dump_merge_ctor)

end

sublocale wire_format \<subseteq> Dump: message_codec "Dump_MergePartial W" "Dump_Serialize W"
  "Dump_SerializeToArray W" "Dump_ByteSize W" Dump_MergeFrom Dump_Clear "Dump_valid W"
  by (rule Dump_codec)

section \<open>ClientRollback\<close>

text \<open>
  A client gives a batch back.
\<close>

record ClientRollback =
  cr_destination :: "bytes"
  cr_client_id :: "bytes"
  cr_batch_id :: "64 word"
  cr_unknown :: bytes

definition ClientRollback_SharedCtor :: ClientRollback where
  "ClientRollback_SharedCtor = \<lparr>cr_destination = [], cr_client_id = [], cr_batch_id = 0, cr_unknown = []\<rparr>"

definition ClientRollback_Clear :: "ClientRollback \<Rightarrow> ClientRollback" where
  "ClientRollback_Clear m = m\<lparr>cr_destination := [], cr_client_id := [], cr_batch_id := 0, cr_unknown := []\<rparr>"

definition ClientRollback_switch :: "wirelib \<Rightarrow> 32 word \<Rightarrow> ClientRollback \<Rightarrow> bytes \<Rightarrow> ClientRollback fstep" where
  "ClientRollback_switch W tag m s =
     (if GetTagFieldNumber tag = 1 then
       (if uint8 tag = 10 then
          Field (case ReadString W s of
            None \<Rightarrow> None
          | Some (v, s') \<Rightarrow> (if VerifyUtf8String W v then Some (m\<lparr>cr_destination := v\<rparr>, s') else None))
        else Unusual)
      else if GetTagFieldNumber tag = 2 then
       (if uint8 tag = 18 then
          Field (case ReadString W s of
            None \<Rightarrow> None
          | Some (v, s') \<Rightarrow> (if VerifyUtf8String W v then Some (m\<lparr>cr_client_id := v\<rparr>, s') else None))
        else Unusual)
      else if GetTagFieldNumber tag = 3 then
       (if uint8 tag = 24 then
          Field (case ReadInt64 W s of
            None \<Rightarrow> None
          | Some (v, s') \<Rightarrow> Some (m\<lparr>cr_batch_id := v\<rparr>, s'))
        else Unusual)
      else Unusual)"

definition ClientRollback_add_unknown :: "bytes \<Rightarrow> ClientRollback \<Rightarrow> ClientRollback" where
  "ClientRollback_add_unknown raw m = m\<lparr>cr_unknown := cr_unknown m @ raw\<rparr>"

definition ClientRollback_MergePartial :: "wirelib \<Rightarrow> ClientRollback \<Rightarrow> bytes \<Rightarrow> (ClientRollback \<times> bytes) option" where
  "ClientRollback_MergePartial W = merge_all W (ClientRollback_switch W) ClientRollback_add_unknown"

definition ClientRollback_ByteSize :: "wirelib \<Rightarrow> ClientRollback \<Rightarrow> nat" where
  "ClientRollback_ByteSize W m =
     length (unknown_out W (cr_unknown m))
     + (if cr_destination m \<noteq> [] then 1 + StringSize W (cr_destination m) else 0)
     + (if cr_client_id m \<noteq> [] then 1 + StringSize W (cr_client_id m) else 0)
     + (if cr_batch_id m \<noteq> 0 then 1 + Int64Size W (cr_batch_id m) else 0)"

definition ClientRollback_Serialize :: "wirelib \<Rightarrow> ClientRollback \<Rightarrow> bytes" where
  "ClientRollback_Serialize W m =
     (if cr_destination m \<noteq> [] then WriteString W 1 (cr_destination m) else [])
     @ (if cr_client_id m \<noteq> [] then WriteString W 2 (cr_client_id m) else [])
     @ (if cr_batch_id m \<noteq> 0 then WriteInt64 W 3 (cr_batch_id m) else [])
     @ unknown_out W (cr_unknown m)"

definition ClientRollback_SerializeToArray :: "wirelib \<Rightarrow> ClientRollback \<Rightarrow> bytes \<Rightarrow> bytes" where
  "ClientRollback_SerializeToArray W m target =
     (let target1 = (if cr_destination m \<noteq> [] then WriteStringToArray W 1 (cr_destination m) target else target);
          target2 = (if cr_client_id m \<noteq> [] then WriteStringToArray W 2 (cr_client_id m) target1 else target1);
          target3 = (if cr_batch_id m \<noteq> 0 then WriteInt64ToArray W 3 (cr_batch_id m) target2 else target2)
      in target3 @ unknown_out W (cr_unknown m))"

definition ClientRollback_MergeFrom :: "ClientRollback \<Rightarrow> ClientRollback \<Rightarrow> ClientRollback" where
  "ClientRollback_MergeFrom this from =
     (let this0 = this\<lparr>cr_unknown := cr_unknown this @ cr_unknown from\<rparr>;
          this1 = (if cr_destination from \<noteq> [] then this0\<lparr>cr_destination := cr_destination from\<rparr> else this0);
          this2 = (if cr_client_id from \<noteq> [] then this1\<lparr>cr_client_id := cr_client_id from\<rparr> else this1);
          this3 = (if cr_batch_id from \<noteq> 0 then this2\<lparr>cr_batch_id := cr_batch_id from\<rparr> else this2)
      in this3)"

definition ClientRollback_CopyFrom :: "bool \<Rightarrow> ClientRollback \<Rightarrow> ClientRollback \<Rightarrow> ClientRollback" where
  "ClientRollback_CopyFrom same_object this from =
     (if same_object then this else ClientRollback_MergeFrom (ClientRollback_Clear this) from)"

definition ClientRollback_InternalSwap :: "ClientRollback \<Rightarrow> ClientRollback \<Rightarrow> ClientRollback \<times> ClientRollback" where
  "ClientRollback_InternalSwap this other =
     (this\<lparr>cr_destination := cr_destination other, cr_client_id := cr_client_id other, cr_batch_id := cr_batch_id other, cr_unknown := cr_unknown other\<rparr>,
      other\<lparr>cr_destination := cr_destination this, cr_client_id := cr_client_id this, cr_batch_id := cr_batch_id this, cr_unknown := cr_unknown this\<rparr>)"

definition ClientRollback_valid :: "wirelib \<Rightarrow> ClientRollback \<Rightarrow> bool" where
  "ClientRollback_valid W m \<longleftrightarrow>
     len_ok (length (cr_destination m)) \<and> VerifyUtf8String W (cr_destination m) \<and>
     len_ok (length (cr_client_id m)) \<and> VerifyUtf8String W (cr_client_id m) \<and>
     cr_unknown m = []"

lemma ClientRollback_steps:
  "(if c then t\<lparr>cr_destination := w1\<rparr> else t) = t\<lparr>cr_destination := (if c then w1 else cr_destination t)\<rparr>"
  "(if c then t\<lparr>cr_client_id := w2\<rparr> else t) = t\<lparr>cr_client_id := (if c then w2 else cr_client_id t)\<rparr>"
  "(if c then t\<lparr>cr_batch_id := w3\<rparr> else t) = t\<lparr>cr_batch_id := (if c then w3 else cr_batch_id t)\<rparr>"
  by (simp_all split: option.split)

lemma ClientRollback_MergeFrom_eq:
  "ClientRollback_MergeFrom this from = this\<lparr>
      cr_unknown := cr_unknown this @ cr_unknown from,
      cr_destination := (if cr_destination from \<noteq> [] then cr_destination from else cr_destination this),
      cr_client_id := (if cr_client_id from \<noteq> [] then cr_client_id from else cr_client_id this),
      cr_batch_id := (if cr_batch_id from \<noteq> 0 then cr_batch_id from else cr_batch_id this)\<rparr>"
  by (simp add: ClientRollback_MergeFrom_def Let_def ClientRollback_steps cong: if_cong option.case_cong split del: if_split)

lemma ClientRollback_swap: "ClientRollback_InternalSwap a b = (b, a)"
  by (simp add: ClientRollback_InternalSwap_def)

lemma ClientRollback_Clear_eq: "ClientRollback_Clear m = ClientRollback_SharedCtor"
  by (simp add: ClientRollback_Clear_def ClientRollback_SharedCtor_def)

lemma ClientRollback_merge_ctor: "ClientRollback_valid W m \<Longrightarrow> ClientRollback_MergeFrom ClientRollback_SharedCtor m = m"
  by (cases m) (simp_all add: ClientRollback_MergeFrom_eq ClientRollback_SharedCtor_def ClientRollback_valid_def option_self
       cong: if_cong option.case_cong)

context wire_format
begin

lemma ClientRollback_sw_ok: "sw_ok (ClientRollback_switch W)"
  by (rule sw_okI, unfold ClientRollback_switch_def)
    (rule fstep_ok_intros reader_shrinks read_message_shrinks | assumption | simp)+

lemma ClientRollback_chunk:
  assumes "ClientRollback_valid W m"
  shows "chunk W (ClientRollback_switch W) ClientRollback_add_unknown (ClientRollback_Serialize W m)
    (\<lambda>m0. ClientRollback_MergeFrom m0 m)"
proof -
  have c_destination: "chunk W (ClientRollback_switch W) ClientRollback_add_unknown
      (WriteString W 1 (cr_destination m)) (\<lambda>m0. m0\<lparr>cr_destination := cr_destination m\<rparr>)"
    by (rule chunk_field [OF string_codec ClientRollback_sw_ok])
      (use assms in \<open>simp_all add: ClientRollback_switch_def ClientRollback_valid_def field_no_def\<close>)
  have c_client_id: "chunk W (ClientRollback_switch W) ClientRollback_add_unknown
      (WriteString W 2 (cr_client_id m)) (\<lambda>m0. m0\<lparr>cr_client_id := cr_client_id m\<rparr>)"
    by (rule chunk_field [OF string_codec ClientRollback_sw_ok])
      (use assms in \<open>simp_all add: ClientRollback_switch_def ClientRollback_valid_def field_no_def\<close>)
  have c_batch_id: "chunk W (ClientRollback_switch W) ClientRollback_add_unknown
      (WriteInt64 W 3 (cr_batch_id m)) (\<lambda>m0. m0\<lparr>cr_batch_id := cr_batch_id m\<rparr>)"
    by (rule chunk_field [OF int64_codec ClientRollback_sw_ok])
      (use assms in \<open>simp_all add: ClientRollback_switch_def ClientRollback_valid_def field_no_def\<close>)
  have unk: "cr_unknown m = []" using assms by (simp add: ClientRollback_valid_def)
  show ?thesis
    unfolding ClientRollback_Serialize_def unk unknown_out_Nil
    by (rule chunk_cong, (rule c_destination c_client_id c_batch_id chunk_intros | assumption)+)
      (simp add: ClientRollback_MergeFrom_eq ClientRollback_steps unk   cong: if_cong option.case_cong split del: if_split)
qed

lemma ClientRollback_size: "ClientRollback_valid W m \<Longrightarrow> ClientRollback_ByteSize W m = length (ClientRollback_Serialize W m)"
  by (simp add: ClientRollback_ByteSize_def ClientRollback_Serialize_def ClientRollback_valid_def field_lengths field_no_def)

lemma ClientRollback_array: "ClientRollback_SerializeToArray W m t = t @ ClientRollback_Serialize W m"
  by (simp add: ClientRollback_SerializeToArray_def ClientRollback_Serialize_def Let_def to_array_laws 
      if_append option_append cong: if_cong option.case_cong split del: if_split)

lemma ClientRollback_codec: "message_codec (ClientRollback_MergePartial W) (ClientRollback_Serialize W) (ClientRollback_SerializeToArray W)
    (ClientRollback_ByteSize W) ClientRollback_MergeFrom ClientRollback_Clear (ClientRollback_valid W)"
  unfolding ClientRollback_MergePartial_def
  by (rule codecI [OF ClientRollback_sw_ok ClientRollback_chunk ClientRollback_size ClientRollback_array])
    (simp_all add: ClientRollback_Clear_eq ClientRollback_merge_ctor)

end

sublocale wire_format \<subseteq> ClientRollback: message_codec "ClientRollback_MergePartial W" "ClientRollback_Serialize W"
  "ClientRollback_SerializeToArray W" "ClientRollback_ByteSize W" ClientRollback_MergeFrom ClientRollback_Clear "ClientRollback_valid W"
  by (rule ClientRollback_codec)

end
