(* ===== verification/Packages.thy ===== *)
theory Packages
  imports PackageHead PackageBody EntryMsg
begin

text \<open>
  The packages of \<open>binlogdump/BinlogPackage.pb.cc\<close> one inside another: a \<open>Packet\<close> whose body is a
  serialized \<open>Messages\<close>, the batch of which holds serialized entries.  Each layer's codec inverts
  the next one's, so the entries come out as they went in.
\<close>

context wire_format
begin

lemma batch_opens:
  assumes "Packet_valid W p" and "pk_body p = Messages_Serialize W b" and "Messages_valid W b"
    and "ms_messages b = map (Entry_Serialize W) es" and "list_all (Entry_valid W) es"
  shows "parse_bytes (Packet_MergePartial W) Packet_Clear p0 (Packet_Serialize W p) = Some p"
    and "parse_bytes (Messages_MergePartial W) Messages_Clear b0 (pk_body p) = Some b"
    and "map (parse_bytes (Entry_MergePartial W) Entry_Clear e0) (ms_messages b) = map Some es"
proof -
  show "parse_bytes (Packet_MergePartial W) Packet_Clear p0 (Packet_Serialize W p) = Some p"
    by (rule Packet.roundtrip [OF assms(1)])
  show "parse_bytes (Messages_MergePartial W) Messages_Clear b0 (pk_body p) = Some b"
    unfolding assms(2) by (rule Messages.roundtrip [OF assms(3)])
  show "map (parse_bytes (Entry_MergePartial W) Entry_Clear e0) (ms_messages b) = map Some es"
    using assms(4,5) by (auto simp: list_all_iff Entry.roundtrip)
qed

text \<open>Two batches written one after the other are read as one, with the messages of both in order.\<close>

lemma batches_append:
  assumes "Messages_valid W a" and "Messages_valid W b"
  shows "map_option ms_messages
      (parse_bytes (Messages_MergePartial W) Messages_Clear b0
        (Messages_Serialize W a @ Messages_Serialize W b)) =
    Some (ms_messages a @ ms_messages b)"
  by (simp add: Messages.concatenation [OF assms] Messages_MergeFrom_eq)

end

text \<open>
  The classes \<open>ClientAck\<close> and \<open>ClientRollback\<close> have the same fields, and so have \<open>Sub\<close> and \<open>Unsub\<close>:
  only the type in the frame tells them apart, their bytes are the same.
\<close>

lemma rollback_bytes:
  "ClientRollback_Serialize W
     \<lparr>cr_destination = d, cr_client_id = c, cr_batch_id = n, cr_unknown = u\<rparr> =
   ClientAck_Serialize W \<lparr>ck_destination = d, ck_client_id = c, ck_batch_id = n, ck_unknown = u\<rparr>"
  by (simp add: ClientRollback_Serialize_def ClientAck_Serialize_def)

lemma unsub_bytes:
  "Unsub_Serialize W \<lparr>us_destination = d, us_client_id = c, us_filter = f, us_unknown = u\<rparr> =
   Sub_Serialize W \<lparr>sb_destination = d, sb_client_id = c, sb_filter = f, sb_unknown = u\<rparr>"
  by (simp add: Unsub_Serialize_def Sub_Serialize_def)

end
