(* ===== verification/Spec2Isabelle.thy ===== *)
theory Spec2Isabelle
  imports SessionSamples LogSamples SignalSamples HexDump ReadTrace ParseLoop UtMisc AdminText Packages
begin

text \<open>
  \<^bold>\<open>o2k: the admin client qdcadm and the binlog reader binlogdumpK\<close>

  The C++ part of the repository holds two programs.  \<open>qdcadm\<close> connects to an assembler server,
  logs in, sends a command and prints the answer; commands and answers are protobuf messages in
  packets with a length in front.  \<open>binlogdumpK\<close> reads binlog messages from Kafka and prints them.

  \<^bold>\<open>Theories and sources\<close>

  \<^item> \<open>O2kPrelude\<close>: results of code that can block or leave a buffer (\<open>outcome\<close>), C strings, decimal
    numbers, \<open>atoi\<close>, \<open>strcasecmp\<close>, network byte order.
  \<^item> \<open>WireFormat\<close>: the boundary to the protobuf runtime (record \<open>wirelib\<close>, locale \<open>wire_format\<close>), the
    parse loop all generated classes share and the contract \<open>message_codec\<close> each of them meets.
  \<^item> \<open>AdminPairs\<close>, \<open>AdminMsg\<close>: the nine classes of \<open>qdcadm/AdminMsg.pb.cc\<close>; the record fields are the
    data members, one definition per method, each with its \<open>interpretation\<close> of the contract.
    \<open>AdminView\<close>: what the class \<open>MsgHeaderWrap\<close> sees of the other messages.
  \<^item> \<open>EntryRows\<close>, \<open>EntryMsg\<close>: the eight classes of \<open>binlogdump/BinlogEntry.pb.cc\<close>, in the same way; a
    \<open>oneof\<close> with one member is an option.
  \<^item> \<open>PackageHead\<close>, \<open>PackageBody\<close>: the twelve classes of \<open>binlogdump/BinlogPackage.pb.cc\<close>, in the
    same way; \<open>Packages\<close>: a batch of entries inside its messages and its packet.  No hand-written
    file uses these classes.
  \<^item> \<open>WireInstance\<close>: the documented wire format as a concrete \<open>wirelib\<close>; it shows that the contract can
    be met and carries the concrete examples.
  \<^item> \<open>SocketFunc\<close>, \<open>SocketSetup\<close>: \<open>qdcadm/SimpleSocketFunc.cpp\<close>.  What \<open>recv\<close>, \<open>send\<close> and \<open>select\<close>
    return is a script in the state; a call for which the script has nothing left blocks.
  \<^item> \<open>MsgRW\<close>: the class \<open>CMsgRW\<close> (\<open>qdcadm/CAdmMsg.h\<close>, \<open>CAdmMsg.cpp\<close>).  \<open>MsgTransport\<close>: whole messages
    over the socket.  \<open>ReaderMachine\<close>: the states a \<open>CMsgRW\<close> object can reach by its public methods
    (\<open>rw_reach\<close>) and their invariant.
  \<^item> \<open>AdmClient\<close>: the class \<open>CAdmClient\<close>.  \<open>StringMap\<close>: the \<open>std::map\<close> of the parameters, with the
    locale of what its client relies on.  \<open>Qdcadm\<close>: \<open>qdcadm/qdcadm.cpp\<close> from the command line to the
    printed text.
  \<^item> \<open>Session\<close>: both ends together, and the descriptors \<open>qdcadm\<close> closes (\<open>s_closed\<close> of the socket state
    and \<open>cl_closed\<close> of the client record the calls of \<open>shutdown\<close> and \<open>close\<close>).
  \<^item> \<open>AdminText\<close>: which strings a parsed message can hold.
  \<^item> \<open>BinlogReader\<close>: the abstract class of \<open>binlogdump/CBinlogReader.h\<close> as a locale;
    \<open>KafkaReader\<close>: the class \<open>CBinlogKafkaReader\<close> (\<open>binlogdump/CBinlogKafka.cpp\<close>), which
    interprets it, and the object \<open>main\<close> holds, whose consumer may be null (\<open>object_Read\<close>).  The loop
    of \<open>binlogdumpK\<close> is proved over the interface.  \<open>ReadTrace\<close>: which messages one call of \<open>Read\<close> takes
    from the consumer (\<open>handed_out\<close>) and passes over.
  \<^item> \<open>ParseLoop\<close>: the parse loop of the generated classes without a bound (\<open>for_ever\<close>), which ends.
  \<^item> \<open>BinlogArgs\<close>: the command line of \<open>binlogdump/binlogdumpK.cpp\<close>.  \<open>Binlogdump\<close>: its \<open>PrintSql\<close>,
    the statistics and \<open>main\<close>.  \<open>DumpRuns\<close>: the runs of its loop as a step relation (\<open>dump_steps\<close>), the
    payloads \<open>Read\<close> delivers (\<open>delivered\<close>), what should be printed for them (\<open>print_all\<close>), how the
    partitions get assigned (\<open>assigned\<close>).
    \<open>DumpSignals\<close>: interrupts, and the topics \<open>Read\<close> does not return from (\<open>floods\<close>, \<open>stalls\<close>).
  \<^item> \<open>KafkaLog\<close>: consumers that keep the laws of a log as long as their assignment is stable
    (\<open>keeps_log\<close>; queries for watermarks may fail, offsets may have gaps), what the reader and the program mean
    over them: what has been consumed is a prefix of every partition (\<open>consumed\<close>, \<open>log_trace\<close>).
  \<^item> \<open>UtMisc\<close>: the scope guards of \<open>binlogdump/utmisc.h\<close>.  \<open>HexDump\<close>: the debugging aid \<open>dumpbin\<close>.
  \<^item> \<open>Samples\<close>, \<open>SessionSamples\<close>, \<open>DumpSamples\<close>, \<open>LogSamples\<close>, \<open>SignalSamples\<close>: concrete values for
    the examples that follow the properties.

  \<^bold>\<open>What the lemmas show\<close>

  Reading and writing do not depend on how the kernel cuts the stream (\<open>SocketFunc\<close>); packets go
  through (\<open>packet\<close>, \<open>arrives\<close>); the generated parsers invert the serialisers and merge
  concatenations (\<open>chunk\<close>, \<open>message_codec\<close>); the reader's buffers keep their invariant (\<open>rw_ok\<close>) but
  for one overflow, which is described exactly, in every state the object can reach; no command goes
  out before the login; a server of the same methods and the client complete a session, and the
  client closes its descriptor once however the session ends, as each reader gives its heap buffers
  back (\<open>heap_run\<close> over the recorded \<open>m_heap_calls\<close>); the command line reaches the server
  as the map it is turned into, and that of \<open>binlogdumpK\<close> can ask for every topic; the Kafka reader delivers what passes its
  filter and ends where it checks that it may; the program prints what is delivered, once and in
  order, and counts exactly that; over a log it ends by itself only when every partition it has
  begun has been read to the watermark of the start (if the assignment stayed and the queries for the
  watermarks succeeded), but takes a partition it has not begun for an empty one, and looks outside a
  vector when the partitions appear at the wrong moment; an interrupt ends it between two calls of \<open>Read\<close>, and there are topics on which \<open>Read\<close>
  does not return.  What the reader prints itself is part of the output.

  \<^bold>\<open>Modelling decisions\<close>

  Machine integers are words where they are stored or sent, and \<open>int\<close> values of that range where the
  code only compares them.  Memory nobody has initialised is a parameter.  An access outside an
  object is the result \<open>Overflow\<close>; a call that never returns is \<open>Block\<close>, one that ends the process by
  \<open>abort\<close> is \<open>Abort\<close>.  The parse loop has fuel:
  each pass consumes a byte, so one more than the number of bytes is enough: \<open>ParseLoop\<close> proves that
  the loop without a bound ends with the same result.  \<open>SocketRead\<close> and \<open>SocketWrite\<close> end with their script; the
  loops of the Kafka reader and of \<open>binlogdumpK\<close> may run for ever and are partial functions; their
  results are characterised by the step relations \<open>goes_on\<close> and \<open>dump_steps\<close>.  Signals come between
  any two tests of \<open>bExit\<close> (\<open>bExit_at\<close>); the loop is defined for every function of the number of the test.  The protobuf runtime and
  librdkafka are not in the repository and are parameters; \<open>getopt\<close>, \<open>atoi\<close> (\<open>strtol\<close> and a cast
  to 32 bits) and the string functions are those of the C library.

  \<^bold>\<open>Not modelled\<close>

  Reflection, arenas and descriptors of the generated classes; the Windows branches;
  \<open>SIGPIPE\<close>, which a \<open>send\<close> to a peer that has gone raises; texts \<open>strerror_r\<close> makes up for unknown numbers;
  what librdkafka's event callback prints while a call of the consumer runs (the callback itself is
  modelled).
\<close>

text \<open>
  C1: Both ends of a session together, for a command other than get_metrics and get_perf (in any
  case of letters), with all texts in UTF-8 and every packet at most 1 MiB long, the command's
  packet not being two bytes longer than a login packet above 1024 bytes. When qdcadm has
  connected and each side gets the other's bytes, cut and interrupted in any way, a server that
  reads a command, answers OK, reads a command and replies gets the login with the user's
  password and then the user's command with the numbered arguments of the command line, and what
  it sends is exactly the stream on which qdcadm's main sends those two packets, prints the OK
  line with every pair (or the message of a reply whose code is not OK) and ends with 0 in both
  cases.
\<close>

theorem session_completes:
  assumes "wire_format W" and "header_ok W"
    and argv: "4 \<le> length argv" "split_colon (cstr (argv ! 1)) = Some (ip, port)"
      "cstr (argv ! 2) = pwd" "cstr (argv ! 3) = cmd" "collect_params 4 (map cstr (drop 4 argv)) [] = params"
    and cmd: "strLower cmd \<noteq> CMD_GET_PERF" "\<not> strcasecmp_eq cmd CMD_GET_METRICS"
    and login: "text_ok W CMD_LOGIN" "pairs_ok W [(''password'', pwd)]"
    and command: "text_ok W cmd" "pairs_ok W params"
    and F: "F = MsgCmd_Serialize W (command_message CMD_LOGIN [(''password'', pwd)])" "int (length F) \<le> MAX_ADM_PKG"
    and G: "G = MsgCmd_Serialize W (command_message cmd params)" "int (length G) \<le> MAX_ADM_PKG" "second_fits F G"
    and reply: "text_ok W RC_OK" "text_ok W hello" "text_ok W rc" "text_ok W msg" "pairs_ok W kvs"
    and R1: "R1 = MsgResult_Serialize W (result_with RC_OK hello [])" "int (length R1) \<le> MAX_ADM_PKG"
    and R2: "R2 = MsgResult_Serialize W (result_with rc msg kvs)" "int (length R2) \<le> MAX_ADM_PKG"
    and srv: "env_ok C2" "proper (s_in srv)" "avail (s_in srv) = packet F @ packet G @ rest"
      "lets_packet (length R1) (s_out srv) evs1" "lets_packet (length R2) evs1 evs2"
    and S: "ses = Ses 0" "0 \<le> GetSock (CAdmClient (c_strerror C1) (ses_net ses) (ses_err ses) ip (c_atoi port) pwd)"
    and cli: "env_ok C1" "proper (s_in (ses_sock ses))" "avail (s_in (ses_sock ses)) = packet R1 @ packet R2 @ rest'"
      "lets_packet (length F) (s_out (ses_sock ses)) evs3" "lets_packet (length G) evs3 evs4"
  shows "(\<exists>rw1 s1 s2 rw2 s3 s4.
      ReadCommand C2 W c0 (CMsgRW C2) srv = Ret (0, Some (command_message CMD_LOGIN [(''password'', pwd)]), rw1, s1) \<and>
      ReplyOK C2 W hello rw1 s1 = Ret (0, rw1, s2) \<and>
      ReadCommand C2 W c1 rw1 s2 = Ret (0, Some (command_message cmd params), rw2, s3) \<and>
      ReplyResult_apd C2 W rc msg kvs rw2 s3 = Ret (0, rw2, s4) \<and>
      sent_more srv (packet R1 @ packet R2) s4 \<and> avail (s_in s4) = rest) \<and>
    (\<exists>st'. qdcadm_main C1 W fmt stamp Ses argv =
        (if strcasecmp_eq rc RC_OK
         then Ret (0, show_result (ses_now ses) (result_with rc msg kvs),
                [(0, show_result (ses_now ses) (result_with rc msg kvs), st')])
         else Ret (0, cstr msg @ nl, [(1, cstr msg @ nl, st')])) \<and>
      sent_more (ses_sock ses) (packet F @ packet G) st' \<and> avail (s_in st') = rest')"
proof (rule conjI)
  show "\<exists>rw1 s1 s2 rw2 s3 s4.
      ReadCommand C2 W c0 (CMsgRW C2) srv = Ret (0, Some (command_message CMD_LOGIN [(''password'', pwd)]), rw1, s1) \<and>
      ReplyOK C2 W hello rw1 s1 = Ret (0, rw1, s2) \<and>
      ReadCommand C2 W c1 rw1 s2 = Ret (0, Some (command_message cmd params), rw2, s3) \<and>
      ReplyResult_apd C2 W rc msg kvs rw2 s3 = Ret (0, rw2, s4) \<and>
      sent_more srv (packet R1 @ packet R2) s4 \<and> avail (s_in s4) = rest"
    by (rule wire_format.server_serves [OF assms(1,2) login command F G reply R1 R2 srv])
  have p0: "pairs_ok W []" by (simp add: pairs_ok_def)
  note v = result_with_valid [OF assms(2) reply(1,2) p0] result_with_valid [OF assms(2) reply(3-5)]
  note ne = wire_format.packed_nonempty(2) [OF assms(1)]
  have a: "arrives C1 (CMsgRW C1) (ses_sock ses) (MsgResult_Serialize W (result_with RC_OK hello []))
      (packet (MsgResult_Serialize W (result_with rc msg kvs)) @ rest')"
    using new_arrives [OF cli(1-3)] ne R1 R2(1) by simp
  have len: "len_ok (length F)" "len_ok (length G)" using F(2) G(2) by (simp_all add: len_ok_def MAX_ADM_PKG_def)
  have fields: "mr_msg_header (result_with x y z) = Some (MakeMsgHdr MsgType_Result)"
    "mr_rc (result_with x y z) = x" "mr_msg (result_with x y z) = y" for x y z
    by (simp_all add: result_with_def)
  obtain st' where e: "ExecuteCommand C1 W fmt ses ip (c_atoi port) pwd 5 cmd params =
      (if strcasecmp_eq rc RC_OK then Ret (0, show_result (ses_now ses) (result_with rc msg kvs), st')
       else Ret (1, cstr msg @ nl, st'))"
    and o: "sent_more (ses_sock ses) (packet F @ packet G) st'" "avail (s_in st') = rest'"
    using wire_format.ExecuteCommand_answered [OF assms(1,2) login S(2) F(1) len(1) command G(1) len(2) cmd(2)
        cli(4,5) v(1) fields(1) _ v(2) fields(1) ne R2(2) [unfolded R2(1)] a, of fmt 5]
    by (auto simp: fields strcasecmp_eq_def)
  have "qdcadm_main C1 W fmt stamp Ses argv =
        (if strcasecmp_eq rc RC_OK
         then Ret (0, show_result (ses_now ses) (result_with rc msg kvs),
                [(0, show_result (ses_now ses) (result_with rc msg kvs), st')])
         else Ret (0, cstr msg @ nl, [(1, cstr msg @ nl, st')]))"
    using main_runs_once [OF argv(1,2), where C = C1 and W = W and fmt = fmt and Ses = Ses] e cmd(1) S(1) argv(3-5)
    by auto
  with o show "\<exists>st'. qdcadm_main C1 W fmt stamp Ses argv =
        (if strcasecmp_eq rc RC_OK
         then Ret (0, show_result (ses_now ses) (result_with rc msg kvs),
                [(0, show_result (ses_now ses) (result_with rc msg kvs), st')])
         else Ret (0, cstr msg @ nl, [(1, cstr msg @ nl, st')])) \<and>
      sent_more (ses_sock ses) (packet F @ packet G) st' \<and> avail (s_in st') = rest'" by blast
qed

theorem session_completes_witness:
  "(\<exists>rw1 s1 s2 rw2 s3 s4.
      ReadCommand sample_env std_wire MsgCmd_SharedCtor (CMsgRW sample_env) sample_server =
        Ret (0, Some (command_message CMD_LOGIN [(''password'', ''qdecoder'')]), rw1, s1) \<and>
      ReplyOK sample_env std_wire ''pong'' rw1 s1 = Ret (0, rw1, s2) \<and>
      ReadCommand sample_env std_wire MsgCmd_SharedCtor rw1 s2 =
        Ret (0, Some (command_message ''get_stat'' [(''1'', ''get_stat'')]), rw2, s3) \<and>
      ReplyResult_apd sample_env std_wire ''OK'' ''pong'' [(''1'', ''get_stat'')] rw2 s3 = Ret (0, rw2, s4) \<and>
      sent_more sample_server (packet qd_hello @ packet qd_reply) s4 \<and> avail (s_in s4) = []) \<and>
    (\<exists>st'. qdcadm_main sample_env std_wire (\<lambda>_. ''0'') ''today'' (\<lambda>_. sample_both) qd_argv =
        Ret (0, show_result (ses_now sample_both) (result_with ''OK'' ''pong'' [(''1'', ''get_stat'')]),
          [(0, show_result (ses_now sample_both) (result_with ''OK'' ''pong'' [(''1'', ''get_stat'')]), st')]) \<and>
      sent_more (ses_sock sample_both) (packet sample_login @ packet sample_cmd) st' \<and> avail (s_in st') = [])"
proof -
  have small: "int (length sample_login) \<le> MAX_ADM_PKG" "int (length sample_cmd) \<le> MAX_ADM_PKG"
    "second_fits sample_login sample_cmd" "int (length qd_hello) \<le> MAX_ADM_PKG" "int (length qd_reply) \<le> MAX_ADM_PKG"
    by (simp_all add: sample_lengths sample_session_lengths MAX_ADM_PKG_def second_fits_def)
  have out: "lets_packet (length sample_cmd) [SAccept 2000, SAccept 2000] []"
    "lets_packet (length qd_reply) [SAccept 2000, SAccept 2000] []"
    by (simp_all add: sample_lets_more sample_lengths sample_session_lengths)
  have ok: "strcasecmp_eq ''OK'' RC_OK" by (simp add: strcasecmp_eq_def RC_OK_def)
  show ?thesis
    using session_completes [OF std.wire_format_axioms header_ok_std qd_argv_parts sample_not_metrics
        sample_login_facts(1) sample_password sample_cmd_facts(1,2)
        sample_login_facts(3) [unfolded sample_pwd] small(1) sample_cmd_facts(3) small(2,3)
        sample_texts(1) [folded RC_OK_def] sample_texts(2) sample_texts(1,2) sample_pairs(1) qd_hello_def small(4)
        qd_reply_def small(5) sample_env_ok sample_both_streams(3,4) sample_both_out(2) out(2) refl
        sample_both_connects sample_env_ok sample_both_streams(1,2) sample_both_out(1) out(1),
        where ?c0.0 = MsgCmd_SharedCtor and ?c1.0 = MsgCmd_SharedCtor
          and fmt = "\<lambda>_. ''0''" and stamp = "''today''"] ok
    by simp
qed

text \<open>
  C2: binlogdumpK against the topic as a log. The consumer is any that keeps librdkafka's
  documented laws, which speak of a consumer only as long as it is stable (its partitions were
  assigned once, none was taken away, no position was reset) and let offsets have gaps,
  partitions appear during any call, time-outs come anywhere and queries for the watermark fail.
  When the program ends by itself with nothing but the settings on standard error, it ends on a
  time-out of Read with exit code 0 and has printed what Read delivered. If the consumer is
  still stable then, the payloads printed are those of a trace that holds exactly a prefix of
  every partition, in its order and each message once, filtered by the tables, and some
  partition is assigned; and if moreover every watermark query succeeded, every assigned
  partition of which anything has been read has been read up to the high watermark of the start.
\<close>

theorem whole_topic_is_printed:
  assumes "main_args argv = Go (topic, printRaw)"
    and "CBinlogKafkaReader K (cstr (bootstrap topic)) (cstr (topicName topic)) (groupIdNum topic) = Ret (hello, Some rd)"
    and "binlogdumpK_main K D W sigint argv = Some (Ret (rc, out, PintfArg topic))"
    and "\<And>j. \<not> sigint j" and "keeps_log K L"
  shows "\<exists>evs rd1 said rd2. delivered (Read K) topic rd evs rd1 \<and>
    Read K (tableName topic) rd1 = Some (Ret (ERR__TIMED_OUT, None), said, rd2) \<and>
    (lg_stable L (m_consumer rd2) \<longrightarrow>
       (\<exists>tr. payloads evs = map k_payload (filter (wanted (tableName topic)) (map snd tr)) \<and>
          (\<forall>i. map snd (filter (\<lambda>x. fst x = i) tr) = map snd (take (lg_pos L (m_consumer rd2) i) (lg_msgs L i)))) \<and>
       lg_asg L (m_consumer rd2) \<noteq> [] \<and>
       (lg_known L (m_consumer rd2) \<longrightarrow>
          (\<forall>i \<in> set (lg_asg L (m_consumer rd2)). lg_pos L (m_consumer rd2) i = 0 \<or>
             (\<forall>n < length (lg_msgs L i). fst (lg_msgs L i ! n) < lg_high L i \<longrightarrow> n < lg_pos L (m_consumer rd2) i)))) \<and>
    rc = 0 \<and>
    out = hello @ fst (print_all D W printRaw evs gbStat) @ said @ stat_text (snd (print_all D W printRaw evs gbStat))"
  using whole_topic_printed [OF assms] unfolding caught_up_def by blast

theorem whole_topic_is_printed_witness:
  "\<exists>evs tr ends. payloads evs = map k_payload (filter (wanted [''a'', ''b'']) (map snd tr)) \<and>
    (\<forall>i. map snd (filter (\<lambda>x. fst x = i) tr) = map snd (take (ends i) (lg_msgs sample_log i))) \<and>
    (ends 0 = 0 \<or> (\<forall>n < 3. n < ends 0))"
proof -
  obtain topic raw out where a: "main_args sample_argv = Go (topic, raw)" "tableName topic = [''a'', ''b'']"
    and run: "binlogdumpK_main log_consumer sample_dumpenv std_wire (\<lambda>_. False) sample_argv
      = Some (Ret (0, out, PintfArg topic))"
    by (rule log_run)
  obtain hello rd where i: "CBinlogKafkaReader log_consumer (cstr (bootstrap topic)) (cstr (topicName topic)) (groupIdNum topic)
      = Ret (hello, Some rd)"
    using log_facts(1) by (simp add: CBinlogKafkaReader_def)
  have sig: "\<And>j :: nat. \<not> False" by simp
  have st: "lg_stable sample_log k" "lg_known sample_log k" for k by (simp_all add: sample_log_def)
  from whole_topic_is_printed [OF a(1) i run sig log_consumer_keeps] show ?thesis
    unfolding a(2)
  proof (elim exE conjE impE [OF _ st(1)] impE [OF _ st(2)])
    fix evs rd2 tr
    assume t: "payloads evs = map k_payload (filter (wanted [''a'', ''b'']) (map snd tr))"
      "\<forall>i. map snd (filter (\<lambda>x. fst x = i) tr) = map snd (take (lg_pos sample_log (m_consumer rd2) i) (lg_msgs sample_log i))"
      and asg: "lg_asg sample_log (m_consumer rd2) \<noteq> []"
      and all: "\<forall>i \<in> set (lg_asg sample_log (m_consumer rd2)). lg_pos sample_log (m_consumer rd2) i = 0 \<or>
         (\<forall>n < length (lg_msgs sample_log i). fst (lg_msgs sample_log i ! n) < lg_high sample_log i \<longrightarrow>
            n < lg_pos sample_log (m_consumer rd2) i)"
    have "0 \<in> set (lg_asg sample_log (m_consumer rd2))" using asg by (simp add: sample_log_def split: if_split_asm)
    moreover have "length (lg_msgs sample_log 0) = 3" "\<forall>n < 3. fst (lg_msgs sample_log 0 ! n) < lg_high sample_log 0"
      by (simp_all add: sample_log_def sample_messages_def eval_nat_numeral less_Suc_eq)
    ultimately have "lg_pos sample_log (m_consumer rd2) 0 = 0 \<or> (\<forall>n < 3. n < lg_pos sample_log (m_consumer rd2) 0)"
      using all by fastforce
    with t show ?thesis by blast
  qed
qed

text \<open>
  C3: binlogdumpK without wait mode and undisturbed by a signal, on a topic whose partitions get
  assigned at once or after any number of time-outs, before or together with the first message,
  and which then hands out messages one after the other, each with a key and none with an error,
  until a time-out at which the check of Read finds no partition short of its watermark: the
  program prints that it has connected and the watermarks it found, then exactly what PrintSql
  makes of the payloads whose key passes the table filter, in order, then the statistics of
  those payloads, and ends with exit code 0; standard error holds the settings and, when the
  offsets were to be committed and the commit failed, its error code.
\<close>

theorem topic_is_dumped:
  assumes args: "main_args argv = Go (topic, printRaw)" "\<not> waitMode topic"
    and init: "Init K (cstr (bootstrap topic)) (cstr (topicName topic)) (groupIdNum topic) = Ret (rc, hello, Some rd)"
    and fill: "assigned K rd said ms rd1"
    and msgs: "hands_out K (m_consumer rd1) msgs k" "\<forall>m \<in> set msgs. k_err m = ERR_NO_ERROR \<and> k_key m \<noteq> None"
    and last: "kc_consume K k = (t, k1)" "k_err t = ERR__TIMED_OUT"
      "kc_position K (m_readOffSet rd1) k1 = ((ERR_NO_ERROR, rs), k2)"
      "read_over K rs (m_logOffset rd1) = Ret (True, [])"
    and sig: "\<And>i. \<not> sigint i"
  shows "binlogdumpK_main K D W sigint argv = Some (Ret (0,
    hello @ said @
      (case print_all D W printRaw (silently (map k_payload (filter (wanted (tableName topic)) (ms @ msgs)))) gbStat of
         (txt, stat) \<Rightarrow> txt @ stat_text stat),
    PintfArg topic @
      (let code = fst (kc_commit K k2) in
       if commit topic \<and> code \<noteq> 0 then ''commit offset error : '' @ int_dec code @ newline else [])))"
  using program_dumped [OF assms] .

theorem topic_is_dumped_witness:
  "\<exists>topic printRaw. main_args sample_argv = Go (topic, printRaw) \<and>
     binlogdumpK_main log_consumer sample_dumpenv std_wire (\<lambda>_. False) sample_argv = Some (Ret (0,
       sample_hello (cstr (bootstrap topic)) (cstr (topicName topic)) (groupIdNum topic) @ log_said @
       (case print_all sample_dumpenv std_wire printRaw (silently [''one'', ''three'']) gbStat of
          (txt, stat) \<Rightarrow> txt @ stat_text stat), PintfArg topic))"
proof -
  obtain topic raw where a: "main_args sample_argv = Go (topic, raw)" "\<not> waitMode topic" "\<not> commit topic"
    "tableName topic = [''a'', ''b'']"
    by (rule sample_dump_args)
  have keys: "map k_payload (filter (wanted (tableName topic)) ([hd sample_messages] @ tl sample_messages)) = [''one'', ''three'']"
    by (simp add: a(4) sample_messages_def wanted_def)
  show ?thesis
    using topic_is_dumped [OF a(1,2) log_facts, of "\<lambda>_. False" sample_dumpenv std_wire] a(1,3)
    unfolding keys by simp
qed

text \<open>
  C4: SendCommand never lets a byte of the user's command out before the server has accepted the
  login: whatever the network does, the bytes sent are a prefix of the login packet, or the
  whole login packet, the login having returned 0, followed by a prefix of the command's packet;
  and the result 0 means that both packets went out in full.
\<close>

theorem command_only_after_login:
  assumes "wire_format W" and "header_ok W"
    and "text_ok W CMD_LOGIN" and "pairs_ok W [(''password'', m_pwd cl)]"
    and "len_ok (length (MsgCmd_Serialize W (command_message CMD_LOGIN [(''password'', m_pwd cl)])))"
    and "text_ok W cmd" and "pairs_ok W kvs" and "len_ok (length (MsgCmd_Serialize W (command_message cmd kvs)))"
    and "env_ok C" and "proper (s_in st)"
    and sc: "SendCommand C W cmd kvs cl st = Ret (rc, cl', st')"
  shows "(rc = -1 \<and> (\<exists>k. sent_more st (take k (packet (MsgCmd_Serialize W (command_message CMD_LOGIN [(''password'', m_pwd cl)])))) st')) \<or>
    (\<exists>st1 k. Login C W cl st = Ret (0, cl, st1) \<and>
      sent_more st (packet (MsgCmd_Serialize W (command_message CMD_LOGIN [(''password'', m_pwd cl)]))
        @ take k (packet (MsgCmd_Serialize W (command_message cmd kvs)))) st' \<and>
      (rc = 0 \<and> k = length (packet (MsgCmd_Serialize W (command_message cmd kvs))) \<or> rc = -1))"
proof -
  define L where "L = MsgCmd_Serialize W (command_message CMD_LOGIN [(''password'', m_pwd cl)])"
  define F where "F = MsgCmd_Serialize W (command_message cmd kvs)"
  have v: "MsgCmd_valid W (command_message cmd kvs)"
    using assms(2,6,7) by (rule command_message_valid)
  obtain r0 cl1 st1 where lg: "Login C W cl st = Ret (r0, cl1, st1)"
    using sc by (cases "Login C W cl st") (auto simp: SendCommand_def)
  note fr = wire_format.Login_frame [OF assms(1) lg assms(2-5,10,9), folded L_def]
  show ?thesis
  proof (cases "r0 = 0")
    case False
    then have "rc = r0" "st' = st1" using sc lg by (simp_all add: SendCommand_def)
    with fr False show ?thesis unfolding L_def F_def by auto
  next
    case True
    then have login: "cl1 = cl" "sent_more st (packet L) st1" "proper (s_in st1)" using fr by auto
    obtain r2 rw st2 where snd: "MsgRW_SendPacket C F (int_of_size (length F)) (CMsgRW C) st1 = Ret (r2, rw, st2)"
      using sc lg True wire_format.serialize_cmd [OF assms(1) v assms(8)]
      by (cases "MsgRW_SendPacket C F (int_of_size (length F)) (CMsgRW C) st1")
        (auto simp: SendCommand_def F_def)
    then have res: "st' = st2" "rc = (if r2 \<le> 0 then -1 else 0)"
      using sc lg True wire_format.serialize_cmd [OF assms(1) v assms(8)]
      by (auto simp: SendCommand_def F_def split: if_split_asm)
    from MsgRW_SendPacket_frame [OF snd assms(8) [folded F_def]]
    have "\<exists>k. sent_more st1 (take k (packet F)) st' \<and>
        (rc = 0 \<and> k = length (packet F) \<or> rc = -1)"
    proof
      assume a: "r2 = int (length F) \<and> rw = CMsgRW C \<and> sends st1 (packet F) st2"
      then have "sent_more st1 (take (length (packet F)) (packet F)) st'"
        using res by (simp add: sent_more_sends)
      then show ?thesis using res by (intro exI [of _ "length (packet F)"]) auto
    next
      assume a: "r2 = -1 \<and> (\<exists>k<length (packet F). sends st1 (take k (packet F)) st2)"
      then show ?thesis using res sent_more_sends by auto
    qed
    then obtain k where "sent_more st1 (take k (packet F)) st'"
      and "rc = 0 \<and> k = length (packet F) \<or> rc = -1" by blast
    then have "sent_more st (packet L @ take k (packet F)) st' \<and>
        (rc = 0 \<and> k = length (packet F) \<or> rc = -1)"
      using sent_more_trans [OF login(2)] by blast
    then show ?thesis using lg True login(1) unfolding L_def F_def by blast
  qed
qed

theorem command_only_after_login_witness:
  "\<exists>st'. SendCommand sample_env std_wire ''get_stat'' [(''1'', ''get_stat'')] sample_client sample_conn
      = Ret (0, sample_client, st') \<and>
    (\<exists>st1 k. Login sample_env std_wire sample_client sample_conn = Ret (0, sample_client, st1) \<and>
      sent_more sample_conn (packet sample_login @ take k (packet sample_cmd)) st' \<and>
      k = length (packet sample_cmd))"
proof -
  obtain st' where sc: "SendCommand sample_env std_wire ''get_stat'' [(''1'', ''get_stat'')] sample_client
      sample_conn = Ret (0, sample_client, st')"
    using wire_format.SendCommand_accepted [OF std.wire_format_axioms header_ok_std sample_login_facts(1,2) sample_connected
        sample_login_facts(3,4) sample_cmd_facts sample_conn_out sample_answer_facts sample_conn_in]
    by blast
  show ?thesis
    using command_only_after_login [OF std.wire_format_axioms header_ok_std sample_login_facts(1,2)
        sample_login_facts(4) [unfolded sample_login_facts(3)] sample_cmd_facts(1,2)
        sample_cmd_facts(4) [unfolded sample_cmd_facts(3)] sample_env_ok sample_conn_proper sc] sc
    unfolding sample_login_facts(3) sample_cmd_facts(3) by auto
qed

text \<open>
  C5: Whatever public methods of a CMsgRW object have been called since its constructor, in any
  order and on any socket: the error buffer has its 514 bytes and holds a NUL, so GetErrMsg
  hands out a C string; the message buffer is at most 1048578 bytes, the message lies inside it
  and is followed by a NUL; the next ReadPacket, when it returns, returns the length of the
  message it holds or a value that is not positive and holds none; and it can write outside its
  buffer only when an earlier message has made the buffer larger.
\<close>

theorem reachable_reader_is_safe:
  assumes "rw_reach C W (rw, st)" and "env_ok C" and "texts_short C"
  shows "length (m_errbuf rw) = 514 \<and> CHR 0x00 \<in> set (m_errbuf rw) \<and>
    length (m_msgbuf rw) \<le> 1048578 \<and> m_lenmsg rw < length (m_msgbuf rw) \<and>
    (0 < m_lenmsg rw \<longrightarrow> m_msgbuf rw ! m_lenmsg rw = CHR 0x00) \<and>
    (case MsgRW_ReadPacket C rw st of
       Ret (r, rw', st') \<Rightarrow> if 0 < r then m_lenmsg rw' = nat r else m_lenmsg rw' = 0
     | Block \<Rightarrow> True
     | Overflow \<Rightarrow> m_heap rw \<noteq> None \<and> 1026 < m_lenbuf rw
     | Abort \<Rightarrow> False)"
proof -
  note i = rw_invD [OF rw_reach_inv [OF assms]]
  have "case MsgRW_ReadPacket C rw st of
       Ret (r, rw', st') \<Rightarrow> if 0 < r then m_lenmsg rw' = nat r else m_lenmsg rw' = 0
     | Block \<Rightarrow> True
     | Overflow \<Rightarrow> m_heap rw \<noteq> None \<and> 1026 < m_lenbuf rw
     | Abort \<Rightarrow> False"
  proof (cases "MsgRW_ReadPacket C rw st")
    case (Ret x)
    then show ?thesis using ReadPacket_ok [of C rw st] i assms(2) by (cases x) fastforce
  next
    case Overflow
    then show ?thesis using ReadPacket_overflow_heap [OF Overflow] i assms(2) by simp
  next
    case Abort
    then show ?thesis using ReadPacket_no_Abort by metis
  qed simp
  then show ?thesis using i rw_ok_sizes by (simp add: err_ok_def)
qed

theorem reachable_reader_is_safe_witness:
  "\<exists>rw st. rw_reach sample_env std_wire (rw, st) \<and> m_lenmsg rw = 4 \<and>
    m_msgbuf rw ! 4 = CHR 0x00 \<and> CHR 0x00 \<in> set (m_errbuf rw)"
proof -
  obtain rw st where r: "MsgRW_ReadPacket sample_env (CMsgRW sample_env) ping_sock = Ret (4, rw, st)"
    and l: "m_lenmsg rw = 4" by (rule ping_read)
  have reach: "rw_reach sample_env std_wire (rw, st)"
    by (rule rw_reach.step [OF rw_reach.start [OF ping_sock_ok] rw_step.read_packet [OF r]])
  then show ?thesis
    using reachable_reader_is_safe [OF reach sample_env_ok sample_texts_short] l by auto
qed

text \<open>
  C6: A result the server replies with, its texts in UTF-8 and its packet at most 1 MiB long,
  goes out whole once the kernel takes the bytes, and a reader reads it by ReadResult as exactly
  the same return code, message and pairs, however the kernel cuts the bytes into chunks and
  interrupts the calls on either side; the bytes behind it stay for the next read. The reader is
  any one in the invariant of the class, except in the case of the overflow: a packet above 1024
  bytes exactly as long as the heap buffer the reader already has.
\<close>

theorem reply_reaches_reader:
  assumes "wire_format W" and "header_ok W" and "text_ok W rc" and "text_ok W msg" and "pairs_ok W kvs"
    and size: "int (length (MsgResult_Serialize W (result_with rc msg kvs))) \<le> MAX_ADM_PKG"
    and out: "lets_packet (length (MsgResult_Serialize W (result_with rc msg kvs))) (s_out srv) evs"
  shows "(\<exists>srv'. ReplyResult_apd C1 W rc msg kvs rw1 srv = Ret (0, rw1, srv') \<and>
      sent_more srv (packet (MsgResult_Serialize W (result_with rc msg kvs))) srv') \<and>
    (\<forall>rw cli rest. env_ok C2 \<and> rw_ok rw \<and> proper (s_in cli) \<and> 
       avail (s_in cli) = packet (MsgResult_Serialize W (result_with rc msg kvs)) @ rest \<and>
       \<not> one_past rw (int (length (MsgResult_Serialize W (result_with rc msg kvs)))) \<longrightarrow>
       (\<exists>rw' cli'. ReadResult C2 W m0 rw cli = Ret (0, Some (result_with rc msg kvs), rw', cli') \<and>
          rw_ok rw' \<and> avail (s_in cli') = rest))"
proof -
  define m where "m = result_with rc msg kvs"
  have v: "MsgResult_valid W m" unfolding m_def using assms(2-5) by (rule result_with_valid)
  have h: "mr_msg_header m = Some (MakeMsgHdr MsgType_Result)" by (simp add: m_def result_with_def)
  have ne: "MsgResult_Serialize W m \<noteq> []"
    unfolding m_def by (rule wire_format.packed_nonempty(2) [OF assms(1)])
  have len: "len_ok (length (MsgResult_Serialize W m))"
    using size by (simp add: m_def len_ok_def MAX_ADM_PKG_def)
  obtain srv' where snd: "pack_and_send C1 W m rw1 srv = Ret (0, rw1, srv')"
    and s: "sends srv (packet (MsgResult_Serialize W m)) srv'"
    using wire_format.pack_and_send_sends [OF assms(1) v len out [folded m_def]] by blast
  have "\<exists>rw' cli'. ReadResult C2 W m0 rw cli = Ret (0, Some m, rw', cli') \<and> rw_ok rw' \<and>
      avail (s_in cli') = rest"
    if "arrives C2 rw cli (MsgResult_Serialize W m) rest" for rw cli rest
    using wire_format.ReadResult_sent [OF assms(1) v h that, of m0] by auto
  moreover have "arrives C2 rw cli (MsgResult_Serialize W m) rest"
    if "env_ok C2 \<and> rw_ok rw \<and> proper (s_in cli) \<and>
      avail (s_in cli) = packet (MsgResult_Serialize W m) @ rest \<and>
      \<not> one_past rw (int (length (MsgResult_Serialize W m)))" for rw cli rest
    using that ne size by (simp add: arrives_def m_def)
  ultimately show ?thesis
    using snd sent_more_sends [OF s] unfolding ReplyResult_apd_eq m_def by blast
qed

theorem reply_reaches_reader_witness:
  "let m = result_with ''OK'' ''pong'' [(''1'', ''get_stat'')]; pk = packet (MsgResult_Serialize std_wire m) in
    (\<exists>srv'. ReplyResult_apd sample_env std_wire ''OK'' ''pong'' [(''1'', ''get_stat'')]
       (CMsgRW sample_env) (sample_sock []) = Ret (0, CMsgRW sample_env, srv') \<and> s_sent srv' = pk) \<and>
    (\<exists>rw' cli'. ReadResult sample_env std_wire MsgResult_SharedCtor (CMsgRW sample_env)
       (sample_sock [RErr EINTR, RData (take 3 pk), RData (drop 3 pk), REof]) = Ret (0, Some m, rw', cli'))"
proof -
  define m where "m = result_with ''OK'' ''pong'' [(''1'', ''get_stat'')]"
  have out: "lets_packet (length (MsgResult_Serialize std_wire m)) (s_out (sample_sock []))
      [SAccept 2000, SAccept 2000]"
    by (simp add: m_def sample_reply_length sample_lets)
  have len: "length (packet (MsgResult_Serialize std_wire m)) = 31"
    by (simp add: m_def sample_reply_length)
  define cli where "cli = sample_sock [RErr EINTR, RData (take 3 (packet (MsgResult_Serialize std_wire m))),
    RData (drop 3 (packet (MsgResult_Serialize std_wire m))), REof]"
  have cli: "proper (s_in cli) \<and> avail (s_in cli) = packet (MsgResult_Serialize std_wire m) @ []"
    using len by (auto simp: cli_def sample_sock_def proper_def int_range_def EINTR_def)
  have np: "\<not> one_past (CMsgRW sample_env) (int (length (MsgResult_Serialize std_wire m)))"
    by (simp add: m_def sample_reply_length one_past_def LEN_ADM_PKG_def)
  have size: "int (length (MsgResult_Serialize std_wire m)) \<le> MAX_ADM_PKG"
    by (simp add: m_def sample_reply_length MAX_ADM_PKG_def)
  note T = reply_reaches_reader [OF std.wire_format_axioms header_ok_std sample_texts(1,2) sample_pairs(1)
      size [unfolded m_def] out [unfolded m_def], of sample_env "CMsgRW sample_env" sample_env
      MsgResult_SharedCtor, folded m_def]
  have "s_sent srv' = packet (MsgResult_Serialize std_wire m)"
    if "sent_more (sample_sock []) (packet (MsgResult_Serialize std_wire m)) srv'" for srv'
    using that by (simp add: sent_more_def sample_sock_def)
  moreover note conjunct1 [OF T]
  moreover note conjunct2 [OF T, rule_format, of "CMsgRW sample_env" cli "[]"]
  ultimately show ?thesis
    using sample_env_ok CMsgRW_ok [OF sample_env_ok] cli np
    unfolding Let_def m_def [symmetric] cli_def [symmetric] by blast
qed

text \<open>
  C7: No run of qdcadm leaks its descriptor or closes it twice: in every run of main's loop,
  however it ends (address refused, connect failed, login refused, reply lost or read), nothing
  is closed when no socket was created, and otherwise exactly the socket that was created is
  shut down and then closed, once.
\<close>

theorem descriptor_closed_once:
  assumes "qdcadm_main C W fmt stamp Ses argv = Ret (rc, txt, rs)" and "i < length rs"
  shows "\<exists>ip port. split_colon (cstr (argv ! 1)) = Some (ip, port) \<and>
    s_closed (snd (snd (rs ! i))) = s_closed (ses_sock (Ses i)) @
      (if sys_inet_addr (ses_net (Ses i)) (cstr ip) = INADDR_NONE \<or> fst (sys_socket (ses_net (Ses i))) < 0 then []
       else [Shutdown (fst (sys_socket (ses_net (Ses i)))), Close (fst (sys_socket (ses_net (Ses i))))])"
proof -
  obtain ip port timeoutS params k where sc: "split_colon (cstr (argv ! 1)) = Some (ip, port)"
    and loop: "run_loop (\<lambda>i. ExecuteCommand C W fmt (Ses i) ip (c_atoi port) (cstr (argv ! 2)) timeoutS
      (cstr (argv ! 3)) params) 0 k = Ret rs"
    using main_runs [OF assms] by blast
  have "ExecuteCommand C W fmt (Ses i) ip (c_atoi port) (cstr (argv ! 2)) timeoutS (cstr (argv ! 3)) params
      = Ret (rs ! i)"
    using run_loop_results [OF loop] assms(2) by simp
  then show ?thesis using sc ExecuteCommand_closes [where S = "Ses i"] by (cases "rs ! i") (auto simp: CloseSocket_def)
qed

theorem descriptor_closed_once_witness:
  "\<exists>out st'. qdcadm_main sample_env std_wire (\<lambda>_. ''0'') ''today'' (\<lambda>_. refused_session) qd_argv =
      Ret (0, out, [(1, out, st')]) \<and> s_closed st' = [Shutdown 3, Close 3]"
proof -
  obtain out st' where m: "qdcadm_main sample_env std_wire (\<lambda>_. ''0'') ''today'' (\<lambda>_. refused_session) qd_argv =
      Ret (0, out, [(1, out, st')])"
    using refused_main by blast
  then show ?thesis
    using descriptor_closed_once [OF m, of 0] by (auto simp: refused_net INADDR_NONE_def)
qed

text \<open>
  C8: An interrupt is seen between two calls of Read only. Once binlogdumpK, started on any
  arguments and not interrupted so far, has come to a point from which the topic only hands out
  messages of other tables, or hands out nothing more although a partition that was begun is not
  read up to its watermark (the brokers are gone, say), it never ends, whatever signals arrive
  from then on and in either wait mode.
\<close>

theorem interrupt_waits_for_read:
  assumes "main_args argv = Go (topic, printRaw)"
    and "CBinlogKafkaReader K (cstr (bootstrap topic)) (cstr (topicName topic)) (groupIdNum topic) = Ret (hello, Some rd)"
    and run: "dump_steps (Read K) D W topic printRaw (bExit_at signals) 0
      \<lparr>d_reader = rd, d_stat = gbStat, d_out = hello, d_err = PintfArg topic\<rparr> j st"
    and quiet: "\<forall>i \<le> j. SIGINT \<notin> set (signals i)"
    and stuck: "m_consumer (d_reader st) \<in> S" "m_logOffset (d_reader st) \<noteq> []"
      "floods K S (tableName topic) \<or> stalls K S (m_logOffset (d_reader st)) \<and>
         length (m_readOffSet (d_reader st)) = length (m_logOffset (d_reader st))"
  shows "binlogdumpK_main K D W (bExit_at signals) argv = None"
proof -
  have "\<not> bExit_at signals j" using quiet by (simp add: bExit_at_iff)
  then have "dump_loop (Read K) D W topic printRaw (bExit_at signals) 0
      \<lparr>d_reader = rd, d_stat = gbStat, d_out = hello, d_err = PintfArg topic\<rparr> = None"
    using dump_loop_stuck [OF run _ Read_for_ever [OF stuck]] by blast
  then show ?thesis using main_reads [OF assms(1,2)] by simp
qed

theorem interrupt_waits_for_read_witness:
  "binlogdumpK_main stopped_topic sample_dumpenv std_wire (bExit_at (\<lambda>i. if i < 2 then [] else [SIGINT])) sample_argv = None"
proof -
  obtain topic raw where a: "main_args sample_argv = Go (topic, raw)" "tableName topic = [''a'', ''b'']"
    by (rule sample_dump_args)
  define signals :: "nat \<Rightarrow> int list" where "signals = (\<lambda>i. if i < 2 then [] else [SIGINT])"
  define st0 where "st0 = \<lparr>d_reader = stopped_start, d_stat = gbStat,
      d_out = sample_hello (cstr (bootstrap topic)) (cstr (topicName topic)) (groupIdNum topic), d_err = PintfArg topic\<rparr>"
  obtain st where p: "dump_pass (Read stopped_topic) sample_dumpenv std_wire topic raw st0 = Some (Continue st)"
    and r: "d_reader st = stopped_later"
    using stopped_first a(2)
    by (cases "PrintSql sample_dumpenv std_wire raw (Some ''one'') 3 gbStat")
      (auto simp: dump_pass_def st0_def ERR_NO_ERROR_def Let_def)
  have "\<not> bExit_at signals 0" by (simp add: bExit_at_iff signals_def)
  then have run: "dump_steps (Read stopped_topic) sample_dumpenv std_wire topic raw (bExit_at signals) 0 st0 (Suc 0) st"
    using p by (intro dump_steps.pass [OF _ p] dump_steps.stay)
  have q: "\<forall>i \<le> Suc 0. SIGINT \<notin> set (signals i)" by (simp add: signals_def)
  have "m_consumer (d_reader st) \<in> {[]}" "m_logOffset (d_reader st) \<noteq> []"
    "floods stopped_topic {[]} (tableName topic) \<or> stalls stopped_topic {[]} (m_logOffset (d_reader st)) \<and>
       length (m_readOffSet (d_reader st)) = length (m_logOffset (d_reader st))"
    using stopped_stalls unfolding r by (simp_all add: stopped_later_def)
  from interrupt_waits_for_read [OF a(1) stopped_begins run [unfolded st0_def] q this]
  show ?thesis unfolding signals_def .
qed

text \<open>
  C9: The heap buffers of a CMsgRW object: after any sequence of its public methods, each buffer
  it has allocated but the current one has been deleted, exactly once, and once its destructor
  has run the current one too; no allocation is ever lost and none is deleted twice.
\<close>

theorem buffers_released_once:
  assumes "rw_reach C W (rw, st)" and "env_ok C" and "texts_short C"
  shows "heap_run (m_heap_calls rw) None = Some (map_option length (m_heap rw)) \<and>
    heap_run (m_heap_calls (CMsgRW_destroy rw)) None = Some None"
proof -
  have "rw_inv (rw, st)" by (rule rw_reach_inv [OF assms])
  then have "heap_ok rw" "rw_ok rw" using rw_invD by blast+
  then show ?thesis using heap_ok_destroy by (simp add: heap_ok_def)
qed

theorem buffers_released_once_witness:
  "\<exists>rw st. MsgRW_ReadPacket sample_env (CMsgRW sample_env)
      (sample_sock [RData (packet (replicate 1025 CHR ''a''))]) = Ret (1025, rw, st) \<and> 
    m_lenbuf rw = 1027 \<and> heap_run (m_heap_calls (CMsgRW_destroy rw)) None = Some None"
proof -
  define s where "s = sample_sock [RData (packet (replicate 1025 CHR ''a''))]"
  have ok: "sock_ok s" "proper (s_in s)" "avail (s_in s) = packet (replicate 1025 CHR ''a'') @ []"
    by (auto simp: s_def sample_sock_def sample_out_def sock_ok_def proper_def packet_def int_range_def EINTR_def)
  obtain rw st where r: "MsgRW_ReadPacket sample_env (CMsgRW sample_env) s = Ret (1025, rw, st)" "m_lenbuf rw = 1027"
    using ReadPacket_received [OF CMsgRW_ok [OF sample_env_ok] sample_env_ok ok(2,3)]
    by (auto simp: MAX_ADM_PKG_def one_past_def CMsgRW_def)
  have "rw_reach sample_env std_wire (rw, st)"
    by (rule rw_reach.step [OF rw_reach.start [OF ok(1)] rw_step.read_packet [OF r(1)]])
  from buffers_released_once [OF this sample_env_ok sample_texts_short] r show ?thesis unfolding s_def by blast
qed

text \<open>
  C10: ReadPacket, on a reader in its invariant, returns the length of a packet of at most
  MAX_ADM_PKG bytes, whatever chunks and interruptions it arrives in, unless the packet is above
  1024 bytes and exactly as long as the heap buffer the reader already has (then it overflows):
  the bytes are in the buffer followed by a NUL, the invariant of the reader holds, and the
  stream stands right behind the packet.
\<close>

theorem packet_received:
  assumes "rw_ok rw" and "env_ok C" and "proper (s_in st)"
    and "avail (s_in st) = packet payload @ rest" and "int (length payload) \<le> MAX_ADM_PKG"
    and "\<not> one_past rw (int (length payload))"
  shows "\<exists>rw' st'. MsgRW_ReadPacket C rw st = Ret (int (length payload), rw', st') \<and>
    take (m_lenmsg rw') (m_msgbuf rw') = payload \<and> m_msgbuf rw' ! length payload = CHR 0x00 \<and>
    rw_ok rw' \<and> same_out st st' \<and> avail (s_in st') = rest"
proof -
  obtain rw' st' where r: "MsgRW_ReadPacket C rw st = Ret (int (length payload), rw', st')"
    and h: "holds rw' payload" "rw_ok rw'" "same_out st st'" "avail (s_in st') = rest"
    using ReadPacket_received [OF assms] by blast
  then show ?thesis by (auto simp: holds_def)
qed

theorem packet_received_witness:
  "\<exists>rw' st'. MsgRW_ReadPacket sample_env (CMsgRW sample_env)
      (sample_sock (sample_script ''ping'')) = Ret (4, rw', st') \<and>
    take (m_lenmsg rw') (m_msgbuf rw') = ''ping'' \<and> m_msgbuf rw' ! length ''ping'' = CHR 0x00 \<and> avail (s_in st') = []"
  using packet_received [OF CMsgRW_ok [OF sample_env_ok] sample_env_ok, of
      "sample_sock (sample_script ''ping'')" "''ping''" "[]"]
  by (auto simp: sample_sock_def sample_script_proper MAX_ADM_PKG_def one_past_def LEN_ADM_PKG_def)

text \<open>
  C11: When the whole packet is there, ReadPacket writes its NUL outside the buffer exactly when
  the reader has a heap buffer from an earlier packet and the new length, above LEN_ADM_PKG,
  equals that buffer's size: the test len > m_lenbuf forgets the byte for the NUL.
\<close>

theorem overflow_iff:
  assumes "rw_ok rw" and "env_ok C" and "proper (s_in st)"
    and "avail (s_in st) = packet payload @ rest" and "int (length payload) \<le> MAX_ADM_PKG"
  shows "MsgRW_ReadPacket C rw st = Overflow \<longleftrightarrow>
    1024 < length payload \<and> length payload = m_lenbuf rw"
proof (cases "one_past rw (int (length payload))")
  case True
  then show ?thesis using ReadPacket_one_past [OF assms]
    by (simp add: one_past_def LEN_ADM_PKG_def)
next
  case False
  then show ?thesis using ReadPacket_received [OF assms False]
    by (auto simp: one_past_def LEN_ADM_PKG_def)
qed

theorem overflow_iff_witness:
  "MsgRW_ReadPacket sample_env (CMsgRW sample_env) (sample_sock (sample_script ''ping'')) = Overflow \<longleftrightarrow>
    1024 < length ''ping'' \<and> length ''ping'' = m_lenbuf (CMsgRW sample_env)"
  by (rule overflow_iff [OF CMsgRW_ok [OF sample_env_ok] sample_env_ok, where rest = "[]"])
    (simp_all add: sample_sock_def sample_script_proper MAX_ADM_PKG_def)

text \<open>
  C12: ExecuteCommand for a command other than get_metrics (in any case of letters), once it has
  connected, against a server that accepts the login and answers the command by a result, all
  texts in UTF-8, the answers in packets of at most 1 MiB: it returns 0 and prints the OK line
  and every pair when the answer's return code is OK in any case of letters, and returns 1 and
  prints the answer's message otherwise; login and command have gone out in full.
\<close>

theorem command_is_executed:
  assumes "wire_format W" and "header_ok W" and "text_ok W CMD_LOGIN"
    and "pairs_ok W [(''password'', pwd)]"
    and "0 \<le> GetSock (CAdmClient (c_strerror C) (ses_net S) (ses_err S) ip port pwd)"
    and "F = MsgCmd_Serialize W (command_message CMD_LOGIN [(''password'', pwd)])" "len_ok (length F)"
    and "text_ok W cmd" "pairs_ok W params" "G = MsgCmd_Serialize W (command_message cmd params)"
      "len_ok (length G)" "\<not> strcasecmp_eq cmd CMD_GET_METRICS"
    and "lets_packet (length F) (s_out (ses_sock S)) evs1" "lets_packet (length G) evs1 evs2"
    and "MsgResult_valid W r" "mr_msg_header r = Some (MakeMsgHdr MsgType_Result)"
      "strcasecmp_eq (mr_rc r) RC_OK"
    and "MsgResult_valid W m" "mr_msg_header m = Some (MakeMsgHdr MsgType_Result)"
      "MsgResult_Serialize W m \<noteq> []" "int (length (MsgResult_Serialize W m)) \<le> MAX_ADM_PKG"
    and "arrives C (CMsgRW C) (ses_sock S) (MsgResult_Serialize W r)
      (packet (MsgResult_Serialize W m) @ rest)"
  shows "\<exists>st'. ExecuteCommand C W fmt S ip port pwd timeoutS cmd params =
      (if strcasecmp_eq (mr_rc m) RC_OK then Ret (0, show_result (ses_now S) m, st')
       else Ret (1, cstr (mr_msg m) @ nl, st')) \<and>
    sent_more (ses_sock S) (packet F @ packet G) st' \<and> avail (s_in st') = rest"
  by (rule wire_format.ExecuteCommand_answered [OF assms])

theorem command_is_executed_witness:
  "\<exists>st'. ExecuteCommand sample_env std_wire (\<lambda>_. ''0'') sample_session ''127.0.0.1'' 9876 ''qdecoder'' 5
      ''get_stat'' [(''1'', ''get_stat'')]
    = Ret (1, ''given a invalid password'' @ nl, st') \<and>
    sent_more (ses_sock sample_session) (packet sample_login @ packet sample_cmd) st' \<and> avail (s_in st') = []"
proof -
  have m: "MsgResult_valid std_wire sample_refusal"
    "mr_msg_header sample_refusal = Some (MakeMsgHdr MsgType_Result)"
    "MsgResult_Serialize std_wire sample_refusal \<noteq> []"
    "int (length (MsgResult_Serialize std_wire sample_refusal)) \<le> MAX_ADM_PKG"
    using sample_refusal_facts sample_answer_lengths by (auto simp: MAX_ADM_PKG_def)
  show ?thesis
    using command_is_executed [OF std.wire_format_axioms header_ok_std
        sample_login_facts(1) sample_password sample_session_connects sample_login_facts(3) [unfolded sample_pwd]
        sample_login_facts(4) sample_cmd_facts sample_not_metrics sample_session_out sample_answer_facts m
        sample_session_in, of "\<lambda>_. ''0''" 5] sample_refusal_facts(3)
    by (simp add: sample_refusal_message)
qed

text \<open>
  C13: SocketRead depends only on the bytes that arrive and on how the stream ends, not on how
  they are cut or interrupted: with enough bytes it returns len and exactly the first len bytes;
  otherwise it blocks, or returns 0 when the peer has closed, or -1 with the error text of the
  failing call, having stored what came.
\<close>

theorem read_is_chunk_independent:
  assumes "proper (s_in st)" and "0 \<le> len"
  shows "case SocketRead strerr len err st of
      None \<Rightarrow> int (length (avail (s_in st))) < len \<and> ending (s_in st) = Blocks
    | Some (iRet, got, err', st') \<Rightarrow> same_out st st' \<and> got = take (nat len) (avail (s_in st)) \<and>
        (if len \<le> int (length (avail (s_in st))) then
           iRet = len \<and> err' = err \<and> avail (s_in st') = drop (nat len) (avail (s_in st)) \<and>
           ending (s_in st') = ending (s_in st)
         else if ending (s_in st) = Closed then iRet = 0 \<and> err' = err
         else \<exists>e. ending (s_in st) = Failed e \<and> iRet = -1 \<and>
           err' = overwrite err (GetSysErrorInfo strerr e))"
proof (cases "len \<le> int (length (avail (s_in st)))")
  case True
  then have "nat len \<le> length (avail (s_in st))" by simp
  with True SocketRead_outcome [OF assms, of strerr err] show ?thesis
    by (auto simp: read_outcome_def Let_def)
next
  case False
  then have "\<not> nat len \<le> length (avail (s_in st))" using assms(2) by simp
  with False SocketRead_outcome [OF assms, of strerr err] show ?thesis
    by (cases "ending (s_in st)") (auto simp: read_outcome_def Let_def)
qed

theorem read_is_chunk_independent_witness:
  "SocketRead (\<lambda>_. []) 3 [] (sample_sock [RData ''a'', RErr EINTR, RData ''bcd'', REof])
     = Some (3, ''abc'', [], sample_sock [RData ''d'', REof]\<lparr>s_errno := EINTR\<rparr>) \<and>
   (\<exists>st'. SocketRead (\<lambda>_. []) 3 [] (sample_sock [RData ''a'', REof]) = Some (0, ''a'', [], st'))"
proof -
  have "proper (s_in (sample_sock [RData ''a'', REof]))" by (simp add: sample_sock_def proper_def)
  from read_is_chunk_independent [OF this, where len = 3 and strerr = "\<lambda>_. []" and err = "[]"]
  have "\<exists>st'. SocketRead (\<lambda>_. []) 3 [] (sample_sock [RData ''a'', REof]) = Some (0, ''a'', [], st')"
    by (cases "SocketRead (\<lambda>_. []) 3 [] (sample_sock [RData ''a'', REof])")
      (auto simp: sample_sock_def)
  moreover have "SocketRead (\<lambda>_. []) 3 [] (sample_sock [RData ''a'', RErr EINTR, RData ''bcd'', REof])
     = Some (3, ''abc'', [], sample_sock [RData ''d'', REof]\<lparr>s_errno := EINTR\<rparr>)"
    by (simp add: SocketRead_def SocketRead_loop.simps recv.simps sample_sock_def)
  ultimately show ?thesis by blast
qed

text \<open>
  C14: PrintSql on a serialized entry: it prints the entry (without its storevalue, unless raw
  output is asked for) and the message the storevalue holds, parsed as the kind of the entry
  says, and counts a row change under its event type.
\<close>

theorem print_sql_shows_entry:
  assumes wf: "wire_format W" and e: "Entry_valid W e"
  shows "(en_entrytype e = Some ROWDATA \<longrightarrow> RowChange_valid W c \<longrightarrow> en_storevalue e = RowChange_Serialize W c \<longrightarrow>
      PrintSql D W printRaw (Some (Entry_Serialize W e)) (int (length (Entry_Serialize W e))) stat
        = (0, shown_entry D printRaw e (text_change D c), count_row (eventtype c) stat)) \<and>
    (en_entrytype e = Some TRANSACTIONBEGIN \<longrightarrow> TransactionBegin_valid W b \<longrightarrow>
      en_storevalue e = TransactionBegin_Serialize W b \<longrightarrow>
      PrintSql D W printRaw (Some (Entry_Serialize W e)) (int (length (Entry_Serialize W e))) stat
        = (0, shown_entry D printRaw e (text_begin D b), stat)) \<and>
    (en_entrytype e = Some TRANSACTIONEND \<longrightarrow> TransactionEnd_valid W t \<longrightarrow>
      en_storevalue e = TransactionEnd_Serialize W t \<longrightarrow>
      PrintSql D W printRaw (Some (Entry_Serialize W e)) (int (length (Entry_Serialize W e))) stat
        = (0, shown_entry D printRaw e (text_end D t), stat))"
  using parse_entry_messages [OF wf] e Entry_Serialize_nonempty [OF wf]
  by (auto simp: PrintSql_def parse_or_Some shown_entry_def entrytype_def dump_codes Let_def)

theorem print_sql_shows_entry_witness:
  "PrintSql sample_dumpenv std_wire False (Some (Entry_Serialize std_wire sample_entry))
     (int (length (Entry_Serialize std_wire sample_entry))) gbStat
   = (0, shown_entry sample_dumpenv False sample_entry (text_change sample_dumpenv sample_change),
      gbStat\<lparr>TotalRows := 1, UpdateCnt := 1\<rparr>)"
  using print_sql_shows_entry [OF std.wire_format_axioms sample_entry_valid,
      where c = sample_change and D = sample_dumpenv and printRaw = False and stat = gbStat]
    sample_change_valid
  by (simp add: sample_entry_def sample_change_def eventtype_def count_row_def gbStat_def dump_codes)

text \<open>
  C15: Whenever the reading loop ends, and however a signal or an error ends it, its output is,
  call by call, what Read printed itself followed by the payload it delivered, each printed once
  and in order, and last what a failing call of Read printed; and its statistics are those of
  exactly these payloads.
\<close>

theorem loop_prints_deliveries:
  assumes "dump_loop (Read K) D W topic printRaw sigint i st = Some (Ret st')"
  shows "\<exists>evs rd out. delivered (Read K) topic (d_reader st) evs rd \<and> last_words (Read K) (tableName topic) rd out \<and>
    d_out st' = d_out st @ fst (print_all D W printRaw evs (d_stat st)) @ out \<and>
    d_stat st' = fold count_row (List.map_filter (row_event D W) (payloads evs)) (d_stat st)"
proof -
  obtain j st1 where s: "dump_steps (Read K) D W topic printRaw sigint i st j st1"
    and e: "dump_ends (Read K) D W topic printRaw sigint j st1 (Ret st')"
    using assms unfolding dump_loop_iff by blast
  obtain evs where d: "delivered (Read K) topic (d_reader st) evs (d_reader st1)"
    and st1: "st1 = printed D W printRaw evs (d_reader st1) st"
    using kafka.dump_steps_print [OF s] by blast
  have "d_out st1 = d_out st @ fst (print_all D W printRaw evs (d_stat st))"
    "d_stat st1 = snd (print_all D W printRaw evs (d_stat st))"
    by (subst st1, simp add: printed_def)+
  with d dump_ends_keep [OF e] show ?thesis unfolding print_all_stat by (metis append.assoc)
qed

theorem loop_prints_deliveries_witness:
  "\<exists>evs rd out. delivered (Read sample_topic) (default_topic\<lparr>tableName := [''a'', ''b'']\<rparr>)
       (d_reader sample_dump_start) evs rd \<and>
     fst (print_all sample_dumpenv std_wire False ((sample_said, None) # silently [''one'', ''three'']) gbStat)
       = fst (print_all sample_dumpenv std_wire False evs gbStat) @ out"
proof -
  obtain rd' where "dump_loop (Read sample_topic) sample_dumpenv std_wire
      (default_topic\<lparr>tableName := [''a'', ''b'']\<rparr>) False (\<lambda>_. False) 0 sample_dump_start
    = Some (Ret (printed sample_dumpenv std_wire False ((sample_said, None) # silently [''one'', ''three'']) rd'
        sample_dump_start))"
    using sample_topic_loop by blast
  from loop_prints_deliveries [OF this] show ?thesis
    by (simp add: printed_def sample_dump_start_def) metis
qed

text \<open>
  C16: The overflow is reachable from a new reader by a peer alone: after a packet of n bytes,
  1024 < n, a packet of n + 2 bytes makes ReadPacket write one byte past the heap buffer.
\<close>

theorem second_packet_overflows:
  assumes "env_ok C" and "proper (s_in st)" and "1024 < length p" and "length q = length p + 2"
    and "int (length q) \<le> MAX_ADM_PKG" and "avail (s_in st) = packet p @ packet q @ rest"
  shows "\<exists>rw1 st1. MsgRW_ReadPacket C (CMsgRW C) st = Ret (int (length p), rw1, st1) \<and>
    MsgRW_ReadPacket C rw1 st1 = Overflow"
proof -
  have np: "\<not> one_past (CMsgRW C) (int (length p))"
    using assms(3) by (auto simp: one_past_def CMsgRW_def)
  have "int (length p) \<le> MAX_ADM_PKG" using assms(4,5) by simp
  moreover have "m_lenbuf (CMsgRW C) < length p" using assms(3) by (auto simp: CMsgRW_def)
  moreover note ReadPacket_received [OF CMsgRW_ok [OF assms(1)] assms(1,2,6) _ np]
  ultimately obtain rw1 st1 where r: "MsgRW_ReadPacket C (CMsgRW C) st = Ret (int (length p), rw1, st1)"
    and o: "rw_ok rw1" "proper (s_in st1)" "avail (s_in st1) = packet q @ rest"
      "m_lenbuf rw1 = length p + 2"
    using assms(3) by fastforce
  have "one_past rw1 (int (length q))"
    using assms(3,4) o(4) by (simp add: one_past_def LEN_ADM_PKG_def)
  then show ?thesis using ReadPacket_one_past [OF o(1) assms(1) o(2,3) assms(5)] r by blast
qed

theorem second_packet_overflows_witness:
  "\<exists>rw1 st1. MsgRW_ReadPacket sample_env (CMsgRW sample_env)
      (sample_sock [RData (packet (replicate 1025 CHR ''a'')), RData (packet (replicate 1027 CHR ''a''))])
      = Ret (1025, rw1, st1) \<and> MsgRW_ReadPacket sample_env rw1 st1 = Overflow"
  using second_packet_overflows [OF sample_env_ok, of
      "sample_sock [RData (packet (replicate 1025 CHR ''a'')), RData (packet (replicate 1027 CHR ''a''))]"
      "replicate 1025 CHR ''a''" "replicate 1027 CHR ''a''" "[]"]
  by (simp add: sample_sock_def proper_def MAX_ADM_PKG_def)

text \<open>
  C17: Read and the messages it takes: the messages the consumer hands out during one call of
  Read are some that are passed over (time-outs, and error-free messages with a key that is none
  of the filter keys) and one last message, which determines the result. A message is returned
  with the code ERR_NO_ERROR and is the payload of that last message, which is error-free and
  has a key that passes the filter; otherwise the code follows from the last message's error,
  ERR__FAIL standing for a message without a key, for an unknown error and for a failing query
  of the positions. So no call loses a message or returns an older one.
\<close>

theorem read_delivers_filtered_message:
  assumes "Read K filterKeys rd = Some (Ret (rc, msg), said, rd')"
  shows "\<exists>skipped m. handed_out K (m_consumer rd) (skipped @ [m]) (m_consumer rd') \<and>
    (\<forall>x \<in> set skipped. k_err x = ERR__TIMED_OUT \<or>
       k_err x = ERR_NO_ERROR \<and> (\<exists>key. k_key x = Some key \<and> filterKeys \<noteq> [] \<and> key \<notin> set filterKeys)) \<and>
    (case msg of
       Some bs \<Rightarrow> rc = ERR_NO_ERROR \<and> k_err m = ERR_NO_ERROR \<and> bs = k_payload m \<and>
         (\<exists>key. k_key m = Some key \<and> (filterKeys = [] \<or> key \<in> set filterKeys))
     | None \<Rightarrow>
         (if k_err m = ERR__TIMED_OUT then rc = ERR__TIMED_OUT \<or> rc = ERR__FAIL
          else if k_err m = ERR_NO_ERROR then k_key m = None \<and> rc = ERR__FAIL
          else if k_err m = ERR__PARTITION_EOF then rc = ERR__PARTITION_EOF
          else if k_err m = ERR__UNKNOWN_TOPIC \<or> k_err m = ERR__UNKNOWN_PARTITION then rc = ERR__UNKNOWN_PARTITION
          else rc = ERR__FAIL))"
  using Read_hands [OF assms] unfolding passed_over_def ends_with_def .

theorem read_delivers_filtered_message_witness:
  "\<exists>skipped m. handed_out (sample_consumer 0) (m_consumer sample_kreader) (skipped @ [m]) (m_consumer sample_kreader_after) \<and>
     ''two'' = k_payload m \<and> k_key m = Some ''t2''"
proof -
  have "Read (sample_consumer 0) [''t2''] sample_kreader
      = Some (Ret (ERR_NO_ERROR, Some ''two''), sample_said, sample_kreader_after)"
    by (rule sample_read)
  from read_delivers_filtered_message [OF this] show ?thesis by auto
qed

text \<open>
  C18: The result message: every valid MsgResult that is written to an array is parsed back as
  exactly that message, and ByteSizeLong announces exactly the number of bytes written.
\<close>

theorem MsgResult_roundtrip:
  assumes "wire_format W" and "MsgResult_valid W m"
  shows "parse_bytes (MsgResult_MergePartial W) MsgResult_Clear m0 (MsgResult_SerializeToArray W m []) = Some m \<and>
    MsgResult_ByteSize W m = length (MsgResult_SerializeToArray W m [])"
  using message_codec.roundtrip [OF wire_format.MsgResult_codec [OF assms(1)] assms(2)]
    message_codec.size_exact [OF wire_format.MsgResult_codec [OF assms(1)] assms(2)]
  by (simp add: message_codec.array_exact [OF wire_format.MsgResult_codec [OF assms(1)]])

theorem MsgResult_roundtrip_witness:
  "parse_bytes (MsgResult_MergePartial std_wire) MsgResult_Clear MsgResult_SharedCtor (MsgResult_SerializeToArray std_wire sample_answer [])
     = Some sample_answer \<and>
   MsgResult_ByteSize std_wire sample_answer = length (MsgResult_SerializeToArray std_wire sample_answer [])"
  by (rule MsgResult_roundtrip [OF std.wire_format_axioms sample_answer_facts(1)])

text \<open>
  C19: The entry of the binlog: every valid Entry, with its header and whichever optional
  members are set, that is written to an array is parsed back as exactly that entry, and
  ByteSizeLong announces exactly the number of bytes written.
\<close>

theorem Entry_roundtrip:
  assumes "wire_format W" and "Entry_valid W e"
  shows "parse_bytes (Entry_MergePartial W) Entry_Clear e0 (Entry_SerializeToArray W e []) = Some e \<and>
    Entry_ByteSize W e = length (Entry_SerializeToArray W e [])"
  using parse_entry_messages(1) [OF assms] wire_format.Entry_array [OF assms(1), of e "[]"]
    wire_format.Entry_size [OF assms]
  by simp

theorem Entry_roundtrip_witness:
  "parse_bytes (Entry_MergePartial std_wire) Entry_Clear Entry_SharedCtor
     (Entry_SerializeToArray std_wire sample_entry []) = Some sample_entry"
  using Entry_roundtrip [OF std.wire_format_axioms sample_entry_valid] by blast

text \<open>
  C20: The end of the wait mode. When the reading loop returns, it has printed a number of
  readings of Read (messages and time-outs, which never end it), one per pass, and no interrupt
  had been handled before any of the tests of bExit those passes made. Then either an interrupt
  has been handled before the next test, and the loop leaves at that test with nothing added to
  standard error; or none has, and the call of Read in the next pass returned an error other
  than a time-out: that code is reported on standard error, and what this call printed is on
  standard output. And an interrupt does end the loop, as long as every call of Read returns.
\<close>

theorem wait_mode_ends:
  assumes "waitMode topic"
  shows "(dump_loop (Read K) D W topic printRaw (bExit_at signals) i st = Some (Ret st') \<longrightarrow>
      (\<exists>evs rd1. delivered (Read K) topic (d_reader st) evs rd1 \<and>
        (evs \<noteq> [] \<longrightarrow> (\<forall>n < i + length evs. SIGINT \<notin> set (signals n))) \<and>
        ((\<exists>n \<le> i + length evs. SIGINT \<in> set (signals n)) \<and> st' = printed D W printRaw evs rd1 st \<and> d_err st' = d_err st \<or>
         (\<forall>n \<le> i + length evs. SIGINT \<notin> set (signals n)) \<and>
           (\<exists>ret said rd2. Read K (tableName topic) rd1 = Some (Ret (ret, None), said, rd2) \<and>
              ret \<noteq> ERR_NO_ERROR \<and> ret \<noteq> ERR__TIMED_OUT \<and>
              st' = (printed D W printRaw evs rd1 st)\<lparr>d_reader := rd2,
                d_out := d_out (printed D W printRaw evs rd1 st) @ said,
                d_err := d_err st @ ''read kafka err: '' @ int_dec ret @ newline\<rparr>)))) \<and>
    ((\<forall>rd. Read K (tableName topic) rd \<noteq> None) \<and> SIGINT \<in> set (signals n) \<longrightarrow>
      (\<exists>res. dump_loop (Read K) D W topic printRaw (bExit_at signals) i st = Some res))"
proof (intro conjI impI)
  have err: "d_err (printed D W printRaw evs rd1 st) = d_err st" for evs rd1 by (simp add: printed_def)
  assume "dump_loop (Read K) D W topic printRaw (bExit_at signals) i st = Some (Ret st')"
  from wait_mode_left [OF assms this] show "\<exists>evs rd1. delivered (Read K) topic (d_reader st) evs rd1 \<and>
        (evs \<noteq> [] \<longrightarrow> (\<forall>n < i + length evs. SIGINT \<notin> set (signals n))) \<and>
        ((\<exists>n \<le> i + length evs. SIGINT \<in> set (signals n)) \<and> st' = printed D W printRaw evs rd1 st \<and> d_err st' = d_err st \<or>
         (\<forall>n \<le> i + length evs. SIGINT \<notin> set (signals n)) \<and>
           (\<exists>ret said rd2. Read K (tableName topic) rd1 = Some (Ret (ret, None), said, rd2) \<and>
              ret \<noteq> ERR_NO_ERROR \<and> ret \<noteq> ERR__TIMED_OUT \<and>
              st' = (printed D W printRaw evs rd1 st)\<lparr>d_reader := rd2,
                d_out := d_out (printed D W printRaw evs rd1 st) @ said,
                d_err := d_err st @ ''read kafka err: '' @ int_dec ret @ newline\<rparr>))"
    unfolding failed_read_def err using err by blast
next
  assume "(\<forall>rd. Read K (tableName topic) rd \<noteq> None) \<and> SIGINT \<in> set (signals n)"
  then have all: "\<And>rd. Read K (tableName topic) rd \<noteq> None" and "SIGINT \<in> set (signals n)" by blast+
  then have "bExit_at signals (max i n)" unfolding bExit_at_iff by (intro exI [of _ n]) simp
  moreover have "i \<le> max i n" by simp
  ultimately have "dump_loop (Read K) D W topic printRaw (bExit_at signals) i st \<noteq> None"
    using dump_loop_interrupted [where read = "Read K" and topic = topic and sigint = "bExit_at signals", OF all] by blast
  then show "\<exists>res. dump_loop (Read K) D W topic printRaw (bExit_at signals) i st = Some res" by blast
qed

theorem wait_mode_ends_witness:
  "(\<exists>evs rd1 ret said rd2. delivered (Read (sample_consumer 0)) (default_topic\<lparr>waitMode := True\<rparr>) sample_eof evs rd1 \<and>
      Read (sample_consumer 0) [] rd1 = Some (Ret (ret, None), said, rd2) \<and> ret \<noteq> ERR__TIMED_OUT \<and>
      ''read kafka err: -191'' @ newline = ''read kafka err: '' @ int_dec ret @ newline) \<and>
   (\<exists>res. dump_loop (Read broken_topic) sample_dumpenv std_wire (default_topic\<lparr>waitMode := True\<rparr>) False
      (bExit_at (\<lambda>i. if i = 3 then [SIGINT] else [])) 0 broken_start = Some res)"
proof
  have b: "bExit_at (\<lambda>_. []) = (\<lambda>_. False)" by (simp add: fun_eq_iff bExit_at_iff)
  have w: "waitMode (default_topic\<lparr>waitMode := True\<rparr>)" by simp
  have t: "tableName (default_topic\<lparr>waitMode := True\<rparr>) = []" by (simp add: default_topic_def)
  show "\<exists>evs rd1 ret said rd2. delivered (Read (sample_consumer 0)) (default_topic\<lparr>waitMode := True\<rparr>) sample_eof evs rd1 \<and>
      Read (sample_consumer 0) [] rd1 = Some (Ret (ret, None), said, rd2) \<and> ret \<noteq> ERR__TIMED_OUT \<and>
      ''read kafka err: -191'' @ newline = ''read kafka err: '' @ int_dec ret @ newline"
    using conjunct1 [OF wait_mode_ends [OF w, where signals = "\<lambda>_. []"], THEN mp, OF sample_eof_loop [folded b]]
    unfolding t
  proof (elim exE conjE disjE)
    fix evs rd1 ret said rd2 st'
    assume d: "delivered (Read (sample_consumer 0)) (default_topic\<lparr>waitMode := True\<rparr>)
        (d_reader \<lparr>d_reader = sample_eof, d_stat = gbStat, d_out = [], d_err = []\<rparr>) evs rd1"
      "Read (sample_consumer 0) [] rd1 = Some (Ret (ret, None), said, rd2)" "ret \<noteq> ERR__TIMED_OUT"
      and e: "\<lparr>d_reader = sample_eof_after, d_stat = gbStat, d_out = [], d_err = ''read kafka err: -191'' @ newline\<rparr> = st'\<lparr>d_reader := rd2,
                d_out := d_out st' @ said,
                d_err := d_err \<lparr>d_reader = sample_eof, d_stat = gbStat, d_out = [], d_err = []\<rparr> @
                  ''read kafka err: '' @ int_dec ret @ newline\<rparr>"
    have "''read kafka err: -191'' @ newline = ''read kafka err: '' @ int_dec ret @ newline"
      using arg_cong [OF e, of d_err] by simp
    with d show ?thesis
      by (intro exI [of _ evs] exI [of _ rd1] exI [of _ ret] exI [of _ said] exI [of _ rd2] conjI) simp_all
  qed auto
  show "\<exists>res. dump_loop (Read broken_topic) sample_dumpenv std_wire (default_topic\<lparr>waitMode := True\<rparr>) False
      (bExit_at (\<lambda>i. if i = 3 then [SIGINT] else [])) 0 broken_start = Some res"
    by (rule conjunct2 [OF wait_mode_ends [OF w, where n = 3], THEN mp]) (simp add: broken_returns)
qed

text \<open>
  C21: The statistics after a list of readings, printed from the start: the number of payloads
  that hold a row change, and of those whose event type is INSERT, UPDATE and DELETE, each
  modulo 2 to the 64; so their sum never passes the total as long as there are fewer than 2 to
  the 64 payloads.
\<close>

theorem statistics_count_rows:
  "(let evs = List.map_filter (row_event D W) (payloads rs); s = snd (print_all D W printRaw rs gbStat) in
     s = \<lparr>TotalRows = word_of_nat (length evs), InsertCnt = word_of_nat (count_list evs EV_INSERT),
           UpdateCnt = word_of_nat (count_list evs EV_UPDATE), DeleteCnt = word_of_nat (count_list evs EV_DELETE)\<rparr> \<and>
     (length (payloads rs) < 2 ^ 64 \<longrightarrow>
        unat (InsertCnt s) + unat (UpdateCnt s) + unat (DeleteCnt s) \<le> unat (TotalRows s)))"
proof -
  define evs where "evs = List.map_filter (row_event D W) (payloads rs)"
  have s: "snd (print_all D W printRaw rs gbStat) =
      \<lparr>TotalRows = word_of_nat (length evs), InsertCnt = word_of_nat (count_list evs EV_INSERT),
        UpdateCnt = word_of_nat (count_list evs EV_UPDATE), DeleteCnt = word_of_nat (count_list evs EV_DELETE)\<rparr>"
    by (simp add: print_all_stat fold_count_row evs_def gbStat_def)
  have "length evs < 2 ^ 64" if "length (payloads rs) < 2 ^ 64"
    using that length_row_events [of D W "payloads rs"] unfolding evs_def by simp
  with counts_within_total show ?thesis
    unfolding Let_def evs_def [symmetric] s by simp
qed

theorem statistics_count_rows_witness:
  "unat (InsertCnt (snd (print_all sample_dumpenv std_wire False sample_readings gbStat))) +
   unat (UpdateCnt (snd (print_all sample_dumpenv std_wire False sample_readings gbStat))) +
   unat (DeleteCnt (snd (print_all sample_dumpenv std_wire False sample_readings gbStat)))
     \<le> unat (TotalRows (snd (print_all sample_dumpenv std_wire False sample_readings gbStat)))"
proof -
  have "length (payloads sample_readings) < 2 ^ 64" by (simp add: sample_readings_def)
  with statistics_count_rows [where D = sample_dumpenv and W = std_wire and printRaw = False and rs = sample_readings]
  show ?thesis unfolding Let_def by blast
qed

text \<open>
  C22: The parse loop of the generated classes, an endless for loop, ends on every input and
  from every message for each of the eight classes of a binlog entry, the nested ones included:
  the loop without a bound has a result, and it is the one the model's bounded parser gives. (A
  None inside is a failing parse; a loop that runs for ever would be the outer None.)
\<close>

theorem parsing_terminates:
  assumes "wire_format W"
  shows "for_ever W (Entry_switch W) Entry_add_unknown e bs = Some (Entry_MergePartial W e bs) \<and>
    for_ever W (Header_switch W) Header_add_unknown h bs = Some (Header_MergePartial W h bs) \<and>
    for_ever W (EntryPair_switch W) EntryPair_add_unknown p bs = Some (EntryPair_MergePartial W p bs) \<and>
    for_ever W (RowChange_switch W) RowChange_add_unknown c bs = Some (RowChange_MergePartial W c bs) \<and>
    for_ever W (RowData_switch W) RowData_add_unknown r bs = Some (RowData_MergePartial W r bs) \<and>
    for_ever W (Column_switch W) Column_add_unknown l bs = Some (Column_MergePartial W l bs) \<and>
    for_ever W (TransactionBegin_switch W) TransactionBegin_add_unknown b bs = Some (TransactionBegin_MergePartial W b bs) \<and>
    for_ever W (TransactionEnd_switch W) TransactionEnd_add_unknown t bs = Some (TransactionEnd_MergePartial W t bs)"
  unfolding Entry_MergePartial_def Header_MergePartial_def EntryPair_MergePartial_def RowChange_MergePartial_def
    RowData_MergePartial_def Column_MergePartial_def TransactionBegin_MergePartial_def TransactionEnd_MergePartial_def
  by (intro conjI for_ever_merge [OF assms] wire_format.Entry_sw_ok [OF assms] wire_format.Header_sw_ok [OF assms]
      wire_format.EntryPair_sw_ok [OF assms] wire_format.RowChange_sw_ok [OF assms] wire_format.RowData_sw_ok [OF assms]
      wire_format.Column_sw_ok [OF assms] wire_format.TransactionBegin_sw_ok [OF assms]
      wire_format.TransactionEnd_sw_ok [OF assms])

theorem parsing_terminates_witness:
  "\<exists>r. for_ever std_wire (Entry_switch std_wire) Entry_add_unknown Entry_SharedCtor ''abc'' = Some r"
  using conjunct1 [OF parsing_terminates [OF std.wire_format_axioms]] by blast

text \<open>
  C23: When the server answers the login with any other return code, SendCommand returns -1 with
  the server's message as its error text, and nothing but the login was sent.
\<close>

theorem rejected_login_stops:
  assumes "wire_format W" and "header_ok W" and "text_ok W CMD_LOGIN"
    and "pairs_ok W [(''password'', m_pwd cl)]" and "IsConnected cl"
    and L: "F = MsgCmd_Serialize W (command_message CMD_LOGIN [(''password'', m_pwd cl)])" "len_ok (length F)"
    and out: "lets_packet (length F) (s_out st) evs1"
    and r: "MsgResult_valid W r" "mr_msg_header r = Some (MakeMsgHdr MsgType_Result)"
      "\<not> strcasecmp_eq (mr_rc r) RC_OK"
    and a: "arrives C (CMsgRW C) st (MsgResult_Serialize W r) rest"
  shows "\<exists>st'. SendCommand C W cmd kvs cl st = Ret (-1, set_m_err (mr_msg r) cl, st') \<and>
    sent_more st (packet F) st'"
proof -
  obtain st1 where "Login C W cl st = Ret (-1, set_m_err (mr_msg r) cl, st1)"
      and "sent_more st (packet F) st1"
    using wire_format.Login_answered [OF assms(1-5) L out r(1,2) a] r(3) by auto
  then show ?thesis by (auto simp: SendCommand_def)
qed

theorem rejected_login_stops_witness:
  "\<exists>st'. SendCommand sample_env std_wire ''get_stat'' [] sample_client sample_refused
      = Ret (-1, set_m_err ''given a invalid password'' sample_client, st') \<and>
    sent_more sample_refused (packet sample_login) st'"
  using rejected_login_stops [OF std.wire_format_axioms header_ok_std
        sample_login_facts(1,2) sample_connected sample_login_facts(3,4) sample_refused_out
        sample_refusal_facts sample_refused_in]
  by (simp add: sample_refusal_def result_with_def)

text \<open>
  C24: Whatever bytes come from the socket, and whatever the state of the reader: when
  ReadResult or ReadCommand returns 0, every string of the message it hands out (return code and
  text or command name, the keys and the values of all pairs) is empty or passed the UTF-8 check
  of the protobuf runtime.
\<close>

theorem accepted_strings_are_checked:
  shows "(ReadResult C W m0 rw st = Ret (0, Some m, rw', st') \<longrightarrow> result_checked W m) \<and>
    (ReadCommand C W c0 rw st = Ret (0, Some c, rw', st') \<longrightarrow> command_checked W c)"
  using ReadResult_Some ReadCommand_Some parse_result_checked parse_command_checked by metis

theorem accepted_strings_are_checked_witness:
  "\<exists>m rw' st'. ReadResult sample_env std_wire MsgResult_SharedCtor (CMsgRW sample_env)
      (sample_sock [RData (packet (MsgResult_Serialize std_wire
        (result_with ''OK'' ''pong'' [(''1'', ''get_stat'')])))]) = Ret (0, Some m, rw', st') \<and>
     result_checked std_wire m"
proof -
  define m where "m = result_with ''OK'' ''pong'' [(''1'', ''get_stat'')]"
  have v: "MsgResult_valid std_wire m"
    unfolding m_def using header_ok_std sample_texts(1,2) sample_pairs(1) by (rule result_with_valid)
  have h: "mr_msg_header m = Some (MakeMsgHdr MsgType_Result)" by (simp add: m_def result_with_def)
  have len: "length (MsgResult_Serialize std_wire m) = 27"
    by (simp add: m_def sample_reply_length)
  have "arrives sample_env (CMsgRW sample_env) (sample_sock [RData (packet (MsgResult_Serialize std_wire m))])
      (MsgResult_Serialize std_wire m) []"
    using len by (auto simp: arrives_def proper_def sample_sock_def sample_env_ok one_past_def LEN_ADM_PKG_def
      MAX_ADM_PKG_def CMsgRW_ok)
  from wire_format.ReadResult_sent [OF std.wire_format_axioms v h this, of MsgResult_SharedCtor]
  obtain rw' st' where r: "ReadResult sample_env std_wire MsgResult_SharedCtor (CMsgRW sample_env)
      (sample_sock [RData (packet (MsgResult_Serialize std_wire m))]) = Ret (0, Some m, rw', st')"
    by (auto simp: MakeMsgHdr_def)
  show ?thesis
    using r accepted_strings_are_checked [THEN conjunct1, THEN mp, OF r] unfolding m_def by blast
qed

text \<open>
  C25: What SendPacket writes, ReadPacket reads: the sender's bytes are the network-order length
  and the payload, and a reader whose stream starts with them returns the payload, whatever
  chunks it arrives in.
\<close>

theorem packet_framing_roundtrip:
  assumes "lets_packet (length payload) (s_out sd) evs" and "length payload < 2147483648"
    and "length junk = 4"
  shows "\<exists>sd'. SendPacket strerr payload (int (length payload)) err sd
      = Some (int (length payload), err, sd') \<and> sends sd (packet payload) sd' \<and>
    (\<forall>rcv rest. proper (s_in rcv) \<and> avail (s_in rcv) = packet payload @ rest \<longrightarrow>
       (\<exists>rcv'. ReadPacket strerr junk err rcv = Some (int (length payload), payload, err, rcv') \<and>
          avail (s_in rcv') = rest))"
proof -
  obtain evs1 where "lets_through 4 (s_out sd) = Some evs1" "lets_through (length payload) evs1 = Some evs"
    using assms(1) unfolding lets_packet_def by blast
  from SendPacket_sends [OF this] ReadPacket_reads [OF _ _ assms(2,3)] show ?thesis by meson
qed

theorem packet_framing_roundtrip_witness:
  "\<exists>sd'. SendPacket (\<lambda>_. []) ''ping'' 4 [] (sample_sock []) = Some (4, [], sd') \<and>
    sends (sample_sock []) (packet ''ping'') sd' \<and>
    (\<exists>rcv'. ReadPacket (\<lambda>_. []) ''junk'' [] (sample_sock (sample_script ''ping''))
      = Some (4, ''ping'', [], rcv') \<and> avail (s_in rcv') = [])"
proof -
  have out: "lets_packet (length ''ping'') (s_out (sample_sock [])) [SAccept 2000, SAccept 2000]"
    by (simp add: sample_lets)
  have rcv: "proper (s_in (sample_sock (sample_script ''ping''))) \<and>
      avail (s_in (sample_sock (sample_script ''ping''))) = packet ''ping'' @ []"
    by (simp add: sample_sock_def sample_script_proper)
  obtain sd' where "SendPacket (\<lambda>_. []) ''ping'' (int (length ''ping'')) [] (sample_sock [])
      = Some (int (length ''ping''), [], sd') \<and> sends (sample_sock []) (packet ''ping'') sd' \<and>
    (\<forall>rcv rest. proper (s_in rcv) \<and> avail (s_in rcv) = packet ''ping'' @ rest \<longrightarrow>
       (\<exists>rcv'. ReadPacket (\<lambda>_. []) ''junk'' [] rcv = Some (int (length ''ping''), ''ping'', [], rcv') \<and>
          avail (s_in rcv') = rest))"
    using packet_framing_roundtrip [OF out, of "''junk''" "\<lambda>_. []" "[]"] by auto
  with rcv show ?thesis by auto
qed

text \<open>
  C26: SocketWrite either returns the length, having sent all of the buffer, or -1 with an error
  text, having sent a proper prefix; and it does return the length whenever the socket lets the
  bytes through in the end.
\<close>

theorem write_sends_prefix:
  "(\<forall>r err' st'. SocketWrite strerr p (int (length p)) err st = Some (r, err', st') \<longrightarrow>
      r = int (length p) \<and> err' = err \<and> sends st p st' \<or>
      r = -1 \<and> (\<exists>k < length p. sends st (take k p) st') \<and>
        err' = overwrite err (GetSysErrorInfo strerr (s_errno st'))) \<and>
   (lets_through (length p) (s_out st) \<noteq> None \<longrightarrow>
      (\<exists>st'. SocketWrite strerr p (int (length p)) err st = Some (int (length p), err, st') \<and>
        sends st p st'))"
proof -
  have "\<exists>st'. SocketWrite strerr p (int (length p)) err st = Some (int (length p), err, st') \<and> sends st p st'"
    if "lets_through (length p) (s_out st) = Some evs" for evs
    using SocketWrite_enough [OF that, of strerr err] by metis
  moreover have "r = int (length p) \<and> err' = err \<and> sends st p st' \<or>
      r = -1 \<and> (\<exists>k < length p. sends st (take k p) st') \<and>
        err' = overwrite err (GetSysErrorInfo strerr (s_errno st'))"
    if "SocketWrite strerr p (int (length p)) err st = Some (r, err', st')" for r err' st'
    using SocketWrite_outcome [OF that] by (auto simp: write_outcome_def)
  ultimately show ?thesis by blast
qed

theorem write_sends_prefix_witness:
  "\<exists>st'. SocketWrite (\<lambda>_. []) ''abcdef'' 6 [] (sample_sock []) = Some (6, [], st') \<and>
     sends (sample_sock []) ''abcdef'' st'"
proof -
  have "lets_through (length ''abcdef'') (s_out (sample_sock [])) \<noteq> None"
    by (simp add: sample_sock_def sample_out_def lets_through_Cons)
  then show ?thesis
    using conjunct2 [OF write_sends_prefix [of "\<lambda>_. []" "''abcdef''" "[]" "sample_sock []"]] by simp
qed

text \<open>
  C27: When the peer closes the connection before the four header bytes are there, ReadPacket
  goes on with an uninitialised header, yet a reader that has no heap buffer never reports a
  message: it returns a value of at most 0, and m_lenmsg is 0. (With a heap buffer the junk
  header may be its length, and the NUL is written behind it.)
\<close>

theorem lost_header_gives_no_message:
  assumes "rw_ok rw" and "m_lenbuf rw = 0" and "env_ok C" and "proper (s_in st)"
    and "length (avail (s_in st)) < 4" and "ending (s_in st) = Closed"
  shows "\<exists>r rw' st'. MsgRW_ReadPacket C rw st = Ret (r, rw', st') \<and> r \<le> 0 \<and> m_lenmsg rw' = 0"
proof -
  have no: "MsgRW_ReadPacket C rw st \<noteq> Overflow"
    using ReadPacket_overflowD [OF _ assms(1,3,4)] assms(2) by (auto simp: one_past_def LEN_ADM_PKG_def)
  obtain r rw' st' where rp: "MsgRW_ReadPacket C rw st = Ret (r, rw', st')" and r: "r \<le> 0"
    using ReadPacket_closed [OF assms(1,3-6)] no by blast
  then show ?thesis using ReadPacket_ok [OF rp assms(1,4,3)] by auto
qed

theorem lost_header_gives_no_message_witness:
  "\<exists>r rw' st'. MsgRW_ReadPacket sample_env (CMsgRW sample_env) (sample_sock [RData ''ab'', REof])
      = Ret (r, rw', st') \<and> r \<le> 0 \<and> m_lenmsg rw' = 0"
  by (rule lost_header_gives_no_message [OF CMsgRW_ok [OF sample_env_ok] _ sample_env_ok])
    (simp_all add: CMsgRW_def sample_sock_def proper_def)

text \<open>
  C28: Accept looks at errno also when its calls have succeeded: after any number of interrupted
  calls of select, it returns 0 on a time-out and the descriptor accept returned on a
  connection, as it should, but it has then written the text of the interruption, or of an error
  number left over from before the call, into the error buffer; only when errno was 0 and
  nothing was interrupted (or on the time-out of the wait without limit) is the buffer left
  alone.
\<close>

theorem accept_reports_old_errors:
  assumes "interrupted ss" and "0 \<le> sel_ret s" and "\<not> sel_ex s" and "0 < sel_ret s \<longrightarrow> sel_rd s" and "fd \<noteq> -1"
  shows "Accept strerr timeoutms err e (ss @ s # rest) (fd, ea) =
    Ret (if sel_ret s = 0 then 0 else fd,
      if ss = [] \<and> e = 0 \<or> timeoutms = -1 \<and> sel_ret s = 0 then err
      else overwrite err (GetSysErrorInfo strerr (if ss = [] then e else EINTR)))"
  using assms(2,4,5) wait_forever_interrupted [OF assms(1,2)] wait_timeout_interrupted [OF assms(1-3)]
  by (cases "sel_ret s = 0") (auto simp: Accept_def Let_def EINTR_def)

theorem accept_reports_old_errors_witness:
  "Accept (\<lambda>_. ''Interrupted system call'') 5000 [] 0
     [\<lparr>sel_ret = -1, sel_errno = EINTR, sel_rd = False, sel_ex = False\<rparr>,
      \<lparr>sel_ret = 1, sel_errno = 0, sel_rd = True, sel_ex = False\<rparr>] (7, 0) =
   Ret (7, GetSysErrorInfo (\<lambda>_. ''Interrupted system call'') EINTR)"
  using accept_reports_old_errors [of "[\<lparr>sel_ret = -1, sel_errno = EINTR, sel_rd = False, sel_ex = False\<rparr>]"
      "\<lparr>sel_ret = 1, sel_errno = 0, sel_rd = True, sel_ex = False\<rparr>" 7 "\<lambda>_. ''Interrupted system call''" 5000 "[]" 0 "[]" 0]
  by (simp add: interrupted_def overwrite_def)

text \<open>
  C29: A header that announces a negative length or more than MAX_ADM_PKG bytes makes ReadPacket
  return -1 with the matching error text; nothing behind the header is read and no buffer is
  allocated.
\<close>

theorem bad_length_refused:
  assumes "env_ok C" and "proper (s_in st)" and "avail (s_in st) = htonl_bytes w @ rest"
    and "sint w < 0 \<or> MAX_ADM_PKG < sint w"
  shows "\<exists>st'. MsgRW_ReadPacket C rw st = Ret (-1, set_err
      (if sint w < 0 then ''Invalid packet data format!''
       else ''message size is too long! '' @ int_dec (sint w)) (Clear False rw), st') \<and>
    avail (s_in st') = rest \<and> same_out st st'"
  using ReadPacket_header [OF assms(2,3) length_htonl assms(1), of rw] assms(4)
  by (auto simp: Let_def)

theorem bad_length_refused_witness:
  "\<exists>st'. MsgRW_ReadPacket sample_env (CMsgRW sample_env) (sample_sock [RData (htonl_bytes (-1)), REof])
      = Ret (-1, set_err ''Invalid packet data format!'' (Clear False (CMsgRW sample_env)), st')"
  using bad_length_refused [OF sample_env_ok, of
      "sample_sock [RData (htonl_bytes (-1)), REof]" "-1" "[]" "CMsgRW sample_env"]
  by (auto simp: sample_sock_def proper_def htonl_bytes_def Let_def)

text \<open>
  C30: fillOffset asks for the assignment twice, and the library assigns partitions at any time:
  when they appear between the two calls of the first fillOffset, m_logOffset names them and
  m_readOffSet stays empty for good, and after any messages (with keys, without errors) the
  first time-out makes Read look at m_readOffSet[0], outside the vector, in either wait mode.
  Signals are left aside; position is taken to answer for no partition when it is asked for
  none.
\<close>

theorem late_assignment_overflows:
  assumes args: "main_args argv = Go (topic, printRaw)"
    and init: "Init K (cstr (bootstrap topic)) (cstr (topicName topic)) (groupIdNum topic) = Ret (rc, hello, Some rd)"
    and race: "kc_assignment K [] (m_consumer rd) = ((ERR_NO_ERROR, []), k1)"
      "kc_assignment K [] k1 = ((ERR_NO_ERROR, ls), k2)" "ls \<noteq> []"
    and fill: "fillOffset K rd = (r, said, rd1)"
    and msgs: "hands_out K (m_consumer rd1) msgs k" "\<forall>m \<in> set msgs. k_err m = ERR_NO_ERROR \<and> k_key m \<noteq> None"
    and last: "kc_consume K k = (t, k3)" "k_err t = ERR__TIMED_OUT" "kc_position K [] k3 = ((ERR_NO_ERROR, []), k4)"
    and sig: "\<And>i. \<not> sigint i"
  shows "binlogdumpK_main K D W sigint argv = Some Overflow"
proof -
  have rd: "m_logOffset rd = []" "m_readOffSet rd = []"
    using init by (auto simp: Init_def split: if_split_asm option.split_asm prod.split_asm)
  have a1: "kc_assignment K (m_readOffSet rd) (m_consumer rd) = ((ERR_NO_ERROR, []), k1)"
    using race(1) rd(2) by simp
  note v = late_assignment_fill [OF rd(1) a1 race(2,3) fill]
  have "assigned K rd said [] rd1" by (rule assigned.found [OF rd(1) fill conjunct1 [OF v]])
  from program_overflows [where sigint = sigint, OF args init this conjunct2 [OF v] msgs last sig] show ?thesis .
qed

theorem late_assignment_overflows_witness:
  "binlogdumpK_main race_consumer sample_dumpenv std_wire (\<lambda>_. False) sample_argv = Some Overflow"
proof -
  obtain topic raw where a: "main_args sample_argv = Go (topic, raw)"
    by (rule sample_dump_args)
  show ?thesis
    by (rule late_assignment_overflows [where msgs = "[]" and ls = "[sample_tp]" and ?k1.0 = 1 and ?k2.0 = 1 and ?k3.0 = 1 and ?k4.0 = 1
        and k = 1 and t = timed_out, OF a race_facts(1) _ _ _ race_facts(4)])
      (simp_all add: race_facts [simplified])
qed





text \<open>
  C33: Parsing two serialized results (texts in UTF-8, lengths below 2 GiB, no unknown fields)
  one after the other gives what MergeFrom makes of them: the return code of the second wins
  when it is not empty, the pairs are appended.
\<close>

theorem concatenation_merges:
  assumes "wire_format W" and "MsgResult_valid W a" and "MsgResult_valid W b"
  shows "parse_bytes (MsgResult_MergePartial W) MsgResult_Clear m0
      (MsgResult_Serialize W a @ MsgResult_Serialize W b) = Some (MsgResult_MergeFrom a b) \<and>
    mr_rt_pairs (MsgResult_MergeFrom a b) = mr_rt_pairs a @ mr_rt_pairs b \<and>
    mr_rc (MsgResult_MergeFrom a b) = (if mr_rc b \<noteq> [] then mr_rc b else mr_rc a)"
proof -
  have "map (PairStrStr_MergeFrom PairStrStr_SharedCtor) (mr_rt_pairs b) = mr_rt_pairs b"
    using assms(3) by (auto simp: MsgResult_valid_def list_all_iff PairStrStr_merge_ctor intro!: map_idI)
  then have "mr_rt_pairs (MsgResult_MergeFrom a b) = mr_rt_pairs a @ mr_rt_pairs b"
    by (auto simp: MsgResult_MergeFrom_def Let_def split: option.splits)
  moreover have "mr_rc (MsgResult_MergeFrom a b) = (if mr_rc b \<noteq> [] then mr_rc b else mr_rc a)"
    by (auto simp: MsgResult_MergeFrom_def Let_def split: option.splits)
  ultimately show ?thesis
    using message_codec.concatenation [OF wire_format.MsgResult_codec [OF assms(1)] assms(2,3)] by simp
qed

theorem concatenation_merges_witness:
  "parse_bytes (MsgResult_MergePartial std_wire) MsgResult_Clear MsgResult_SharedCtor
      (MsgResult_Serialize std_wire sample_answer @ MsgResult_Serialize std_wire sample_refusal)
      = Some (MsgResult_MergeFrom sample_answer sample_refusal) \<and>
    mr_rt_pairs (MsgResult_MergeFrom sample_answer sample_refusal)
      = mr_rt_pairs sample_answer @ mr_rt_pairs sample_refusal \<and>
    mr_rc (MsgResult_MergeFrom sample_answer sample_refusal)
      = (if mr_rc sample_refusal \<noteq> [] then mr_rc sample_refusal else mr_rc sample_answer)"
  by (rule concatenation_merges [OF std.wire_format_axioms sample_answer_facts(1) sample_refusal_facts(1)])

text \<open>
  C34: ParseFromArray or ParseFromString, as ExecuteCommand tries them, and ParseFromString or
  ParseFromArray, as the reader tries them, both give back the metrics a packet holds, although
  the string made from the buffer ends at its first NUL byte.
\<close>

theorem metrics_survive_both_parses:
  assumes "wire_format W" and "MsgMetrics_valid W m" and "holds rw (MsgMetrics_Serialize W m)"
  shows "parse_either (MsgMetrics_MergePartial W) MsgMetrics_Clear m0 rw = Some m \<and>
    parse_bytes (MsgMetrics_MergePartial W) MsgMetrics_Clear m0 (take (m_lenmsg rw) (m_msgbuf rw)) = Some m \<and>
    parse_bytes (MsgMetrics_MergePartial W) MsgMetrics_Clear m0 (cstr (m_msgbuf rw))
      = (if cstr (MsgMetrics_Serialize W m) = MsgMetrics_Serialize W m then Some m else None)"
  using message_codec.parse_either_holds [OF wire_format.MsgMetrics_codec [OF assms(1)] assms(2,3)]
    message_codec.roundtrip [OF wire_format.MsgMetrics_codec [OF assms(1)] assms(2)]
    message_codec.nul_terminated_parse [OF wire_format.MsgMetrics_codec [OF assms(1)] assms(2)] assms(3)
  by (simp add: holds_def)

theorem metrics_survive_both_parses_witness:
  "\<exists>rw. parse_either (MsgMetrics_MergePartial std_wire) MsgMetrics_Clear MsgMetrics_SharedCtor rw
     = Some sample_metrics"
proof -
  define F where "F = MsgMetrics_Serialize std_wire sample_metrics"
  define rw where "rw = (CMsgRW sample_env)\<lparr>m_buf := F @ CHR 0x00 # [], m_lenmsg := length F\<rparr>"
  have "holds rw F" by (simp add: holds_def rw_def m_msgbuf_def CMsgRW_def)
  then show ?thesis
    using metrics_survive_both_parses [OF std.wire_format_axioms sample_metrics_valid, of rw] unfolding F_def by blast
qed

text \<open>
  C35: The command line reaches every setting: for each topic with node and schema names that
  are not empty, names of at most 256 bytes without a NUL, table names that are not empty and
  hold no comma, any wait mode, group, commit and raw flag, the words that spell it out make
  main work with exactly that topic, whatever the words look like (an argument may itself begin
  with a dash).
\<close>

theorem every_topic_can_be_asked:
  assumes "renderable topic"
  shows "main_args (render_args name topic printRaw) = Go (topic, printRaw)"
proof -
  have "topicName topic = nodeName topic @ ''.'' @ schemaName topic @ suffix topic"
    "nodeName topic \<noteq> []" "schemaName topic \<noteq> []"
    using assms by (simp_all add: renderable_def)
  then show ?thesis
    unfolding main_args_def render_parsed [OF assms] by (cases topic) simp
qed

theorem every_topic_can_be_asked_witness:
  "main_args (render_args ''binlogdumpK'' dashed_topic True) = Go (dashed_topic, True)"
  by (rule every_topic_can_be_asked) (simp add: dashed_topic_ok)

text \<open>
  C36: The parameters main sends are the map of the command-line arguments: the i-th argument
  under the key i in decimal, one entry for each argument, in strictly increasing order of the
  keys as byte strings.
\<close>

theorem parameters_are_kept:
  "length (collect_params 4 as []) = length as \<and>
   sorted_wrt bytes_less (map fst (collect_params 4 as [])) \<and>
   (\<forall>j < length as. map_of (collect_params 4 as []) (nat_dec (Suc j)) = Some (as ! j))"
  using collect_params_length collect_params_sorted collect_params_lookup by blast

theorem parameters_are_kept_witness:
  "map_of (collect_params 4 [''print_dict'', ''1''] []) ''2'' = Some ''1''"
  using conjunct2 [OF conjunct2 [OF parameters_are_kept [of "[''print_dict'', ''1'']"]], rule_format, of 1]
    sample_digits(2) by (simp add: numeral_2_eq_2)

text \<open>
  C37: main opens no connection when it lacks arguments (usage, exit code 0), when the address
  has no colon, or when get_perf, in any case of letters, gets no interval or one that atoi,
  which keeps the lower 32 bits of what strtol reads, takes for a number outside 1 to 300 (exit
  code 1).
\<close>

theorem main_refuses:
  "(length argv < 4 \<longrightarrow>
      qdcadm_main C W fmt stamp Ses argv = Ret (0, usage stamp (argv ! 0), [])) \<and>
   (4 \<le> length argv \<and> CHR '':'' \<notin> set (cstr (argv ! 1)) \<longrightarrow>
      qdcadm_main C W fmt stamp Ses argv
        = Ret (1, ''Bad format ip address and port:'' @ cstr (argv ! 1) @ nl, [])) \<and>
   (4 \<le> length argv \<and> CHR '':'' \<in> set (cstr (argv ! 1)) \<and> strLower (cstr (argv ! 3)) = CMD_GET_PERF \<and>
    (length argv = 4 \<or> c_atoi (cstr (argv ! 4)) < 1 \<or> 300 < c_atoi (cstr (argv ! 4))) \<longrightarrow>
      (\<exists>txt. qdcadm_main C W fmt stamp Ses argv = Ret (1, txt, [])))"
proof -
  have "\<exists>txt. qdcadm_main C W fmt stamp Ses argv = Ret (1, txt, [])"
    if "4 \<le> length argv" "CHR '':'' \<in> set (cstr (argv ! 1))"
      "strLower (cstr (argv ! 3)) = CMD_GET_PERF"
      "length argv = 4 \<or> c_atoi (cstr (argv ! 4)) < 1 \<or> 300 < c_atoi (cstr (argv ! 4))"
  proof -
    have "split_colon (cstr (argv ! 1)) \<noteq> None" using that(2) by (rule split_colon_found)
    moreover have "\<exists>txt. perf_settings (cstr (argv ! 3)) (collect_params 4 (map cstr (drop 4 argv)) []) = Inl txt"
      using that(3,1,4) by (rule perf_refused)
    ultimately show ?thesis using that(1) by (auto simp: qdcadm_main_def Let_def)
  qed
  then show ?thesis by (auto simp: qdcadm_main_def split_colon_none)
qed

theorem main_refuses_witness:
  "\<exists>txt. qdcadm_main sample_env std_wire (\<lambda>_. ''0'') [] (\<lambda>_. sample_session)
     [''qdcadm'', ''127.0.0.1:9876'', ''qdecoder'', ''Get_perf'', ''301''] = Ret (1, txt, [])"
  by (rule mp [OF conjunct2 [OF conjunct2 [OF main_refuses]]])
    (simp add: strLower_def c_tolower_def CMD_GET_PERF_def char_of_def bit_Suc_0_iff cstr_def c_atoi_def c_strtol_def
      decimal_value_def is_space_def is_digit_def)

text \<open>
  C38: StrSplit with a comma appends exactly the pieces between the commas of the string that
  are not empty, in order.
\<close>

theorem split_gives_nonempty_pieces:
  "StrSplit srcStr '','' out = out @ filter (\<lambda>p. p \<noteq> []) (pieces (CHR '','') (cstr srcStr))"
proof -
  have "cstr '','' = [CHR '','']" by (simp add: cstr_def)
  then show ?thesis by (simp add: StrSplit_def StrSplit_loop_pieces)
qed

theorem split_gives_nonempty_pieces_witness:
  "StrSplit '',a,,bc,'' '','' [''x''] = [''x'', ''a'', ''bc'']"
  unfolding split_gives_nonempty_pieces by (simp add: cstr_def)

text \<open>
  C39: The option -x of the usage text is not in the string given to getopt: no command line
  changes the suffix, and one whose first option is -x ends the program with exit code -1.
\<close>

theorem suffix_option_is_refused:
  "(main_args argv = Go (topic, raw) \<longrightarrow> suffix topic = ''.binlog'') \<and>
   main_args (prog # (''-x'' @ letters) # rest) = Exit (-1)"
proof -
  have "suffix topic = ''.binlog''" if m: "main_args argv = Go (topic, raw)"
  proof -
    obtain topic0 where g: "GetInputArg argv (default_topic, False) = Go (topic0, raw)"
      and "suffix topic = suffix topic0"
      by (rule main_args_accepted [OF m]) simp
    then show ?thesis
      using input_args_suffix [OF getopt_never_x g [unfolded GetInputArg_def]]
      by (simp add: default_topic_def)
  qed
  moreover have "main_args (prog # (''-x'' @ letters) # rest) = Exit (-1)"
    by (simp add: main_args_def GetInputArg_def opt_kind_x input_arg_def split: prod.split)
  ultimately show ?thesis by blast
qed

theorem suffix_option_is_refused_witness:
  "main_args [''binlogdumpK'', ''-x'', ''.log'', ''-n'', ''node'', ''-s'', ''db''] = Exit (-1)"
  using conjunct2 [OF suffix_option_is_refused [of _ _ _ "''binlogdumpK''" "[]" "[''.log'', ''-n'', ''node'', ''-s'', ''db'']"]]
  by simp

text \<open>
  C40: Listen cannot report that bind or listen failed: whatever the error number is,
  GetSysErrorInfo writes past the 300 bytes of szSysErrorInfo; when all calls succeed it returns
  the new descriptor and leaves the error text alone.
\<close>

theorem listen_failure_overflows:
  assumes "ls_socket N = (fd, e0)" and "fd \<noteq> -1"
    and "ls_bind N (case aIpAddr of None \<Rightarrow> 0 | Some ip \<Rightarrow> if cstr ip = [] then 0 else ls_inet_addr N (cstr ip))
      (word_of_int aPort) = (rb, eb)" and "ls_listen N = (rl, el)"
    and "int_range eb" and "int_range el"
  shows "Listen strerr N aPort err aIpAddr = (if rb = -1 \<or> rl = -1 then Overflow else Ret (fd, err))"
  using assms GetSysErrorInfo_length(1) [of eb strerr] GetSysErrorInfo_length(1) [of el strerr]
  by (simp add: Listen_def listen_error_def Let_def int_range_def)

theorem listen_failure_overflows_witness:
  "Listen (\<lambda>_. ''Address already in use'') \<lparr>ls_inet_addr = (\<lambda>_. 0), ls_socket = (5, 0),
      ls_bind = (\<lambda>_ _. (-1, 98)), ls_listen = (0, 0)\<rparr> 9876 [] (Some []) = Overflow"
  using listen_failure_overflows [of "\<lparr>ls_inet_addr = (\<lambda>_. 0), ls_socket = (5, 0),
      ls_bind = (\<lambda>_ _. (-1, 98)), ls_listen = (0, 0)\<rparr>" 5 0 "Some []" 9876 "-1" 98 0 0
      "\<lambda>_. ''Address already in use''" "[]"]
  by (simp add: int_range_def)

end
